(* ===== verification/Harness_Prelude.thy ===== *)
theory Harness_Prelude
  imports Main "HOL-Library.Word"
begin

text \<open>
  Shared vocabulary of the development: the computation type of a handler that runs
  inside one SQLite transaction (state passing with a failure branch), the two ways a
  Go handler fails (a typed \<open>commandFailure\<close> or any other \<open>error\<close>), keyed tables
  as lists in row order with \<open>SELECT ... WHERE key=?\<close> and \<open>UPDATE ... WHERE\<close>, and the
  calculus \<open>keeps\<close> that lifts a reflexive transitive relation from single statements
  to whole handlers.
\<close>

named_theorems keeps_rules \<open>structural rules of the relation calculus for computations\<close>
named_theorems row_simps \<open>rewriting facts about keyed tables\<close>

section \<open>Failures and computations\<close>

text \<open>
  \<open>CommandFailure\<close> is the Go struct \<open>commandFailure\<close> of \<open>runtime/command.go\<close>: HTTP
  status, wire code, safe message, optional current version, current state (empty when
  absent). \<open>RawError\<close> is every other Go \<open>error\<close> value.
\<close>

datatype failure =
    CommandFailure int string string "int option" string
  | RawError string

type_synonym ('s, 'a) comp = "'s \<Rightarrow> failure + ('a \<times> 's)"

definition returnM :: "'a \<Rightarrow> ('s, 'a) comp" where
  "returnM x = (\<lambda>s. Inr (x, s))"

definition failM :: "failure \<Rightarrow> ('s, 'a) comp" where
  "failM e = (\<lambda>s. Inl e)"

definition bindM :: "('s, 'a) comp \<Rightarrow> ('a \<Rightarrow> ('s, 'b) comp) \<Rightarrow> ('s, 'b) comp" where
  "bindM m f = (\<lambda>s. case m s of Inl e \<Rightarrow> Inl e | Inr (x, s') \<Rightarrow> f x s')"

definition getM :: "('s, 's) comp" where
  "getM = (\<lambda>s. Inr (s, s))"

definition modifyM :: "('s \<Rightarrow> 's) \<Rightarrow> ('s, unit) comp" where
  "modifyM f = (\<lambda>s. Inr ((), f s))"

text \<open>\<open>SELECT\<close> of exactly one row: \<open>sql.ErrNoRows\<close> is an ordinary error.\<close>

definition needM :: "'a option \<Rightarrow> ('s, 'a) comp" where
  "needM r = (case r of None \<Rightarrow> failM (RawError ''sql: no rows in result set'') | Some x \<Rightarrow> returnM x)"

lemma bindM_Inr [simp]:
  "bindM m f s = Inr (y, s'') \<longleftrightarrow> (\<exists>x s'. m s = Inr (x, s') \<and> f x s' = Inr (y, s''))"
  by (auto simp: bindM_def split: sum.splits prod.splits)

lemma returnM_Inr [simp]: "returnM x s = Inr (y, s') \<longleftrightarrow> y = x \<and> s' = s"
  by (auto simp: returnM_def)

lemma failM_Inr [simp]: "failM e s = Inr r \<longleftrightarrow> False"
  by (simp add: failM_def)

lemma getM_Inr [simp]: "getM s = Inr (y, s') \<longleftrightarrow> y = s \<and> s' = s"
  by (auto simp: getM_def)

lemma modifyM_Inr [simp]: "modifyM f s = Inr (y, s') \<longleftrightarrow> s' = f s"
  by (auto simp: modifyM_def)

lemma needM_Inr [simp]: "needM r s = Inr (y, s') \<longleftrightarrow> r = Some y \<and> s' = s"
  by (auto simp: needM_def split: option.splits)

text \<open>
  A run of statements, each with its own \<open>if err != nil { return err }\<close>; \<open>guardM\<close> is an
  early return, and \<open>orElseM\<close> replaces whatever error a statement gives by a fixed one.
\<close>

primrec seqM :: "('s, unit) comp list \<Rightarrow> ('s, unit) comp" where
  "seqM [] = returnM ()"
| "seqM (m # ms) = bindM m (\<lambda>_. seqM ms)"

definition guardM :: "bool \<Rightarrow> failure \<Rightarrow> ('s, unit) comp" where
  "guardM b e = (if b then returnM () else failM e)"

definition orElseM :: "('s, 'a) comp \<Rightarrow> failure \<Rightarrow> ('s, 'a) comp" where
  "orElseM m e = (\<lambda>s. case m s of Inl _ \<Rightarrow> Inl e | Inr r \<Rightarrow> Inr r)"

text \<open>
  A pure result inside a computation, and a failed lookup as a value: what \<open>m\<close> did is dropped with its
  error, as for the reads it is used on.
\<close>

definition liftM :: "failure + 'a \<Rightarrow> ('s, 'a) comp" where
  "liftM r = (case r of Inl e \<Rightarrow> failM e | Inr x \<Rightarrow> returnM x)"

definition attemptM :: "('s, 'a) comp \<Rightarrow> ('s, failure + 'a) comp" where
  "attemptM m = (\<lambda>s. case m s of Inl e \<Rightarrow> Inr (Inl e, s) | Inr (x, s') \<Rightarrow> Inr (Inr x, s'))"

lemma liftM_Inr [simp]: "liftM r s = Inr (y, s') \<longleftrightarrow> r = Inr y \<and> s' = s"
  by (auto simp: liftM_def failM_def returnM_def split: sum.splits)

lemma attemptM_Inr [simp]: "attemptM m s = Inr (y, s') \<longleftrightarrow>
    (\<exists>e. m s = Inl e \<and> y = Inl e \<and> s' = s) \<or> (\<exists>x. m s = Inr (x, s') \<and> y = Inr x)"
  by (auto simp: attemptM_def split: sum.splits)

lemma guardM_Inr [simp]: "guardM b e s = Inr (y, s') \<longleftrightarrow> b \<and> s' = s"
  by (auto simp: guardM_def)

lemma orElseM_Inr [simp]: "orElseM m e s = Inr r \<longleftrightarrow> m s = Inr r"
  by (auto simp: orElseM_def split: sum.splits)

section \<open>Relations kept by computations\<close>

text \<open>
  \<open>keeps R m\<close>: whenever \<open>m\<close> succeeds, the state before and after are related. For a
  preorder \<open>R\<close> it composes over \<open>bindM\<close>, so a property of single statements becomes a
  property of every handler built from them.
\<close>

definition keeps :: "('s \<Rightarrow> 's \<Rightarrow> bool) \<Rightarrow> ('s, 'a) comp \<Rightarrow> bool" where
  "keeps R m \<longleftrightarrow> (\<forall>s x s'. m s = Inr (x, s') \<longrightarrow> R s s')"

lemma keepsI [intro?]: "(\<And>s x s'. m s = Inr (x, s') \<Longrightarrow> R s s') \<Longrightarrow> keeps R m"
  by (simp add: keeps_def)

lemma keepsD: "keeps R m \<Longrightarrow> m s = Inr (x, s') \<Longrightarrow> R s s'"
  by (simp add: keeps_def)

locale preorder_rel =
  fixes R :: "'s \<Rightarrow> 's \<Rightarrow> bool"
  assumes R_refl: "R s s"
    and R_trans: "R s t \<Longrightarrow> R t u \<Longrightarrow> R s u"
begin

lemma keeps_return [keeps_rules]: "keeps R (returnM x)"
  by (simp add: keeps_def R_refl)

lemma keeps_fail [keeps_rules]: "keeps R (failM e)"
  by (simp add: keeps_def)

lemma keeps_get [keeps_rules]: "keeps R getM"
  by (simp add: keeps_def R_refl)

lemma keeps_need [keeps_rules]: "keeps R (needM r)"
  by (simp add: keeps_def R_refl)

lemma keeps_bind [keeps_rules]:
  assumes "keeps R m" and "\<And>x. keeps R (f x)"
  shows "keeps R (bindM m f)"
  using assms by (fastforce simp: keeps_def intro: R_trans)

lemma keeps_if [keeps_rules]:
  assumes "b \<Longrightarrow> keeps R m" and "\<not> b \<Longrightarrow> keeps R n"
  shows "keeps R (if b then m else n)"
  using assms by simp

lemma keeps_option [keeps_rules]:
  assumes "keeps R m" and "\<And>x. keeps R (f x)"
  shows "keeps R (case r of None \<Rightarrow> m | Some x \<Rightarrow> f x)"
  using assms by (simp split: option.splits)

lemma keeps_let [keeps_rules]: "(\<And>x. keeps R (f x)) \<Longrightarrow> keeps R (Let v f)"
  by (simp add: Let_def)

lemma keeps_guard [keeps_rules]: "keeps R (guardM b e)"
  by (simp add: keeps_def R_refl)

lemma keeps_orElse [keeps_rules]: "keeps R m \<Longrightarrow> keeps R (orElseM m e)"
  by (simp add: keeps_def)

lemma keeps_liftM [keeps_rules]: "keeps R (liftM r)"
  by (auto simp: keeps_def R_refl)

lemma keeps_attempt [keeps_rules]: "keeps R m \<Longrightarrow> keeps R (attemptM m)"
  by (auto simp: keeps_def R_refl)

lemma keeps_sum [keeps_rules]:
  assumes "\<And>e. keeps R (f e)" and "\<And>x. keeps R (g x)"
  shows "keeps R (case r of Inl e \<Rightarrow> f e | Inr x \<Rightarrow> g x)"
  using assms by (simp split: sum.splits)

lemma keeps_seq_Nil [keeps_rules]: "keeps R (seqM [])"
  by (simp add: keeps_return)

lemma keeps_seq_Cons [keeps_rules]: "keeps R m \<Longrightarrow> keeps R (seqM ms) \<Longrightarrow> keeps R (seqM (m # ms))"
  by (simp add: keeps_bind)

lemma keeps_prod [keeps_rules]: "(\<And>x y. keeps R (f x y)) \<Longrightarrow> keeps R (case p of (x, y) \<Rightarrow> f x y)"
  by (simp split: prod.splits)

end

section \<open>Keyed tables\<close>

text \<open>
  A table is the list of its rows in \<open>rowid\<close> order. \<open>sel\<close> is a \<open>SELECT\<close> by primary
  key, \<open>upd\<close> an \<open>UPDATE ... WHERE key=?\<close>.
\<close>

definition sel :: "('r \<Rightarrow> 'k) \<Rightarrow> 'k \<Rightarrow> 'r list \<Rightarrow> 'r option" where
  "sel key k tbl = List.find (\<lambda>r. key r = k) tbl"

definition upd :: "('r \<Rightarrow> 'k) \<Rightarrow> 'k \<Rightarrow> ('r \<Rightarrow> 'r) \<Rightarrow> 'r list \<Rightarrow> 'r list" where
  "upd key k f tbl = map (\<lambda>r. if key r = k then f r else r) tbl"

definition unique_key :: "('r \<Rightarrow> 'k) \<Rightarrow> 'r list \<Rightarrow> bool" where
  "unique_key key tbl \<longleftrightarrow> distinct (map key tbl)"

definition count_rows :: "('r \<Rightarrow> bool) \<Rightarrow> 'r list \<Rightarrow> int" where
  "count_rows P tbl = int (length (filter P tbl))"

lemma sel_Some_iff: "unique_key key tbl \<Longrightarrow> sel key k tbl = Some r \<longleftrightarrow> r \<in> set tbl \<and> key r = k"
  by (induction tbl) (auto simp: sel_def unique_key_def image_iff)

lemma sel_SomeD: "sel key k tbl = Some r \<Longrightarrow> r \<in> set tbl \<and> key r = k"
  by (auto simp: sel_def find_Some_iff)

lemma sel_None_iff: "sel key k tbl = None \<longleftrightarrow> k \<notin> key ` set tbl"
  by (auto simp: sel_def find_None_iff)

lemma sel_append [row_simps]:
  "sel key k (tbl @ rows) = (case sel key k tbl of None \<Rightarrow> sel key k rows | Some r \<Rightarrow> Some r)"
  by (induction tbl) (auto simp: sel_def)

lemma sel_singleton [row_simps]: "sel key k [r] = (if key r = k then Some r else None)"
  by (simp add: sel_def)

lemma sel_append_old: "sel key k tbl = Some r \<Longrightarrow> sel key k (tbl @ rows) = Some r"
  by (simp add: sel_append)

lemma sel_upd [row_simps]:
  assumes "\<And>r. key (f r) = key r"
  shows "sel key k (upd key j f tbl) =
    (if k = j then map_option f (sel key k tbl) else sel key k tbl)"
  using assms by (induction tbl) (auto simp: sel_def upd_def)

lemma map_key_upd [row_simps]: "(\<And>r. key (f r) = key r) \<Longrightarrow> map key (upd key j f tbl) = map key tbl"
  by (simp add: upd_def)

lemma unique_key_upd [row_simps]:
  "(\<And>r. key (f r) = key r) \<Longrightarrow> unique_key key (upd key j f tbl) = unique_key key tbl"
  by (simp add: unique_key_def map_key_upd)

lemma unique_key_snoc [row_simps]:
  "unique_key key (tbl @ [r]) \<longleftrightarrow> unique_key key tbl \<and> sel key (key r) tbl = None"
  by (auto simp: unique_key_def sel_None_iff)

lemma set_upd: "set (upd key k f tbl) = (\<lambda>r. if key r = k then f r else r) ` set tbl"
  by (simp add: upd_def)

lemma upd_absent: "sel key k tbl = None \<Longrightarrow> upd key k f tbl = tbl"
  by (induction tbl) (auto simp: sel_def upd_def split: if_splits)

lemma count_rows_snoc [row_simps]:
  "count_rows P (tbl @ [r]) = count_rows P tbl + (if P r then 1 else 0)"
  by (simp add: count_rows_def)

lemma count_rows_nonneg: "0 \<le> count_rows P tbl"
  by (simp add: count_rows_def)

lemma count_rows_upd [row_simps]:
  assumes "unique_key key tbl" and "sel key k tbl = Some r"
  shows "count_rows P (upd key k f tbl) =
    count_rows P tbl - (if P r then 1 else 0) + (if P (f r) then 1 else 0)"
  using assms
proof (induction tbl)
  case Nil
  then show ?case by (simp add: sel_def)
next
  case (Cons a tbl)
  show ?case
  proof (cases "key a = k")
    case True
    then have "r = a" using Cons.prems(2) by (simp add: sel_def)
    moreover have "sel key k tbl = None"
      using Cons.prems(1) True by (auto simp: unique_key_def sel_None_iff)
    ultimately show ?thesis
      using True upd_absent [of key k tbl f] by (auto simp: count_rows_def upd_def)
  next
    case False
    with Cons show ?thesis by (auto simp: count_rows_def upd_def sel_def unique_key_def)
  qed
qed

lemma count_rows_pos: "r \<in> set tbl \<Longrightarrow> P r \<Longrightarrow> 0 < count_rows P tbl"
  by (auto simp: count_rows_def filter_empty_conv)

text \<open>\<open>SELECT ... ORDER BY key LIMIT 1\<close>.\<close>

definition first_by :: "('r \<Rightarrow> 'k::linorder) \<Rightarrow> 'r list \<Rightarrow> 'r option" where
  "first_by key tbl = (case sort_key key tbl of [] \<Rightarrow> None | r # _ \<Rightarrow> Some r)"

lemma first_by_None [simp]: "first_by key tbl = None \<longleftrightarrow> tbl = []"
proof -
  have "sort_key key tbl = [] \<longleftrightarrow> tbl = []" by (metis length_0_conv length_sort)
  then show ?thesis by (cases "sort_key key tbl") (auto simp: first_by_def)
qed

lemma first_by_Some:
  assumes "first_by key tbl = Some r"
  shows "r \<in> set tbl" and "s \<in> set tbl \<Longrightarrow> key r \<le> key s"
proof -
  obtain rs where *: "sort_key key tbl = r # rs"
    using assms by (auto simp: first_by_def split: list.splits)
  have st: "set tbl = insert r (set rs)" using * by (metis list.simps(15) set_sort)
  then show "r \<in> set tbl" by simp
  have "sorted (map key (r # rs))" using * by (metis sorted_sort_key)
  then show "s \<in> set tbl \<Longrightarrow> key r \<le> key s" using st by auto
qed

end
