(* ===== verification/Wire_Json.thy ===== *)
theory Wire_Json
  imports Harness_Prelude "HOL-Library.Char_ord" "HOL-Library.List_Lexorder"
begin

text \<open>
  Decoded JSON values and the two byte-level notions built on them: the check
  combinators of \<open>internal/harnessprotocol/validate.go\<close> (closed objects, bounded lists,
  exactly-one unions, UTF-8 byte and code point limits, safe integers, UUID, SHA-256,
  actor and timestamp grammars) and the canonical serializer of
  \<open>internal/harnessprotocol/canonical.go\<close>. A Go \<open>string\<close> is the list of its bytes; a
  JSON number is its token, as \<open>Decoder.UseNumber\<close> keeps it. A check returns whether
  the Go check returns a nil error.
\<close>

section \<open>Values\<close>

datatype json =
    JNull
  | JBool bool
  | JNum string
  | JStr string
  | JArr "json list"
  | JObj "(string \<times> json) list"

definition MaximumSafeInteger :: int where "MaximumSafeInteger = 9007199254740991"
definition MaximumMessageBytes :: int where "MaximumMessageBytes = 65536"
definition MaximumPageSize :: int where "MaximumPageSize = 100"
definition MaximumCursorBytes :: int where "MaximumCursorBytes = 512"
definition MaximumArtifactBytes :: int where "MaximumArtifactBytes = 16777216"
definition ProtocolVersion :: int where "ProtocolVersion = 1"
definition SchemaID :: string where "SchemaID = ''harness-wire-v2''"
definition AdmissionSchemaID :: string where "AdmissionSchemaID = ''harness-admission-v1''"
definition SchemaSHA256 :: string where
  "SchemaSHA256 = ''5013223c4f77ac7424a486d7223c5321eb7f0e9054fb036e48d6e7748fae1889''"

section \<open>Character classes and grammars\<close>

definition byte :: "char \<Rightarrow> int" where "byte c = of_char c"

definition between :: "int \<Rightarrow> int \<Rightarrow> char \<Rightarrow> bool" where
  "between lo hi c \<longleftrightarrow> lo \<le> byte c \<and> byte c \<le> hi"

definition is_digit :: "char \<Rightarrow> bool" where "is_digit = between 48 57"
definition is_lower_hex :: "char \<Rightarrow> bool" where "is_lower_hex c \<longleftrightarrow> is_digit c \<or> between 97 102 c"
definition is_alnum :: "char \<Rightarrow> bool" where
  "is_alnum c \<longleftrightarrow> is_digit c \<or> between 65 90 c \<or> between 97 122 c"

text \<open>A fixed-length regular expression is a list of character classes.\<close>

definition match_classes :: "(char \<Rightarrow> bool) list \<Rightarrow> string \<Rightarrow> bool" where
  "match_classes ps s \<longleftrightarrow> list_all2 (\<lambda>p c. p c) ps s"

definition uuidPattern :: "string \<Rightarrow> bool" where
  "uuidPattern = match_classes
    (replicate 8 is_lower_hex @ [(=) CHR ''-''] @ replicate 4 is_lower_hex @ [(=) CHR ''-''] @
     [between 49 53] @ replicate 3 is_lower_hex @ [(=) CHR ''-''] @
     [\<lambda>c. between 56 57 c \<or> between 97 98 c] @ replicate 3 is_lower_hex @ [(=) CHR ''-''] @
     replicate 12 is_lower_hex)"

definition sha256Pattern :: "string \<Rightarrow> bool" where
  "sha256Pattern = match_classes (replicate 64 is_lower_hex)"

definition actorPattern :: "string \<Rightarrow> bool" where
  "actorPattern s \<longleftrightarrow> (case s of [] \<Rightarrow> False
     | c # cs \<Rightarrow> is_alnum c \<and> int (length cs) \<le> 127 \<and>
         list_all (\<lambda>d. is_alnum d \<or> d \<in> set ''._:@-'') cs)"

definition integerPattern :: "string \<Rightarrow> bool" where
  "integerPattern s \<longleftrightarrow> s = ''0'' \<or> (case s of [] \<Rightarrow> False | c # cs \<Rightarrow> between 49 57 c \<and> list_all is_digit cs)"

definition digits_value :: "string \<Rightarrow> int" where
  "digits_value s = foldl (\<lambda>n c. 10 * n + (byte c - 48)) 0 s"

text \<open>
  Timestamps: the grammar of \<open>timestampPattern\<close>, then the calendar validity that
  \<open>time.Parse(time.RFC3339Nano, ...)\<close> adds.
\<close>

definition fraction_zone :: "string \<Rightarrow> bool" where
  "fraction_zone s =
     (let (frac, zone) = (case s of
          CHR ''.'' # cs \<Rightarrow> (takeWhile is_digit cs, dropWhile is_digit cs)
        | _ \<Rightarrow> (''0'', s))
      in 1 \<le> length frac \<and> length frac \<le> 9 \<and>
         (zone = ''Z'' \<or>
          (match_classes [\<lambda>c. c = CHR ''+'' \<or> c = CHR ''-'', is_digit, is_digit, (=) CHR '':'',
             between 48 53, is_digit] zone \<and> digits_value (take 2 (drop 1 zone)) \<le> 23)))"

definition timestampPattern :: "string \<Rightarrow> bool" where
  "timestampPattern s \<longleftrightarrow>
     match_classes
       (replicate 4 is_digit @ [(=) CHR ''-''] @ replicate 2 is_digit @ [(=) CHR ''-''] @ replicate 2 is_digit @
        [(=) CHR ''T''] @ replicate 2 is_digit @ [(=) CHR '':''] @ replicate 2 is_digit @ [(=) CHR '':''] @
        replicate 2 is_digit) (take 19 s) \<and> fraction_zone (drop 19 s)"

definition leap_year :: "int \<Rightarrow> bool" where
  "leap_year y \<longleftrightarrow> y mod 4 = 0 \<and> (y mod 100 \<noteq> 0 \<or> y mod 400 = 0)"

definition days_in :: "int \<Rightarrow> int \<Rightarrow> int" where
  "days_in y m = (if m = 2 then (if leap_year y then 29 else 28)
     else if m \<in> {4, 6, 9, 11} then 30 else 31)"

definition timestamp_ok :: "string \<Rightarrow> bool" where
  "timestamp_ok s \<longleftrightarrow> timestampPattern s \<and>
     (let y = digits_value (take 4 s); mo = digits_value (take 2 (drop 5 s));
          d = digits_value (take 2 (drop 8 s)); h = digits_value (take 2 (drop 11 s));
          mi = digits_value (take 2 (drop 14 s)); sec = digits_value (take 2 (drop 17 s))
      in 1 \<le> mo \<and> mo \<le> 12 \<and> 1 \<le> d \<and> d \<le> days_in y mo \<and> h \<le> 23 \<and> mi \<le> 59 \<and> sec \<le> 59)"

section \<open>UTF-8\<close>

text \<open>
  \<open>range\<close> over a Go string and \<open>[]rune(s)\<close> decode UTF-8; a byte that starts no valid
  sequence yields \<open>U+FFFD\<close> with width one. \<open>decodeRune\<close> returns the rune and its width.
\<close>

definition cont :: "char \<Rightarrow> bool" where "cont = between 128 191"

definition decodeRune :: "string \<Rightarrow> int \<times> nat" where
  "decodeRune s = (case s of
     [] \<Rightarrow> (65533, 0)
   | c0 # cs \<Rightarrow>
     (let b0 = byte c0 in
      if b0 < 128 then (b0, 1)
      else case cs of
        [] \<Rightarrow> (65533, 1)
      | c1 # cs1 \<Rightarrow>
        (let b1 = byte c1 in
         if 194 \<le> b0 \<and> b0 \<le> 223 then
           (if cont c1 then ((b0 - 192) * 64 + (b1 - 128), 2) else (65533, 1))
         else case cs1 of
           [] \<Rightarrow> (65533, 1)
         | c2 # cs2 \<Rightarrow>
           (let b2 = byte c2 in
            if 224 \<le> b0 \<and> b0 \<le> 239 then
              (if cont c1 \<and> cont c2 \<and> (b0 = 224 \<longrightarrow> 160 \<le> b1) \<and> (b0 = 237 \<longrightarrow> b1 \<le> 159)
               then ((b0 - 224) * 4096 + (b1 - 128) * 64 + (b2 - 128), 3) else (65533, 1))
            else case cs2 of
              [] \<Rightarrow> (65533, 1)
            | c3 # _ \<Rightarrow>
              (let b3 = byte c3 in
               if 240 \<le> b0 \<and> b0 \<le> 244 \<and> cont c1 \<and> cont c2 \<and> cont c3 \<and>
                  (b0 = 240 \<longrightarrow> 144 \<le> b1) \<and> (b0 = 244 \<longrightarrow> b1 \<le> 143)
               then ((b0 - 240) * 262144 + (b1 - 128) * 4096 + (b2 - 128) * 64 + (b3 - 128), 4)
               else (65533, 1))))))"

fun runes :: "string \<Rightarrow> int list" where
  "runes [] = []"
| "runes (c # cs) = fst (decodeRune (c # cs)) # runes (drop (snd (decodeRune (c # cs)) - 1) cs)"

text \<open>\<open>utf8.AppendRune\<close>: surrogates and out-of-range runes are written as \<open>U+FFFD\<close>.\<close>

definition encodeRune :: "int \<Rightarrow> string" where
  "encodeRune r =
     (let r = (if (55296 \<le> r \<and> r \<le> 57343) \<or> 1114111 < r then 65533 else r) in
      if r < 128 then [char_of r]
      else if r < 2048 then [char_of (192 + r div 64), char_of (128 + r mod 64)]
      else if r < 65536 then
        [char_of (224 + r div 4096), char_of (128 + r div 64 mod 64), char_of (128 + r mod 64)]
      else
        [char_of (240 + r div 262144), char_of (128 + r div 4096 mod 64),
         char_of (128 + r div 64 mod 64), char_of (128 + r mod 64)])"

section \<open>Check combinators\<close>

type_synonym check = "json \<Rightarrow> bool"

text \<open>A property is a field name, its check and whether it is optional.\<close>

type_synonym property = "string \<times> check \<times> bool"

definition required :: "string \<Rightarrow> check \<Rightarrow> property" where "required k c = (k, c, False)"
definition optional :: "string \<Rightarrow> check \<Rightarrow> property" where "optional k c = (k, c, True)"

definition object :: "property list \<Rightarrow> check" where
  "object fields v = (case v of
     JObj item \<Rightarrow>
       list_all (\<lambda>(k, _). k \<in> fst ` set fields) item \<and>
       list_all (\<lambda>(k, c, opt). case map_of item k of None \<Rightarrow> opt | Some x \<Rightarrow> c x) fields
   | _ \<Rightarrow> False)"

definition listCheck :: "check \<Rightarrow> int \<Rightarrow> check" where
  "listCheck itemCheck maximum v = (case v of
     JArr items \<Rightarrow> int (length items) \<le> maximum \<and> list_all itemCheck items | _ \<Rightarrow> False)"

definition union :: "check list \<Rightarrow> check" where
  "union checks v \<longleftrightarrow> length (filter (\<lambda>c. c v) checks) = 1"

definition stringCheck :: "int \<Rightarrow> int \<Rightarrow> check" where
  "stringCheck minimum maximum v = (case v of
     JStr s \<Rightarrow> minimum \<le> int (length s) \<and> int (length s) \<le> maximum | _ \<Rightarrow> False)"

definition unicodeStringCheck :: "int \<Rightarrow> int \<Rightarrow> int \<Rightarrow> check" where
  "unicodeStringCheck minCP maxCP maxBytes v = (case v of
     JStr s \<Rightarrow> minCP \<le> int (length (runes s)) \<and> int (length (runes s)) \<le> maxCP \<and> int (length s) \<le> maxBytes | _ \<Rightarrow> False)"

definition enumCheck :: "string list \<Rightarrow> check" where
  "enumCheck values v = (case v of JStr s \<Rightarrow> List.member values s | _ \<Rightarrow> False)"

text \<open>\<open>number.Int64()\<close> fails above \<open>math.MaxInt64\<close>.\<close>

definition jsonInteger :: "json \<Rightarrow> int option" where
  "jsonInteger v = (case v of
     JNum t \<Rightarrow> (if integerPattern t \<and> digits_value t \<le> 9223372036854775807
                 then Some (digits_value t) else None)
   | _ \<Rightarrow> None)"

definition integerCheck :: "bool \<Rightarrow> int \<Rightarrow> check" where
  "integerCheck positive maximum v = (case jsonInteger v of
     None \<Rightarrow> False
   | Some n \<Rightarrow> 0 \<le> n \<and> n \<le> maximum \<and> \<not> (positive \<and> n = 0))"

definition safeInteger :: check where "safeInteger = integerCheck False MaximumSafeInteger"
definition positiveInteger :: check where "positiveInteger = integerCheck True MaximumSafeInteger"
definition booleanCheck :: check where "booleanCheck v = (case v of JBool _ \<Rightarrow> True | _ \<Rightarrow> False)"
definition uuidCheck :: check where "uuidCheck v = (case v of JStr s \<Rightarrow> uuidPattern s | _ \<Rightarrow> False)"
definition sha256Check :: check where "sha256Check v = (case v of JStr s \<Rightarrow> sha256Pattern s | _ \<Rightarrow> False)"
definition schemaSHA256Check :: check where
  "schemaSHA256Check v = (case v of JStr s \<Rightarrow> s = SchemaSHA256 | _ \<Rightarrow> False)"
definition actorCheck :: check where "actorCheck v = (case v of JStr s \<Rightarrow> actorPattern s | _ \<Rightarrow> False)"
definition timestampCheck :: check where
  "timestampCheck v = (case v of JStr s \<Rightarrow> timestamp_ok s | _ \<Rightarrow> False)"
definition nullCheck :: check where "nullCheck v \<longleftrightarrow> v = JNull"
definition nullable :: "check \<Rightarrow> check" where "nullable c = union [c, nullCheck]"

section \<open>Canonical serialization\<close>

definition hex_digit :: "int \<Rightarrow> char" where
  "hex_digit n = (if n < 10 then char_of (48 + n) else char_of (87 + n))"

definition escapeRune :: "int \<Rightarrow> string" where
  "escapeRune r =
     (if r = 34 \<or> r = 92 then [CHR 0x5C, char_of r]
      else if r = 8 then [CHR 0x5C, CHR ''b'']
      else if r = 12 then [CHR 0x5C, CHR ''f'']
      else if r = 10 then [CHR 0x5C, CHR ''n'']
      else if r = 13 then [CHR 0x5C, CHR ''r'']
      else if r = 9 then [CHR 0x5C, CHR ''t'']
      else if r < 32 then CHR 0x5C # ''u00'' @ [hex_digit (r div 16), hex_digit (r mod 16)]
      else encodeRune r)"

definition appendJSONString :: "string \<Rightarrow> string" where
  "appendJSONString s = CHR 0x22 # concat (map escapeRune (runes s)) @ [CHR 0x22]"

text \<open>
  \<open>strconv.ParseInt(token, 10, 64)\<close> accepts an optional sign and decimal digits only;
  the result must lie in \<open>0 .. MaximumSafeInteger\<close>.
\<close>

definition canonicalNumber :: "string \<Rightarrow> string option" where
  "canonicalNumber t =
     (let ds = (case t of c # cs \<Rightarrow> if c = CHR ''-'' \<or> c = CHR ''+'' then cs else t | [] \<Rightarrow> [])
      in if ds \<noteq> [] \<and> list_all is_digit ds \<and> digits_value ds \<le> MaximumSafeInteger \<and>
            (hd t = CHR ''-'' \<longrightarrow> digits_value ds = 0)
         then Some t else None)"

fun joinWith :: "string \<Rightarrow> string list \<Rightarrow> string" where
  "joinWith sep [] = []"
| "joinWith sep [x] = x"
| "joinWith sep (x # xs) = x @ sep @ joinWith sep xs"

definition member_text :: "string \<times> string \<Rightarrow> string" where
  "member_text kv = appendJSONString (fst kv) @ '':'' @ snd kv"

fun appendCanonical :: "json \<Rightarrow> string option"
and canonicalItems :: "json list \<Rightarrow> string list option"
and canonicalMembers :: "(string \<times> json) list \<Rightarrow> (string \<times> string) list option" where
  "appendCanonical JNull = Some ''null''"
| "appendCanonical (JBool b) = Some (if b then ''true'' else ''false'')"
| "appendCanonical (JNum t) = canonicalNumber t"
| "appendCanonical (JStr s) = Some (appendJSONString s)"
| "appendCanonical (JArr items) =
     map_option (\<lambda>ts. ''['' @ joinWith '','' ts @ '']'') (canonicalItems items)"
| "appendCanonical (JObj kvs) =
     map_option (\<lambda>ms. ''{'' @ joinWith '','' (map member_text (sort_key fst ms)) @ ''}'') (canonicalMembers kvs)"
| "canonicalItems [] = Some []"
| "canonicalItems (v # vs) = (case appendCanonical v of None \<Rightarrow> None
     | Some t \<Rightarrow> map_option (\<lambda>ts. t # ts) (canonicalItems vs))"
| "canonicalMembers [] = Some []"
| "canonicalMembers ((k, v) # kvs) = (case appendCanonical v of None \<Rightarrow> None
     | Some t \<Rightarrow> map_option (\<lambda>ts. (k, t) # ts) (canonicalMembers kvs))"

section \<open>Decimal tokens of Go integers\<close>

text \<open>\<open>json.Marshal\<close> writes an \<open>int64\<close> in decimal.\<close>

function decimal :: "int \<Rightarrow> string" where
  "decimal n = (if n < 10 then [char_of (48 + n)] else decimal (n div 10) @ [char_of (48 + n mod 10)])"
  by pat_completeness auto
termination
  by (relation "measure nat") auto

declare decimal.simps [simp del]

definition JInt :: "int \<Rightarrow> json" where
  "JInt n = JNum (if n < 0 then ''-'' @ decimal (- n) else decimal n)"

end
