(* ===== verification/Wire_Types.thy ===== *)
theory Wire_Types
  imports Wire_Json
begin

text \<open>
  The structs of \<open>internal/harnessprotocol/types.go\<close> that the node writes and reads:
  command envelopes, event payloads, event envelopes, receipts, errors and snapshots,
  each with the JSON value \<open>json.Marshal\<close> produces for it (field order of the struct,
  \<open>omitempty\<close> fields left out when empty). The event type string is a function of the
  payload constructor, because every call site of \<open>appendEvent\<close> pairs them so.
\<close>

section \<open>Reading decoded values\<close>

definition jfield :: "json \<Rightarrow> string \<Rightarrow> json option" where
  "jfield v k = (case v of JObj kvs \<Rightarrow> map_of kvs k | _ \<Rightarrow> None)"

definition jstring :: "json \<Rightarrow> string \<Rightarrow> string" where
  "jstring v k = (case jfield v k of Some (JStr s) \<Rightarrow> s | _ \<Rightarrow> '''')"

definition jint :: "json \<Rightarrow> string \<Rightarrow> int" where
  "jint v k = (case jfield v k of Some x \<Rightarrow> (case jsonInteger x of Some n \<Rightarrow> n | None \<Rightarrow> 0) | None \<Rightarrow> 0)"

definition jbool :: "json \<Rightarrow> string \<Rightarrow> bool" where
  "jbool v k = (case jfield v k of Some (JBool b) \<Rightarrow> b | _ \<Rightarrow> False)"

definition omitEmpty :: "string \<Rightarrow> string \<Rightarrow> (string \<times> json) list" where
  "omitEmpty k s = (if s = '''' then [] else [(k, JStr s)])"

definition nullableStr :: "string option \<Rightarrow> json" where
  "nullableStr r = (case r of None \<Rightarrow> JNull | Some s \<Rightarrow> JStr s)"

section \<open>Command kinds and envelopes\<close>

datatype command_kind =
    DialogCreate | DialogDelete | MessageEnqueue | MessageSteer | RequestCancel
  | AttemptStop | QueueResume | AttemptRetry | ApprovalRespond | InputRespond

fun kind_str :: "command_kind \<Rightarrow> string" where
  "kind_str DialogCreate = ''dialog.create''"
| "kind_str DialogDelete = ''dialog.delete''"
| "kind_str MessageEnqueue = ''message.enqueue''"
| "kind_str MessageSteer = ''message.steer''"
| "kind_str RequestCancel = ''request.cancel''"
| "kind_str AttemptStop = ''attempt.stop''"
| "kind_str QueueResume = ''queue.resume''"
| "kind_str AttemptRetry = ''attempt.retry''"
| "kind_str ApprovalRespond = ''approval.respond''"
| "kind_str InputRespond = ''input.respond''"

definition all_kinds :: "command_kind list" where
  "all_kinds = [DialogCreate, DialogDelete, MessageEnqueue, MessageSteer, RequestCancel,
     AttemptStop, QueueResume, AttemptRetry, ApprovalRespond, InputRespond]"

definition kind_of :: "string \<Rightarrow> command_kind option" where
  "kind_of s = List.find (\<lambda>k. kind_str k = s) all_kinds"

definition IsAdmissionCommand :: "command_kind \<Rightarrow> bool" where
  "IsAdmissionCommand k \<longleftrightarrow> k = DialogCreate \<or> k = MessageEnqueue \<or> k = AttemptRetry"

definition IsDrainBlockedCommand :: "command_kind \<Rightarrow> bool" where
  "IsDrainBlockedCommand k \<longleftrightarrow> IsAdmissionCommand k \<or> k = QueueResume"

definition IsDrainControlCommand :: "command_kind \<Rightarrow> bool" where
  "IsDrainControlCommand k \<longleftrightarrow>
     k = MessageSteer \<or> k = RequestCancel \<or> k = AttemptStop \<or> k = ApprovalRespond \<or> k = InputRespond"

record commandEnvelope =
  ce_commandId :: string
  ce_kind :: command_kind
  ce_target :: json
  ce_expected :: json
  ce_payload :: json

section \<open>Content\<close>

record safeContent =
  sc_kind :: string
  sc_content :: string
  sc_artifactId :: string
  sc_sizeBytes :: "int option"
  sc_sha256 :: string
  sc_reason :: string
  sc_redaction :: string
  sc_truncated :: bool

definition safeContent_json :: "safeContent \<Rightarrow> json" where
  "safeContent_json c = JObj ([(''kind'', JStr (sc_kind c))] @ omitEmpty ''content'' (sc_content c) @
     omitEmpty ''artifactId'' (sc_artifactId c) @
     (case sc_sizeBytes c of None \<Rightarrow> [] | Some n \<Rightarrow> [(''sizeBytes'', JInt n)]) @
     omitEmpty ''sha256'' (sc_sha256 c) @ omitEmpty ''reason'' (sc_reason c) @
     [(''redaction'', JStr (sc_redaction c)), (''truncated'', JBool (sc_truncated c))])"

record usage =
  us_source :: string
  us_inputTokens :: int
  us_outputTokens :: int
  us_totalTokens :: int

definition usage_json :: "usage \<Rightarrow> json" where
  "usage_json u = JObj [(''source'', JStr (us_source u)), (''inputTokens'', JInt (us_inputTokens u)),
     (''outputTokens'', JInt (us_outputTokens u)), (''totalTokens'', JInt (us_totalTokens u))]"

text \<open>\<open>AttemptOutput\<close>: a reference to the assistant message, or empty.\<close>

datatype attemptOutput = OutMessage string | OutEmpty

fun attemptOutput_json :: "attemptOutput \<Rightarrow> json" where
  "attemptOutput_json (OutMessage m) = JObj [(''kind'', JStr ''message''), (''assistantMessageId'', JStr m)]"
| "attemptOutput_json OutEmpty = JObj [(''kind'', JStr ''empty'')]"

record nodeState =
  ns_transportAvailability :: string
  ns_engineReadiness :: string
  ns_occupancy :: string
  ns_queuePaused :: bool
  ns_queueVersion :: int
  ns_pendingCount :: int
  ns_blockedReasons :: "string list"
  ns_activeAttemptId :: "string option"

definition nodeState_json :: "nodeState \<Rightarrow> json" where
  "nodeState_json n = JObj [(''transportAvailability'', JStr (ns_transportAvailability n)),
     (''engineReadiness'', JStr (ns_engineReadiness n)), (''occupancy'', JStr (ns_occupancy n)),
     (''queuePaused'', JBool (ns_queuePaused n)), (''queueVersion'', JInt (ns_queueVersion n)),
     (''pendingCount'', JInt (ns_pendingCount n)),
     (''blockedReasons'', JArr (map JStr (ns_blockedReasons n))),
     (''activeAttemptId'', nullableStr (ns_activeAttemptId n))]"

section \<open>Event payloads\<close>

text \<open>
  Positional arguments follow the struct fields: for instance
  \<open>PMessageDisposition messageId from to reasonCode\<close> and
  \<open>PAttemptFailed generation failureClass errorCode safeMessage retryable effectStatus\<close>.
\<close>

datatype payload =
    PNodeState nodeState
  | PDialogDeleted string
  | PQueueChanged int int "string option" bool
  | PMessageAccepted string string string int string
  | PMessageDisposition string string string string
  | PAttemptDispatching string int string string string
  | PAttemptStarted string int
  | PAttemptWaiting string int string
  | PAttemptStopRequested int string
  | PAttemptCompleted int attemptOutput "usage option"
  | PAttemptFailed int string string string bool string
  | PAttemptInterrupted int string string
  | PAttemptUnknown int string string
  | PAssistantDelta string int safeContent
  | PAssistantMessage string safeContent string
  | PToolStarted string string string safeContent
  | PToolOutput string int string safeContent
  | PToolCompleted string string safeContent string string
  | PApprovalRequested string string string string int
  | PApprovalResolved string string string int
  | PInputRequested string safeContent int
  | PInputResolved string string int
  | PArtifactAvailable string string string string int string string bool

fun payload_type :: "payload \<Rightarrow> string" where
  "payload_type (PNodeState _) = ''node.state_changed''"
| "payload_type (PDialogDeleted _) = ''dialog.deleted''"
| "payload_type (PQueueChanged _ _ _ _) = ''queue.changed''"
| "payload_type (PMessageAccepted _ _ _ _ _) = ''message.accepted''"
| "payload_type (PMessageDisposition _ _ _ _) = ''message.disposition_changed''"
| "payload_type (PAttemptDispatching _ _ _ _ _) = ''attempt.dispatching''"
| "payload_type (PAttemptStarted _ _) = ''attempt.started''"
| "payload_type (PAttemptWaiting _ _ _) = ''attempt.waiting_input''"
| "payload_type (PAttemptStopRequested _ _) = ''attempt.stop_requested''"
| "payload_type (PAttemptCompleted _ _ _) = ''attempt.completed''"
| "payload_type (PAttemptFailed _ _ _ _ _ _) = ''attempt.failed''"
| "payload_type (PAttemptInterrupted _ _ _) = ''attempt.interrupted''"
| "payload_type (PAttemptUnknown _ _ _) = ''attempt.unknown''"
| "payload_type (PAssistantDelta _ _ _) = ''assistant.delta''"
| "payload_type (PAssistantMessage _ _ _) = ''assistant.message''"
| "payload_type (PToolStarted _ _ _ _) = ''tool.started''"
| "payload_type (PToolOutput _ _ _ _) = ''tool.output''"
| "payload_type (PToolCompleted _ _ _ _ _) = ''tool.completed''"
| "payload_type (PApprovalRequested _ _ _ _ _) = ''approval.requested''"
| "payload_type (PApprovalResolved _ _ _ _) = ''approval.resolved''"
| "payload_type (PInputRequested _ _ _) = ''input.requested''"
| "payload_type (PInputResolved _ _ _) = ''input.resolved''"
| "payload_type (PArtifactAvailable _ _ _ _ _ _ _ _) = ''artifact.available''"

fun payload_json :: "payload \<Rightarrow> json" where
  "payload_json (PNodeState n) = nodeState_json n"
| "payload_json (PDialogDeleted d) = JObj [(''dialogId'', JStr d)]"
| "payload_json (PQueueChanged qv pc act paused) = JObj [(''queueVersion'', JInt qv), (''pendingCount'', JInt pc),
     (''activeAttemptId'', nullableStr act), (''queuePaused'', JBool paused)]"
| "payload_json (PMessageAccepted d m r sq disp) = JObj [(''dialogId'', JStr d), (''messageId'', JStr m),
     (''requestId'', JStr r), (''sequence'', JInt sq), (''disposition'', JStr disp)]"
| "payload_json (PMessageDisposition m from to why) = JObj [(''messageId'', JStr m), (''from'', JStr from),
     (''to'', JStr to), (''reasonCode'', JStr why)]"
| "payload_json (PAttemptDispatching r g m prev h) = JObj [(''requestId'', JStr r), (''generation'', JInt g),
     (''contextBoundaryMessageId'', JStr m), (''policyRevision'', JStr prev), (''policyHash'', JStr h)]"
| "payload_json (PAttemptStarted r g) = JObj [(''requestId'', JStr r), (''generation'', JInt g)]"
| "payload_json (PAttemptWaiting r g w) = JObj [(''requestId'', JStr r), (''generation'', JInt g), (''waitKind'', JStr w)]"
| "payload_json (PAttemptStopRequested g c) = JObj [(''generation'', JInt g), (''commandId'', JStr c)]"
| "payload_json (PAttemptCompleted g out u) = JObj ([(''generation'', JInt g), (''output'', attemptOutput_json out)] @
     (case u of None \<Rightarrow> [] | Some x \<Rightarrow> [(''usage'', usage_json x)]))"
| "payload_json (PAttemptFailed g cls code msg retry eff) = JObj [(''generation'', JInt g), (''failureClass'', JStr cls),
     (''errorCode'', JStr code), (''safeMessage'', JStr msg), (''retryable'', JBool retry), (''effectStatus'', JStr eff)]"
| "payload_json (PAttemptInterrupted g why eff) = JObj [(''generation'', JInt g), (''reason'', JStr why), (''effectStatus'', JStr eff)]"
| "payload_json (PAttemptUnknown g why eff) = JObj [(''generation'', JInt g), (''reason'', JStr why), (''effectStatus'', JStr eff)]"
| "payload_json (PAssistantDelta m i c) = JObj [(''messageId'', JStr m), (''deltaIndex'', JInt i), (''content'', safeContent_json c)]"
| "payload_json (PAssistantMessage m c fin) = JObj [(''messageId'', JStr m), (''content'', safeContent_json c), (''finishReason'', JStr fin)]"
| "payload_json (PToolStarted c name h inp) = JObj [(''callId'', JStr c), (''toolName'', JStr name), (''actionHash'', JStr h),
     (''input'', safeContent_json inp)]"
| "payload_json (PToolOutput c i st out) = JObj [(''callId'', JStr c), (''chunkIndex'', JInt i), (''stream'', JStr st),
     (''output'', safeContent_json out)]"
| "payload_json (PToolCompleted c st res eff ref) = JObj ([(''callId'', JStr c), (''status'', JStr st),
     (''result'', safeContent_json res), (''effectStatus'', JStr eff)] @ omitEmpty ''effectRef'' ref)"
| "payload_json (PApprovalRequested a c h prompt v) = JObj [(''approvalId'', JStr a), (''callId'', JStr c),
     (''actionHash'', JStr h), (''safePrompt'', JStr prompt), (''approvalVersion'', JInt v)]"
| "payload_json (PApprovalResolved a d actor v) = JObj [(''approvalId'', JStr a), (''decision'', JStr d),
     (''actorId'', JStr actor), (''approvalVersion'', JInt v)]"
| "payload_json (PInputRequested i prompt v) = JObj [(''inputRequestId'', JStr i), (''prompt'', safeContent_json prompt),
     (''inputVersion'', JInt v)]"
| "payload_json (PInputResolved i m v) = JObj [(''inputRequestId'', JStr i), (''messageId'', JStr m), (''inputVersion'', JInt v)]"
| "payload_json (PArtifactAvailable a c name media n h red trunc) = JObj ([(''artifactId'', JStr a)] @ omitEmpty ''callId'' c @
     [(''name'', JStr name), (''mediaType'', JStr media), (''sizeBytes'', JInt n), (''sha256'', JStr h), (''redaction'', JStr red),
      (''truncated'', JBool trunc)])"

text \<open>\<open>json_extract(event_json,'$.payload.effectStatus')\<close>.\<close>

definition payload_effectStatus :: "payload \<Rightarrow> string option" where
  "payload_effectStatus p = (case jfield (payload_json p) ''effectStatus'' of Some (JStr s) \<Rightarrow> Some s | _ \<Rightarrow> None)"

record eventEnvelope =
  ev_nodeId :: string
  ev_seq :: int
  ev_epoch :: int
  ev_entityId :: string
  ev_entityVersion :: int
  ev_attemptId :: string
  ev_dialogId :: string
  ev_observedAt :: string
  ev_payload :: payload

definition event_json :: "eventEnvelope \<Rightarrow> json" where
  "event_json e = JObj ([(''protocolVersion'', JInt ProtocolVersion), (''schemaId'', JStr SchemaID),
     (''nodeId'', JStr (ev_nodeId e)), (''seq'', JInt (ev_seq e)), (''epoch'', JInt (ev_epoch e)),
     (''type'', JStr (payload_type (ev_payload e))), (''entityId'', JStr (ev_entityId e)),
     (''entityVersion'', JInt (ev_entityVersion e))] @ omitEmpty ''attemptId'' (ev_attemptId e) @
     omitEmpty ''dialogId'' (ev_dialogId e) @
     [(''observedAt'', JStr (ev_observedAt e)), (''completeness'', JStr ''complete''),
      (''payload'', payload_json (ev_payload e))])"

section \<open>Receipts, errors, snapshots\<close>

record receipt =
  rc_commandId :: string
  rc_commandKind :: command_kind
  rc_receiptId :: string
  rc_acceptedAt :: string
  rc_nodeId :: string
  rc_eventSeq :: int
  rc_result :: string
  rc_blockingReason :: string
  rc_references :: json

definition receipt_json :: "receipt \<Rightarrow> json" where
  "receipt_json r = JObj ([(''protocolVersion'', JInt ProtocolVersion), (''schemaId'', JStr SchemaID),
     (''commandId'', JStr (rc_commandId r)), (''commandKind'', JStr (kind_str (rc_commandKind r))),
     (''receiptId'', JStr (rc_receiptId r)), (''acceptedAt'', JStr (rc_acceptedAt r)), (''nodeId'', JStr (rc_nodeId r)),
     (''eventSeq'', JInt (rc_eventSeq r)), (''result'', JStr (rc_result r))] @
     omitEmpty ''blockingReason'' (rc_blockingReason r) @ [(''references'', rc_references r)])"

record wireError =
  we_code :: string
  we_safeMessage :: string
  we_retryable :: bool
  we_correlationId :: string
  we_currentVersion :: "int option"
  we_currentState :: string

definition error_json :: "wireError \<Rightarrow> json" where
  "error_json e = JObj ([(''protocolVersion'', JInt ProtocolVersion), (''schemaId'', JStr SchemaID),
     (''code'', JStr (we_code e)), (''safeMessage'', JStr (we_safeMessage e)), (''retryable'', JBool (we_retryable e)),
     (''correlationId'', JStr (we_correlationId e))] @
     (case we_currentVersion e of None \<Rightarrow> [] | Some v \<Rightarrow> [(''currentVersion'', JInt v)]) @
     omitEmpty ''currentState'' (we_currentState e))"

record wireRequest =
  wr_requestId :: string
  wr_dialogId :: string
  wr_inputMessageId :: string
  wr_queueSequence :: int
  wr_version :: int
  wr_status :: string

definition request_json :: "wireRequest \<Rightarrow> json" where
  "request_json r = JObj [(''requestId'', JStr (wr_requestId r)), (''dialogId'', JStr (wr_dialogId r)),
     (''inputMessageId'', JStr (wr_inputMessageId r)), (''queueSequence'', JInt (wr_queueSequence r)),
     (''version'', JInt (wr_version r)), (''status'', JStr (wr_status r))]"

record wireAttempt =
  wa_attemptId :: string
  wa_dialogId :: string
  wa_requestId :: string
  wa_generation :: int
  wa_version :: int
  wa_state :: string
  wa_effectStatus :: string
  wa_startedAt :: string
  wa_finishedAt :: string

definition attempt_json :: "wireAttempt \<Rightarrow> json" where
  "attempt_json a = JObj ([(''attemptId'', JStr (wa_attemptId a)), (''dialogId'', JStr (wa_dialogId a)),
     (''requestId'', JStr (wa_requestId a)), (''generation'', JInt (wa_generation a)), (''version'', JInt (wa_version a)),
     (''state'', JStr (wa_state a)), (''effectStatus'', JStr (wa_effectStatus a))] @
     omitEmpty ''startedAt'' (wa_startedAt a) @ omitEmpty ''finishedAt'' (wa_finishedAt a))"

record snapshot =
  sn_nodeId :: string
  sn_epoch :: int
  sn_stateVersion :: int
  sn_lastEventSeq :: int
  sn_capturedAt :: string
  sn_node :: nodeState
  sn_pendingQueue :: "wireRequest list"
  sn_activeAttempt :: "wireAttempt option"

definition snapshot_json :: "snapshot \<Rightarrow> json" where
  "snapshot_json s = JObj [(''protocolVersion'', JInt ProtocolVersion), (''schemaId'', JStr SchemaID),
     (''nodeId'', JStr (sn_nodeId s)), (''epoch'', JInt (sn_epoch s)), (''stateVersion'', JInt (sn_stateVersion s)),
     (''lastEventSeq'', JInt (sn_lastEventSeq s)), (''capturedAt'', JStr (sn_capturedAt s)),
     (''node'', nodeState_json (sn_node s)), (''pendingQueue'', JArr (map request_json (sn_pendingQueue s))),
     (''activeAttempt'', (case sn_activeAttempt s of None \<Rightarrow> JNull | Some a \<Rightarrow> attempt_json a)),
     (''completeness'', JStr ''complete'')]"

lemma kind_of_kind_str [simp]: "kind_of (kind_str k) = Some k"
  by (cases k) (simp_all add: kind_of_def all_kinds_def)

lemma kind_of_Some: "kind_of s = Some k \<longleftrightarrow> s = kind_str k"
proof
  assume "kind_of s = Some k"
  then show "s = kind_str k" by (auto simp: kind_of_def find_Some_iff)
qed simp

end
