(* ===== verification/Wire_Validate.thy ===== *)
theory Wire_Validate
  imports Wire_Types
begin

text \<open>
  The shape rules of \<open>internal/harnessprotocol/validate.go\<close> on decoded values: the rule
  tables for commands, receipts and event payloads, the validators of each wire type,
  and the relational checks of snapshots and scoped pages. \<open>Validate\<close> dispatches on the
  wire type; the byte limit and strict decoding come before it.
\<close>

section \<open>Commands and receipts\<close>

definition targetNode :: check where "targetNode = object [required ''nodeId'' uuidCheck]"
definition targetDialog :: check where
  "targetDialog = object [required ''nodeId'' uuidCheck, required ''dialogId'' uuidCheck]"
definition targetSteer :: check where
  "targetSteer = object [required ''nodeId'' uuidCheck, required ''dialogId'' uuidCheck,
     required ''attemptId'' uuidCheck, required ''messageId'' uuidCheck]"
definition targetRequest :: check where
  "targetRequest = object [required ''nodeId'' uuidCheck, required ''requestId'' uuidCheck]"
definition targetAttempt :: check where
  "targetAttempt = object [required ''nodeId'' uuidCheck, required ''attemptId'' uuidCheck]"
definition targetApproval :: check where
  "targetApproval = object [required ''nodeId'' uuidCheck, required ''approvalId'' uuidCheck, required ''attemptId'' uuidCheck]"
definition targetInput :: check where
  "targetInput = object [required ''nodeId'' uuidCheck, required ''inputRequestId'' uuidCheck, required ''attemptId'' uuidCheck]"
definition emptyObject :: check where "emptyObject = object []"

text \<open>\<open>commandRules\<close>: target, expected and payload check of each kind.\<close>

fun commandRules :: "command_kind \<Rightarrow> check \<times> check \<times> check" where
  "commandRules DialogCreate = (targetNode, object [required ''registryVersion'' safeInteger],
     object [optional ''title'' (stringCheck 1 200)])"
| "commandRules DialogDelete = (targetDialog, object [required ''dialogVersion'' safeInteger], emptyObject)"
| "commandRules MessageEnqueue = (targetDialog, object [required ''dialogVersion'' safeInteger],
     object [required ''text'' (stringCheck 1 MaximumMessageBytes)])"
| "commandRules MessageSteer = (targetSteer,
     object [required ''attemptGeneration'' safeInteger, required ''messageVersion'' safeInteger], emptyObject)"
| "commandRules RequestCancel = (targetRequest, object [required ''requestVersion'' safeInteger], emptyObject)"
| "commandRules AttemptStop = (targetAttempt, object [required ''attemptGeneration'' safeInteger], emptyObject)"
| "commandRules QueueResume = (targetNode, object [required ''queueVersion'' safeInteger], emptyObject)"
| "commandRules AttemptRetry = (targetAttempt, object [required ''attemptGeneration'' safeInteger],
     object [required ''acknowledgeKnownEffects'' booleanCheck])"
| "commandRules ApprovalRespond = (targetApproval,
     object [required ''approvalVersion'' safeInteger, required ''attemptGeneration'' safeInteger],
     object [required ''decision'' (enumCheck [''allow_once'', ''deny'']), required ''actionHash'' sha256Check])"
| "commandRules InputRespond = (targetInput,
     object [required ''inputVersion'' safeInteger, required ''attemptGeneration'' safeInteger],
     object [required ''text'' (stringCheck 1 MaximumMessageBytes)])"

fun receiptReferences :: "command_kind \<Rightarrow> check" where
  "receiptReferences DialogCreate = object [required ''dialogId'' uuidCheck]"
| "receiptReferences DialogDelete = object [required ''dialogId'' uuidCheck]"
| "receiptReferences MessageEnqueue = object [required ''dialogId'' uuidCheck, required ''messageId'' uuidCheck, required ''requestId'' uuidCheck]"
| "receiptReferences MessageSteer = object [required ''dialogId'' uuidCheck, required ''messageId'' uuidCheck, required ''attemptId'' uuidCheck]"
| "receiptReferences RequestCancel = object [required ''requestId'' uuidCheck]"
| "receiptReferences AttemptStop = object [required ''attemptId'' uuidCheck]"
| "receiptReferences QueueResume = object [required ''nodeId'' uuidCheck]"
| "receiptReferences AttemptRetry = object [required ''priorAttemptId'' uuidCheck, required ''requestId'' uuidCheck]"
| "receiptReferences ApprovalRespond = object [required ''approvalId'' uuidCheck, required ''attemptId'' uuidCheck]"
| "receiptReferences InputRespond = object [required ''inputRequestId'' uuidCheck, required ''attemptId'' uuidCheck, required ''messageId'' uuidCheck]"

definition blockedReasonNames :: "string list" where
  "blockedReasonNames = [''engine_unavailable'', ''auth_unavailable'', ''quota_exhausted'', ''policy_unavailable'',
     ''capability_missing'', ''storage_unavailable'', ''execution_unknown'', ''adapter_protocol'', ''operator_pause'']"

definition validatePins :: check where
  "validatePins v \<longleftrightarrow>
     (case jfield v ''protocolVersion'' of Some p \<Rightarrow> jsonInteger p = Some ProtocolVersion | None \<Rightarrow> False) \<and>
     jfield v ''schemaId'' = Some (JStr SchemaID)"

definition pinFields :: "property list" where
  "pinFields = [required ''protocolVersion'' safeInteger, required ''schemaId'' (stringCheck 1 100)]"

definition validateCommand :: check where
  "validateCommand v \<longleftrightarrow> validatePins v \<and>
     (case jfield v ''kind'' of
        Some (JStr kind) \<Rightarrow> (case kind_of kind of
          None \<Rightarrow> False
        | Some k \<Rightarrow> (case commandRules k of (tc, ec, pc) \<Rightarrow>
            object (pinFields @ [required ''commandId'' uuidCheck, required ''kind'' (enumCheck [kind]),
              required ''target'' tc, required ''expected'' ec, required ''payload'' pc]) v))
      | _ \<Rightarrow> False)"

definition validateReceipt :: check where
  "validateReceipt v \<longleftrightarrow> validatePins v \<and>
     (case jfield v ''commandKind'' of
        Some (JStr kind) \<Rightarrow> (case kind_of kind of
          None \<Rightarrow> False
        | Some k \<Rightarrow>
            object (pinFields @ [required ''commandId'' uuidCheck, required ''commandKind'' (enumCheck [kind]),
              required ''receiptId'' uuidCheck, required ''acceptedAt'' timestampCheck, required ''nodeId'' uuidCheck,
              required ''eventSeq'' positiveInteger,
              required ''result'' (if k = DialogDelete then enumCheck [''deleted''] else enumCheck [''admitted'', ''applied'']),
              optional ''blockingReason'' (enumCheck blockedReasonNames),
              required ''references'' (receiptReferences k)]) v)
      | _ \<Rightarrow> False)"

section \<open>Errors\<close>

definition errorCodes :: "string list" where
  "errorCodes = [''invalid'', ''no_session'', ''forbidden'', ''not_found'', ''stale'', ''id_conflict'', ''too_large'',
     ''queue_full'', ''node_unavailable'', ''not_durable'', ''unsupported'', ''protocol_mismatch'', ''schema_mismatch'']"

definition retryableCode :: "string \<Rightarrow> bool" where
  "retryableCode code \<longleftrightarrow> code = ''queue_full'' \<or> code = ''node_unavailable'' \<or> code = ''not_durable''"

definition currentStates :: "string list" where
  "currentStates = [''queued'', ''active'', ''paused'', ''blocked'', ''terminal'', ''unknown'']"

definition validateError :: check where
  "validateError v \<longleftrightarrow> validatePins v \<and>
     object (pinFields @ [required ''code'' (enumCheck errorCodes), required ''safeMessage'' (stringCheck 1 500),
       required ''retryable'' booleanCheck, required ''correlationId'' uuidCheck, optional ''currentVersion'' safeInteger,
       optional ''currentState'' (enumCheck currentStates)]) v \<and>
     jbool v ''retryable'' = retryableCode (jstring v ''code'')"

section \<open>Entities\<close>

definition nodeStateCheck :: check where
  "nodeStateCheck = object [
     required ''transportAvailability'' (enumCheck [''online'', ''stale'', ''offline'']),
     required ''engineReadiness'' (enumCheck [''ready'', ''blocked'', ''unknown'']),
     required ''occupancy'' (enumCheck [''idle'', ''active'', ''unknown'']),
     required ''queuePaused'' booleanCheck, required ''queueVersion'' safeInteger, required ''pendingCount'' safeInteger,
     required ''blockedReasons'' (listCheck (enumCheck blockedReasonNames) 16),
     required ''activeAttemptId'' (nullable uuidCheck)]"

definition dialogCheck :: check where
  "dialogCheck = object [required ''dialogId'' uuidCheck, required ''version'' safeInteger,
     optional ''title'' (stringCheck 1 200), required ''createdAt'' timestampCheck]"

definition requestCheck :: check where
  "requestCheck = object [required ''requestId'' uuidCheck, required ''dialogId'' uuidCheck, required ''inputMessageId'' uuidCheck,
     required ''queueSequence'' positiveInteger, required ''version'' safeInteger,
     required ''status'' (enumCheck [''queued'', ''cancelled'', ''dispatching'', ''active'', ''completed'', ''failed'', ''interrupted'', ''unknown''])]"

definition usageCheck :: check where
  "usageCheck = object [required ''source'' (enumCheck [''per_attempt'', ''cumulative_process'']),
     required ''inputTokens'' safeInteger, required ''outputTokens'' safeInteger, required ''totalTokens'' safeInteger]"

definition effectStatusCheck :: check where "effectStatusCheck = enumCheck [''none'', ''known'', ''unknown'']"

definition attemptCheck :: check where
  "attemptCheck = object [required ''attemptId'' uuidCheck, required ''dialogId'' uuidCheck, required ''requestId'' uuidCheck,
     required ''generation'' positiveInteger, required ''version'' safeInteger,
     required ''state'' (enumCheck [''dispatching'', ''running'', ''waiting_input'', ''stopping'', ''completed'', ''failed'', ''interrupted'', ''unknown'']),
     required ''effectStatus'' effectStatusCheck, optional ''startedAt'' timestampCheck, optional ''finishedAt'' timestampCheck]"

definition inlineSafeContent :: check where
  "inlineSafeContent = object [required ''kind'' (enumCheck [''inline'']), required ''content'' (stringCheck 0 MaximumMessageBytes),
     required ''redaction'' (enumCheck [''none'', ''applied'']), required ''truncated'' booleanCheck]"

definition artifactSafeContent :: check where
  "artifactSafeContent = object [required ''kind'' (enumCheck [''artifact'']), required ''artifactId'' uuidCheck,
     required ''sizeBytes'' (integerCheck False MaximumArtifactBytes), required ''sha256'' sha256Check,
     required ''redaction'' (enumCheck [''none'', ''applied'']), required ''truncated'' booleanCheck]"

definition unavailableSafeContent :: check where
  "unavailableSafeContent = object [required ''kind'' (enumCheck [''unavailable'']),
     required ''reason'' (enumCheck [''not_observed'', ''provider_redacted'', ''output_limit'', ''unmapped'']),
     required ''redaction'' (enumCheck [''none'', ''applied'', ''unknown'']), required ''truncated'' booleanCheck]"

definition safeContentCheck :: check where
  "safeContentCheck = union [inlineSafeContent, artifactSafeContent, unavailableSafeContent]"

definition attemptOutputCheck :: check where
  "attemptOutputCheck = union [object [required ''kind'' (enumCheck [''message'']), required ''assistantMessageId'' uuidCheck],
     object [required ''kind'' (enumCheck [''empty''])]]"

definition dispositionCheck :: check where
  "dispositionCheck = enumCheck [''queued'', ''steer_pending'', ''applied'', ''cancelled'', ''unknown'']"

definition finishReasonCheck :: check where
  "finishReasonCheck = enumCheck [''complete'', ''length'', ''cancelled'', ''error'']"

definition userHistoryCheck :: check where
  "userHistoryCheck = object [required ''messageId'' uuidCheck, required ''role'' (enumCheck [''user'']), required ''dialogId'' uuidCheck,
     required ''sequence'' positiveInteger, required ''version'' safeInteger, required ''createdAt'' timestampCheck,
     required ''text'' (stringCheck 1 MaximumMessageBytes), required ''disposition'' dispositionCheck,
     required ''commandId'' uuidCheck, required ''requestId'' uuidCheck]"

definition assistantHistoryCheck :: check where
  "assistantHistoryCheck = object [required ''messageId'' uuidCheck, required ''role'' (enumCheck [''assistant'']),
     required ''dialogId'' uuidCheck, required ''sequence'' positiveInteger, required ''version'' safeInteger,
     required ''createdAt'' timestampCheck, required ''attemptId'' uuidCheck, required ''content'' safeContentCheck,
     required ''finishReason'' finishReasonCheck]"

definition historyCheck :: check where "historyCheck = union [userHistoryCheck, assistantHistoryCheck]"

section \<open>Events\<close>

definition eventPayloadChecks :: "(string \<times> check) list" where
  "eventPayloadChecks = [
    (''node.state_changed'', nodeStateCheck),
    (''dialog.deleted'', object [required ''dialogId'' uuidCheck]),
    (''queue.changed'', object [required ''queueVersion'' safeInteger, required ''pendingCount'' safeInteger,
       required ''activeAttemptId'' (nullable uuidCheck), required ''queuePaused'' booleanCheck]),
    (''message.accepted'', object [required ''dialogId'' uuidCheck, required ''messageId'' uuidCheck, required ''requestId'' uuidCheck,
       required ''sequence'' positiveInteger, required ''disposition'' (enumCheck [''queued''])]),
    (''message.disposition_changed'', object [required ''messageId'' uuidCheck, required ''from'' dispositionCheck,
       required ''to'' dispositionCheck,
       required ''reasonCode'' (enumCheck [''request_dispatched'', ''steer_requested'', ''steer_applied'', ''steer_fallback'',
         ''steer_unknown'', ''request_cancelled'', ''reconciled''])]),
    (''attempt.dispatching'', object [required ''requestId'' uuidCheck, required ''generation'' positiveInteger,
       required ''contextBoundaryMessageId'' uuidCheck, required ''policyRevision'' (stringCheck 1 200), required ''policyHash'' sha256Check]),
    (''attempt.started'', object [required ''requestId'' uuidCheck, required ''generation'' positiveInteger]),
    (''attempt.waiting_input'', object [required ''requestId'' uuidCheck, required ''generation'' positiveInteger,
       required ''waitKind'' (enumCheck [''approval'', ''input''])]),
    (''attempt.stop_requested'', object [required ''generation'' positiveInteger, required ''commandId'' uuidCheck]),
    (''attempt.completed'', object [required ''generation'' positiveInteger, required ''output'' attemptOutputCheck, optional ''usage'' usageCheck]),
    (''attempt.failed'', object [required ''generation'' positiveInteger,
       required ''failureClass'' (enumCheck [''task'', ''node'', ''policy'', ''protocol'']), required ''errorCode'' (stringCheck 1 200),
       required ''safeMessage'' (stringCheck 1 500), required ''retryable'' booleanCheck, required ''effectStatus'' effectStatusCheck]),
    (''attempt.interrupted'', object [required ''generation'' positiveInteger,
       required ''reason'' (enumCheck [''owner_stop'', ''provider_interrupt'', ''process_exit'']), required ''effectStatus'' effectStatusCheck]),
    (''attempt.unknown'', object [required ''generation'' positiveInteger,
       required ''reason'' (enumCheck [''dispatch_uncertain'', ''cancel_unconfirmed'', ''adapter_protocol'', ''provider_state'', ''unmapped_event'']),
       required ''effectStatus'' effectStatusCheck]),
    (''assistant.delta'', object [required ''messageId'' uuidCheck, required ''deltaIndex'' safeInteger, required ''content'' safeContentCheck]),
    (''assistant.message'', object [required ''messageId'' uuidCheck, required ''content'' safeContentCheck, required ''finishReason'' finishReasonCheck]),
    (''tool.started'', object [required ''callId'' uuidCheck, required ''toolName'' (stringCheck 1 200), required ''actionHash'' sha256Check,
       required ''input'' safeContentCheck]),
    (''tool.output'', object [required ''callId'' uuidCheck, required ''chunkIndex'' safeInteger,
       required ''stream'' (enumCheck [''stdout'', ''stderr'', ''result'', ''diagnostic'']), required ''output'' safeContentCheck]),
    (''tool.completed'', object [required ''callId'' uuidCheck, required ''status'' (enumCheck [''succeeded'', ''failed'', ''unknown'']),
       required ''result'' safeContentCheck, required ''effectStatus'' effectStatusCheck, optional ''effectRef'' (stringCheck 1 200)]),
    (''approval.requested'', object [required ''approvalId'' uuidCheck, required ''callId'' uuidCheck, required ''actionHash'' sha256Check,
       required ''safePrompt'' (unicodeStringCheck 1 2000 8192), required ''approvalVersion'' safeInteger]),
    (''approval.resolved'', object [required ''approvalId'' uuidCheck, required ''decision'' (enumCheck [''allow_once'', ''deny'']),
       required ''actorId'' actorCheck, required ''approvalVersion'' safeInteger]),
    (''input.requested'', object [required ''inputRequestId'' uuidCheck, required ''prompt'' safeContentCheck, required ''inputVersion'' safeInteger]),
    (''input.resolved'', object [required ''inputRequestId'' uuidCheck, required ''messageId'' uuidCheck, required ''inputVersion'' safeInteger]),
    (''artifact.available'', object [required ''artifactId'' uuidCheck, optional ''callId'' uuidCheck, required ''name'' (stringCheck 1 200),
       required ''mediaType'' (stringCheck 1 200), required ''sizeBytes'' (integerCheck False MaximumArtifactBytes),
       required ''sha256'' sha256Check, required ''redaction'' (enumCheck [''none'', ''applied'']), required ''truncated'' booleanCheck]),
    (''history.gap'', object [required ''expectedSeq'' positiveInteger, required ''availableFromSeq'' positiveInteger,
       required ''reason'' (enumCheck [''storage_corruption'', ''identity_changed'', ''unmapped_event''])])]"

definition hasPrefix :: "string \<Rightarrow> string \<Rightarrow> bool" where
  "hasPrefix p s \<longleftrightarrow> take (length p) s = p"

definition isAttemptScoped :: "string \<Rightarrow> bool" where
  "isAttemptScoped t \<longleftrightarrow>
     list_ex (\<lambda>p. hasPrefix p t) [''attempt.'', ''assistant.'', ''tool.'', ''approval.'', ''input.''] \<or>
     t = ''artifact.available''"

definition eventFields :: "string \<Rightarrow> check \<Rightarrow> property list" where
  "eventFields typeName pc =
     pinFields @ [required ''nodeId'' uuidCheck, required ''seq'' positiveInteger, required ''epoch'' positiveInteger,
       required ''type'' (enumCheck [typeName]), required ''entityId'' uuidCheck, required ''entityVersion'' safeInteger,
       required ''observedAt'' timestampCheck, optional ''sourceAt'' timestampCheck,
       required ''completeness'' (enumCheck [''complete'']), required ''payload'' pc] @
     (if isAttemptScoped typeName then [required ''attemptId'' uuidCheck, required ''dialogId'' uuidCheck]
      else if typeName = ''dialog.deleted'' then [required ''dialogId'' uuidCheck] else [])"

definition validateEvent :: check where
  "validateEvent v \<longleftrightarrow> validatePins v \<and>
     (case jfield v ''type'' of
        Some (JStr typeName) \<Rightarrow> (case map_of eventPayloadChecks typeName of
          None \<Rightarrow> False
        | Some pc \<Rightarrow> object (eventFields typeName pc) v)
      | _ \<Rightarrow> False)"

section \<open>Snapshots and pages\<close>

definition pendingRequestCheck :: check where
  "pendingRequestCheck = object [required ''requestId'' uuidCheck, required ''dialogId'' uuidCheck, required ''inputMessageId'' uuidCheck,
     required ''queueSequence'' positiveInteger, required ''version'' safeInteger, required ''status'' (enumCheck [''queued''])]"

definition jitems :: "json \<Rightarrow> string \<Rightarrow> json list" where
  "jitems v k = (case jfield v k of Some (JArr xs) \<Rightarrow> xs | _ \<Rightarrow> [])"

text \<open>
  The loop over the pending queue: request ids, message ids and sequences are new, and
  each sequence is above the one before.
\<close>

fun pendingQueueOk :: "string list \<Rightarrow> string list \<Rightarrow> int list \<Rightarrow> int option \<Rightarrow> json list \<Rightarrow> bool" where
  "pendingQueueOk rs ms ss prev [] = True"
| "pendingQueueOk rs ms ss prev (q # qs) =
     (let r = jstring q ''requestId''; m = jstring q ''inputMessageId''; sq = jint q ''queueSequence'' in
      \<not> (List.member rs r \<or> List.member ms m \<or> List.member ss sq) \<and>
      (case prev of None \<Rightarrow> True | Some p \<Rightarrow> p < sq) \<and>
      pendingQueueOk (r # rs) (m # ms) (sq # ss) (Some sq) qs)"

definition validateSnapshot :: check where
  "validateSnapshot v \<longleftrightarrow> validatePins v \<and>
     object (pinFields @ [required ''nodeId'' uuidCheck, required ''epoch'' positiveInteger, required ''stateVersion'' safeInteger,
       required ''lastEventSeq'' safeInteger, required ''capturedAt'' timestampCheck, required ''node'' nodeStateCheck,
       required ''pendingQueue'' (listCheck pendingRequestCheck MaximumPageSize),
       required ''activeAttempt'' (nullable attemptCheck), required ''completeness'' (enumCheck [''complete''])]) v \<and>
     (case jfield v ''node'' of
        None \<Rightarrow> False
      | Some node \<Rightarrow>
          jint node ''pendingCount'' = int (length (jitems v ''pendingQueue'')) \<and>
          pendingQueueOk [] [] [] None (jitems v ''pendingQueue'') \<and>
          (case jfield v ''activeAttempt'' of
             Some JNull \<Rightarrow> jfield node ''activeAttemptId'' = Some JNull
           | Some a \<Rightarrow> jfield node ''activeAttemptId'' = jfield a ''attemptId''
           | None \<Rightarrow> False))"

definition pageFields :: "property list \<Rightarrow> check \<Rightarrow> string \<Rightarrow> property list" where
  "pageFields scope itemCheck pageType =
     pinFields @ [required ''nodeId'' uuidCheck, required ''epoch'' positiveInteger, required ''snapshotStateVersion'' safeInteger,
       required ''lastEventSeq'' safeInteger] @ scope @
     [required ''items'' (listCheck itemCheck MaximumPageSize),
      required ''nextCursor'' (nullable (stringCheck 1 MaximumCursorBytes)), required ''pageType'' (enumCheck [pageType])]"

definition validatePage :: "string \<Rightarrow> check \<Rightarrow> check" where
  "validatePage pageType itemCheck v \<longleftrightarrow> validatePins v \<and> object (pageFields [] itemCheck pageType) v"

definition sameFields :: "string list \<Rightarrow> json \<Rightarrow> json \<Rightarrow> bool" where
  "sameFields ks v item \<longleftrightarrow> list_all (\<lambda>k. jfield item k = jfield v k) ks"

definition validateEventPage :: check where
  "validateEventPage v \<longleftrightarrow> validatePins v \<and>
     object (pageFields [required ''dialogId'' uuidCheck, required ''attemptId'' uuidCheck]
       (\<lambda>item. (case item of JObj _ \<Rightarrow> isAttemptScoped (jstring item ''type'') \<and> validateEvent item | _ \<Rightarrow> False)) ''events'') v \<and>
     list_all (sameFields [''nodeId'', ''epoch'', ''dialogId'', ''attemptId''] v) (jitems v ''items'')"

definition validateHistoryPage :: check where
  "validateHistoryPage v \<longleftrightarrow> validatePins v \<and>
     object (pageFields [required ''dialogId'' uuidCheck] historyCheck ''history'') v \<and>
     list_all (sameFields [''dialogId''] v) (jitems v ''items'')"

definition validateAttemptPage :: check where
  "validateAttemptPage v \<longleftrightarrow> validatePins v \<and>
     object (pageFields [required ''dialogId'' uuidCheck, required ''requestId'' uuidCheck] attemptCheck ''attempts'') v \<and>
     list_all (sameFields [''dialogId'', ''requestId''] v) (jitems v ''items'')"

section \<open>Identity, status and health\<close>

definition capabilityStatusCheck :: check where "capabilityStatusCheck = enumCheck [''unsupported'', ''declared'', ''verified'']"

definition capabilitiesCheck :: check where
  "capabilitiesCheck = object (map (\<lambda>k. required k capabilityStatusCheck)
     [''chat'', ''events'', ''tool_results'', ''cancel'', ''steer_attached'', ''session_resume'', ''policy_enforcement''])"

definition adapterIdentityCheck :: check where
  "adapterIdentityCheck = union
     [object [required ''kind'' (enumCheck [''cursor'']), required ''version'' (enumCheck [''1.0.31''])],
      object [required ''kind'' (enumCheck [''codex'']), required ''version'' (enumCheck [''0.155.1''])]]"

definition validateNodeIdentity :: check where
  "validateNodeIdentity v \<longleftrightarrow> validatePins v \<and>
     object (pinFields @ [required ''schemaSHA256'' schemaSHA256Check, required ''nodeId'' uuidCheck, required ''registryVersion'' safeInteger,
       required ''identityEpoch'' positiveInteger, required ''adapter'' adapterIdentityCheck, required ''capabilities'' capabilitiesCheck]) v"

definition validateAttemptRead :: check where
  "validateAttemptRead v \<longleftrightarrow> validatePins v \<and>
     object (pinFields @ [required ''nodeId'' uuidCheck, required ''epoch'' positiveInteger, required ''stateVersion'' safeInteger,
       required ''attempt'' attemptCheck]) v"

definition validateCommandStatus :: check where
  "validateCommandStatus v \<longleftrightarrow> validatePins v \<and>
     object (pinFields @ [required ''nodeId'' uuidCheck, required ''commandId'' uuidCheck, required ''canonicalPayloadHash'' sha256Check,
       required ''status'' (enumCheck [''accepted'']),
       required ''receipt'' (\<lambda>r. (case r of JObj _ \<Rightarrow> validateReceipt r | _ \<Rightarrow> False))]) v \<and>
     (case jfield v ''receipt'' of None \<Rightarrow> False | Some r \<Rightarrow> sameFields [''nodeId'', ''commandId''] v r)"

definition validateHealthLive :: check where
  "validateHealthLive v \<longleftrightarrow> validatePins v \<and>
     object (pinFields @ [required ''status'' (enumCheck [''live'']), required ''processStartedAt'' timestampCheck]) v"

definition validateHealthReady :: check where
  "validateHealthReady v \<longleftrightarrow> validatePins v \<and>
     object (pinFields @ [required ''checkedAt'' timestampCheck,
       required ''identity'' (\<lambda>i. (case i of JObj _ \<Rightarrow> validateNodeIdentity i | _ \<Rightarrow> False)),
       required ''readiness'' (enumCheck [''ready'', ''blocked'', ''unknown'']),
       required ''blockedReasons'' (listCheck (enumCheck blockedReasonNames) 16)]) v \<and>
     (jstring v ''readiness'' = ''ready'' \<longrightarrow>
        jitems v ''blockedReasons'' = [] \<and>
        (case jfield v ''identity'' of None \<Rightarrow> False | Some i \<Rightarrow>
           (case jfield i ''capabilities'' of Some (JObj caps) \<Rightarrow> list_all (\<lambda>(_, s). s = JStr ''verified'') caps | _ \<Rightarrow> False)))"

definition validateArtifactMetadata :: check where
  "validateArtifactMetadata v \<longleftrightarrow> validatePins v \<and>
     object (pinFields @ [required ''nodeId'' uuidCheck, required ''dialogId'' uuidCheck, required ''attemptId'' uuidCheck,
       required ''artifactId'' uuidCheck, optional ''callId'' uuidCheck, required ''name'' (stringCheck 1 200),
       required ''mediaType'' (stringCheck 1 200), required ''sizeBytes'' (integerCheck False MaximumArtifactBytes),
       required ''sha256'' sha256Check, required ''redaction'' (enumCheck [''none'', ''applied'']), required ''truncated'' booleanCheck,
       required ''disposition'' (enumCheck [''inline'', ''attachment''])]) v"

definition validateAdmissionProfile :: check where
  "validateAdmissionProfile = object [required ''schemaId'' (enumCheck [AdmissionSchemaID]), required ''ownerId'' actorCheck,
     required ''nodeId'' uuidCheck, required ''registrationRevision'' positiveInteger, required ''identityEpoch'' positiveInteger,
     required ''wireSchemaSHA256'' schemaSHA256Check, required ''adapter'' adapterIdentityCheck,
     required ''readiness'' (enumCheck [''ready'', ''blocked'', ''unknown'']),
     required ''capabilities'' (object (map (\<lambda>k. required k booleanCheck)
       [''profile'', ''native_epoch'', ''policy_enforcement'', ''history'', ''facts'', ''durable_receipts'', ''replica_export'',
        ''replica_import'', ''asset_export'', ''asset_import'', ''scoped_quiesce'', ''ownership_release'', ''target_reservation'']))]"

definition Validate :: "string \<Rightarrow> json \<Rightarrow> bool" where
  "Validate wireType v = (case v of JObj _ \<Rightarrow>
     (if wireType = ''command'' then validateCommand v
      else if wireType = ''receipt'' then validateReceipt v
      else if wireType = ''error'' then validateError v
      else if wireType = ''event'' then validateEvent v
      else if wireType = ''snapshot'' then validateSnapshot v
      else if wireType = ''dialogPage'' then validatePage ''dialogs'' dialogCheck v
      else if wireType = ''historyPage'' then validateHistoryPage v
      else if wireType = ''requestPage'' then validatePage ''requests'' requestCheck v
      else if wireType = ''attemptPage'' then validateAttemptPage v
      else if wireType = ''eventPage'' then validateEventPage v
      else if wireType = ''attemptRead'' then validateAttemptRead v
      else if wireType = ''commandStatus'' then validateCommandStatus v
      else if wireType = ''nodeIdentity'' then validateNodeIdentity v
      else if wireType = ''admissionProfile'' then validateAdmissionProfile v
      else if wireType = ''healthLive'' then validateHealthLive v
      else if wireType = ''healthReady'' then validateHealthReady v
      else if wireType = ''artifactMetadata'' then validateArtifactMetadata v
      else False)
   | _ \<Rightarrow> False)"

text \<open>\<open>json.Unmarshal\<close> of a validated command into \<open>CommandEnvelope\<close>.\<close>

definition decodeEnvelope :: "json \<Rightarrow> commandEnvelope option" where
  "decodeEnvelope v = (case kind_of (jstring v ''kind'') of
     None \<Rightarrow> None
   | Some k \<Rightarrow> Some \<lparr>ce_commandId = jstring v ''commandId'', ce_kind = k,
       ce_target = (case jfield v ''target'' of Some x \<Rightarrow> x | None \<Rightarrow> JNull),
       ce_expected = (case jfield v ''expected'' of Some x \<Rightarrow> x | None \<Rightarrow> JNull),
       ce_payload = (case jfield v ''payload'' of Some x \<Rightarrow> x | None \<Rightarrow> JNull)\<rparr>)"

text \<open>
  \<open>CanonicalCommand\<close>: the canonical bytes and their digest under the hash function
  \<open>sha\<close>, which stands for \<open>crypto/sha256\<close> and hex encoding.
\<close>

definition CanonicalCommand :: "(string \<Rightarrow> string) \<Rightarrow> json \<Rightarrow> (string \<times> string) option" where
  "CanonicalCommand sha v =
     (if Validate ''command'' v then map_option (\<lambda>c. (c, sha c)) (appendCanonical v) else None)"

end
