(* ===== verification/Barrier.thy ===== *)
theory Barrier
  imports Wire_Validate
begin

text \<open>
  The wire records of the administrative barrier, \<open>internal/harnessbarrier/types.go\<close>: how
  \<open>encoding/json\<close> decodes a document into a struct with \<open>DisallowUnknownFields\<close> (names match
  up to case folding, \<open>null\<close> leaves a field at its zero value), the validators of the six
  record types, the JSON text \<open>json.Marshal\<close> writes and the hash of a quiescence proof.
\<close>

definition BarrierSchemaID :: string where "BarrierSchemaID = ''harness-barrier-v1''"

section \<open>Scopes\<close>

text \<open>
  \<open>harnessbarrier.Scope\<close>. Both \<open>validScope\<close> and the table check tie the kind \<open>node\<close> to an absent
  dialog, so a valid scope is one of two constructors.
\<close>

datatype scope = NodeScope | DialogScope string

definition dialogKey :: "string \<Rightarrow> string" where "dialogKey d = ''dialog:'' @ d"

fun scopeKey :: "scope \<Rightarrow> string" where
  "scopeKey NodeScope = ''node''"
| "scopeKey (DialogScope d) = dialogKey d"

fun in_scope :: "scope \<Rightarrow> string \<Rightarrow> bool" where
  "in_scope NodeScope d \<longleftrightarrow> True"
| "in_scope (DialogScope e) d \<longleftrightarrow> d = e"

section \<open>Decoding into structs\<close>

text \<open>
  \<open>foldName\<close> of \<open>encoding/json\<close>: ASCII letters fold to one case, and the two non-ASCII runes
  that fold to an ASCII letter are the long s (\<open>C5 BF\<close>) and the Kelvin sign (\<open>E2 84 AA\<close>).
\<close>

fun foldName :: "string \<Rightarrow> string" where
  "foldName [] = []"
| "foldName (c # cs) =
     (if between 65 90 c then char_of (byte c + 32) # foldName cs
      else if byte c = 197 \<and> (case cs of d # _ \<Rightarrow> byte d = 191 | [] \<Rightarrow> False) then CHR ''s'' # foldName (tl cs)
      else if byte c = 226 \<and> (case cs of d # e # _ \<Rightarrow> byte d = 132 \<and> byte e = 170 | _ \<Rightarrow> False)
        then CHR ''k'' # foldName (tl (tl cs))
      else c # foldName cs)"

definition goValues :: "(string \<times> json) list \<Rightarrow> string \<Rightarrow> json list" where
  "goValues kvs name = filter (\<lambda>v. v \<noteq> JNull) (map snd (filter (\<lambda>(k, _). foldName k = foldName name) kvs))"

definition lastOr :: "'a \<Rightarrow> 'a list \<Rightarrow> 'a" where
  "lastOr z xs = (if xs = [] then z else last xs)"

definition goInt64 :: "json \<Rightarrow> int option" where
  "goInt64 v = (case v of
     JNum t \<Rightarrow> (case t of [] \<Rightarrow> None | c # cs \<Rightarrow>
       (let neg = (c = CHR ''-''); ds = (if neg then cs else t) in
        if ds \<noteq> [] \<and> list_all is_digit ds \<and>
           (if neg then digits_value ds \<le> 9223372036854775808 else digits_value ds \<le> 9223372036854775807)
        then Some (if neg then - digits_value ds else digits_value ds) else None))
   | _ \<Rightarrow> None)"

definition goString :: "json \<Rightarrow> string option" where
  "goString v = (case v of JStr s \<Rightarrow> Some s | _ \<Rightarrow> None)"

definition goBool :: "json \<Rightarrow> bool option" where
  "goBool v = (case v of JBool b \<Rightarrow> Some b | _ \<Rightarrow> None)"

text \<open>A type mismatch in any member that names the field is an error; otherwise the last one wins.\<close>

definition decodeField :: "(json \<Rightarrow> 'a option) \<Rightarrow> 'a \<Rightarrow> (string \<times> json) list \<Rightarrow> string \<Rightarrow> 'a option" where
  "decodeField dec zero kvs name =
     (let rs = map dec (goValues kvs name) in if list_all (\<lambda>r. r \<noteq> None) rs then lastOr (Some zero) rs else None)"

text \<open>Members that name a struct field are decoded into the same struct, one after the other.\<close>

definition objectMembers :: "json \<Rightarrow> (string \<times> json) list option" where
  "objectMembers v = (case v of JObj kvs \<Rightarrow> Some kvs | _ \<Rightarrow> None)"

definition structField :: "(json \<Rightarrow> 'a option) \<Rightarrow> (string \<times> json) list \<Rightarrow> string \<Rightarrow> 'a option" where
  "structField dec kvs name = Option.bind (those (map objectMembers (goValues kvs name))) (\<lambda>ms. dec (JObj (concat ms)))"

abbreviation str_field where "str_field \<equiv> decodeField goString ''''"
abbreviation int_field where "int_field \<equiv> decodeField goInt64 0"

definition onlyFields :: "string list \<Rightarrow> (string \<times> json) list \<Rightarrow> bool" where
  "onlyFields names kvs \<longleftrightarrow> list_all (\<lambda>(k, _). list_ex (\<lambda>n. foldName n = foldName k) names) kvs"

record wireScope =
  wsc_kind :: string
  wsc_dialogId :: string

text \<open>A \<open>null\<close> scope is skipped by \<open>goValues\<close>; any other value that is no object is an error.\<close>

definition decodeScope :: "json \<Rightarrow> wireScope option" where
  "decodeScope v = (case v of
     JObj kvs \<Rightarrow>
       (if \<not> onlyFields [''kind'', ''dialogId''] kvs then None
        else (case (str_field kvs ''kind'', str_field kvs ''dialogId'') of
          (Some k, Some d) \<Rightarrow> Some \<lparr>wsc_kind = k, wsc_dialogId = d\<rparr> | _ \<Rightarrow> None))
   | _ \<Rightarrow> None)"

definition scope_of :: "wireScope \<Rightarrow> scope" where
  "scope_of w = (if wsc_kind w = ''dialog'' then DialogScope (wsc_dialogId w) else NodeScope)"

fun wire_of_scope :: "scope \<Rightarrow> wireScope" where
  "wire_of_scope NodeScope = \<lparr>wsc_kind = ''node'', wsc_dialogId = ''''\<rparr>"
| "wire_of_scope (DialogScope d) = \<lparr>wsc_kind = ''dialog'', wsc_dialogId = d\<rparr>"

definition scope_json :: "scope \<Rightarrow> json" where
  "scope_json sc = JObj ([(''kind'', JStr (wsc_kind (wire_of_scope sc)))] @ omitEmpty ''dialogId'' (wsc_dialogId (wire_of_scope sc)))"

section \<open>Field checks\<close>

definition operationPattern :: "string \<Rightarrow> bool" where "operationPattern = actorPattern"

definition validPins :: "int \<Rightarrow> string \<Rightarrow> bool" where
  "validPins version schema \<longleftrightarrow> version = 1 \<and> schema = BarrierSchemaID"

definition validSafeInteger :: "int \<Rightarrow> bool" where
  "validSafeInteger v \<longleftrightarrow> 0 \<le> v \<and> v \<le> MaximumSafeInteger"

definition validPositiveInteger :: "int \<Rightarrow> bool" where
  "validPositiveInteger v \<longleftrightarrow> 0 < v \<and> v \<le> MaximumSafeInteger"

definition validScope :: "wireScope \<Rightarrow> bool" where
  "validScope w = (if wsc_kind w = ''node'' then wsc_dialogId w = ''''
     else if wsc_kind w = ''dialog'' then uuidPattern (wsc_dialogId w) else False)"

text \<open>
  \<open>validScopeEncoding\<close> reads the raw members by their exact names. A missing scope is an
  empty raw message, which does not decode; \<open>null\<close> decodes to the empty map and so has no kind.
\<close>

definition validScopeEncoding :: "json \<Rightarrow> bool" where
  "validScopeEncoding v = (case jfield v ''scope'' of
     Some (JObj sc) \<Rightarrow> (case map_of sc ''kind'' of
         Some (JStr k) \<Rightarrow>
           (if k = ''node'' then length sc = 1
            else if k = ''dialog'' then length sc = 2 \<and> map_of sc ''dialogId'' \<noteq> None else False)
       | _ \<Rightarrow> False)
   | _ \<Rightarrow> False)"

definition exactFields :: "string list \<Rightarrow> json \<Rightarrow> bool" where
  "exactFields fs v = (case v of
     JObj kvs \<Rightarrow> length kvs = length fs \<and> list_all (\<lambda>f. map_of kvs f \<noteq> None) fs | _ \<Rightarrow> False)"

definition validRejectedCommand :: "string \<Rightarrow> bool" where
  "validRejectedCommand k \<longleftrightarrow> List.member [''dialog.create'', ''dialog.delete'', ''message.enqueue'', ''queue.resume'', ''attempt.retry''] k"

text \<open>
  \<open>time.Parse\<close> followed by the comparison with \<open>Format(time.RFC3339Nano)\<close>: a valid moment
  written the way \<open>Format\<close> writes it, so no trailing zero in the fraction and \<open>Z\<close> for a zero
  offset. \<open>Parse\<close> lets an offset of 24 hours through.
\<close>

definition canonicalZone :: "string \<Rightarrow> bool" where
  "canonicalZone s =
     (let (frac, zone) = (case s of
          CHR ''.'' # cs \<Rightarrow> (takeWhile is_digit cs, dropWhile is_digit cs)
        | _ \<Rightarrow> (''1'', s))
      in 1 \<le> length frac \<and> length frac \<le> 9 \<and> last frac \<noteq> CHR ''0'' \<and>
         (zone = ''Z'' \<or>
          (match_classes [\<lambda>c. c = CHR ''+'' \<or> c = CHR ''-'', is_digit, is_digit, (=) CHR '':'',
             between 48 53, is_digit] zone \<and> digits_value (take 2 (drop 1 zone)) \<le> 24 \<and>
             drop 1 zone \<noteq> ''00:00'')))"

definition validTimestamp :: "string \<Rightarrow> bool" where
  "validTimestamp s \<longleftrightarrow> timestamp_ok (take 19 s @ ''Z'') \<and> canonicalZone (drop 19 s)"

section \<open>Requests\<close>

record installRequest =
  ir_operationId :: string
  ir_nodeId :: string
  ir_expectedEpoch :: int
  ir_bindingGeneration :: int
  ir_scope :: wireScope
  ir_expectedScopeRevision :: int

definition installNames :: "string list" where
  "installNames = [''protocolVersion'', ''schemaId'', ''operationId'', ''nodeId'', ''expectedEpoch'', ''bindingGeneration'',
     ''scope'', ''expectedScopeRevision'']"

definition releaseNames :: "string list" where
  "releaseNames = [''protocolVersion'', ''schemaId'', ''operationId'', ''nodeId'', ''expectedEpoch'', ''bindingGeneration'',
     ''scope'', ''holdVersion'', ''expectedScopeRevision'', ''action'']"

definition decodeInstall :: "json \<Rightarrow> (int \<times> string \<times> installRequest) option" where
  "decodeInstall v = (case v of
     JObj kvs \<Rightarrow>
       (if \<not> onlyFields installNames kvs then None
        else (case (int_field kvs ''protocolVersion'', str_field kvs ''schemaId'', str_field kvs ''operationId'', str_field kvs ''nodeId'',
               int_field kvs ''expectedEpoch'', int_field kvs ''bindingGeneration'', structField decodeScope kvs ''scope'',
               int_field kvs ''expectedScopeRevision'') of
          (Some pv, Some sid, Some oid, Some nid, Some ep, Some bg, Some sc, Some rv) \<Rightarrow>
            Some (pv, sid, \<lparr>ir_operationId = oid, ir_nodeId = nid, ir_expectedEpoch = ep, ir_bindingGeneration = bg,
              ir_scope = sc, ir_expectedScopeRevision = rv\<rparr>)
        | _ \<Rightarrow> None))
   | _ \<Rightarrow> None)"

definition validateInstallRequest :: "json \<Rightarrow> installRequest option" where
  "validateInstallRequest v = (case decodeInstall v of
     None \<Rightarrow> None
   | Some (pv, sid, r) \<Rightarrow>
       (if validPins pv sid \<and> operationPattern (ir_operationId r) \<and> uuidPattern (ir_nodeId r) \<and>
           validPositiveInteger (ir_expectedEpoch r) \<and> validPositiveInteger (ir_bindingGeneration r) \<and>
           validSafeInteger (ir_expectedScopeRevision r) \<and> validScope (ir_scope r) \<and> validScopeEncoding v
        then Some r else None))"

record releaseRequest =
  rr_operationId :: string
  rr_nodeId :: string
  rr_expectedEpoch :: int
  rr_bindingGeneration :: int
  rr_scope :: wireScope
  rr_holdVersion :: int
  rr_expectedScopeRevision :: int
  rr_action :: string

definition decodeRelease :: "json \<Rightarrow> (int \<times> string \<times> releaseRequest) option" where
  "decodeRelease v = (case v of
     JObj kvs \<Rightarrow>
       (if \<not> onlyFields releaseNames kvs then None
        else (case (int_field kvs ''protocolVersion'', str_field kvs ''schemaId'', str_field kvs ''operationId'', str_field kvs ''nodeId'',
               int_field kvs ''expectedEpoch'', int_field kvs ''bindingGeneration'', structField decodeScope kvs ''scope'',
               int_field kvs ''holdVersion'', int_field kvs ''expectedScopeRevision'', str_field kvs ''action'') of
          (Some pv, Some sid, Some oid, Some nid, Some ep, Some bg, Some sc, Some hv, Some rv, Some ac) \<Rightarrow>
            Some (pv, sid, \<lparr>rr_operationId = oid, rr_nodeId = nid, rr_expectedEpoch = ep, rr_bindingGeneration = bg,
              rr_scope = sc, rr_holdVersion = hv, rr_expectedScopeRevision = rv, rr_action = ac\<rparr>)
        | _ \<Rightarrow> None))
   | _ \<Rightarrow> None)"

definition validateReleaseRequest :: "json \<Rightarrow> releaseRequest option" where
  "validateReleaseRequest v = (case decodeRelease v of
     None \<Rightarrow> None
   | Some (pv, sid, r) \<Rightarrow>
       (if exactFields releaseNames v \<and> validPins pv sid \<and> operationPattern (rr_operationId r) \<and> uuidPattern (rr_nodeId r) \<and>
           validPositiveInteger (rr_expectedEpoch r) \<and> validPositiveInteger (rr_bindingGeneration r) \<and>
           validScope (rr_scope r) \<and> validScopeEncoding v \<and> validPositiveInteger (rr_holdVersion r) \<and>
           validPositiveInteger (rr_expectedScopeRevision r) \<and> (rr_action r = ''release'' \<or> rr_action r = ''cancel'')
        then Some r else None))"

section \<open>Receipts written by the node\<close>

text \<open>
  The node builds these structs itself, so their JSON has every member under its exact name
  and the decoding step of the validator gives the struct back; what can fail is the check of
  the field values.
\<close>

record holdReceipt =
  hr_operationId :: string
  hr_receiptId :: string
  hr_nodeId :: string
  hr_epoch :: int
  hr_bindingGeneration :: int
  hr_scope :: scope
  hr_holdVersion :: int
  hr_scopeRevision :: int
  hr_installedAt :: string

definition holdReceipt_json :: "holdReceipt \<Rightarrow> json" where
  "holdReceipt_json r = JObj [(''protocolVersion'', JInt 1), (''schemaId'', JStr BarrierSchemaID), (''kind'', JStr ''hold.installed''),
     (''operationId'', JStr (hr_operationId r)), (''receiptId'', JStr (hr_receiptId r)), (''nodeId'', JStr (hr_nodeId r)),
     (''epoch'', JInt (hr_epoch r)), (''bindingGeneration'', JInt (hr_bindingGeneration r)), (''scope'', scope_json (hr_scope r)),
     (''holdVersion'', JInt (hr_holdVersion r)), (''scopeRevision'', JInt (hr_scopeRevision r)),
     (''installedAt'', JStr (hr_installedAt r))]"

definition validHoldReceipt :: "holdReceipt \<Rightarrow> bool" where
  "validHoldReceipt r \<longleftrightarrow> operationPattern (hr_operationId r) \<and> uuidPattern (hr_receiptId r) \<and> uuidPattern (hr_nodeId r) \<and>
     validPositiveInteger (hr_epoch r) \<and> validPositiveInteger (hr_bindingGeneration r) \<and> validPositiveInteger (hr_holdVersion r) \<and>
     validPositiveInteger (hr_scopeRevision r) \<and> validScope (wire_of_scope (hr_scope r)) \<and> validTimestamp (hr_installedAt r)"

record rejectionReceipt =
  jr_commandId :: string
  jr_commandKind :: command_kind
  jr_receiptId :: string
  jr_nodeId :: string
  jr_epoch :: int
  jr_canonicalPayloadHash :: string
  jr_rejectedAt :: string
  jr_holdOperationId :: string
  jr_holdVersion :: int
  jr_scope :: scope
  jr_scopeRevision :: int

definition rejectionReceipt_json :: "rejectionReceipt \<Rightarrow> json" where
  "rejectionReceipt_json r = JObj [(''protocolVersion'', JInt 1), (''schemaId'', JStr BarrierSchemaID), (''kind'', JStr ''command.rejected''),
     (''commandId'', JStr (jr_commandId r)), (''commandKind'', JStr (kind_str (jr_commandKind r))), (''receiptId'', JStr (jr_receiptId r)),
     (''nodeId'', JStr (jr_nodeId r)), (''epoch'', JInt (jr_epoch r)), (''canonicalPayloadHash'', JStr (jr_canonicalPayloadHash r)),
     (''rejectedAt'', JStr (jr_rejectedAt r)), (''reason'', JStr ''administrative_hold''),
     (''holdOperationId'', JStr (jr_holdOperationId r)), (''holdVersion'', JInt (jr_holdVersion r)),
     (''scope'', scope_json (jr_scope r)), (''scopeRevision'', JInt (jr_scopeRevision r))]"

definition validRejectionReceipt :: "rejectionReceipt \<Rightarrow> bool" where
  "validRejectionReceipt r \<longleftrightarrow> uuidPattern (jr_commandId r) \<and> validRejectedCommand (kind_str (jr_commandKind r)) \<and>
     uuidPattern (jr_receiptId r) \<and> uuidPattern (jr_nodeId r) \<and> validPositiveInteger (jr_epoch r) \<and>
     sha256Pattern (jr_canonicalPayloadHash r) \<and> validTimestamp (jr_rejectedAt r) \<and> operationPattern (jr_holdOperationId r) \<and>
     validPositiveInteger (jr_holdVersion r) \<and> validPositiveInteger (jr_scopeRevision r) \<and> validScope (wire_of_scope (jr_scope r))"

record releaseReceipt =
  lr_kind :: string
  lr_operationId :: string
  lr_receiptId :: string
  lr_nodeId :: string
  lr_epoch :: int
  lr_bindingGeneration :: int
  lr_scope :: scope
  lr_holdVersion :: int
  lr_scopeRevision :: int
  lr_manualPause :: bool
  lr_releasedAt :: string

definition releaseReceipt_json :: "releaseReceipt \<Rightarrow> json" where
  "releaseReceipt_json r = JObj [(''protocolVersion'', JInt 1), (''schemaId'', JStr BarrierSchemaID), (''kind'', JStr (lr_kind r)),
     (''operationId'', JStr (lr_operationId r)), (''receiptId'', JStr (lr_receiptId r)), (''nodeId'', JStr (lr_nodeId r)),
     (''epoch'', JInt (lr_epoch r)), (''bindingGeneration'', JInt (lr_bindingGeneration r)), (''scope'', scope_json (lr_scope r)),
     (''holdVersion'', JInt (lr_holdVersion r)), (''scopeRevision'', JInt (lr_scopeRevision r)),
     (''manualPause'', JBool (lr_manualPause r)), (''releasedAt'', JStr (lr_releasedAt r))]"

definition validReleaseReceipt :: "releaseReceipt \<Rightarrow> bool" where
  "validReleaseReceipt r \<longleftrightarrow> (lr_kind r = ''hold.released'' \<or> lr_kind r = ''hold.cancelled'') \<and> operationPattern (lr_operationId r) \<and>
     uuidPattern (lr_receiptId r) \<and> uuidPattern (lr_nodeId r) \<and> validPositiveInteger (lr_epoch r) \<and>
     validPositiveInteger (lr_bindingGeneration r) \<and> validScope (wire_of_scope (lr_scope r)) \<and>
     validPositiveInteger (lr_holdVersion r) \<and> validPositiveInteger (lr_scopeRevision r) \<and> validTimestamp (lr_releasedAt r)"

section \<open>Marshalled text and the quiescence proof\<close>

text \<open>\<open>json.Marshal\<close>: compact, members in struct order, HTML-relevant runes escaped.\<close>

definition marshalRune :: "int \<Rightarrow> string" where
  "marshalRune r =
     (if r = 60 \<or> r = 62 \<or> r = 38 then CHR 0x5C # ''u00'' @ [hex_digit (r div 16), hex_digit (r mod 16)]
      else if r = 8232 \<or> r = 8233 then CHR 0x5C # ''u202'' @ [hex_digit (r mod 16)]
      else escapeRune r)"

definition marshalString :: "string \<Rightarrow> string" where
  "marshalString s = CHR 0x22 # concat (map marshalRune (runes s)) @ [CHR 0x22]"

fun marshal :: "json \<Rightarrow> string"
and marshalItems :: "json list \<Rightarrow> string list"
and marshalMembers :: "(string \<times> json) list \<Rightarrow> string list" where
  "marshal JNull = ''null''"
| "marshal (JBool b) = (if b then ''true'' else ''false'')"
| "marshal (JNum t) = t"
| "marshal (JStr s) = marshalString s"
| "marshal (JArr items) = ''['' @ joinWith '','' (marshalItems items) @ '']''"
| "marshal (JObj kvs) = ''{'' @ joinWith '','' (marshalMembers kvs) @ ''}''"
| "marshalItems [] = []"
| "marshalItems (v # vs) = marshal v # marshalItems vs"
| "marshalMembers [] = []"
| "marshalMembers ((k, v) # kvs) = (marshalString k @ '':'' @ marshal v) # marshalMembers kvs"

record quiescenceProof =
  qp_operationId :: string
  qp_nodeId :: string
  qp_epoch :: int
  qp_bindingGeneration :: int
  qp_scope :: scope
  qp_holdVersion :: int
  qp_scopeRevision :: int
  qp_stateVersion :: int
  qp_queueRevision :: int
  qp_parkedRequestIdsDigest :: string
  qp_checkpointStreamId :: string
  qp_checkpointSeq :: int

definition proofMembers :: "quiescenceProof \<Rightarrow> (string \<times> json) list" where
  "proofMembers p = [(''protocolVersion'', JInt 1), (''schemaId'', JStr BarrierSchemaID), (''kind'', JStr ''scope.parked''),
     (''operationId'', JStr (qp_operationId p)), (''nodeId'', JStr (qp_nodeId p)), (''epoch'', JInt (qp_epoch p)),
     (''bindingGeneration'', JInt (qp_bindingGeneration p)), (''scope'', scope_json (qp_scope p)),
     (''holdVersion'', JInt (qp_holdVersion p)), (''scopeRevision'', JInt (qp_scopeRevision p)),
     (''stateVersion'', JInt (qp_stateVersion p)), (''queueRevision'', JInt (qp_queueRevision p)),
     (''parkedRequestIdsDigest'', JStr (qp_parkedRequestIdsDigest p)), (''checkpointStreamId'', JStr (qp_checkpointStreamId p)),
     (''checkpointSeq'', JInt (qp_checkpointSeq p)), (''active'', JNull), (''effectStatus'', JStr ''known''),
     (''unsettledCount'', JInt 0)]"

definition ComputeProofHash :: "(string \<Rightarrow> string) \<Rightarrow> quiescenceProof \<Rightarrow> string" where
  "ComputeProofHash sha p = sha (''hl263-quiescence-proof/v1'' @ [CHR 0x00] @ marshal (JObj (proofMembers p)))"

definition quiescenceProof_json :: "(string \<Rightarrow> string) \<Rightarrow> quiescenceProof \<Rightarrow> json" where
  "quiescenceProof_json sha p = JObj (proofMembers p @ [(''proofHash'', JStr (ComputeProofHash sha p))])"

definition validQuiescenceProof :: "(string \<Rightarrow> string) \<Rightarrow> quiescenceProof \<Rightarrow> bool" where
  "validQuiescenceProof sha p \<longleftrightarrow> operationPattern (qp_operationId p) \<and> uuidPattern (qp_nodeId p) \<and>
     validPositiveInteger (qp_epoch p) \<and> validPositiveInteger (qp_bindingGeneration p) \<and> validScope (wire_of_scope (qp_scope p)) \<and>
     validPositiveInteger (qp_holdVersion p) \<and> validPositiveInteger (qp_scopeRevision p) \<and>
     validPositiveInteger (qp_stateVersion p) \<and> validPositiveInteger (qp_queueRevision p) \<and>
     sha256Pattern (qp_parkedRequestIdsDigest p) \<and> uuidPattern (qp_checkpointStreamId p) \<and>
     validPositiveInteger (qp_checkpointSeq p) \<and> sha256Pattern (ComputeProofHash sha p)"

definition parkedDigest :: "(string \<Rightarrow> string) \<Rightarrow> string list \<Rightarrow> string" where
  "parkedDigest sha ids = sha (''hl263-parked-requests/v1'' @ [CHR 0x00] @ marshal (JArr (map JStr ids)))"

section \<open>Logical deletion records\<close>

text \<open>The node side of \<open>internal/logicaldelete/types.go\<close>.\<close>

definition NodeSchemaID :: string where "NodeSchemaID = ''logical-dialog-node-delete-v1''"

record nodeRequest =
  nr_schemaId :: string
  nr_operationId :: string
  nr_coordinatorRequestHash :: string
  nr_commandId :: string
  nr_logicalDialogId :: string
  nr_nodeId :: string
  nr_nodeDialogId :: string
  nr_expectedEpoch :: int
  nr_registryVersion :: int
  nr_bindingVersion :: int
  nr_expectedDialogVersion :: int
  nr_holdVersion :: int
  nr_holdScopeRevision :: int

definition nodeRequest_json :: "nodeRequest \<Rightarrow> json" where
  "nodeRequest_json r = JObj [(''schemaId'', JStr (nr_schemaId r)), (''operationId'', JStr (nr_operationId r)),
     (''coordinatorRequestHash'', JStr (nr_coordinatorRequestHash r)), (''commandId'', JStr (nr_commandId r)),
     (''logicalDialogId'', JStr (nr_logicalDialogId r)), (''nodeId'', JStr (nr_nodeId r)), (''nodeDialogId'', JStr (nr_nodeDialogId r)),
     (''expectedEpoch'', JInt (nr_expectedEpoch r)), (''registryVersion'', JInt (nr_registryVersion r)),
     (''bindingVersion'', JInt (nr_bindingVersion r)), (''expectedDialogVersion'', JInt (nr_expectedDialogVersion r)),
     (''holdVersion'', JInt (nr_holdVersion r)), (''holdScopeRevision'', JInt (nr_holdScopeRevision r))]"

definition decodeNodeRequest :: "json \<Rightarrow> nodeRequest option" where
  "decodeNodeRequest v = (case v of
     JObj kvs \<Rightarrow>
       (if \<not> onlyFields [''schemaId'', ''operationId'', ''coordinatorRequestHash'', ''commandId'', ''logicalDialogId'', ''nodeId'',
            ''nodeDialogId'', ''expectedEpoch'', ''registryVersion'', ''bindingVersion'', ''expectedDialogVersion'', ''holdVersion'',
            ''holdScopeRevision''] kvs then None
        else (case (str_field kvs ''schemaId'', str_field kvs ''operationId'', str_field kvs ''coordinatorRequestHash'',
               str_field kvs ''commandId'', str_field kvs ''logicalDialogId'', str_field kvs ''nodeId'', str_field kvs ''nodeDialogId'') of
          (Some sid, Some oid, Some ch, Some cid, Some ld, Some nid, Some nd) \<Rightarrow>
            (case (int_field kvs ''expectedEpoch'', int_field kvs ''registryVersion'', int_field kvs ''bindingVersion'',
               int_field kvs ''expectedDialogVersion'', int_field kvs ''holdVersion'', int_field kvs ''holdScopeRevision'') of
              (Some ep, Some rg, Some bv, Some dv, Some hv, Some hs) \<Rightarrow>
                Some \<lparr>nr_schemaId = sid, nr_operationId = oid, nr_coordinatorRequestHash = ch, nr_commandId = cid, nr_logicalDialogId = ld,
                  nr_nodeId = nid, nr_nodeDialogId = nd, nr_expectedEpoch = ep, nr_registryVersion = rg, nr_bindingVersion = bv,
                  nr_expectedDialogVersion = dv, nr_holdVersion = hv, nr_holdScopeRevision = hs\<rparr>
            | _ \<Rightarrow> None)
        | _ \<Rightarrow> None))
   | _ \<Rightarrow> None)"

definition ValidateNodeRequest :: "nodeRequest \<Rightarrow> bool" where
  "ValidateNodeRequest r \<longleftrightarrow> nr_schemaId r = NodeSchemaID \<and> uuidPattern (nr_operationId r) \<and> sha256Pattern (nr_coordinatorRequestHash r) \<and>
     uuidPattern (nr_commandId r) \<and> uuidPattern (nr_logicalDialogId r) \<and> uuidPattern (nr_nodeId r) \<and> uuidPattern (nr_nodeDialogId r) \<and>
     validPositiveInteger (nr_expectedEpoch r) \<and> validPositiveInteger (nr_registryVersion r) \<and> validPositiveInteger (nr_bindingVersion r) \<and>
     1 \<le> nr_expectedDialogVersion r \<and> nr_expectedDialogVersion r < MaximumSafeInteger \<and> validPositiveInteger (nr_holdVersion r) \<and>
     validPositiveInteger (nr_holdScopeRevision r)"

definition NodeRequestHash :: "(string \<Rightarrow> string) \<Rightarrow> nodeRequest \<Rightarrow> string" where
  "NodeRequestHash sha r = sha (marshal (nodeRequest_json r))"

record nodeReceipt =
  nc_operationId :: string
  nc_nodeRequestHash :: string
  nc_coordinatorRequestHash :: string
  nc_receiptId :: string
  nc_commandId :: string
  nc_logicalDialogId :: string
  nc_nodeId :: string
  nc_nodeDialogId :: string
  nc_epoch :: int
  nc_registryVersion :: int
  nc_bindingVersion :: int
  nc_deletedDialogVersion :: int
  nc_holdVersion :: int
  nc_holdScopeRevision :: int
  nc_tombstoneEventSeq :: int
  nc_commandReceipt :: receipt
  nc_deletedAt :: string

definition nodeReceipt_json :: "nodeReceipt \<Rightarrow> json" where
  "nodeReceipt_json r = JObj [(''schemaId'', JStr NodeSchemaID), (''operationId'', JStr (nc_operationId r)),
     (''nodeRequestHash'', JStr (nc_nodeRequestHash r)), (''coordinatorRequestHash'', JStr (nc_coordinatorRequestHash r)),
     (''receiptId'', JStr (nc_receiptId r)), (''commandId'', JStr (nc_commandId r)), (''logicalDialogId'', JStr (nc_logicalDialogId r)),
     (''nodeId'', JStr (nc_nodeId r)), (''nodeDialogId'', JStr (nc_nodeDialogId r)), (''epoch'', JInt (nc_epoch r)),
     (''registryVersion'', JInt (nc_registryVersion r)), (''bindingVersion'', JInt (nc_bindingVersion r)),
     (''deletedDialogVersion'', JInt (nc_deletedDialogVersion r)), (''holdVersion'', JInt (nc_holdVersion r)),
     (''holdScopeRevision'', JInt (nc_holdScopeRevision r)), (''tombstoneEventSeq'', JInt (nc_tombstoneEventSeq r)),
     (''commandReceipt'', receipt_json (nc_commandReceipt r)), (''deletedAt'', JStr (nc_deletedAt r))]"

definition validCommandReceipt :: "nodeReceipt \<Rightarrow> bool" where
  "validCommandReceipt r = (let c = nc_commandReceipt r in Validate ''receipt'' (receipt_json c) \<and>
     rc_commandId c = nc_commandId r \<and> rc_commandKind c = DialogDelete \<and> rc_nodeId c = nc_nodeId r \<and>
     rc_eventSeq c = nc_tombstoneEventSeq r \<and> rc_result c = ''deleted'' \<and> rc_acceptedAt c = nc_deletedAt r \<and>
     jstring (rc_references c) ''dialogId'' = nc_nodeDialogId r)"

definition ValidateNodeReceipt :: "nodeReceipt \<Rightarrow> bool" where
  "ValidateNodeReceipt r \<longleftrightarrow> uuidPattern (nc_operationId r) \<and> sha256Pattern (nc_nodeRequestHash r) \<and>
     sha256Pattern (nc_coordinatorRequestHash r) \<and> uuidPattern (nc_receiptId r) \<and> uuidPattern (nc_commandId r) \<and>
     uuidPattern (nc_logicalDialogId r) \<and> uuidPattern (nc_nodeId r) \<and> uuidPattern (nc_nodeDialogId r) \<and>
     validPositiveInteger (nc_epoch r) \<and> validPositiveInteger (nc_registryVersion r) \<and> validPositiveInteger (nc_bindingVersion r) \<and>
     validPositiveInteger (nc_deletedDialogVersion r) \<and> validPositiveInteger (nc_holdVersion r) \<and>
     validPositiveInteger (nc_holdScopeRevision r) \<and> validPositiveInteger (nc_tombstoneEventSeq r) \<and>
     validCommandReceipt r \<and> timestamp_ok (nc_deletedAt r)"

end
