(* ===== verification/Ledger.thy ===== *)
theory Ledger
  imports Barrier
begin

text \<open>
  The durable ledger of one node: the tables of \<open>runtime/schema.go\<close> with the constraints
  and triggers the writes can run into, the singleton \<open>node_state\<close> (\<open>durableState\<close> of
  \<open>runtime/sql.go\<close>), one transaction over them, and the event append of
  \<open>runtime/events.go\<close>. A table is the list of its rows in rowid order. Columns that the
  runtime never reads or writes (\<open>engine_ref\<close>, \<open>engine_session_ref\<close>,
  \<open>policy_revision\<close>) are left out, stored JSON bytes are kept as the value they encode.
\<close>

section \<open>Status columns\<close>

datatype request_status =
    RQueued | RDispatching | RActive | RUnknown | RCancelled | RCompleted | RFailed | RInterrupted

fun request_status_str :: "request_status \<Rightarrow> string" where
  "request_status_str RQueued = ''queued''"
| "request_status_str RDispatching = ''dispatching''"
| "request_status_str RActive = ''active''"
| "request_status_str RUnknown = ''unknown''"
| "request_status_str RCancelled = ''cancelled''"
| "request_status_str RCompleted = ''completed''"
| "request_status_str RFailed = ''failed''"
| "request_status_str RInterrupted = ''interrupted''"

datatype attempt_state =
    ADispatching | ARunning | AWaitingInput | AStopping | AUnknown | ACompleted | AFailed | AInterrupted

fun attempt_state_str :: "attempt_state \<Rightarrow> string" where
  "attempt_state_str ADispatching = ''dispatching''"
| "attempt_state_str ARunning = ''running''"
| "attempt_state_str AWaitingInput = ''waiting_input''"
| "attempt_state_str AStopping = ''stopping''"
| "attempt_state_str AUnknown = ''unknown''"
| "attempt_state_str ACompleted = ''completed''"
| "attempt_state_str AFailed = ''failed''"
| "attempt_state_str AInterrupted = ''interrupted''"

text \<open>The partial index \<open>one_active_attempt\<close> covers these states.\<close>

definition holds_slot :: "attempt_state \<Rightarrow> bool" where
  "holds_slot a \<longleftrightarrow> a = ADispatching \<or> a = ARunning \<or> a = AWaitingInput \<or> a = AStopping \<or> a = AUnknown"

datatype disposition = DQueued | DSteerPending | DApplied | DCancelled | DUnknown

fun disposition_str :: "disposition \<Rightarrow> string" where
  "disposition_str DQueued = ''queued''"
| "disposition_str DSteerPending = ''steer_pending''"
| "disposition_str DApplied = ''applied''"
| "disposition_str DCancelled = ''cancelled''"
| "disposition_str DUnknown = ''unknown''"

datatype action_status = CPending | CInflight | CAcknowledged | CRejected | CUnknown

datatype response_status = SPending | SResponding | SResolved | SUnknown

fun response_status_str :: "response_status \<Rightarrow> string" where
  "response_status_str SPending = ''pending''"
| "response_status_str SResponding = ''responding''"
| "response_status_str SResolved = ''resolved''"
| "response_status_str SUnknown = ''unknown''"

section \<open>Rows\<close>

record dialogRow =
  dlg_id :: string
  dlg_node :: string
  dlg_owner :: string
  dlg_version :: int
  dlg_title :: "string option"
  dlg_created :: string

record messageRow =
  msg_id :: string
  msg_dialog :: string
  msg_sequence :: int
  msg_version :: int
  msg_role :: string
  msg_text :: "string option"
  msg_content :: "safeContent option"
  msg_disposition :: "disposition option"
  msg_command :: "string option"
  msg_request :: "string option"
  msg_attempt :: "string option"
  msg_finish :: "string option"
  msg_created :: string

record requestRow =
  req_id :: string
  req_dialog :: string
  req_message :: string
  req_sequence :: int
  req_version :: int
  req_status :: request_status
  req_created :: string
  req_updated :: string

record attemptRow =
  att_id :: string
  att_node :: string
  att_dialog :: string
  att_request :: string
  att_generation :: int
  att_version :: int
  att_state :: attempt_state
  att_effect :: string
  att_boundary :: string
  att_policy :: string
  att_started :: "string option"
  att_finished :: "string option"
  att_output :: int

record commandRow =
  cmd_id :: string
  cmd_actor :: string
  cmd_node :: string
  cmd_kind :: command_kind
  cmd_canonical :: json
  cmd_hash :: string
  cmd_receipt :: receipt
  cmd_accepted :: string
  cmd_seq :: int

record actionRow =
  act_command :: string
  act_kind :: string
  act_attempt :: string
  act_message :: "string option"
  act_actor :: "string option"
  act_payload :: json
  act_status :: action_status

record eventRow =
  evt_node :: string
  evt_seq :: int
  evt_epoch :: int
  evt_event :: eventEnvelope
  evt_attempt :: "string option"
  evt_dialog :: "string option"
  evt_key :: "string option"
  evt_hash :: "string option"
  evt_late :: bool
  evt_created :: string

record toolRow =
  tc_id :: string
  tc_attempt :: string
  tc_actionHash :: string
  tc_version :: int
  tc_status :: string
  tc_input :: safeContent
  tc_result :: "safeContent option"
  tc_effectRef :: "string option"

record approvalRow =
  app_id :: string
  app_attempt :: string
  app_call :: string
  app_actionHash :: string
  app_version :: int
  app_status :: response_status
  app_decision :: "string option"
  app_actor :: "string option"

record inputRow =
  inp_id :: string
  inp_attempt :: string
  inp_version :: int
  inp_status :: response_status
  inp_prompt :: safeContent
  inp_message :: "string option"

record artifactRow =
  art_id :: string
  art_dialog :: string
  art_attempt :: string
  art_call :: "string option"
  art_name :: string
  art_media :: string
  art_size :: int
  art_sha256 :: string
  art_redaction :: string
  art_truncated :: bool
  art_disposition :: string
  art_relative :: string

record lateRow =
  late_attempt :: string
  late_generation :: int
  late_kind :: string
  late_json :: json
  late_seq :: int
  late_observed :: string
  late_key :: "string option"
  late_hash :: "string option"
  late_output :: int

record policyRow =
  pol_effectiveHash :: string
  pol_revision :: string
  pol_content :: string
  pol_contentHash :: string
  pol_tools :: string
  pol_toolsHash :: string
  pol_approvalMode :: string

record holdRow =
  hold_operation :: string
  hold_node :: string
  hold_epoch :: int
  hold_binding :: int
  hold_scope :: scope
  hold_version :: int
  hold_revision :: int
  hold_canonical :: json
  hold_hash :: string
  hold_receipt :: holdReceipt
  hold_installed :: string

record holdOutcomeRow =
  hout_operation :: string
  hout_action :: string
  hout_canonical :: json
  hout_hash :: string
  hout_receipt :: releaseReceipt
  hout_revision :: int
  hout_released :: string

record rejectionRow =
  rej_id :: string
  rej_actor :: string
  rej_node :: string
  rej_kind :: command_kind
  rej_canonical :: json
  rej_hash :: string
  rej_receipt :: rejectionReceipt
  rej_status :: int
  rej_at :: string
  rej_hold :: string

record scopeRevisionRow =
  qs_key :: string
  qs_state :: int
  qs_queue :: int

record logicalDeleteRow =
  ldr_operation :: string
  ldr_hash :: string
  ldr_coordinatorHash :: string
  ldr_command :: string
  ldr_logicalDialog :: string
  ldr_dialog :: string
  ldr_bindingVersion :: int
  ldr_holdVersion :: int
  ldr_holdRevision :: int
  ldr_receipt :: nodeReceipt
  ldr_deleted :: string

record durableState =
  NodeID :: string
  OwnerID :: string
  RegistryVersion :: int
  Epoch :: int
  StateVersion :: int
  LastEventSeq :: int
  QueueVersion :: int
  QueuePaused :: bool
  TransportAvailability :: string
  EngineReadiness :: string
  Occupancy :: string
  ActiveAttemptID :: "string option"
  PendingCount :: int
  BlockedReasons :: "string list"
  NextQueueSequence :: int
  NextMessageSequence :: int

record db =
  node_state :: durableState
  dialogs :: "dialogRow list"
  messages :: "messageRow list"
  requests :: "requestRow list"
  attempts :: "attemptRow list"
  commands :: "commandRow list"
  control_actions :: "actionRow list"
  events :: "eventRow list"
  tool_calls :: "toolRow list"
  approvals :: "approvalRow list"
  input_requests :: "inputRow list"
  artifacts :: "artifactRow list"
  late_observations :: "lateRow list"
  policy_snapshots :: "policyRow list"
  hold_clock :: int
  hold_scope_revisions :: "(string \<times> int) list"
  administrative_holds :: "holdRow list"
  hold_outcomes :: "holdOutcomeRow list"
  command_rejections :: "rejectionRow list"
  scope_revisions :: "scopeRevisionRow list"
  logical_deletes :: "logicalDeleteRow list"

section \<open>Environment and transaction\<close>

text \<open>
  What one call meets outside the ledger: the node configuration, \<open>crypto/sha256\<close> with hex
  encoding (\<open>env_sha\<close>), the readings of the clock and of the id source in the order they
  are taken (\<open>None\<close> is a \<open>NewID\<close> error), the space probes, whether the control reserve can
  be released, and whether \<open>BEGIN\<close>, the fault points and \<open>COMMIT\<close> succeed. \<open>env_correlation\<close> is
  the id drawn for an error body that has no correlation yet. \<open>env_files\<close> is the artifact directory
  when the call starts (a file that exists but may not be read, or the wrong owner or mode, is
  \<open>FileUnsafe\<close>) and \<open>env_publish\<close> says which new files can be written and synced.
\<close>

datatype artifactFile = FileBytes string | FileUnsafe

record env =
  env_nodeID :: string
  env_ownerID :: string
  env_adapterKind :: string
  env_adapterVersion :: string
  env_sha :: "string \<Rightarrow> string"
  env_clock :: "nat \<Rightarrow> string"
  env_ids :: "nat \<Rightarrow> string option"
  env_correlation :: string
  env_space :: "(64 word \<times> 64 word) option"
  env_physical :: "(64 word \<times> 64 word) option"
  env_files :: "string \<Rightarrow> artifactFile option"
  env_publish :: "string \<Rightarrow> bool"
  env_reserve :: bool
  env_beginOk :: bool
  env_faultBefore :: bool
  env_commitOk :: bool
  env_faultAfter :: bool

text \<open>
  A transaction works on its own copy of the ledger and on the in-flight \<open>durableState\<close> that
  \<open>saveState\<close> writes back; a rollback drops both. \<open>tx_created\<close> lists the artifact files the call has
  published so far, with their bytes.
\<close>

record txn =
  tx_db :: db
  tx_state :: durableState
  tx_ticks :: nat
  tx_ids :: nat
  tx_created :: "(string \<times> string) list"

type_synonym 'a tx = "(txn, 'a) comp"

definition beginTx :: "db \<Rightarrow> txn" where
  "beginTx d = \<lparr>tx_db = d, tx_state = node_state d, tx_ticks = 0, tx_ids = 0, tx_created = []\<rparr>"

lemma tx_db_beginTx [simp]: "tx_db (beginTx d) = d"
  by (simp add: beginTx_def)

lemma tx_state_beginTx [simp]: "tx_state (beginTx d) = node_state d"
  by (simp add: beginTx_def)

definition readDb :: "(db \<Rightarrow> 'a) \<Rightarrow> 'a tx" where
  "readDb f = (\<lambda>t. Inr (f (tx_db t), t))"

definition writeDb :: "(db \<Rightarrow> db) \<Rightarrow> unit tx" where
  "writeDb f = (\<lambda>t. Inr ((), t\<lparr>tx_db := f (tx_db t)\<rparr>))"

definition readState :: "(durableState \<Rightarrow> 'a) \<Rightarrow> 'a tx" where
  "readState f = (\<lambda>t. Inr (f (tx_state t), t))"

definition writeState :: "(durableState \<Rightarrow> durableState) \<Rightarrow> unit tx" where
  "writeState f = (\<lambda>t. Inr ((), t\<lparr>tx_state := f (tx_state t)\<rparr>))"

definition timestamp :: "env \<Rightarrow> string tx" where
  "timestamp E = (\<lambda>t. Inr (env_clock E (tx_ticks t), t\<lparr>tx_ticks := Suc (tx_ticks t)\<rparr>))"

definition newID :: "env \<Rightarrow> string tx" where
  "newID E = (\<lambda>t. case env_ids E (tx_ids t) of
     None \<Rightarrow> Inl (RawError ''id source failed'')
   | Some i \<Rightarrow> Inr (i, t\<lparr>tx_ids := Suc (tx_ids t)\<rparr>))"

definition constraintM :: "(db \<Rightarrow> bool) \<Rightarrow> unit tx" where
  "constraintM P = (\<lambda>t. if P (tx_db t) then Inr ((), t) else Inl (RawError ''constraint failed''))"

lemma readDb_Inr [simp]: "readDb f t = Inr (y, t') \<longleftrightarrow> y = f (tx_db t) \<and> t' = t"
  by (auto simp: readDb_def)

lemma writeDb_Inr [simp]: "writeDb f t = Inr (y, t') \<longleftrightarrow> t' = t\<lparr>tx_db := f (tx_db t)\<rparr>"
  by (auto simp: writeDb_def)

lemma readState_Inr [simp]: "readState f t = Inr (y, t') \<longleftrightarrow> y = f (tx_state t) \<and> t' = t"
  by (auto simp: readState_def)

lemma writeState_Inr [simp]: "writeState f t = Inr (y, t') \<longleftrightarrow> t' = t\<lparr>tx_state := f (tx_state t)\<rparr>"
  by (auto simp: writeState_def)

lemma timestamp_Inr [simp]:
  "timestamp E t = Inr (y, t') \<longleftrightarrow> y = env_clock E (tx_ticks t) \<and> t' = t\<lparr>tx_ticks := Suc (tx_ticks t)\<rparr>"
  by (auto simp: timestamp_def)

lemma newID_Inr [simp]:
  "newID E t = Inr (y, t') \<longleftrightarrow> env_ids E (tx_ids t) = Some y \<and> t' = t\<lparr>tx_ids := Suc (tx_ids t)\<rparr>"
  by (auto simp: newID_def split: option.splits)

lemma constraintM_Inr [simp]: "constraintM P t = Inr (y, t') \<longleftrightarrow> P (tx_db t) \<and> t' = t"
  by (auto simp: constraintM_def)

section \<open>Quiescence triggers\<close>

definition bumpRow :: "bool \<Rightarrow> scopeRevisionRow \<Rightarrow> scopeRevisionRow" where
  "bumpRow queue r = r\<lparr>qs_state := qs_state r + 1, qs_queue := (if queue then qs_queue r + 1 else qs_queue r)\<rparr>"

definition scopes_in_range :: "db \<Rightarrow> bool" where
  "scopes_in_range d \<longleftrightarrow> list_all (\<lambda>r. 1 \<le> qs_state r \<and> qs_state r \<le> MaximumSafeInteger \<and>
     1 \<le> qs_queue r \<and> qs_queue r \<le> MaximumSafeInteger) (scope_revisions d)"

text \<open>
  \<open>UPDATE quiescence_scope_revisions SET state_version=state_version+1[,queue_revision=...]\<close>
  for the rows selected by \<open>P\<close>; the column checks bound both counters.
\<close>

definition bumpScopes :: "bool \<Rightarrow> (db \<Rightarrow> string \<Rightarrow> bool) \<Rightarrow> unit tx" where
  "bumpScopes queue P = seqM
     [writeDb (\<lambda>d. d\<lparr>scope_revisions := map (\<lambda>r. if P d (qs_key r) then bumpRow queue r else r) (scope_revisions d)\<rparr>),
      constraintM scopes_in_range]"

definition node_or_dialog :: "string option \<Rightarrow> db \<Rightarrow> string \<Rightarrow> bool" where
  "node_or_dialog dlg d k \<longleftrightarrow> k = ''node'' \<or> (case dlg of None \<Rightarrow> False | Some x \<Rightarrow> k = dialogKey x)"

definition attemptDialog :: "db \<Rightarrow> string \<Rightarrow> string option" where
  "attemptDialog d a = map_option att_dialog (sel att_id a (attempts d))"

definition node_or_attempt :: "string \<Rightarrow> db \<Rightarrow> string \<Rightarrow> bool" where
  "node_or_attempt a d k = node_or_dialog (attemptDialog d a) d k"

section \<open>A new ledger\<close>

text \<open>What \<open>migrate\<close> writes into an empty database, and the identity check that every start makes.\<close>

definition initialState :: "string \<Rightarrow> string \<Rightarrow> int \<Rightarrow> durableState" where
  "initialState node owner registry = \<lparr>NodeID = node, OwnerID = owner, RegistryVersion = registry, Epoch = 1, StateVersion = 0,
     LastEventSeq = 0, QueueVersion = 0, QueuePaused = False, TransportAvailability = ''online'', EngineReadiness = ''blocked'',
     Occupancy = ''idle'', ActiveAttemptID = None, PendingCount = 0, BlockedReasons = [''policy_unavailable''],
     NextQueueSequence = 1, NextMessageSequence = 1\<rparr>"

definition initialLedger :: "string \<Rightarrow> string \<Rightarrow> int \<Rightarrow> db" where
  "initialLedger node owner registry = \<lparr>node_state = initialState node owner registry, dialogs = [], messages = [], requests = [],
     attempts = [], commands = [], control_actions = [], events = [], tool_calls = [], approvals = [], input_requests = [],
     artifacts = [], late_observations = [], policy_snapshots = [], hold_clock = 1, hold_scope_revisions = [],
     administrative_holds = [], hold_outcomes = [], command_rejections = [],
     scope_revisions = [\<lparr>qs_key = ''node'', qs_state = 1, qs_queue = 1\<rparr>], logical_deletes = []\<rparr>"

definition verifyIdentity :: "env \<Rightarrow> int \<Rightarrow> db \<Rightarrow> bool" where
  "verifyIdentity E registry d \<longleftrightarrow> NodeID (node_state d) = env_nodeID E \<and> OwnerID (node_state d) = env_ownerID E \<and>
     RegistryVersion (node_state d) = registry"

end
