(* ===== verification/Statements.thy ===== *)
theory Statements
  imports Ledger "HOL-Library.AList"
begin

text \<open>
  The SQL statements the runtime issues, one definition per \<open>INSERT\<close> or \<open>UPDATE\<close> shape, each
  with the primary keys, unique indexes, foreign keys and column checks of
  \<open>runtime/schema.go\<close> as failing branches and with the quiescence triggers it fires; then
  \<open>saveState\<close> (\<open>runtime/sql.go\<close>) and the event append of \<open>runtime/events.go\<close>. Each statement
  has a \<open>D\<close> lemma that inverts a successful run.
\<close>

named_theorems stmtD \<open>inversion of successful statements\<close>

section \<open>Dialogs, messages, requests\<close>

definition has_key :: "('r \<Rightarrow> 'k) \<Rightarrow> 'k \<Rightarrow> 'r list \<Rightarrow> bool" where
  "has_key key k tbl \<longleftrightarrow> sel key k tbl \<noteq> None"

definition insertDialog :: "dialogRow \<Rightarrow> unit tx" where
  "insertDialog r = seqM
     [constraintM (\<lambda>d. \<not> has_key dlg_id (dlg_id r) (dialogs d)),
      writeDb (\<lambda>d. d\<lparr>dialogs := dialogs d @ [r]\<rparr>),
      constraintM (\<lambda>d. \<not> has_key qs_key (dialogKey (dlg_id r)) (scope_revisions d)),
      writeDb (\<lambda>d. d\<lparr>scope_revisions := scope_revisions d @
        [\<lparr>qs_key = dialogKey (dlg_id r), qs_state = 1, qs_queue = 1\<rparr>]\<rparr>),
      bumpScopes False (\<lambda>d k. k = ''node'')]"

definition updateDialog :: "string \<Rightarrow> (dialogRow \<Rightarrow> dialogRow) \<Rightarrow> unit tx" where
  "updateDialog k f = writeDb (\<lambda>d. d\<lparr>dialogs := upd dlg_id k f (dialogs d)\<rparr>)"

definition insertMessage :: "messageRow \<Rightarrow> unit tx" where
  "insertMessage r = seqM
     [constraintM (\<lambda>d. \<not> has_key msg_id (msg_id r) (messages d) \<and> has_key dlg_id (msg_dialog r) (dialogs d) \<and>
        \<not> list_ex (\<lambda>m. msg_dialog m = msg_dialog r \<and> msg_sequence m = msg_sequence r) (messages d)),
      writeDb (\<lambda>d. d\<lparr>messages := messages d @ [r]\<rparr>)]"

definition updateMessage :: "string \<Rightarrow> (messageRow \<Rightarrow> messageRow) \<Rightarrow> unit tx" where
  "updateMessage k f = writeDb (\<lambda>d. d\<lparr>messages := upd msg_id k f (messages d)\<rparr>)"

definition insertRequest :: "requestRow \<Rightarrow> unit tx" where
  "insertRequest r = seqM
     [constraintM (\<lambda>d. \<not> has_key req_id (req_id r) (requests d) \<and> has_key dlg_id (req_dialog r) (dialogs d) \<and>
        has_key msg_id (req_message r) (messages d) \<and> \<not> has_key req_sequence (req_sequence r) (requests d)),
      writeDb (\<lambda>d. d\<lparr>requests := requests d @ [r]\<rparr>),
      bumpScopes True (node_or_dialog (Some (req_dialog r)))]"

text \<open>The update trigger fires for a row whose status, sequence or version changed.\<close>

definition request_changed :: "requestRow \<Rightarrow> requestRow \<Rightarrow> bool" where
  "request_changed old new \<longleftrightarrow> req_status old \<noteq> req_status new \<or> req_sequence old \<noteq> req_sequence new \<or>
     req_version old \<noteq> req_version new"

definition updateRequest :: "string \<Rightarrow> (requestRow \<Rightarrow> requestRow) \<Rightarrow> unit tx" where
  "updateRequest k f = bindM (readDb (\<lambda>d. sel req_id k (requests d))) (\<lambda>old. case old of
     None \<Rightarrow> returnM ()
   | Some r \<Rightarrow> seqM
       [writeDb (\<lambda>d. d\<lparr>requests := upd req_id k f (requests d)\<rparr>),
        if request_changed r (f r) then bumpScopes True (node_or_dialog (Some (req_dialog (f r)))) else returnM ()])"

section \<open>Attempts\<close>

definition one_active_attempt :: "db \<Rightarrow> bool" where
  "one_active_attempt d \<longleftrightarrow> distinct (map att_node (filter (\<lambda>a. holds_slot (att_state a)) (attempts d)))"

definition insertAttempt :: "attemptRow \<Rightarrow> unit tx" where
  "insertAttempt r = seqM
     [constraintM (\<lambda>d. \<not> has_key att_id (att_id r) (attempts d) \<and> has_key dlg_id (att_dialog r) (dialogs d) \<and>
        has_key req_id (att_request r) (requests d) \<and> 0 \<le> att_output r \<and>
        \<not> list_ex (\<lambda>a. att_request a = att_request r \<and> att_generation a = att_generation r) (attempts d)),
      writeDb (\<lambda>d. d\<lparr>attempts := attempts d @ [r]\<rparr>),
      constraintM one_active_attempt,
      bumpScopes False (node_or_dialog (Some (att_dialog r)))]"

definition updateAttempt :: "string \<Rightarrow> (attemptRow \<Rightarrow> attemptRow) \<Rightarrow> unit tx" where
  "updateAttempt k f = bindM (readDb (\<lambda>d. sel att_id k (attempts d))) (\<lambda>old. case old of
     None \<Rightarrow> returnM ()
   | Some r \<Rightarrow> seqM
       [writeDb (\<lambda>d. d\<lparr>attempts := upd att_id k f (attempts d)\<rparr>),
        constraintM one_active_attempt,
        constraintM (\<lambda>d. 0 \<le> att_output (f r)),
        bumpScopes False (node_or_dialog (Some (att_dialog (f r))))])"

section \<open>Controls, tools, approvals, inputs\<close>

definition insertAction :: "actionRow \<Rightarrow> unit tx" where
  "insertAction r = seqM
     [constraintM (\<lambda>d. \<not> has_key act_command (act_command r) (control_actions d)),
      writeDb (\<lambda>d. d\<lparr>control_actions := control_actions d @ [r]\<rparr>),
      bumpScopes False (node_or_attempt (act_attempt r))]"

text \<open>\<open>UPDATE control_actions SET status=? WHERE ...\<close>: the trigger runs once per affected row.\<close>

definition updateActions :: "(actionRow \<Rightarrow> bool) \<Rightarrow> action_status \<Rightarrow> unit tx" where
  "updateActions P st = bindM (readDb (\<lambda>d. filter P (control_actions d))) (\<lambda>rows. seqM
     (writeDb (\<lambda>d. d\<lparr>control_actions := map (\<lambda>a. if P a then a\<lparr>act_status := st\<rparr> else a) (control_actions d)\<rparr>)
      # map (\<lambda>a. bumpScopes False (node_or_attempt (act_attempt a))) rows))"

definition insertTool :: "toolRow \<Rightarrow> unit tx" where
  "insertTool r = seqM
     [constraintM (\<lambda>d. \<not> has_key tc_id (tc_id r) (tool_calls d) \<and> has_key att_id (tc_attempt r) (attempts d)),
      writeDb (\<lambda>d. d\<lparr>tool_calls := tool_calls d @ [r]\<rparr>),
      bumpScopes False (node_or_attempt (tc_attempt r))]"

definition updateTool :: "string \<Rightarrow> (toolRow \<Rightarrow> toolRow) \<Rightarrow> unit tx" where
  "updateTool k f = bindM (readDb (\<lambda>d. sel tc_id k (tool_calls d))) (\<lambda>old. case old of
     None \<Rightarrow> returnM ()
   | Some r \<Rightarrow> seqM
       [writeDb (\<lambda>d. d\<lparr>tool_calls := upd tc_id k f (tool_calls d)\<rparr>),
        bumpScopes False (node_or_attempt (tc_attempt (f r)))])"

definition insertApproval :: "approvalRow \<Rightarrow> unit tx" where
  "insertApproval r = seqM
     [constraintM (\<lambda>d. \<not> has_key app_id (app_id r) (approvals d) \<and> has_key att_id (app_attempt r) (attempts d)),
      writeDb (\<lambda>d. d\<lparr>approvals := approvals d @ [r]\<rparr>),
      bumpScopes False (node_or_attempt (app_attempt r))]"

text \<open>An update by primary key with a further condition \<open>P\<close> on the row.\<close>

definition updateApproval :: "string \<Rightarrow> (approvalRow \<Rightarrow> bool) \<Rightarrow> (approvalRow \<Rightarrow> approvalRow) \<Rightarrow> unit tx" where
  "updateApproval k P f = bindM (readDb (\<lambda>d. filter (\<lambda>r. app_id r = k \<and> P r) (approvals d))) (\<lambda>rows. seqM
     (writeDb (\<lambda>d. d\<lparr>approvals := map (\<lambda>r. if app_id r = k \<and> P r then f r else r) (approvals d)\<rparr>)
      # map (\<lambda>r. bumpScopes False (node_or_attempt (app_attempt r))) rows))"

definition insertInput :: "inputRow \<Rightarrow> unit tx" where
  "insertInput r = seqM
     [constraintM (\<lambda>d. \<not> has_key inp_id (inp_id r) (input_requests d) \<and> has_key att_id (inp_attempt r) (attempts d)),
      writeDb (\<lambda>d. d\<lparr>input_requests := input_requests d @ [r]\<rparr>),
      bumpScopes False (node_or_attempt (inp_attempt r))]"

definition updateInput :: "string \<Rightarrow> (inputRow \<Rightarrow> bool) \<Rightarrow> (inputRow \<Rightarrow> inputRow) \<Rightarrow> unit tx" where
  "updateInput k P f = bindM (readDb (\<lambda>d. filter (\<lambda>r. inp_id r = k \<and> P r) (input_requests d))) (\<lambda>rows. seqM
     (writeDb (\<lambda>d. d\<lparr>input_requests := map (\<lambda>r. if inp_id r = k \<and> P r then f r else r) (input_requests d)\<rparr>)
      # map (\<lambda>r. bumpScopes False (node_or_attempt (inp_attempt r))) rows))"

section \<open>Artifacts\<close>

definition insertArtifact :: "artifactRow \<Rightarrow> unit tx" where
  "insertArtifact r = seqM
     [constraintM (\<lambda>d. \<not> has_key art_id (art_id r) (artifacts d) \<and> has_key dlg_id (art_dialog r) (dialogs d) \<and>
        has_key att_id (art_attempt r) (attempts d) \<and> \<not> has_key art_relative (art_relative r) (artifacts d)),
      writeDb (\<lambda>d. d\<lparr>artifacts := artifacts d @ [r]\<rparr>)]"

text \<open>\<open>UPDATE artifacts SET call_id=?,truncated=? WHERE ...\<close> with the number of rows it changed.\<close>

definition updateArtifacts :: "(artifactRow \<Rightarrow> bool) \<Rightarrow> string option \<Rightarrow> bool \<Rightarrow> int tx" where
  "updateArtifacts P c trunc = bindM (readDb (\<lambda>d. count_rows P (artifacts d))) (\<lambda>n.
     bindM (writeDb (\<lambda>d. d\<lparr>artifacts := map (\<lambda>r. if P r then r\<lparr>art_call := c, art_truncated := trunc\<rparr> else r) (artifacts d)\<rparr>))
       (\<lambda>_. returnM n))"

text \<open>A new file in the artifact directory.\<close>

definition createFile :: "string \<Rightarrow> string \<Rightarrow> unit tx" where
  "createFile k content = (\<lambda>t. Inr ((), t\<lparr>tx_created := tx_created t @ [(k, content)]\<rparr>))"

definition fileAt :: "env \<Rightarrow> string \<Rightarrow> artifactFile option tx" where
  "fileAt E k = (\<lambda>t. Inr (case map_of (tx_created t) k of Some b \<Rightarrow> Some (FileBytes b) | None \<Rightarrow> env_files E k, t))"

section \<open>Events, late observations, policies\<close>

definition insertEvent :: "eventRow \<Rightarrow> unit tx" where
  "insertEvent r = seqM
     [constraintM (\<lambda>d. \<not> list_ex (\<lambda>e. evt_node e = evt_node r \<and> evt_seq e = evt_seq r) (events d)),
      writeDb (\<lambda>d. d\<lparr>events := events d @ [r]\<rparr>),
      bumpScopes False (node_or_dialog (evt_dialog r))]"

text \<open>
  Binding a projection key to an event that has none; \<open>one_event_projection\<close> is unique over
  (attempt, key), and SQLite keeps null attempts distinct. The result is the number of rows
  changed.
\<close>

definition one_event_projection :: "db \<Rightarrow> bool" where
  "one_event_projection d \<longleftrightarrow> distinct (map (\<lambda>e. (evt_attempt e, evt_key e))
     (filter (\<lambda>e. evt_attempt e \<noteq> None \<and> evt_key e \<noteq> None) (events d)))"

definition bindEvent :: "(eventRow \<Rightarrow> bool) \<Rightarrow> string \<Rightarrow> string option \<Rightarrow> int tx" where
  "bindEvent P k h = bindM (readDb (\<lambda>d. int (length (filter (\<lambda>e. P e \<and> evt_key e = None) (events d))))) (\<lambda>n.
     bindM (seqM
       [writeDb (\<lambda>d. d\<lparr>events := map (\<lambda>e. if P e \<and> evt_key e = None then e\<lparr>evt_key := Some k, evt_hash := h\<rparr> else e) (events d)\<rparr>),
        constraintM one_event_projection]) (\<lambda>_. returnM n))"

definition insertLate :: "lateRow \<Rightarrow> unit tx" where
  "insertLate r = seqM
     [constraintM (\<lambda>d. 0 \<le> late_output r \<and>
        \<not> list_ex (\<lambda>l. late_attempt l = late_attempt r \<and> late_key l \<noteq> None \<and> late_key l = late_key r) (late_observations d)),
      writeDb (\<lambda>d. d\<lparr>late_observations := late_observations d @ [r]\<rparr>)]"

text \<open>\<open>INSERT ... ON CONFLICT(effective_hash) DO NOTHING\<close>.\<close>

definition insertPolicy :: "policyRow \<Rightarrow> unit tx" where
  "insertPolicy r = writeDb (\<lambda>d. if has_key pol_effectiveHash (pol_effectiveHash r) (policy_snapshots d) then d
     else d\<lparr>policy_snapshots := policy_snapshots d @ [r]\<rparr>)"

section \<open>Outcomes, holds, deletions\<close>

definition insertCommand :: "commandRow \<Rightarrow> unit tx" where
  "insertCommand r = seqM
     [constraintM (\<lambda>d. \<not> has_key cmd_id (cmd_id r) (commands d)),
      writeDb (\<lambda>d. d\<lparr>commands := commands d @ [r]\<rparr>)]"

definition insertRejection :: "rejectionRow \<Rightarrow> unit tx" where
  "insertRejection r = seqM
     [constraintM (\<lambda>d. \<not> has_key rej_id (rej_id r) (command_rejections d) \<and> rej_status r = 409 \<and>
        has_key hold_operation (rej_hold r) (administrative_holds d)),
      writeDb (\<lambda>d. d\<lparr>command_rejections := command_rejections d @ [r]\<rparr>)]"

fun scopeDialog :: "scope \<Rightarrow> string option" where
  "scopeDialog NodeScope = None"
| "scopeDialog (DialogScope d) = Some d"

definition insertHold :: "holdRow \<Rightarrow> unit tx" where
  "insertHold r = seqM
     [constraintM (\<lambda>d. \<not> has_key hold_operation (hold_operation r) (administrative_holds d) \<and>
        \<not> has_key hold_version (hold_version r) (administrative_holds d) \<and>
        (case scopeDialog (hold_scope r) of None \<Rightarrow> True | Some x \<Rightarrow> has_key dlg_id x (dialogs d))),
      writeDb (\<lambda>d. d\<lparr>administrative_holds := administrative_holds d @ [r]\<rparr>),
      bumpScopes False (node_or_dialog (scopeDialog (hold_scope r)))]"

definition holdDialog :: "db \<Rightarrow> string \<Rightarrow> string option" where
  "holdDialog d k = (case sel hold_operation k (administrative_holds d) of
     None \<Rightarrow> None | Some h \<Rightarrow> scopeDialog (hold_scope h))"

definition insertHoldOutcome :: "holdOutcomeRow \<Rightarrow> unit tx" where
  "insertHoldOutcome r = seqM
     [constraintM (\<lambda>d. \<not> has_key hout_operation (hout_operation r) (hold_outcomes d) \<and>
        has_key hold_operation (hout_operation r) (administrative_holds d) \<and>
        (hout_action r = ''release'' \<or> hout_action r = ''cancel'') \<and>
        1 \<le> hout_revision r \<and> hout_revision r \<le> MaximumSafeInteger),
      writeDb (\<lambda>d. d\<lparr>hold_outcomes := hold_outcomes d @ [r]\<rparr>),
      bumpScopes False (\<lambda>d k. node_or_dialog (holdDialog d (hout_operation r)) d k)]"

definition insertLogicalDelete :: "logicalDeleteRow \<Rightarrow> unit tx" where
  "insertLogicalDelete r = seqM
     [constraintM (\<lambda>d. \<not> has_key ldr_operation (ldr_operation r) (logical_deletes d) \<and>
        \<not> has_key ldr_command (ldr_command r) (logical_deletes d) \<and>
        0 < ldr_bindingVersion r \<and> 0 < ldr_holdVersion r \<and> 0 < ldr_holdRevision r),
      writeDb (\<lambda>d. d\<lparr>logical_deletes := logical_deletes d @ [r]\<rparr>)]"

text \<open>\<open>UPDATE hold_clock SET next_version=next_version+1 WHERE singleton=1 AND next_version=?\<close>.\<close>

definition advanceHoldClock :: "int \<Rightarrow> unit tx" where
  "advanceHoldClock v = writeDb (\<lambda>d. if hold_clock d = v then d\<lparr>hold_clock := v + 1\<rparr> else d)"

definition scopeRevision :: "db \<Rightarrow> string \<Rightarrow> int option" where
  "scopeRevision d k = map_of (hold_scope_revisions d) k"

definition putScopeRevision :: "string \<Rightarrow> int \<Rightarrow> unit tx" where
  "putScopeRevision k v = seqM
     [constraintM (\<lambda>d. 0 < v),
      writeDb (\<lambda>d. d\<lparr>hold_scope_revisions := AList.update k v (hold_scope_revisions d)\<rparr>)]"

text \<open>\<open>UPDATE hold_scope_revisions SET revision=? WHERE scope_key=? AND revision=?\<close>.\<close>

definition casScopeRevision :: "string \<Rightarrow> int \<Rightarrow> int \<Rightarrow> unit tx" where
  "casScopeRevision k old v = bindM (readDb (\<lambda>d. scopeRevision d k)) (\<lambda>cur.
     if cur = Some old then putScopeRevision k v else returnM ())"

section \<open>State and events\<close>

definition saveState :: "unit tx" where
  "saveState = bindM (readState id) (\<lambda>s. bindM (readDb node_state) (\<lambda>old. seqM
     [writeDb (\<lambda>d. d\<lparr>node_state := old\<lparr>Epoch := Epoch s, StateVersion := StateVersion s, LastEventSeq := LastEventSeq s,
        QueueVersion := QueueVersion s, QueuePaused := QueuePaused s, TransportAvailability := TransportAvailability s,
        EngineReadiness := EngineReadiness s, Occupancy := Occupancy s, ActiveAttemptID := ActiveAttemptID s,
        PendingCount := PendingCount s, BlockedReasons := BlockedReasons s,
        NextQueueSequence := NextQueueSequence s, NextMessageSequence := NextMessageSequence s\<rparr>\<rparr>),
      if Epoch old \<noteq> Epoch s then bumpScopes False (\<lambda>d k. True) else returnM (),
      if QueuePaused old \<noteq> QueuePaused s then bumpScopes True (\<lambda>d k. True) else returnM ()]))"

definition nullText :: "string \<Rightarrow> string option" where
  "nullText s = (if s = '''' then None else Some s)"

definition appendEvent :: "env \<Rightarrow> string \<Rightarrow> int \<Rightarrow> string \<Rightarrow> string \<Rightarrow> payload \<Rightarrow> bool \<Rightarrow> unit tx" where
  "appendEvent E entityID entityVersion attemptID dialogID pl late =
     bindM (writeState (\<lambda>s. s\<lparr>LastEventSeq := LastEventSeq s + 1\<rparr>)) (\<lambda>_.
     bindM (timestamp E) (\<lambda>now.
     bindM (readState (\<lambda>s. \<lparr>ev_nodeId = NodeID s, ev_seq = LastEventSeq s, ev_epoch = Epoch s, ev_entityId = entityID,
       ev_entityVersion = entityVersion, ev_attemptId = attemptID, ev_dialogId = dialogID, ev_observedAt = now,
       ev_payload = pl\<rparr>)) (\<lambda>e.
     seqM
      [guardM (Validate ''event'' (event_json e)) (RawError ''internal event is invalid''),
       insertEvent \<lparr>evt_node = ev_nodeId e, evt_seq = ev_seq e, evt_epoch = ev_epoch e, evt_event = e,
         evt_attempt = nullText attemptID, evt_dialog = nullText dialogID, evt_key = None, evt_hash = None,
         evt_late = late, evt_created = now\<rparr>])))"

definition nodePayload :: "durableState \<Rightarrow> nodeState" where
  "nodePayload s = \<lparr>ns_transportAvailability = TransportAvailability s, ns_engineReadiness = EngineReadiness s,
     ns_occupancy = Occupancy s, ns_queuePaused = QueuePaused s, ns_queueVersion = QueueVersion s,
     ns_pendingCount = PendingCount s, ns_blockedReasons = BlockedReasons s, ns_activeAttemptId = ActiveAttemptID s\<rparr>"

definition appendNodeEvent :: "env \<Rightarrow> unit tx" where
  "appendNodeEvent E = bindM (readState id) (\<lambda>s.
     appendEvent E (NodeID s) (StateVersion s) '''' '''' (PNodeState (nodePayload s)) False)"

definition appendQueueEvent :: "env \<Rightarrow> unit tx" where
  "appendQueueEvent E = bindM (readState id) (\<lambda>s.
     appendEvent E (NodeID s) (QueueVersion s) '''' ''''
       (PQueueChanged (QueueVersion s) (PendingCount s) (ActiveAttemptID s) (QueuePaused s)) False)"

text \<open>A dialog is deleted when an event of it carries the tombstone projection.\<close>

definition dialogDeleted :: "db \<Rightarrow> string \<Rightarrow> bool" where
  "dialogDeleted d dlg \<longleftrightarrow> list_ex (\<lambda>e. evt_dialog e = Some dlg \<and> evt_key e = Some ''dialog.deleted'') (events d)"

section \<open>Results\<close>

record result =
  res_status :: int
  res_body :: json
  res_committed :: bool

definition errorResult :: "env \<Rightarrow> int \<Rightarrow> string \<Rightarrow> string \<Rightarrow> string \<Rightarrow> int option \<Rightarrow> string \<Rightarrow> result" where
  "errorResult E status code msg correlation version st = \<lparr>res_status = status,
     res_body = error_json \<lparr>we_code = code, we_safeMessage = msg,
       we_retryable = (code = ''queue_full'' \<or> code = ''node_unavailable'' \<or> code = ''not_durable''),
       we_correlationId = (if correlation = '''' then env_correlation E else correlation),
       we_currentVersion = version, we_currentState = st\<rparr>,
     res_committed = False\<rparr>"

definition reject :: "int \<Rightarrow> string \<Rightarrow> string \<Rightarrow> failure" where
  "reject status code msg = CommandFailure status code msg None ''''"

definition stale :: "int \<Rightarrow> string \<Rightarrow> failure" where
  "stale version st = CommandFailure 409 ''stale'' ''expected state is stale'' (Some version) st"

definition notDurable :: "string \<Rightarrow> failure" where
  "notDurable msg = reject 503 ''not_durable'' msg"

fun commandError :: "env \<Rightarrow> string \<Rightarrow> failure \<Rightarrow> result" where
  "commandError E correlation (CommandFailure status code msg version st) =
     errorResult E status code msg correlation version st"
| "commandError E correlation (RawError _) =
     errorResult E 503 ''not_durable'' ''durable operation failed'' correlation None ''''"

text \<open>
  The frame every writing entry point shares: \<open>BEGIN\<close>, the body, the fault point before the
  commit, \<open>COMMIT\<close>, the fault point after it. Every failure rolls back. A body ends either
  with an answer that leaves the ledger alone, or with a result to commit and the messages
  for a fault before the commit, a failed commit and a fault after it.
\<close>

datatype txOutcome = Answer result | Commit result string string string

definition runTx :: "env \<Rightarrow> string \<Rightarrow> string \<Rightarrow> txOutcome tx \<Rightarrow> db \<Rightarrow> result \<times> db" where
  "runTx E correlation mBegin body d =
     (if \<not> env_beginOk E then (commandError E correlation (notDurable mBegin), d)
      else (case body (beginTx d) of
        Inl e \<Rightarrow> (commandError E correlation e, d)
      | Inr (Answer r, t) \<Rightarrow> (r, d)
      | Inr (Commit r mBefore mCommit mAfter, t) \<Rightarrow>
          if env_faultBefore E then (commandError E correlation (notDurable mBefore), d)
          else if \<not> env_commitOk E then (commandError E correlation (notDurable mCommit), d)
          else if env_faultAfter E then
            (\<lparr>res_status = 503, res_body = res_body (errorResult E 503 ''node_unavailable'' mAfter correlation None ''''),
              res_committed = True\<rparr>, tx_db t)
          else (r\<lparr>res_committed := True\<rparr>, tx_db t)))"

end
