(* ===== verification/Statement_Laws.thy ===== *)
theory Statement_Laws
  imports Statements "HOL-Library.Sublist"
begin

text \<open>
  What the statements promise their callers. The \<open>D\<close> lemmas invert a successful statement.
  The locale \<open>tx_rel\<close> is the contract a relation between transaction states has to meet so
  that every handler built from the statements keeps it; the handlers' lemmas are proved
  once inside it, and it is interpreted here for the relations the properties rest on: the
  append-only history, the gapless event log, the primary keys and the growth of the scope
  revisions.
\<close>

section \<open>Inversion of statements\<close>

lemma bumpScopesD [stmtD]:
  "bumpScopes q P t = Inr (u, t') \<Longrightarrow> \<exists>S. t' = t\<lparr>tx_db := (tx_db t)\<lparr>scope_revisions := S\<rparr>\<rparr>"
  by (auto simp: bumpScopes_def)

lemma insertDialogD [stmtD]:
  assumes "insertDialog r t = Inr (u, t')"
  shows "\<exists>S. t' = t\<lparr>tx_db := (tx_db t)\<lparr>dialogs := dialogs (tx_db t) @ [r], scope_revisions := S\<rparr>\<rparr> \<and>
    sel dlg_id (dlg_id r) (dialogs (tx_db t)) = None"
  using assms by (auto simp: insertDialog_def has_key_def dest!: bumpScopesD)

lemma insertMessageD [stmtD]:
  assumes "insertMessage r t = Inr (u, t')"
  shows "t' = t\<lparr>tx_db := (tx_db t)\<lparr>messages := messages (tx_db t) @ [r]\<rparr>\<rparr> \<and>
    sel msg_id (msg_id r) (messages (tx_db t)) = None"
  using assms by (auto simp: insertMessage_def has_key_def)

lemma insertRequestD [stmtD]:
  assumes "insertRequest r t = Inr (u, t')"
  shows "\<exists>S. t' = t\<lparr>tx_db := (tx_db t)\<lparr>requests := requests (tx_db t) @ [r], scope_revisions := S\<rparr>\<rparr> \<and>
    sel req_id (req_id r) (requests (tx_db t)) = None \<and> sel req_sequence (req_sequence r) (requests (tx_db t)) = None"
  using assms by (auto simp: insertRequest_def has_key_def dest!: bumpScopesD)

lemma updateRequestD [stmtD]:
  assumes "updateRequest k f t = Inr (u, t')"
  shows "\<exists>S. t' = t\<lparr>tx_db := (tx_db t)\<lparr>requests := upd req_id k f (requests (tx_db t)), scope_revisions := S\<rparr>\<rparr>"
proof (cases "sel req_id k (requests (tx_db t))")
  case None
  with assms have "t' = t\<lparr>tx_db := (tx_db t)\<lparr>requests := upd req_id k f (requests (tx_db t)),
      scope_revisions := scope_revisions (tx_db t)\<rparr>\<rparr>"
    by (simp add: updateRequest_def upd_absent)
  then show ?thesis by blast
next
  case (Some r)
  with assms show ?thesis
    by (cases "request_changed r (f r)") (auto simp: updateRequest_def dest!: bumpScopesD intro: exI [of _ "scope_revisions (tx_db t)"])
qed

lemma insertAttemptD [stmtD]:
  assumes "insertAttempt r t = Inr (u, t')"
  shows "\<exists>S. t' = t\<lparr>tx_db := (tx_db t)\<lparr>attempts := attempts (tx_db t) @ [r], scope_revisions := S\<rparr>\<rparr> \<and>
    sel att_id (att_id r) (attempts (tx_db t)) = None \<and> one_active_attempt (tx_db t')"
  using assms by (auto simp: insertAttempt_def has_key_def one_active_attempt_def dest!: bumpScopesD)

lemma updateAttemptD [stmtD]:
  assumes "updateAttempt k f t = Inr (u, t')"
  shows "\<exists>S. t' = t\<lparr>tx_db := (tx_db t)\<lparr>attempts := upd att_id k f (attempts (tx_db t)), scope_revisions := S\<rparr>\<rparr> \<and>
    (sel att_id k (attempts (tx_db t)) \<noteq> None \<longrightarrow> one_active_attempt (tx_db t'))"
proof (cases "sel att_id k (attempts (tx_db t))")
  case None
  with assms have "t' = t\<lparr>tx_db := (tx_db t)\<lparr>attempts := upd att_id k f (attempts (tx_db t)),
      scope_revisions := scope_revisions (tx_db t)\<rparr>\<rparr>"
    by (simp add: updateAttempt_def upd_absent)
  with None show ?thesis by blast
next
  case (Some r)
  with assms show ?thesis
    by (auto simp: updateAttempt_def one_active_attempt_def dest!: bumpScopesD)
qed

lemma insertActionD [stmtD]:
  assumes "insertAction r t = Inr (u, t')"
  shows "\<exists>S. t' = t\<lparr>tx_db := (tx_db t)\<lparr>control_actions := control_actions (tx_db t) @ [r], scope_revisions := S\<rparr>\<rparr> \<and>
    sel act_command (act_command r) (control_actions (tx_db t)) = None"
  using assms by (auto simp: insertAction_def has_key_def dest!: bumpScopesD)

lemma bumpAllD:
  "seqM (map (\<lambda>a. bumpScopes q (P a)) rows) t = Inr (u, t') \<Longrightarrow>
    \<exists>S. t' = t\<lparr>tx_db := (tx_db t)\<lparr>scope_revisions := S\<rparr>\<rparr>"
proof (induction rows arbitrary: t)
  case Nil
  then have "t' = t\<lparr>tx_db := (tx_db t)\<lparr>scope_revisions := scope_revisions (tx_db t)\<rparr>\<rparr>" by simp
  then show ?case by blast
next
  case (Cons a rows)
  then show ?case by (fastforce dest!: bumpScopesD)
qed

lemma updateActionsD [stmtD]:
  assumes "updateActions P st t = Inr (u, t')"
  shows "\<exists>S. t' = t\<lparr>tx_db := (tx_db t)\<lparr>control_actions :=
    map (\<lambda>a. if P a then a\<lparr>act_status := st\<rparr> else a) (control_actions (tx_db t)), scope_revisions := S\<rparr>\<rparr>"
  using assms by (auto simp: updateActions_def dest!: bumpAllD)

lemma insertEventD [stmtD]:
  assumes "insertEvent r t = Inr (u, t')"
  shows "\<exists>S. t' = t\<lparr>tx_db := (tx_db t)\<lparr>events := events (tx_db t) @ [r], scope_revisions := S\<rparr>\<rparr>"
  using assms by (auto simp: insertEvent_def dest!: bumpScopesD)

lemma bindEventD [stmtD]:
  assumes "bindEvent P k h t = Inr (n, t')"
  shows "t' = t\<lparr>tx_db := (tx_db t)\<lparr>events := map (\<lambda>e. if P e \<and> evt_key e = None then e\<lparr>evt_key := Some k, evt_hash := h\<rparr> else e)
      (events (tx_db t))\<rparr>\<rparr> \<and> n = int (length (filter (\<lambda>e. P e \<and> evt_key e = None) (events (tx_db t))))"
  using assms by (auto simp: bindEvent_def)

lemma updateApprovalD [stmtD]:
  assumes "updateApproval k P f t = Inr (u, t')"
  shows "\<exists>S. t' = t\<lparr>tx_db := (tx_db t)\<lparr>approvals :=
    map (\<lambda>r. if app_id r = k \<and> P r then f r else r) (approvals (tx_db t)), scope_revisions := S\<rparr>\<rparr>"
  using assms by (auto simp: updateApproval_def dest!: bumpAllD)

lemma updateInputD [stmtD]:
  assumes "updateInput k P f t = Inr (u, t')"
  shows "\<exists>S. t' = t\<lparr>tx_db := (tx_db t)\<lparr>input_requests :=
    map (\<lambda>r. if inp_id r = k \<and> P r then f r else r) (input_requests (tx_db t)), scope_revisions := S\<rparr>\<rparr>"
  using assms by (auto simp: updateInput_def dest!: bumpAllD)

lemma insertLateD [stmtD]:
  assumes "insertLate r t = Inr (u, t')"
  shows "t' = t\<lparr>tx_db := (tx_db t)\<lparr>late_observations := late_observations (tx_db t) @ [r]\<rparr>\<rparr> \<and> 0 \<le> late_output r"
  using assms by (auto simp: insertLate_def)

lemma insertPolicyD [stmtD]:
  assumes "insertPolicy r t = Inr (u, t')"
  shows "\<exists>Q. t' = t\<lparr>tx_db := (tx_db t)\<lparr>policy_snapshots := Q\<rparr>\<rparr> \<and>
    (Q = policy_snapshots (tx_db t) \<or>
     sel pol_effectiveHash (pol_effectiveHash r) (policy_snapshots (tx_db t)) = None \<and> Q = policy_snapshots (tx_db t) @ [r])"
proof (cases "has_key pol_effectiveHash (pol_effectiveHash r) (policy_snapshots (tx_db t))")
  case True
  with assms have "t' = t\<lparr>tx_db := (tx_db t)\<lparr>policy_snapshots := policy_snapshots (tx_db t)\<rparr>\<rparr>"
    by (simp add: insertPolicy_def)
  then show ?thesis by blast
next
  case False
  with assms show ?thesis by (auto simp: insertPolicy_def has_key_def)
qed

lemma updateDialogD [stmtD]:
  "updateDialog k f t = Inr (u, t') \<Longrightarrow> t' = t\<lparr>tx_db := (tx_db t)\<lparr>dialogs := upd dlg_id k f (dialogs (tx_db t))\<rparr>\<rparr>"
  by (simp add: updateDialog_def)

lemma updateMessageD [stmtD]:
  "updateMessage k f t = Inr (u, t') \<Longrightarrow> t' = t\<lparr>tx_db := (tx_db t)\<lparr>messages := upd msg_id k f (messages (tx_db t))\<rparr>\<rparr>"
  by (simp add: updateMessage_def)

definition eventRowOf :: "env \<Rightarrow> txn \<Rightarrow> string \<Rightarrow> int \<Rightarrow> string \<Rightarrow> string \<Rightarrow> payload \<Rightarrow> bool \<Rightarrow> eventRow" where
  "eventRowOf E t entityID entityVersion attemptID dialogID pl late =
     \<lparr>evt_node = NodeID (tx_state t), evt_seq = LastEventSeq (tx_state t) + 1, evt_epoch = Epoch (tx_state t),
      evt_event = \<lparr>ev_nodeId = NodeID (tx_state t), ev_seq = LastEventSeq (tx_state t) + 1, ev_epoch = Epoch (tx_state t),
        ev_entityId = entityID, ev_entityVersion = entityVersion, ev_attemptId = attemptID, ev_dialogId = dialogID,
        ev_observedAt = env_clock E (tx_ticks t), ev_payload = pl\<rparr>,
      evt_attempt = nullText attemptID, evt_dialog = nullText dialogID, evt_key = None, evt_hash = None,
      evt_late = late, evt_created = env_clock E (tx_ticks t)\<rparr>"

lemma appendEventD [stmtD]:
  assumes "appendEvent E i v a dl pl late t = Inr (u, t')"
  shows "\<exists>S. t' = t\<lparr>tx_state := (tx_state t)\<lparr>LastEventSeq := LastEventSeq (tx_state t) + 1\<rparr>,
      tx_ticks := Suc (tx_ticks t),
      tx_db := (tx_db t)\<lparr>events := events (tx_db t) @ [eventRowOf E t i v a dl pl late], scope_revisions := S\<rparr>\<rparr> \<and>
    Validate ''event'' (event_json (evt_event (eventRowOf E t i v a dl pl late)))"
  using assms by (auto simp: appendEvent_def eventRowOf_def dest!: insertEventD)

lemma insertToolD [stmtD]:
  assumes "insertTool r t = Inr (u, t')"
  shows "\<exists>S. t' = t\<lparr>tx_db := (tx_db t)\<lparr>tool_calls := tool_calls (tx_db t) @ [r], scope_revisions := S\<rparr>\<rparr> \<and>
    sel tc_id (tc_id r) (tool_calls (tx_db t)) = None"
  using assms by (auto simp: insertTool_def has_key_def dest!: bumpScopesD)

lemma updateToolD [stmtD]:
  assumes "updateTool k f t = Inr (u, t')"
  shows "\<exists>S. t' = t\<lparr>tx_db := (tx_db t)\<lparr>tool_calls := upd tc_id k f (tool_calls (tx_db t)), scope_revisions := S\<rparr>\<rparr>"
proof (cases "sel tc_id k (tool_calls (tx_db t))")
  case None
  with assms have "t' = t\<lparr>tx_db := (tx_db t)\<lparr>tool_calls := upd tc_id k f (tool_calls (tx_db t)),
      scope_revisions := scope_revisions (tx_db t)\<rparr>\<rparr>"
    by (simp add: updateTool_def upd_absent)
  then show ?thesis by blast
next
  case (Some r)
  with assms show ?thesis by (auto simp: updateTool_def dest!: bumpScopesD)
qed

lemma insertArtifactD [stmtD]:
  assumes "insertArtifact r t = Inr (u, t')"
  shows "t' = t\<lparr>tx_db := (tx_db t)\<lparr>artifacts := artifacts (tx_db t) @ [r]\<rparr>\<rparr> \<and> sel art_id (art_id r) (artifacts (tx_db t)) = None"
  using assms by (auto simp: insertArtifact_def has_key_def)

lemma updateArtifactsD [stmtD]:
  assumes "updateArtifacts P c b t = Inr (n, t')"
  shows "t' = t\<lparr>tx_db := (tx_db t)\<lparr>artifacts := map (\<lambda>r. if P r then r\<lparr>art_call := c, art_truncated := b\<rparr> else r) (artifacts (tx_db t))\<rparr>\<rparr> \<and>
    n = count_rows P (artifacts (tx_db t))"
  using assms by (auto simp: updateArtifacts_def)

lemma createFile_Inr [simp]: "createFile k c t = Inr (u, t') \<longleftrightarrow> t' = t\<lparr>tx_created := tx_created t @ [(k, c)]\<rparr>"
  by (auto simp: createFile_def)

lemma fileAt_Inr [simp]: "fileAt E k t = Inr (f, t') \<longleftrightarrow>
    f = (case map_of (tx_created t) k of Some b \<Rightarrow> Some (FileBytes b) | None \<Rightarrow> env_files E k) \<and> t' = t"
  by (auto simp: fileAt_def)

lemma insertApprovalD [stmtD]:
  assumes "insertApproval r t = Inr (u, t')"
  shows "\<exists>S. t' = t\<lparr>tx_db := (tx_db t)\<lparr>approvals := approvals (tx_db t) @ [r], scope_revisions := S\<rparr>\<rparr> \<and>
    sel app_id (app_id r) (approvals (tx_db t)) = None"
  using assms by (auto simp: insertApproval_def has_key_def dest!: bumpScopesD)

lemma insertInputD [stmtD]:
  assumes "insertInput r t = Inr (u, t')"
  shows "\<exists>S. t' = t\<lparr>tx_db := (tx_db t)\<lparr>input_requests := input_requests (tx_db t) @ [r], scope_revisions := S\<rparr>\<rparr> \<and>
    sel inp_id (inp_id r) (input_requests (tx_db t)) = None"
  using assms by (auto simp: insertInput_def has_key_def dest!: bumpScopesD)

definition identity :: "durableState \<Rightarrow> string \<times> string \<times> int \<times> int" where
  "identity s = (NodeID s, OwnerID s, RegistryVersion s, Epoch s)"

lemma saveStateD [stmtD]:
  assumes "saveState t = Inr (u, t')" and "identity (node_state (tx_db t)) = identity (tx_state t)"
  shows "\<exists>S. t' = t\<lparr>tx_db := (tx_db t)\<lparr>node_state := tx_state t, scope_revisions := S\<rparr>\<rparr>"
proof -
  let ?d = "(tx_db t)\<lparr>node_state := tx_state t\<rparr>"
  have same: "(node_state (tx_db t))\<lparr>Epoch := Epoch (tx_state t), StateVersion := StateVersion (tx_state t),
      LastEventSeq := LastEventSeq (tx_state t), QueueVersion := QueueVersion (tx_state t), QueuePaused := QueuePaused (tx_state t),
      TransportAvailability := TransportAvailability (tx_state t), EngineReadiness := EngineReadiness (tx_state t),
      Occupancy := Occupancy (tx_state t), ActiveAttemptID := ActiveAttemptID (tx_state t), PendingCount := PendingCount (tx_state t),
      BlockedReasons := BlockedReasons (tx_state t), NextQueueSequence := NextQueueSequence (tx_state t),
      NextMessageSequence := NextMessageSequence (tx_state t)\<rparr> = tx_state t"
    using assms(2) by (simp add: identity_def)
  have ep: "Epoch (node_state (tx_db t)) = Epoch (tx_state t)" using assms(2) by (simp add: identity_def)
  show ?thesis
  proof (cases "QueuePaused (node_state (tx_db t)) = QueuePaused (tx_state t)")
    case True
    then have "t' = t\<lparr>tx_db := ?d\<lparr>scope_revisions := scope_revisions (tx_db t)\<rparr>\<rparr>"
      using assms(1) same ep by (simp add: saveState_def)
    then show ?thesis by blast
  next
    case False
    then show ?thesis using assms(1) same ep by (auto simp: saveState_def dest!: bumpScopesD)
  qed
qed

section \<open>The contract of a relation kept by handlers\<close>

text \<open>
  Handlers change the in-flight state only outside its identity and event counter, and never
  step a version or sequence counter back.
\<close>

definition frozen :: "durableState \<Rightarrow> (string \<times> string \<times> int \<times> int) \<times> int" where
  "frozen s = (identity s, LastEventSeq s)"

definition advances :: "durableState \<Rightarrow> durableState \<Rightarrow> bool" where
  "advances s s' \<longleftrightarrow> StateVersion s \<le> StateVersion s' \<and> QueueVersion s \<le> QueueVersion s' \<and>
     NextQueueSequence s \<le> NextQueueSequence s' \<and> NextMessageSequence s \<le> NextMessageSequence s'"

text \<open>The columns that no update touches.\<close>

definition dlg_core :: "dialogRow \<Rightarrow> string \<times> string \<times> string" where
  "dlg_core r = (dlg_id r, dlg_node r, dlg_owner r)"

definition msg_core :: "messageRow \<Rightarrow> string \<times> string \<times> int \<times> string \<times> string option \<times> string option" where
  "msg_core r = (msg_id r, msg_dialog r, msg_sequence r, msg_role r, msg_text r, msg_request r)"

definition req_core :: "requestRow \<Rightarrow> string \<times> string \<times> string \<times> int" where
  "req_core r = (req_id r, req_dialog r, req_message r, req_sequence r)"

definition att_core :: "attemptRow \<Rightarrow> string \<times> string \<times> string \<times> string \<times> int" where
  "att_core r = (att_id r, att_node r, att_dialog r, att_request r, att_generation r)"

definition art_core :: "artifactRow \<Rightarrow> (string \<times> string \<times> string \<times> string \<times> string) \<times> int \<times> string \<times> string \<times> string \<times> string" where
  "art_core r = ((art_id r, art_dialog r, art_attempt r, art_name r, art_media r), art_size r, art_sha256 r, art_redaction r,
     art_disposition r, art_relative r)"

definition evt_core :: "eventRow \<Rightarrow> string \<times> int \<times> int \<times> eventEnvelope \<times> string option \<times> string option \<times> bool" where
  "evt_core e = (evt_node e, evt_seq e, evt_epoch e, evt_event e, evt_attempt e, evt_dialog e, evt_late e)"

lemmas state_laws = frozen_def identity_def advances_def
lemmas core_defs = dlg_core_def msg_core_def req_core_def att_core_def

locale tx_rel = preorder_rel R for R :: "txn \<Rightarrow> txn \<Rightarrow> bool" +
  assumes R_ticks: "R t (t\<lparr>tx_ticks := n\<rparr>)"
    and R_ids: "R t (t\<lparr>tx_ids := n\<rparr>)"
    and R_created: "R t (t\<lparr>tx_created := fs\<rparr>)"
    and R_state: "frozen s = frozen (tx_state t) \<Longrightarrow> advances (tx_state t) s \<Longrightarrow> R t (t\<lparr>tx_state := s\<rparr>)"
    and R_insertDialog: "keeps R (insertDialog r1)"
    and R_updateDialog: "(\<And>r. dlg_core (f1 r) = dlg_core r) \<Longrightarrow> keeps R (updateDialog k f1)"
    and R_insertMessage: "keeps R (insertMessage r2)"
    and R_updateMessage: "(\<And>r. msg_core (f2 r) = msg_core r) \<Longrightarrow> keeps R (updateMessage k f2)"
    and R_insertRequest: "keeps R (insertRequest r3)"
    and R_updateRequest: "(\<And>r. req_core (f3 r) = req_core r) \<Longrightarrow> keeps R (updateRequest k f3)"
    and R_insertAttempt: "keeps R (insertAttempt r4)"
    and R_updateAttempt: "(\<And>r. att_core (f4 r) = att_core r) \<Longrightarrow> keeps R (updateAttempt k f4)"
    and R_insertAction: "keeps R (insertAction r5)"
    and R_updateActions: "keeps R (updateActions P st)"
    and R_insertTool: "keeps R (insertTool r6)"
    and R_updateTool: "(\<And>r. tc_id (f6 r) = tc_id r) \<Longrightarrow> keeps R (updateTool k f6)"
    and R_insertArtifact: "keeps R (insertArtifact r12)"
    and R_updateArtifacts: "keeps R (updateArtifacts P12 c12 b12)"
    and R_insertApproval: "keeps R (insertApproval r7)"
    and R_updateApproval: "(\<And>r. app_id (f7 r) = app_id r) \<Longrightarrow> keeps R (updateApproval k P7 f7)"
    and R_insertInput: "keeps R (insertInput r8)"
    and R_updateInput: "(\<And>r. inp_id (f8 r) = inp_id r) \<Longrightarrow> keeps R (updateInput k P8 f8)"
    and R_appendEvent: "keeps R (appendEvent E i v a dl pl late)"
    and R_bindEvent: "keeps R (bindEvent P9 k h)"
    and R_insertLate: "keeps R (insertLate r10)"
    and R_insertPolicy: "keeps R (insertPolicy r11)"
begin

lemmas stmt_keeps [keeps_rules] = R_insertDialog R_updateDialog R_insertMessage R_updateMessage R_insertRequest R_updateRequest
  R_insertAttempt R_updateAttempt R_insertAction R_updateActions R_insertTool R_updateTool R_insertArtifact R_updateArtifacts R_insertApproval R_updateApproval
  R_insertInput R_updateInput R_appendEvent R_bindEvent R_insertLate R_insertPolicy

lemma keeps_timestamp [keeps_rules]: "keeps R (timestamp E)"
  by (auto simp: keeps_def R_ticks)

lemma keeps_newID [keeps_rules]: "keeps R (newID E)"
  by (auto simp: keeps_def R_ids)

lemma keeps_createFile [keeps_rules]: "keeps R (createFile k c)"
  by (auto simp: keeps_def R_created)

lemma keeps_fileAt [keeps_rules]: "keeps R (fileAt E k)"
  by (simp add: keeps_def R_refl)

lemma keeps_readDb [keeps_rules]: "keeps R (readDb f)"
  by (simp add: keeps_def R_refl)

lemma keeps_readState [keeps_rules]: "keeps R (readState f)"
  by (simp add: keeps_def R_refl)

lemma keeps_constraint [keeps_rules]: "keeps R (constraintM P)"
  by (simp add: keeps_def R_refl)

lemma keeps_writeState [keeps_rules]:
  "(\<And>s. frozen (f s) = frozen s) \<Longrightarrow> (\<And>s. advances s (f s)) \<Longrightarrow> keeps R (writeState f)"
  by (auto simp: keeps_def intro: R_state)

lemma keeps_appendNodeEvent [keeps_rules]: "keeps R (appendNodeEvent E)"
  unfolding appendNodeEvent_def by (intro keeps_rules)

lemma keeps_appendQueueEvent [keeps_rules]: "keeps R (appendQueueEvent E)"
  unfolding appendQueueEvent_def by (intro keeps_rules)

end

section \<open>History only grows\<close>

definition history_grows :: "db \<Rightarrow> db \<Rightarrow> bool" where
  "history_grows d d' \<longleftrightarrow>
     prefix (map evt_core (events d)) (map evt_core (events d')) \<and>
     (\<forall>x. dialogDeleted d x \<longrightarrow> dialogDeleted d' x) \<and>
     prefix (map dlg_core (dialogs d)) (map dlg_core (dialogs d')) \<and>
     prefix (map msg_core (messages d)) (map msg_core (messages d')) \<and>
     prefix (map req_core (requests d)) (map req_core (requests d')) \<and>
     prefix (map att_core (attempts d)) (map att_core (attempts d')) \<and>
     prefix (map art_core (artifacts d)) (map art_core (artifacts d'))"

definition outcomes_same :: "db \<Rightarrow> db \<Rightarrow> bool" where
  "outcomes_same d d' \<longleftrightarrow> commands d' = commands d \<and> command_rejections d' = command_rejections d \<and>
     administrative_holds d' = administrative_holds d \<and> hold_outcomes d' = hold_outcomes d \<and> hold_clock d' = hold_clock d \<and>
     hold_scope_revisions d' = hold_scope_revisions d \<and> logical_deletes d' = logical_deletes d \<and> node_state d' = node_state d"

definition handler_step :: "txn \<Rightarrow> txn \<Rightarrow> bool" where
  "handler_step t t' \<longleftrightarrow> history_grows (tx_db t) (tx_db t') \<and> outcomes_same (tx_db t) (tx_db t') \<and>
     identity (tx_state t') = identity (tx_state t) \<and> advances (tx_state t) (tx_state t') \<and>
     LastEventSeq (tx_state t) \<le> LastEventSeq (tx_state t')"

lemma map_upd_core: "(\<And>r. c (f r) = c r) \<Longrightarrow> map c (upd key k f tbl) = map c tbl"
  by (simp add: upd_def)

lemma map_artifact_core:
  "map art_core (map (\<lambda>r. if P r then r\<lparr>art_call := c, art_truncated := b\<rparr> else r) rows) = map art_core rows"
  by (induction rows) (auto simp: art_core_def)

lemma map_bind_core:
  "map evt_core (map (\<lambda>e. if P e then e\<lparr>evt_key := x, evt_hash := h\<rparr> else e) es) = map evt_core es"
  by (induction es) (auto simp: evt_core_def)

lemma dialogDeleted_events_append [simp]:
  "dialogDeleted (d\<lparr>events := events d @ es\<rparr>) x \<longleftrightarrow>
     dialogDeleted d x \<or> list_ex (\<lambda>e. evt_dialog e = Some x \<and> evt_key e = Some ''dialog.deleted'') es"
  by (auto simp: dialogDeleted_def)

lemma history_grows_refl [simp]: "history_grows d d"
  by (simp add: history_grows_def)

lemma history_grows_trans [trans]: "history_grows d e \<Longrightarrow> history_grows e f \<Longrightarrow> history_grows d f"
  by (auto simp: history_grows_def intro: prefix_order.trans)

lemma advances_trans [trans]: "advances s t \<Longrightarrow> advances t u \<Longrightarrow> advances s u"
  by (auto simp: advances_def)

lemma handler_step_trans: "handler_step s t \<Longrightarrow> handler_step t u \<Longrightarrow> handler_step s u"
  by (auto simp: handler_step_def outcomes_same_def intro: history_grows_trans advances_trans)

lemma history_grows_bind:
  "history_grows d (d\<lparr>events := map (\<lambda>e. if P e \<and> evt_key e = None then e\<lparr>evt_key := Some k, evt_hash := h\<rparr> else e) (events d)\<rparr>)"
proof -
  have "dialogDeleted d x \<Longrightarrow> dialogDeleted (d\<lparr>events := map (\<lambda>e. if P e \<and> evt_key e = None
      then e\<lparr>evt_key := Some k, evt_hash := h\<rparr> else e) (events d)\<rparr>) x" for x
    by (force simp: dialogDeleted_def list_ex_iff)
  then show ?thesis
    by (simp add: history_grows_def map_bind_core del: map_map)
qed

lemmas handler_step_defs = handler_step_def history_grows_def outcomes_same_def advances_def identity_def dialogDeleted_def

interpretation hist: tx_rel handler_step
proof
  fix s t u :: txn
  show "handler_step s s" by (simp add: handler_step_defs)
  show "handler_step s t \<Longrightarrow> handler_step t u \<Longrightarrow> handler_step s u"
    by (rule handler_step_trans)
next
  show "keeps handler_step (bindEvent P k h)" for P k h
    using history_grows_bind by (auto simp: keeps_def handler_step_def outcomes_same_def advances_def dest!: bindEventD)
next
  show "keeps handler_step (updateArtifacts P c b)" for P c b
    by (auto simp: keeps_def handler_step_defs map_artifact_core simp del: map_map dest!: updateArtifactsD)
qed (auto simp: keeps_def handler_step_defs frozen_def map_upd_core dest!: stmtD)

section \<open>The event log has no gaps\<close>

definition event_ok :: "string \<Rightarrow> eventRow \<Rightarrow> bool" where
  "event_ok n e \<longleftrightarrow> evt_node e = n \<and> ev_nodeId (evt_event e) = n \<and> ev_seq (evt_event e) = evt_seq e \<and>
     Validate ''event'' (event_json (evt_event e))"

definition log_ok :: "durableState \<Rightarrow> db \<Rightarrow> bool" where
  "log_ok s d \<longleftrightarrow> 0 \<le> LastEventSeq s \<and> map evt_seq (events d) = [1..LastEventSeq s] \<and>
     list_all (event_ok (NodeID s)) (events d)"

definition log_step :: "txn \<Rightarrow> txn \<Rightarrow> bool" where
  "log_step t t' \<longleftrightarrow> (log_ok (tx_state t) (tx_db t) \<longrightarrow> log_ok (tx_state t') (tx_db t'))"

lemma log_ok_append:
  assumes "log_ok s d" and "evt_seq e = LastEventSeq s + 1" and "event_ok (NodeID s) e"
    and "LastEventSeq s' = LastEventSeq s + 1" and "NodeID s' = NodeID s" and "events d' = events d @ [e]"
  shows "log_ok s' d'"
proof -
  have "[1..LastEventSeq s + 1] = [1..LastEventSeq s] @ [LastEventSeq s + 1]"
    using assms(1) upto_rec2 [of 1 "LastEventSeq s + 1"] by (simp add: log_ok_def)
  then show ?thesis using assms by (simp add: log_ok_def)
qed

lemma log_ok_bind:
  assumes "log_ok s d" and "events d' = map (\<lambda>e. if P e then e\<lparr>evt_key := x, evt_hash := h\<rparr> else e) (events d)"
  shows "log_ok s d'"
proof -
  have "map evt_seq (events d') = map evt_seq (events d)" using assms(2) by simp
  moreover have "list_all (event_ok (NodeID s)) (events d')"
    using assms by (auto simp: log_ok_def event_ok_def list_all_iff)
  ultimately show ?thesis using assms(1) by (simp add: log_ok_def)
qed

lemma log_ok_cong: "events d' = events d \<Longrightarrow> frozen s' = frozen s \<Longrightarrow> log_ok s' d' = log_ok s d"
  by (simp add: log_ok_def frozen_def identity_def)

interpretation log: tx_rel log_step
proof
  fix E i v a dl pl late
  show "keeps log_step (appendEvent E i v a dl pl late)"
  proof (rule keepsI)
    fix t u t'
    assume "appendEvent E i v a dl pl late t = Inr (u, t')"
    then have "log_ok (tx_state t) (tx_db t) \<Longrightarrow> log_ok (tx_state t') (tx_db t')"
      using log_ok_append [of "tx_state t" "tx_db t" "eventRowOf E t i v a dl pl late" "tx_state t'" "tx_db t'"]
      by (auto simp: event_ok_def dest!: appendEventD) (simp_all add: eventRowOf_def)
    then show "log_step t t'" by (simp add: log_step_def)
  qed
next
  show "keeps log_step (bindEvent P k h)" for P k h
    by (auto simp: keeps_def log_step_def dest!: bindEventD
        intro: log_ok_bind [where P = "\<lambda>e. P e \<and> evt_key e = None" and x = "Some k" and h = h])
qed (auto simp: keeps_def log_step_def frozen_def identity_def log_ok_def dest!: stmtD)

section \<open>Primary keys stay unique\<close>

definition keys_ok :: "db \<Rightarrow> bool" where
  "keys_ok d \<longleftrightarrow> unique_key dlg_id (dialogs d) \<and> unique_key msg_id (messages d) \<and> unique_key req_id (requests d) \<and>
     unique_key req_sequence (requests d) \<and> unique_key att_id (attempts d) \<and> unique_key act_command (control_actions d) \<and>
     unique_key app_id (approvals d) \<and> unique_key inp_id (input_requests d) \<and> unique_key tc_id (tool_calls d) \<and>
     unique_key art_id (artifacts d) \<and> unique_key cmd_id (commands d) \<and> unique_key rej_id (command_rejections d) \<and>
     unique_key hold_operation (administrative_holds d) \<and> unique_key hold_version (administrative_holds d) \<and>
     unique_key hout_operation (hold_outcomes d) \<and> unique_key ldr_operation (logical_deletes d)"

definition keys_step :: "txn \<Rightarrow> txn \<Rightarrow> bool" where
  "keys_step t t' \<longleftrightarrow> (keys_ok (tx_db t) \<longrightarrow> keys_ok (tx_db t'))"

lemma unique_key_upd_other:
  "(\<And>r. key (f r) = key r) \<Longrightarrow> unique_key key (upd key' k f tbl) = unique_key key tbl"
  by (simp add: unique_key_def map_upd_core)

lemma unique_key_map:
  "(\<And>r. key (g r) = key r) \<Longrightarrow> unique_key key (map g tbl) = unique_key key tbl"
  by (simp add: unique_key_def comp_def)

interpretation keys: tx_rel keys_step
  by unfold_locales
    (auto simp: keeps_def keys_step_def keys_ok_def unique_key_snoc unique_key_upd_other unique_key_map core_defs dest!: stmtD)

text \<open>The slot of the node: the unique index never lets two attempts of it hold the slot.\<close>

definition slot_step :: "txn \<Rightarrow> txn \<Rightarrow> bool" where
  "slot_step t t' \<longleftrightarrow> (one_active_attempt (tx_db t) \<longrightarrow> one_active_attempt (tx_db t'))"

lemma one_active_cong: "attempts d' = attempts d \<Longrightarrow> one_active_attempt d' = one_active_attempt d"
  by (simp add: one_active_attempt_def)

lemma slot_step_updateAttempt: "keeps slot_step (updateAttempt k f)"
proof (rule keepsI)
  fix t u t'
  assume *: "updateAttempt k f t = Inr (u, t')"
  show "slot_step t t'"
  proof (cases "sel att_id k (attempts (tx_db t))")
    case None
    then have "t' = t" using * by (simp add: updateAttempt_def)
    then show ?thesis by (simp add: slot_step_def)
  next
    case (Some r)
    then show ?thesis using updateAttemptD [OF *] by (auto simp: slot_step_def)
  qed
qed

interpretation slot: tx_rel slot_step
proof
  show "keeps slot_step (insertAttempt r)" for r
    by (auto simp: keeps_def slot_step_def dest!: insertAttemptD)
  show "keeps slot_step (updateAttempt k f)" for k f by (rule slot_step_updateAttempt)
qed (auto simp: keeps_def slot_step_def one_active_attempt_def dest!: stmtD)

end
