(* ===== verification/Commit_Laws.thy ===== *)
theory Commit_Laws
  imports Statement_Laws
begin

text \<open>
  The contracts for whole critical sections: \<open>save_rel\<close> extends \<open>tx_rel\<close> by saving the state, which
  is all the engine's own sections need, and \<open>commit_rel\<close> by the statements that only entry points
  issue (recording outcomes, holds and deletions). It is
  interpreted for the log, the keys, the slot and for \<open>ledger_step\<close>, the growth of everything the
  ledger remembers. \<open>settles\<close> says that a section leaves the saved state equal to the in-flight
  one, and \<open>db_step\<close> collects what every committed section guarantees.
\<close>

section \<open>Inversion of the remaining statements\<close>

lemma insertCommandD [stmtD]:
  assumes "insertCommand r t = Inr (u, t')"
  shows "t' = t\<lparr>tx_db := (tx_db t)\<lparr>commands := commands (tx_db t) @ [r]\<rparr>\<rparr> \<and> sel cmd_id (cmd_id r) (commands (tx_db t)) = None"
  using assms by (auto simp: insertCommand_def has_key_def)

lemma insertRejectionD [stmtD]:
  assumes "insertRejection r t = Inr (u, t')"
  shows "t' = t\<lparr>tx_db := (tx_db t)\<lparr>command_rejections := command_rejections (tx_db t) @ [r]\<rparr>\<rparr> \<and>
    sel rej_id (rej_id r) (command_rejections (tx_db t)) = None"
  using assms by (auto simp: insertRejection_def has_key_def)

lemma insertHoldD [stmtD]:
  assumes "insertHold r t = Inr (u, t')"
  shows "\<exists>S. t' = t\<lparr>tx_db := (tx_db t)\<lparr>administrative_holds := administrative_holds (tx_db t) @ [r], scope_revisions := S\<rparr>\<rparr> \<and>
    sel hold_operation (hold_operation r) (administrative_holds (tx_db t)) = None \<and>
    sel hold_version (hold_version r) (administrative_holds (tx_db t)) = None"
  using assms by (auto simp: insertHold_def has_key_def dest!: bumpScopesD)

lemma insertHoldOutcomeD [stmtD]:
  assumes "insertHoldOutcome r t = Inr (u, t')"
  shows "\<exists>S. t' = t\<lparr>tx_db := (tx_db t)\<lparr>hold_outcomes := hold_outcomes (tx_db t) @ [r], scope_revisions := S\<rparr>\<rparr> \<and>
    sel hout_operation (hout_operation r) (hold_outcomes (tx_db t)) = None"
  using assms by (auto simp: insertHoldOutcome_def has_key_def dest!: bumpScopesD)

lemma insertLogicalDeleteD [stmtD]:
  assumes "insertLogicalDelete r t = Inr (u, t')"
  shows "t' = t\<lparr>tx_db := (tx_db t)\<lparr>logical_deletes := logical_deletes (tx_db t) @ [r]\<rparr>\<rparr> \<and>
    sel ldr_operation (ldr_operation r) (logical_deletes (tx_db t)) = None"
  using assms by (auto simp: insertLogicalDelete_def has_key_def)

lemma advanceHoldClockD [stmtD]:
  assumes "advanceHoldClock v t = Inr (u, t')"
  shows "\<exists>c. t' = t\<lparr>tx_db := (tx_db t)\<lparr>hold_clock := c\<rparr>\<rparr> \<and> hold_clock (tx_db t) \<le> c \<and> (hold_clock (tx_db t) = v \<longrightarrow> c = v + 1)"
proof (cases "hold_clock (tx_db t) = v")
  case True
  with assms have "t' = t\<lparr>tx_db := (tx_db t)\<lparr>hold_clock := v + 1\<rparr>\<rparr>" by (simp add: advanceHoldClock_def)
  with True show ?thesis by (intro exI [of _ "v + 1"]) simp
next
  case False
  with assms have "t' = t\<lparr>tx_db := (tx_db t)\<lparr>hold_clock := hold_clock (tx_db t)\<rparr>\<rparr>" by (simp add: advanceHoldClock_def)
  with False show ?thesis by blast
qed

lemma putScopeRevisionD [stmtD]:
  assumes "putScopeRevision k v t = Inr (u, t')"
  shows "t' = t\<lparr>tx_db := (tx_db t)\<lparr>hold_scope_revisions := AList.update k v (hold_scope_revisions (tx_db t))\<rparr>\<rparr> \<and> 0 < v"
  using assms by (auto simp: putScopeRevision_def)

text \<open>Without the identity premise of \<open>saveStateD\<close>: what a save changes at most.\<close>

lemma maybeBumpD:
  assumes "(if b then bumpScopes q P else returnM ()) t = Inr (u, t')"
  shows "\<exists>S. t' = t\<lparr>tx_db := (tx_db t)\<lparr>scope_revisions := S\<rparr>\<rparr>"
proof (cases b)
  case True
  with assms show ?thesis by (simp add: bumpScopesD)
next
  case False
  with assms have "t' = t\<lparr>tx_db := (tx_db t)\<lparr>scope_revisions := scope_revisions (tx_db t)\<rparr>\<rparr>" by simp
  then show ?thesis by blast
qed

lemma saveState_frame:
  assumes "saveState t = Inr (u, t')"
  shows "\<exists>n S. t' = t\<lparr>tx_db := (tx_db t)\<lparr>node_state := n, scope_revisions := S\<rparr>\<rparr>"
proof -
  obtain n t1 t2 where t1: "t1 = t\<lparr>tx_db := (tx_db t)\<lparr>node_state := n\<rparr>\<rparr>"
    and *: "(if Epoch (node_state (tx_db t)) \<noteq> Epoch (tx_state t) then bumpScopes False (\<lambda>d k. True) else returnM ()) t1 = Inr ((), t2)"
    and **: "(if QueuePaused (node_state (tx_db t)) \<noteq> QueuePaused (tx_state t) then bumpScopes True (\<lambda>d k. True) else returnM ()) t2 = Inr ((), t')"
    using assms unfolding saveState_def by fastforce
  from maybeBumpD [OF *] maybeBumpD [OF **] t1 show ?thesis by clarsimp blast
qed

section \<open>The contract\<close>

locale save_rel = tx_rel R for R :: "txn \<Rightarrow> txn \<Rightarrow> bool" +
  assumes R_saveState [keeps_rules]: "keeps R saveState"

text \<open>The engine's sections save the state but write no outcome, hold or deletion.\<close>

definition engine_step :: "txn \<Rightarrow> txn \<Rightarrow> bool" where
  "engine_step t t' \<longleftrightarrow> (let d = tx_db t; d' = tx_db t' in commands d' = commands d \<and> command_rejections d' = command_rejections d \<and>
     administrative_holds d' = administrative_holds d \<and> hold_outcomes d' = hold_outcomes d \<and> hold_clock d' = hold_clock d \<and>
     hold_scope_revisions d' = hold_scope_revisions d \<and> logical_deletes d' = logical_deletes d)"

interpretation eng: save_rel engine_step
  by unfold_locales (auto simp: keeps_def engine_step_def Let_def dest!: stmtD saveState_frame)

locale commit_rel = save_rel R for R :: "txn \<Rightarrow> txn \<Rightarrow> bool" +
  assumes R_insertCommand: "keeps R (insertCommand c1)"
    and R_insertRejection: "keeps R (insertRejection c2)"
    and R_insertHold: "keeps R (insertHold c3)"
    and R_insertHoldOutcome: "keeps R (insertHoldOutcome c4)"
    and R_insertLogicalDelete: "keeps R (insertLogicalDelete c5)"
    and R_advanceHoldClock: "keeps R (advanceHoldClock v)"
    and R_putScopeRevision: "keeps R (putScopeRevision k v)"
begin

lemmas commit_keeps [keeps_rules] = R_insertCommand R_insertRejection R_insertHold R_insertHoldOutcome
  R_insertLogicalDelete R_advanceHoldClock R_putScopeRevision

lemma keeps_casScopeRevision [keeps_rules]: "keeps R (casScopeRevision k a b)"
  unfolding casScopeRevision_def by (intro keeps_rules)

end

interpretation logc: commit_rel log_step
  by unfold_locales (auto simp: keeps_def log_step_def log_ok_def dest!: stmtD saveState_frame)

interpretation keysc: commit_rel keys_step
  by unfold_locales (auto simp: keeps_def keys_step_def keys_ok_def unique_key_snoc dest!: stmtD saveState_frame)

interpretation slotc: commit_rel slot_step
  by unfold_locales (auto simp: keeps_def slot_step_def one_active_attempt_def dest!: stmtD saveState_frame)

section \<open>Everything remembered grows\<close>

definition outcomes_grow :: "db \<Rightarrow> db \<Rightarrow> bool" where
  "outcomes_grow d d' \<longleftrightarrow> prefix (commands d) (commands d') \<and> prefix (command_rejections d) (command_rejections d') \<and>
     prefix (administrative_holds d) (administrative_holds d') \<and> prefix (hold_outcomes d) (hold_outcomes d') \<and>
     prefix (logical_deletes d) (logical_deletes d') \<and> hold_clock d \<le> hold_clock d'"

text \<open>The in-flight state is ahead of the saved one.\<close>

definition ahead :: "durableState \<Rightarrow> durableState \<Rightarrow> bool" where
  "ahead s s' \<longleftrightarrow> identity s' = identity s \<and> advances s s' \<and> LastEventSeq s \<le> LastEventSeq s'"

definition in_front :: "txn \<Rightarrow> bool" where
  "in_front t \<longleftrightarrow> ahead (node_state (tx_db t)) (tx_state t)"

definition ledger_step :: "txn \<Rightarrow> txn \<Rightarrow> bool" where
  "ledger_step t t' \<longleftrightarrow> history_grows (tx_db t) (tx_db t') \<and> outcomes_grow (tx_db t) (tx_db t') \<and>
     ahead (tx_state t) (tx_state t') \<and>
     (in_front t \<longrightarrow> in_front t' \<and> ahead (node_state (tx_db t)) (node_state (tx_db t')))"

lemma ahead_refl [simp]: "ahead s s"
  by (simp add: ahead_def advances_def)

lemma ahead_trans [trans]: "ahead s t \<Longrightarrow> ahead t u \<Longrightarrow> ahead s u"
  by (auto simp: ahead_def intro: advances_trans)

lemma outcomes_grow_refl [simp]: "outcomes_grow d d"
  by (simp add: outcomes_grow_def)

lemma outcomes_grow_trans [trans]: "outcomes_grow d e \<Longrightarrow> outcomes_grow e f \<Longrightarrow> outcomes_grow d f"
  by (auto simp: outcomes_grow_def intro: prefix_order.trans)

lemma ledger_step_refl: "ledger_step t t"
  by (simp add: ledger_step_def)

lemma ledger_step_trans: "ledger_step s t \<Longrightarrow> ledger_step t u \<Longrightarrow> ledger_step s u"
  by (auto simp: ledger_step_def intro: history_grows_trans outcomes_grow_trans ahead_trans)

lemma handler_ledger_step:
  assumes "handler_step t t'"
  shows "ledger_step t t'"
proof -
  have a: "ahead (tx_state t) (tx_state t')" and n: "node_state (tx_db t') = node_state (tx_db t)"
    and o: "outcomes_grow (tx_db t) (tx_db t')"
    using assms by (auto simp: handler_step_def ahead_def outcomes_same_def outcomes_grow_def)
  have "in_front t \<Longrightarrow> in_front t'" using a n by (auto simp: in_front_def intro: ahead_trans)
  with a n o assms show ?thesis by (simp add: ledger_step_def handler_step_def)
qed

lemma keeps_mono: "keeps R m \<Longrightarrow> (\<And>t t'. R t t' \<Longrightarrow> S t t') \<Longrightarrow> keeps S m"
  by (auto simp: keeps_def)

lemmas handler_keeps_ledger = keeps_mono [where R = handler_step and S = ledger_step, OF _ handler_ledger_step]

lemma ledger_step_saveState: "keeps ledger_step saveState"
proof (rule keepsI)
  fix t u t'
  assume *: "saveState t = Inr (u, t')"
  obtain n S where t': "t' = t\<lparr>tx_db := (tx_db t)\<lparr>node_state := n, scope_revisions := S\<rparr>\<rparr>"
    using saveState_frame [OF *] by blast
  have "in_front t \<Longrightarrow> node_state (tx_db t') = tx_state t"
    using saveStateD [OF *] by (auto simp: in_front_def ahead_def)
  moreover have "history_grows (tx_db t) (tx_db t')" "outcomes_grow (tx_db t) (tx_db t')"
    by (auto simp: t' history_grows_def outcomes_grow_def dialogDeleted_def)
  ultimately show "ledger_step t t'"
    by (auto simp: ledger_step_def in_front_def t')
qed

lemmas ledger_defs = ledger_step_def in_front_def history_grows_def outcomes_grow_def dialogDeleted_def

interpretation led: commit_rel ledger_step
proof
  show "ledger_step s s" for s by (rule ledger_step_refl)
  show "ledger_step s t \<Longrightarrow> ledger_step t u \<Longrightarrow> ledger_step s u" for s t u by (rule ledger_step_trans)
  show "ledger_step t (t\<lparr>tx_ticks := n\<rparr>)" for t n by (rule handler_ledger_step) (rule hist.R_ticks)
  show "ledger_step t (t\<lparr>tx_ids := n\<rparr>)" for t n by (rule handler_ledger_step) (rule hist.R_ids)
  show "ledger_step t (t\<lparr>tx_created := fs\<rparr>)" for t fs by (rule handler_ledger_step) (rule hist.R_created)
  show "frozen s = frozen (tx_state t) \<Longrightarrow> advances (tx_state t) s \<Longrightarrow> ledger_step t (t\<lparr>tx_state := s\<rparr>)" for s t
    by (rule handler_ledger_step) (rule hist.R_state)
  show "keeps ledger_step saveState" by (rule ledger_step_saveState)
  show "keeps ledger_step (insertCommand r)" for r
    by (auto simp: keeps_def ledger_defs dest!: insertCommandD)
  show "keeps ledger_step (insertRejection r)" for r
    by (auto simp: keeps_def ledger_defs dest!: insertRejectionD)
  show "keeps ledger_step (insertHold r)" for r
    by (auto simp: keeps_def ledger_defs dest!: insertHoldD)
  show "keeps ledger_step (insertHoldOutcome r)" for r
    by (auto simp: keeps_def ledger_defs dest!: insertHoldOutcomeD)
  show "keeps ledger_step (insertLogicalDelete r)" for r
    by (auto simp: keeps_def ledger_defs dest!: insertLogicalDeleteD)
  show "keeps ledger_step (advanceHoldClock v)" for v
    by (auto simp: keeps_def ledger_defs dest!: advanceHoldClockD)
  show "keeps ledger_step (putScopeRevision k v)" for k v
    by (auto simp: keeps_def ledger_defs dest!: putScopeRevisionD)
qed (rule handler_keeps_ledger, rule hist.stmt_keeps; assumption?)+

section \<open>The saved state at a commit\<close>

text \<open>
  \<open>settled\<close>: the saved state is the in-flight one, as at the start of a transaction. A section
  either never lets the two drift apart (\<open>keeps settled_step\<close>) or closes with a save
  (\<open>settles\<close>: from any state whose in-flight copy is ahead).
\<close>

definition settled :: "txn \<Rightarrow> bool" where
  "settled t \<longleftrightarrow> node_state (tx_db t) = tx_state t"

definition settled_step :: "txn \<Rightarrow> txn \<Rightarrow> bool" where
  "settled_step t t' \<longleftrightarrow> (settled t \<longrightarrow> settled t')"

definition settles :: "'a tx \<Rightarrow> bool" where
  "settles m \<longleftrightarrow> (\<forall>t x t'. in_front t \<longrightarrow> m t = Inr (x, t') \<longrightarrow> settled t')"

named_theorems settle_rules \<open>structural rules of \<open>settles\<close>\<close>

lemma settled_in_front: "settled t \<Longrightarrow> in_front t"
  by (simp add: settled_def in_front_def)

lemma settled_beginTx [simp]: "settled (beginTx d)"
  by (simp add: settled_def beginTx_def)

interpretation stl: preorder_rel settled_step
  by unfold_locales (auto simp: settled_step_def)

lemma settles_keeps: "settles m \<Longrightarrow> keeps settled_step m"
  by (auto simp: settles_def keeps_def settled_step_def dest: settled_in_front)

lemma settles_saveState [settle_rules]: "settles saveState"
  unfolding settles_def
proof (intro allI impI)
  fix t x t'
  assume "in_front t" and *: "saveState t = Inr (x, t')"
  then have "identity (node_state (tx_db t)) = identity (tx_state t)" by (simp add: in_front_def ahead_def)
  from saveStateD [OF * this] show "settled t'" by (auto simp: settled_def)
qed

lemma settles_fail [settle_rules]: "settles (failM e)"
  by (simp add: settles_def)

lemma settles_then_return [settle_rules]: "settles m \<Longrightarrow> settles (bindM m (\<lambda>x. returnM (g x)))"
  by (auto simp: settles_def)

lemma settles_bind [settle_rules]:
  assumes "keeps ledger_step m" and "\<And>x. settles (f x)"
  shows "settles (bindM m f)"
  using assms by (fastforce simp: settles_def keeps_def ledger_step_def)

lemma settles_seq_last [settle_rules]: "settles m \<Longrightarrow> settles (seqM [m])"
  by (simp add: settles_def)

lemma settles_seq [settle_rules]: "keeps ledger_step m \<Longrightarrow> settles (seqM (n # ms)) \<Longrightarrow> settles (seqM (m # n # ms))"
  by (simp add: settles_bind)

lemma settles_orElse [settle_rules]: "settles m \<Longrightarrow> settles (orElseM m e)"
  by (simp add: settles_def)

lemma settles_if [settle_rules]: "(b \<Longrightarrow> settles m) \<Longrightarrow> (\<not> b \<Longrightarrow> settles n) \<Longrightarrow> settles (if b then m else n)"
  by simp

lemma settles_option [settle_rules]: "settles m \<Longrightarrow> (\<And>x. settles (f x)) \<Longrightarrow> settles (case r of None \<Rightarrow> m | Some x \<Rightarrow> f x)"
  by (simp split: option.splits)

lemma settles_let [settle_rules]: "(\<And>x. settles (f x)) \<Longrightarrow> settles (Let v f)"
  by (simp add: Let_def)

lemma settles_prod [settle_rules]: "(\<And>x y. settles (f x y)) \<Longrightarrow> settles (case p of (x, y) \<Rightarrow> f x y)"
  by (simp split: prod.splits)

text \<open>Statements that touch neither copy of the state.\<close>

lemma settled_stmt [keeps_rules]:
  "keeps settled_step (readDb f)" "keeps settled_step (readState f1)" "keeps settled_step (timestamp E)" "keeps settled_step (newID E)"
  "keeps settled_step (constraintM P)" "keeps settled_step (insertCommand r2)" "keeps settled_step (insertRejection r3)"
  "keeps settled_step (insertHold r4)" "keeps settled_step (insertHoldOutcome r5)" "keeps settled_step (insertLogicalDelete r6)"
  "keeps settled_step (advanceHoldClock v)" "keeps settled_step (putScopeRevision k v)" "keeps settled_step (updateActions P1 st)"
  by (auto simp: keeps_def settled_step_def settled_def dest!: stmtD)

lemma settled_casScopeRevision [keeps_rules]: "keeps settled_step (casScopeRevision k a b)"
  unfolding casScopeRevision_def by (intro keeps_rules)

section \<open>What one transaction does to the ledger\<close>

definition ledger_ok :: "db \<Rightarrow> bool" where
  "ledger_ok d \<longleftrightarrow> log_ok (node_state d) d \<and> keys_ok d \<and> one_active_attempt d"

definition db_step :: "db \<Rightarrow> db \<Rightarrow> bool" where
  "db_step d d' \<longleftrightarrow> (ledger_ok d \<longrightarrow> ledger_ok d') \<and> history_grows d d' \<and> outcomes_grow d d' \<and> ahead (node_state d) (node_state d')"

definition sound_body :: "'a tx \<Rightarrow> bool" where
  "sound_body m \<longleftrightarrow> keeps log_step m \<and> keeps keys_step m \<and> keeps slot_step m \<and> keeps ledger_step m \<and> keeps settled_step m"

lemma db_step_refl [simp]: "db_step d d"
  by (simp add: db_step_def)

lemma db_step_trans [trans]: "db_step d e \<Longrightarrow> db_step e f \<Longrightarrow> db_step d f"
  by (auto simp: db_step_def intro: history_grows_trans outcomes_grow_trans ahead_trans)

lemma sound_body_step:
  assumes "sound_body m" and "m (beginTx d) = Inr (x, t')"
  shows "db_step d (tx_db t')"
proof -
  let ?t = "beginTx d"
  have s: "log_step ?t t'" "keys_step ?t t'" "slot_step ?t t'" "ledger_step ?t t'" "settled_step ?t t'"
    using assms by (auto simp: sound_body_def dest: keepsD)
  have "settled t'" using s(5) by (simp add: settled_step_def)
  moreover have "in_front ?t" by (simp add: settled_in_front)
  ultimately show ?thesis
    using s by (auto simp: db_step_def ledger_ok_def beginTx_def log_step_def keys_step_def slot_step_def ledger_step_def settled_def)
qed

lemma runTx_cases:
  obtains (same) "snd (runTx E cor m body d) = d"
  | (committed) r a b c t where "body (beginTx d) = Inr (Commit r a b c, t)" and "snd (runTx E cor m body d) = tx_db t"
      and "res_committed (fst (runTx E cor m body d))"
proof (cases "body (beginTx d)")
  case (Inl e)
  then show ?thesis using same by (auto simp: runTx_def split: if_splits)
next
  case (Inr p)
  obtain oc t where p: "p = (oc, t)" by (cases p)
  show ?thesis
  proof (cases oc)
    case (Answer r)
    then show ?thesis using same Inr p by (auto simp: runTx_def split: if_splits)
  next
    case (Commit r a b c)
    show ?thesis
    proof (cases "env_beginOk E \<and> \<not> env_faultBefore E \<and> env_commitOk E")
      case True
      then show ?thesis using committed Commit Inr p by (auto simp: runTx_def)
    next
      case False
      then show ?thesis using same Commit Inr p by (auto simp: runTx_def)
    qed
  qed
qed

lemma runTx_step: "sound_body body \<Longrightarrow> db_step d (snd (runTx E cor m body d))"
  by (rule runTx_cases [of E cor m body d]) (auto dest: sound_body_step)

end
