(* ===== verification/Holds.thy ===== *)
theory Holds
  imports Commit_Laws
begin

text \<open>
  The administrative barrier of \<open>runtime/hold.go\<close>: installing, reading back, proving
  quiescent and releasing a hold over the node or one dialog, the lookup of a stored command
  outcome, the hold that covers a command and the durable rejection it causes. Raw requests
  arrive as decoded values; \<open>None\<close> stands for bytes that are empty, longer than
  \<open>MaximumWireBytes\<close> or not strict JSON.
\<close>

section \<open>Active holds\<close>

definition activeHold :: "db \<Rightarrow> holdRow \<Rightarrow> bool" where
  "activeHold d h \<longleftrightarrow> \<not> has_key hout_operation (hold_operation h) (hold_outcomes d)"

definition dialogHeld :: "db \<Rightarrow> string \<Rightarrow> string \<Rightarrow> bool" where
  "dialogHeld d node dlg \<longleftrightarrow>
     list_ex (\<lambda>h. hold_node h = node \<and> activeHold d h \<and> in_scope (hold_scope h) dlg) (administrative_holds d)"

fun overlaps :: "scope \<Rightarrow> scope \<Rightarrow> bool" where
  "overlaps NodeScope _ \<longleftrightarrow> True"
| "overlaps (DialogScope a) NodeScope \<longleftrightarrow> True"
| "overlaps (DialogScope a) (DialogScope b) \<longleftrightarrow> a = b"

definition actionDispatchStart :: string where "actionDispatchStart = ''dispatch.start''"

definition CanonicalInstallRequest :: "(string \<Rightarrow> string) \<Rightarrow> json \<Rightarrow> (installRequest \<times> string) option" where
  "CanonicalInstallRequest sha v = (case validateInstallRequest v of
     None \<Rightarrow> None | Some r \<Rightarrow> map_option (\<lambda>c. (r, sha c)) (appendCanonical v))"

definition CanonicalReleaseRequest :: "(string \<Rightarrow> string) \<Rightarrow> json \<Rightarrow> (releaseRequest \<times> string) option" where
  "CanonicalReleaseRequest sha v = (case validateReleaseRequest v of
     None \<Rightarrow> None | Some r \<Rightarrow> map_option (\<lambda>c. (r, sha c)) (appendCanonical v))"

definition okResult :: "int \<Rightarrow> json \<Rightarrow> result" where
  "okResult status body = \<lparr>res_status = status, res_body = body, res_committed = False\<rparr>"

definition conflict :: "string \<Rightarrow> int option \<Rightarrow> string \<Rightarrow> failure" where
  "conflict msg version st = CommandFailure 409 ''stale'' msg version st"

definition releaseReserve :: "env \<Rightarrow> unit tx" where
  "releaseReserve E = guardM (env_reserve E) (notDurable ''control reserve is unavailable'')"

section \<open>Install\<close>

text \<open>A dispatch of the scope has been decided but its start is not confirmed yet.\<close>

definition preStart :: "db \<Rightarrow> string \<Rightarrow> scope \<Rightarrow> bool" where
  "preStart d node sc \<longleftrightarrow> list_ex (\<lambda>a. att_node a = node \<and> att_state a = ADispatching \<and> att_started a = None \<and>
     in_scope sc (att_dialog a) \<and>
     list_ex (\<lambda>c. act_attempt c = att_id a \<and> act_kind c = actionDispatchStart \<and>
       (act_status c = CPending \<or> act_status c = CInflight)) (control_actions d)) (attempts d)"

definition dialogOwner :: "db \<Rightarrow> string \<Rightarrow> string \<Rightarrow> string option" where
  "dialogOwner d node dlg = (case sel dlg_id dlg (dialogs d) of
     None \<Rightarrow> None
   | Some r \<Rightarrow> if dlg_node r = node \<and> \<not> dialogDeleted d dlg then Some (dlg_owner r) else None)"

definition currentRevision :: "db \<Rightarrow> string \<Rightarrow> int" where
  "currentRevision d k = (case scopeRevision d k of None \<Rightarrow> 0 | Some r \<Rightarrow> r)"

definition installGuards :: "durableState \<Rightarrow> db \<Rightarrow> installRequest \<Rightarrow> unit tx" where
  "installGuards s d r = (let sc = scope_of (ir_scope r) in seqM
     [guardM (ir_expectedEpoch r = Epoch s \<and> ir_bindingGeneration r = RegistryVersion s)
        (conflict ''node binding changed'' (Some (Epoch s)) ''blocked''),
      guardM (case sc of NodeScope \<Rightarrow> True | DialogScope x \<Rightarrow> dialogOwner d (NodeID s) x = Some (OwnerID s))
        (reject 404 ''not_found'' ''dialog was not found''),
      guardM (\<not> preStart d (NodeID s) sc) (conflict ''dispatch start is already in progress'' None ''active''),
      guardM (\<not> list_ex (\<lambda>h. hold_node h = NodeID s \<and> activeHold d h \<and> overlaps (hold_scope h) sc) (administrative_holds d))
        (conflict ''scope is already held'' None ''blocked''),
      guardM (ir_expectedScopeRevision r = currentRevision d (scopeKey sc))
        (conflict ''hold scope revision changed'' (Some (currentRevision d (scopeKey sc))) ''blocked'')])"

text \<open>The writes of an installation whose guards have passed.\<close>

definition placeHold :: "env \<Rightarrow> json \<Rightarrow> installRequest \<Rightarrow> string \<Rightarrow> txOutcome tx" where
  "placeHold E raw r digest =
     bindM (readState id) (\<lambda>s. bindM (readDb id) (\<lambda>d.
     bindM (orElseM (newID E) (notDurable ''hold receipt identity is unavailable'')) (\<lambda>receiptID.
     bindM (timestamp E) (\<lambda>now.
     let sc = scope_of (ir_scope r); rev = currentRevision d (scopeKey sc) + 1;
         receipt = \<lparr>hr_operationId = ir_operationId r, hr_receiptId = receiptID, hr_nodeId = NodeID s, hr_epoch = Epoch s,
           hr_bindingGeneration = RegistryVersion s, hr_scope = sc, hr_holdVersion = hold_clock d,
           hr_scopeRevision = rev, hr_installedAt = now\<rparr>
     in bindM (seqM
          [guardM (validHoldReceipt receipt) (notDurable ''internal hold receipt is invalid''),
           releaseReserve E,
           advanceHoldClock (hold_clock d),
           orElseM (putScopeRevision (scopeKey sc) rev) (notDurable ''hold revision commit failed''),
           orElseM (insertHold \<lparr>hold_operation = ir_operationId r, hold_node = NodeID s, hold_epoch = Epoch s,
             hold_binding = RegistryVersion s, hold_scope = sc, hold_version = hold_clock d, hold_revision = rev,
             hold_canonical = raw, hold_hash = digest, hold_receipt = receipt, hold_installed = now\<rparr>)
             (notDurable ''hold commit failed'')])
        (\<lambda>_. returnM (Commit (okResult 201 (holdReceipt_json receipt)) ''hold commit was not attempted''
           ''atomic hold commit failed'' ''hold receipt delivery was interrupted''))))))"

definition installBody :: "env \<Rightarrow> json \<Rightarrow> installRequest \<Rightarrow> string \<Rightarrow> txOutcome tx" where
  "installBody E raw r digest =
     bindM (readState id) (\<lambda>s. bindM (readDb id) (\<lambda>d.
     case sel hold_operation (ir_operationId r) (administrative_holds d) of
       Some h \<Rightarrow>
         (if hold_hash h \<noteq> digest then failM (reject 409 ''id_conflict'' ''operationId already names different bytes'')
          else returnM (Answer (okResult 200 (holdReceipt_json (hold_receipt h)))))
     | None \<Rightarrow> bindM (installGuards s d r) (\<lambda>_. placeHold E raw r digest)))"

definition InstallHold :: "env \<Rightarrow> string \<Rightarrow> json option \<Rightarrow> db \<Rightarrow> result \<times> db" where
  "InstallHold E transportNode raw d =
     (if transportNode \<noteq> env_nodeID E then (errorResult E 404 ''not_found'' ''node was not found'' '''' None '''', d)
      else (case Option.bind raw (CanonicalInstallRequest (env_sha E)) of
        None \<Rightarrow> (errorResult E 400 ''invalid'' ''hold request does not match harness-barrier-v1'' '''' None '''', d)
      | Some (r, digest) \<Rightarrow>
          if ir_nodeId r \<noteq> env_nodeID E then (errorResult E 404 ''not_found'' ''node was not found'' '''' None '''', d)
          else runTx E '''' ''durable store is unavailable'' (installBody E (the raw) r digest) d))"

definition HoldStatus :: "env \<Rightarrow> string \<Rightarrow> string \<Rightarrow> db \<Rightarrow> result" where
  "HoldStatus E transportNode operationID d =
     (if transportNode \<noteq> env_nodeID E then errorResult E 404 ''not_found'' ''node was not found'' '''' None ''''
      else if operationID = '''' \<or> 128 < int (length operationID)
        then errorResult E 400 ''invalid'' ''operation id is invalid'' '''' None ''''
      else (case sel hold_operation operationID (administrative_holds d) of
        None \<Rightarrow> errorResult E 404 ''not_found'' ''hold was not found'' '''' None ''''
      | Some h \<Rightarrow>
          if \<not> validHoldReceipt (hold_receipt h) then errorResult E 503 ''not_durable'' ''hold status is invalid'' '''' None ''''
          else okResult 200 (holdReceipt_json (hold_receipt h))))"

section \<open>Quiescence\<close>

text \<open>\<open>LIKE 'tool.completed:%'\<close>; SQLite compares ASCII letters without case there.\<close>

definition toolCompletedKey :: "string \<Rightarrow> bool" where
  "toolCompletedKey k \<longleftrightarrow> hasPrefix ''tool.completed:'' (map (\<lambda>c. if between 65 90 c then char_of (byte c + 32) else c) k)"

definition settledEffect :: "string \<Rightarrow> bool" where
  "settledEffect e \<longleftrightarrow> e = ''none'' \<or> e = ''known''"

definition attemptInScope :: "db \<Rightarrow> string \<Rightarrow> scope \<Rightarrow> string \<Rightarrow> bool" where
  "attemptInScope d node sc a = (case sel att_id a (attempts d) of
     None \<Rightarrow> False | Some r \<Rightarrow> att_node r = node \<and> in_scope sc (att_dialog r))"

definition unsettledToolEvent :: "eventRow \<Rightarrow> bool" where
  "unsettledToolEvent e \<longleftrightarrow> (case evt_key e of None \<Rightarrow> False | Some k \<Rightarrow> toolCompletedKey k) \<and>
     \<not> (case payload_effectStatus (ev_payload (evt_event e)) of None \<Rightarrow> False | Some x \<Rightarrow> settledEffect x)"

definition eventInScope :: "scope \<Rightarrow> eventRow \<Rightarrow> bool" where
  "eventInScope sc e = (case sc of NodeScope \<Rightarrow> True | DialogScope x \<Rightarrow> evt_dialog e = Some x)"

definition activeInScope :: "db \<Rightarrow> string \<Rightarrow> scope \<Rightarrow> bool" where
  "activeInScope d node sc \<longleftrightarrow>
     list_ex (\<lambda>a. att_node a = node \<and> in_scope sc (att_dialog a) \<and> holds_slot (att_state a)) (attempts d)"

definition unsettledCount :: "db \<Rightarrow> string \<Rightarrow> scope \<Rightarrow> int" where
  "unsettledCount d node sc =
     count_rows (\<lambda>r. in_scope sc (req_dialog r) \<and>
       (req_status r = RDispatching \<or> req_status r = RActive \<or> req_status r = RUnknown)) (requests d) +
     count_rows (\<lambda>a. att_node a = node \<and> in_scope sc (att_dialog a) \<and> \<not> settledEffect (att_effect a)) (attempts d) +
     count_rows (\<lambda>c. attemptInScope d node sc (act_attempt c) \<and>
       (act_status c = CPending \<or> act_status c = CInflight \<or> act_status c = CUnknown)) (control_actions d) +
     count_rows (\<lambda>t. attemptInScope d node sc (tc_attempt t) \<and> tc_status t \<noteq> ''succeeded'' \<and> tc_status t \<noteq> ''failed'') (tool_calls d) +
     count_rows (\<lambda>p. attemptInScope d node sc (app_attempt p) \<and> app_status p \<noteq> SResolved) (approvals d) +
     count_rows (\<lambda>i. attemptInScope d node sc (inp_attempt i) \<and> inp_status i \<noteq> SResolved) (input_requests d) +
     count_rows (\<lambda>e. eventInScope sc e \<and> unsettledToolEvent e) (events d)"

definition parkedRequests :: "db \<Rightarrow> scope \<Rightarrow> string list" where
  "parkedRequests d sc = map req_id (sort_key req_sequence
     (filter (\<lambda>r. req_status r = RQueued \<and> in_scope sc (req_dialog r)) (requests d)))"

text \<open>\<open>for index, c := range value\<close>: the first character has no punctuation.\<close>

definition validBarrierOperationID :: "string \<Rightarrow> bool" where
  "validBarrierOperationID v \<longleftrightarrow> v \<noteq> [] \<and> int (length v) \<le> 128 \<and> is_alnum (hd v) \<and>
     list_all (\<lambda>c. is_alnum c \<or> List.member ''._:@-'' c) (tl v)"

definition checkpointStream :: "durableState \<Rightarrow> scope \<Rightarrow> string" where
  "checkpointStream s sc = (case sc of NodeScope \<Rightarrow> NodeID s | DialogScope x \<Rightarrow> x)"

definition quiescenceBody :: "env \<Rightarrow> string \<Rightarrow> result tx" where
  "quiescenceBody E operationID =
     bindM (readState id) (\<lambda>s. bindM (readDb id) (\<lambda>d.
     case sel hold_operation operationID (administrative_holds d) of
       None \<Rightarrow> failM (reject 404 ''not_found'' ''active hold was not found'')
     | Some h \<Rightarrow>
         let sc = hold_scope h; key = scopeKey sc; rev = currentRevision d key in
         bindM (seqM
           [guardM (hold_node h = NodeID s \<and> activeHold d h) (reject 404 ''not_found'' ''active hold was not found''),
            guardM (hold_epoch h = Epoch s \<and> hold_binding h = RegistryVersion s)
              (conflict ''node binding changed'' (Some (Epoch s)) ''blocked''),
            guardM (scopeRevision d key = Some (hold_revision h)) (conflict ''hold scope revision changed'' (Some rev) ''blocked'')])
         (\<lambda>_. case sel qs_key key (scope_revisions d) of
            None \<Rightarrow> failM (notDurable ''scope checkpoint is unavailable'')
          | Some q \<Rightarrow>
              bindM (seqM
                [guardM (\<not> activeInScope d (NodeID s) sc) (conflict ''scope is not parked'' None ''active''),
                 guardM (unsettledCount d (NodeID s) sc = 0) (conflict ''scope effects or controls are unsettled'' None ''unknown'')])
              (\<lambda>_.
                let p = \<lparr>qp_operationId = operationID, qp_nodeId = NodeID s, qp_epoch = Epoch s, qp_bindingGeneration = RegistryVersion s,
                  qp_scope = sc, qp_holdVersion = hold_version h, qp_scopeRevision = hold_revision h, qp_stateVersion = qs_state q,
                  qp_queueRevision = qs_queue q, qp_parkedRequestIdsDigest = parkedDigest (env_sha E) (parkedRequests d sc),
                  qp_checkpointStreamId = checkpointStream s sc, qp_checkpointSeq = qs_state q\<rparr>
                in bindM (guardM (validQuiescenceProof (env_sha E) p) (notDurable ''internal quiescence proof is invalid''))
                  (\<lambda>_. returnM (okResult 200 (quiescenceProof_json (env_sha E) p)))))))"

definition QuiescenceProof :: "env \<Rightarrow> string \<Rightarrow> string \<Rightarrow> db \<Rightarrow> result" where
  "QuiescenceProof E transportNode operationID d =
     (if transportNode \<noteq> env_nodeID E then errorResult E 404 ''not_found'' ''node was not found'' '''' None ''''
      else if \<not> validBarrierOperationID operationID then errorResult E 400 ''invalid'' ''operation id is invalid'' '''' None ''''
      else if \<not> env_beginOk E then errorResult E 503 ''not_durable'' ''durable store is unavailable'' '''' None ''''
      else (case quiescenceBody E operationID (beginTx d) of
        Inl e \<Rightarrow> commandError E '''' e
      | Inr (r, t) \<Rightarrow> r))"

section \<open>Release\<close>

text \<open>The writes of a release of hold \<open>h\<close> whose guards have passed.\<close>

definition liftHold :: "env \<Rightarrow> json \<Rightarrow> releaseRequest \<Rightarrow> string \<Rightarrow> holdRow \<Rightarrow> txOutcome tx" where
  "liftHold E raw r digest h =
     bindM (readState id) (\<lambda>s. bindM (readDb id) (\<lambda>d.
     bindM (orElseM (newID E) (notDurable ''release receipt identity is unavailable'')) (\<lambda>receiptID.
     bindM (timestamp E) (\<lambda>now.
     let key = scopeKey (hold_scope h); rev = currentRevision d key;
         receipt = \<lparr>lr_kind = (if rr_action r = ''cancel'' then ''hold.cancelled'' else ''hold.released''),
           lr_operationId = rr_operationId r, lr_receiptId = receiptID, lr_nodeId = NodeID s, lr_epoch = Epoch s,
           lr_bindingGeneration = RegistryVersion s, lr_scope = hold_scope h, lr_holdVersion = hold_version h,
           lr_scopeRevision = rev + 1, lr_manualPause = QueuePaused s, lr_releasedAt = now\<rparr>
     in bindM (seqM
          [guardM (validReleaseReceipt receipt) (notDurable ''internal release receipt is invalid''),
           releaseReserve E,
           orElseM (casScopeRevision key rev (rev + 1)) (notDurable ''release revision commit failed''),
           orElseM (insertHoldOutcome \<lparr>hout_operation = rr_operationId r, hout_action = rr_action r, hout_canonical = raw,
             hout_hash = digest, hout_receipt = receipt, hout_revision = rev + 1, hout_released = now\<rparr>)
             (notDurable ''release commit failed'')])
        (\<lambda>_. returnM (Commit (okResult 201 (releaseReceipt_json receipt)) ''release commit was not attempted''
           ''atomic release commit failed'' ''release receipt delivery was interrupted''))))))"

definition releaseBody :: "env \<Rightarrow> json \<Rightarrow> releaseRequest \<Rightarrow> string \<Rightarrow> txOutcome tx" where
  "releaseBody E raw r digest =
     bindM (readState id) (\<lambda>s. bindM (readDb id) (\<lambda>d.
     case sel hout_operation (rr_operationId r) (hold_outcomes d) of
       Some ho \<Rightarrow>
         (if hout_hash ho \<noteq> digest then failM (reject 409 ''id_conflict'' ''operationId already names different release bytes'')
          else returnM (Answer (okResult 200 (releaseReceipt_json (hout_receipt ho)))))
     | None \<Rightarrow> (case sel hold_operation (rr_operationId r) (administrative_holds d) of
         None \<Rightarrow> failM (reject 404 ''not_found'' ''hold was not found'')
       | Some h \<Rightarrow>
           bindM (seqM
             [guardM (hold_node h = NodeID s) (reject 404 ''not_found'' ''hold was not found''),
              guardM (rr_expectedEpoch r = Epoch s \<and> rr_expectedEpoch r = hold_epoch h \<and>
                rr_bindingGeneration r = RegistryVersion s \<and> rr_bindingGeneration r = hold_binding h \<and>
                rr_scope r = wire_of_scope (hold_scope h) \<and> rr_holdVersion r = hold_version h \<and>
                rr_expectedScopeRevision r = hold_revision h)
                (conflict ''hold binding changed'' (Some (Epoch s)) ''blocked''),
              guardM (scopeRevision d (scopeKey (hold_scope h)) = Some (hold_revision h))
                (conflict ''hold scope revision changed'' (Some (currentRevision d (scopeKey (hold_scope h)))) ''blocked'')])
           (\<lambda>_. liftHold E raw r digest h))))"

definition ReleaseHold :: "env \<Rightarrow> string \<Rightarrow> json option \<Rightarrow> db \<Rightarrow> result \<times> db" where
  "ReleaseHold E transportNode raw d =
     (if transportNode \<noteq> env_nodeID E then (errorResult E 404 ''not_found'' ''node was not found'' '''' None '''', d)
      else (case Option.bind raw (CanonicalReleaseRequest (env_sha E)) of
        None \<Rightarrow> (errorResult E 400 ''invalid'' ''release request does not match harness-barrier-v1'' '''' None '''', d)
      | Some (r, digest) \<Rightarrow>
          if rr_nodeId r \<noteq> env_nodeID E then (errorResult E 404 ''not_found'' ''node was not found'' '''' None '''', d)
          else runTx E '''' ''durable store is unavailable'' (releaseBody E (the raw) r digest) d))"

section \<open>Stored outcomes and covering holds\<close>

record storedCommandOutcome =
  so_hash :: string
  so_canonical :: json
  so_body :: json
  so_status :: int
  so_accepted :: bool

text \<open>The \<open>UNION ALL\<close> over both outcome tables; more than one row is an error.\<close>

definition outcomeRows :: "db \<Rightarrow> string \<Rightarrow> storedCommandOutcome list" where
  "outcomeRows d c =
     map (\<lambda>r. \<lparr>so_hash = cmd_hash r, so_canonical = cmd_canonical r, so_body = receipt_json (cmd_receipt r), so_status = 200, so_accepted = True\<rparr>)
       (filter (\<lambda>r. cmd_id r = c) (commands d)) @
     map (\<lambda>r. \<lparr>so_hash = rej_hash r, so_canonical = rej_canonical r, so_body = rejectionReceipt_json (rej_receipt r),
         so_status = rej_status r, so_accepted = False\<rparr>)
       (filter (\<lambda>r. rej_id r = c) (command_rejections d))"

definition loadCommandOutcome :: "string \<Rightarrow> storedCommandOutcome option tx" where
  "loadCommandOutcome c = bindM (readDb (\<lambda>d. outcomeRows d c)) (\<lambda>rows. case rows of
     [] \<Rightarrow> returnM None
   | [r] \<Rightarrow> returnM (Some r)
   | _ \<Rightarrow> failM (RawError ''command id has multiple durable outcomes''))"

text \<open>
  \<open>coveringHoldForCommand\<close>: only admission and resume commands can be held; a command with no
  dialog is covered by a node hold alone.
\<close>

definition nodeHold :: "env \<Rightarrow> db \<Rightarrow> holdRow option" where
  "nodeHold E d = first_by hold_version
     (filter (\<lambda>h. hold_node h = env_nodeID E \<and> hold_scope h = NodeScope \<and> activeHold d h) (administrative_holds d))"

definition coveringHold :: "env \<Rightarrow> db \<Rightarrow> string \<Rightarrow> holdRow option" where
  "coveringHold E d dlg = (case nodeHold E d of
     Some h \<Rightarrow> Some h
   | None \<Rightarrow>
       if dlg = '''' then None
       else first_by hold_version
         (filter (\<lambda>h. hold_node h = env_nodeID E \<and> hold_scope h = DialogScope dlg \<and> activeHold d h) (administrative_holds d)))"

definition coveringHoldForCommand :: "env \<Rightarrow> commandEnvelope \<Rightarrow> holdRow option tx" where
  "coveringHoldForCommand E c = bindM (readDb id) (\<lambda>d.
     if ce_kind c = DialogCreate \<or> ce_kind c = QueueResume then returnM (coveringHold E d '''')
     else if ce_kind c = DialogDelete \<or> ce_kind c = MessageEnqueue
       then returnM (coveringHold E d (jstring (ce_target c) ''dialogId''))
     else if ce_kind c = AttemptRetry
       then bindM (needM (attemptDialog d (jstring (ce_target c) ''attemptId''))) (\<lambda>dlg. returnM (coveringHold E d dlg))
     else returnM None)"

definition commitCommandRejection :: "env \<Rightarrow> commandEnvelope \<Rightarrow> json \<Rightarrow> string \<Rightarrow> holdRow \<Rightarrow> txOutcome tx" where
  "commitCommandRejection E c canonical digest h =
     bindM (readState id) (\<lambda>s.
     bindM (orElseM (newID E) (notDurable ''rejection receipt identity is unavailable'')) (\<lambda>receiptID.
     bindM (timestamp E) (\<lambda>now.
     let receipt = \<lparr>jr_commandId = ce_commandId c, jr_commandKind = ce_kind c, jr_receiptId = receiptID, jr_nodeId = NodeID s,
           jr_epoch = Epoch s, jr_canonicalPayloadHash = digest, jr_rejectedAt = now, jr_holdOperationId = hold_operation h,
           jr_holdVersion = hold_version h, jr_scope = hold_scope h, jr_scopeRevision = hold_revision h\<rparr>
     in bindM (seqM
          [guardM (validRejectionReceipt receipt) (notDurable ''internal rejection receipt is invalid''),
           orElseM (insertRejection \<lparr>rej_id = ce_commandId c, rej_actor = env_ownerID E, rej_node = NodeID s, rej_kind = ce_kind c,
             rej_canonical = canonical, rej_hash = digest, rej_receipt = receipt, rej_status = 409, rej_at = now,
             rej_hold = hold_operation h\<rparr>) (notDurable ''rejection commit failed'')])
        (\<lambda>_. returnM (Commit (okResult 409 (rejectionReceipt_json receipt)) ''rejection commit was not attempted''
           ''atomic rejection commit failed'' ''rejection receipt delivery was interrupted'')))))"

section \<open>Contracts kept\<close>

text \<open>Holds and outcomes read or extend the ledger through statements only, so every relation of the two contracts passes through them.\<close>

context tx_rel
begin

lemma keeps_releaseReserve [keeps_rules]: "keeps R (releaseReserve E)"
  unfolding releaseReserve_def by (intro keeps_rules)

lemma keeps_loadCommandOutcome [keeps_rules]: "keeps R (loadCommandOutcome c)"
  by (auto simp: keeps_def loadCommandOutcome_def R_refl split: list.splits)

lemma keeps_coveringHoldForCommand [keeps_rules]: "keeps R (coveringHoldForCommand E c)"
  unfolding coveringHoldForCommand_def by (intro keeps_rules)

lemma keeps_installGuards [keeps_rules]: "keeps R (installGuards s d r)"
  unfolding installGuards_def by (intro keeps_rules)

end

context commit_rel
begin

lemma keeps_placeHold [keeps_rules]: "keeps R (placeHold E raw r digest)"
  unfolding placeHold_def by (intro keeps_rules)

lemma keeps_liftHold [keeps_rules]: "keeps R (liftHold E raw r digest h)"
  unfolding liftHold_def by (intro keeps_rules)

lemma keeps_installBody [keeps_rules]: "keeps R (installBody E raw r digest)"
  unfolding installBody_def by (intro keeps_rules)

lemma keeps_releaseBody [keeps_rules]: "keeps R (releaseBody E raw r digest)"
  unfolding releaseBody_def by (intro keeps_rules)

lemma keeps_commitCommandRejection [keeps_rules]: "keeps R (commitCommandRejection E c canonical digest h)"
  unfolding commitCommandRejection_def by (intro keeps_rules)

end

lemma settled_releaseReserve [keeps_rules]: "keeps settled_step (releaseReserve E)"
  unfolding releaseReserve_def by (intro keeps_rules)

lemma settled_loadCommandOutcome [keeps_rules]: "keeps settled_step (loadCommandOutcome c)"
  by (auto simp: keeps_def loadCommandOutcome_def settled_step_def split: list.splits)

lemma settled_coveringHoldForCommand [keeps_rules]: "keeps settled_step (coveringHoldForCommand E c)"
  unfolding coveringHoldForCommand_def by (intro keeps_rules)

lemma settled_installBody: "keeps settled_step (installBody E raw r digest)"
  unfolding installBody_def installGuards_def placeHold_def by (intro keeps_rules)

lemma sound_installBody: "sound_body (installBody E raw r digest)"
  unfolding sound_body_def by (intro conjI keeps_rules settled_installBody)

lemma settled_releaseBody: "keeps settled_step (releaseBody E raw r digest)"
  unfolding releaseBody_def liftHold_def by (intro keeps_rules)

lemma sound_releaseBody: "sound_body (releaseBody E raw r digest)"
  unfolding sound_body_def by (intro conjI keeps_rules settled_releaseBody)

lemma settled_commitCommandRejection [keeps_rules]: "keeps settled_step (commitCommandRejection E c canonical digest h)"
  unfolding commitCommandRejection_def by (intro keeps_rules)

lemma InstallHold_step: "db_step d (snd (InstallHold E node raw d))"
  by (auto simp: InstallHold_def intro: runTx_step sound_installBody split: option.splits)

lemma ReleaseHold_step: "db_step d (snd (ReleaseHold E node raw d))"
  by (auto simp: ReleaseHold_def intro: runTx_step sound_releaseBody split: option.splits)

section \<open>What the barrier does\<close>

lemma placeHoldD:
  assumes "placeHold E raw r digest t = Inr (oc, t')"
  shows "\<exists>h R S. tx_db t' = (tx_db t)\<lparr>hold_clock := hold_clock (tx_db t) + 1, hold_scope_revisions := R,
        administrative_holds := administrative_holds (tx_db t) @ [h], scope_revisions := S\<rparr> \<and> tx_state t' = tx_state t \<and>
      map_of R (scopeKey (hold_scope h)) = Some (hold_revision h) \<and>
      hold_operation h = ir_operationId r \<and> hold_hash h = digest \<and> hold_node h = NodeID (tx_state t) \<and>
      hold_scope h = scope_of (ir_scope r) \<and> hold_version h = hold_clock (tx_db t) \<and>
      hold_revision h = currentRevision (tx_db t) (scopeKey (hold_scope h)) + 1 \<and>
      hold_epoch h = Epoch (tx_state t) \<and> hold_binding h = RegistryVersion (tx_state t) \<and> validHoldReceipt (hold_receipt h) \<and>
      (\<exists>a b f. oc = Commit (okResult 201 (holdReceipt_json (hold_receipt h))) a b f)"
proof -
  have clk: "advanceHoldClock v u = Inr (x, u') \<longleftrightarrow>
      u' = u\<lparr>tx_db := (if hold_clock (tx_db u) = v then (tx_db u)\<lparr>hold_clock := v + 1\<rparr> else tx_db u)\<rparr>" for v u x u'
    by (simp add: advanceHoldClock_def)
  show ?thesis
    using assms unfolding placeHold_def
    by (clarsimp simp: Let_def releaseReserve_def clk dest!: putScopeRevisionD insertHoldD)
      (intro exI conjI, rule refl, simp_all add: update_conv)
qed

lemma installBody_cases:
  assumes "installBody E raw r digest t = Inr (oc, t')"
  obtains (replay) h where "sel hold_operation (ir_operationId r) (administrative_holds (tx_db t)) = Some h" and "hold_hash h = digest"
      and "oc = Answer (okResult 200 (holdReceipt_json (hold_receipt h)))" and "t' = t"
  | (installed) "sel hold_operation (ir_operationId r) (administrative_holds (tx_db t)) = None"
      and "installGuards (tx_state t) (tx_db t) r t = Inr ((), t)" and "placeHold E raw r digest t = Inr (oc, t')"
proof (cases "sel hold_operation (ir_operationId r) (administrative_holds (tx_db t))")
  case (Some h)
  with assms replay show ?thesis by (auto simp: installBody_def split: if_splits)
next
  case None
  have "installGuards s d q u = Inr (x, u') \<Longrightarrow> u' = u" for s d q u x u'
    by (auto simp: installGuards_def Let_def)
  with assms None installed show ?thesis by (fastforce simp: installBody_def)
qed

lemma liftHoldD:
  assumes "liftHold E raw r digest h t = Inr (oc, t')"
  shows "\<exists>ho R S. tx_db t' = (tx_db t)\<lparr>hold_scope_revisions := R, hold_outcomes := hold_outcomes (tx_db t) @ [ho], scope_revisions := S\<rparr> \<and>
      tx_state t' = tx_state t \<and> hout_operation ho = rr_operationId r \<and> hout_hash ho = digest \<and> hout_action ho = rr_action r \<and>
      lr_manualPause (hout_receipt ho) = QueuePaused (tx_state t) \<and> validReleaseReceipt (hout_receipt ho) \<and>
      (\<exists>a b f. oc = Commit (okResult 201 (releaseReceipt_json (hout_receipt ho))) a b f)"
proof -
  have cas: "casScopeRevision k x y u = Inr (z, u') \<Longrightarrow> \<exists>R. u' = u\<lparr>tx_db := (tx_db u)\<lparr>hold_scope_revisions := R\<rparr>\<rparr>" for k x y u z u'
  proof (cases "scopeRevision (tx_db u) k = Some x")
    case False
    moreover assume "casScopeRevision k x y u = Inr (z, u')"
    ultimately have "u' = u\<lparr>tx_db := (tx_db u)\<lparr>hold_scope_revisions := hold_scope_revisions (tx_db u)\<rparr>\<rparr>" by (simp add: casScopeRevision_def)
    then show ?thesis by blast
  qed (auto simp: casScopeRevision_def dest!: putScopeRevisionD)
  show ?thesis
    using assms unfolding liftHold_def
    by (clarsimp simp: Let_def releaseReserve_def split del: if_split dest!: cas insertHoldOutcomeD)
      (intro exI conjI, rule refl, simp_all split del: if_split)
qed

lemma releaseBody_cases:
  assumes "releaseBody E raw r digest t = Inr (oc, t')"
  obtains (replay) ho where "sel hout_operation (rr_operationId r) (hold_outcomes (tx_db t)) = Some ho" and "hout_hash ho = digest"
      and "oc = Answer (okResult 200 (releaseReceipt_json (hout_receipt ho)))" and "t' = t"
  | (released) h where "sel hout_operation (rr_operationId r) (hold_outcomes (tx_db t)) = None"
      and "sel hold_operation (rr_operationId r) (administrative_holds (tx_db t)) = Some h" and "hold_node h = NodeID (tx_state t)"
      and "rr_holdVersion r = hold_version h" and "rr_expectedScopeRevision r = hold_revision h"
      and "scopeRevision (tx_db t) (scopeKey (hold_scope h)) = Some (hold_revision h)"
      and "liftHold E raw r digest h t = Inr (oc, t')"
  using assms replay released by (auto simp: releaseBody_def split: option.splits if_splits)

end
