(* ===== verification/Handlers.thy ===== *)
theory Handlers
  imports Holds
begin

text \<open>
  The command handlers: \<open>runtime/command_handlers.go\<close> (create and delete a dialog, enqueue,
  cancel, resume) and \<open>runtime/control_handlers.go\<close> (stop, retry, steer, approval and input
  responses). Each runs inside the transaction of \<open>SubmitCommand\<close> and returns the receipt
  references, the result word, the blocking reason and the control intent to record, if any.
  The envelope has passed \<open>Validate\<close>, so reading its parts by name is \<open>decodeParts\<close>.
\<close>

record postCommitAction =
  pca_kind :: string
  pca_attemptID :: string
  pca_messageID :: string
  pca_actorID :: string
  pca_payload :: json

type_synonym applied = "json \<times> string \<times> string \<times> postCommitAction option"

definition QueueCapacity :: int where "QueueCapacity = 100"

section \<open>Reasons\<close>

definition blockingReason :: "durableState \<Rightarrow> string" where
  "blockingReason s =
     (if QueuePaused s then ''operator_pause''
      else (case BlockedReasons s of r # _ \<Rightarrow> r
            | [] \<Rightarrow> if EngineReadiness s \<noteq> ''ready'' then ''engine_unavailable'' else ''''))"

definition addReason :: "string list \<Rightarrow> string \<Rightarrow> string list" where
  "addReason rs r = (if List.member rs r then rs else rs @ [r])"

definition removeReason :: "string list \<Rightarrow> string \<Rightarrow> string list" where
  "removeReason rs r = filter (\<lambda>x. x \<noteq> r) rs"

definition refs :: "(string \<times> string) list \<Rightarrow> json" where
  "refs kvs = JObj (map (\<lambda>(k, v). (k, JStr v)) kvs)"

section \<open>Dialogs and messages\<close>

definition applyDialogCreate :: "env \<Rightarrow> commandEnvelope \<Rightarrow> applied tx" where
  "applyDialogCreate E c =
     bindM (readState id) (\<lambda>s.
     bindM (guardM (jint (ce_expected c) ''registryVersion'' = RegistryVersion s) (stale (RegistryVersion s) ''registry'')) (\<lambda>_.
     bindM (newID E) (\<lambda>dialogID.
     bindM (timestamp E) (\<lambda>now.
     bindM (seqM
       [insertDialog \<lparr>dlg_id = dialogID, dlg_node = NodeID s, dlg_owner = OwnerID s, dlg_version = 1,
          dlg_title = nullText (jstring (ce_payload c) ''title''), dlg_created = now\<rparr>,
        writeState (\<lambda>s. s\<lparr>StateVersion := StateVersion s + 1\<rparr>),
        appendNodeEvent E]) (\<lambda>_.
     bindM (readState blockingReason) (\<lambda>blocking.
     returnM (refs [(''dialogId'', dialogID)], ''admitted'', blocking, None)))))))"

text \<open>What keeps a dialog from being deleted.\<close>

definition dialogUnresolved :: "db \<Rightarrow> string \<Rightarrow> bool" where
  "dialogUnresolved d dlg \<longleftrightarrow>
     list_ex (\<lambda>r. req_dialog r = dlg \<and>
       \<not> (req_status r = RCancelled \<or> req_status r = RCompleted \<or> req_status r = RFailed \<or> req_status r = RInterrupted)) (requests d) \<or>
     list_ex (\<lambda>a. att_dialog a = dlg \<and>
       (\<not> (att_state a = ACompleted \<or> att_state a = AFailed \<or> att_state a = AInterrupted) \<or> \<not> settledEffect (att_effect a))) (attempts d) \<or>
     list_ex (\<lambda>x. attemptDialog d (act_attempt x) = Some dlg \<and>
       \<not> (act_status x = CAcknowledged \<or> act_status x = CRejected)) (control_actions d) \<or>
     list_ex (\<lambda>x. attemptDialog d (tc_attempt x) = Some dlg \<and> tc_status x \<noteq> ''succeeded'' \<and> tc_status x \<noteq> ''failed'') (tool_calls d) \<or>
     list_ex (\<lambda>x. attemptDialog d (app_attempt x) = Some dlg \<and> app_status x \<noteq> SResolved) (approvals d) \<or>
     list_ex (\<lambda>x. attemptDialog d (inp_attempt x) = Some dlg \<and> inp_status x \<noteq> SResolved) (input_requests d) \<or>
     list_ex (\<lambda>e. evt_dialog e = Some dlg \<and> unsettledToolEvent e) (events d)"

definition applyDialogDelete :: "env \<Rightarrow> commandEnvelope \<Rightarrow> applied tx" where
  "applyDialogDelete E c = (let dlg = jstring (ce_target c) ''dialogId'' in
     bindM (readDb id) (\<lambda>d. case sel dlg_id dlg (dialogs d) of
       None \<Rightarrow> failM (reject 404 ''not_found'' ''dialog was not found'')
     | Some r \<Rightarrow>
         bindM (seqM
           [guardM (\<not> dialogDeleted d dlg) (reject 404 ''not_found'' ''dialog was not found''),
            guardM (jint (ce_expected c) ''dialogVersion'' = dlg_version r) (stale (dlg_version r) ''active''),
            guardM (\<not> dialogUnresolved d dlg) (stale (dlg_version r) ''active''),
            updateDialog dlg (\<lambda>r. r\<lparr>dlg_version := dlg_version r + 1\<rparr>),
            writeState (\<lambda>s. s\<lparr>StateVersion := StateVersion s + 1\<rparr>),
            appendEvent E dlg (dlg_version r + 1) '''' dlg (PDialogDeleted dlg) False]) (\<lambda>_.
         bindM (readState id) (\<lambda>s.
         bindM (bindEvent (\<lambda>e. evt_node e = NodeID s \<and> evt_seq e = LastEventSeq s) ''dialog.deleted'' None) (\<lambda>n.
         bindM (guardM (n = 1) (RawError ''dialog tombstone event binding failed'')) (\<lambda>_.
         returnM (refs [(''dialogId'', dlg)], ''deleted'', '''', None)))))))"

definition applyMessageEnqueue :: "env \<Rightarrow> commandEnvelope \<Rightarrow> applied tx" where
  "applyMessageEnqueue E c = (let dlg = jstring (ce_target c) ''dialogId'' in
     bindM (readDb (\<lambda>d. sel dlg_id dlg (dialogs d))) (\<lambda>row.
     bindM (needM row) (\<lambda>dialog.
     bindM (readState id) (\<lambda>s.
     bindM (seqM
       [guardM (jint (ce_expected c) ''dialogVersion'' = dlg_version dialog) (stale (dlg_version dialog) ''dialog''),
        guardM (PendingCount s < QueueCapacity) (reject 429 ''queue_full'' ''pending queue is full'')]) (\<lambda>_.
     bindM (newID E) (\<lambda>messageID.
     bindM (newID E) (\<lambda>requestID.
     bindM (timestamp E) (\<lambda>now.
     bindM (seqM
       [insertMessage \<lparr>msg_id = messageID, msg_dialog = dlg, msg_sequence = NextMessageSequence s, msg_version = 1, msg_role = ''user'',
          msg_text = Some (jstring (ce_payload c) ''text''), msg_content = None, msg_disposition = Some DQueued,
          msg_command = Some (ce_commandId c), msg_request = Some requestID, msg_attempt = None, msg_finish = None, msg_created = now\<rparr>,
        insertRequest \<lparr>req_id = requestID, req_dialog = dlg, req_message = messageID, req_sequence = NextQueueSequence s,
          req_version = 1, req_status = RQueued, req_created = now, req_updated = now\<rparr>,
        updateDialog dlg (\<lambda>r. r\<lparr>dlg_version := dlg_version r + 1\<rparr>),
        writeState (\<lambda>s. s\<lparr>NextMessageSequence := NextMessageSequence s + 1, NextQueueSequence := NextQueueSequence s + 1,
          PendingCount := PendingCount s + 1, QueueVersion := QueueVersion s + 1, StateVersion := StateVersion s + 1\<rparr>),
        appendEvent E messageID 1 '''' '''' (PMessageAccepted dlg messageID requestID (NextMessageSequence s) ''queued'') False,
        appendQueueEvent E,
        appendNodeEvent E]) (\<lambda>_.
     bindM (readState blockingReason) (\<lambda>blocking.
     returnM (refs [(''dialogId'', dlg), (''messageId'', messageID), (''requestId'', requestID)], ''admitted'', blocking, None)))))))))))"

definition applyRequestCancel :: "env \<Rightarrow> commandEnvelope \<Rightarrow> applied tx" where
  "applyRequestCancel E c = (let reqID = jstring (ce_target c) ''requestId'' in
     bindM (readDb (\<lambda>d. sel req_id reqID (requests d))) (\<lambda>row.
     bindM (needM row) (\<lambda>r.
     bindM (seqM
       [guardM (jint (ce_expected c) ''requestVersion'' = req_version r) (stale (req_version r) (request_status_str (req_status r))),
        guardM (req_status r = RQueued) (stale (req_version r) (request_status_str (req_status r)))]) (\<lambda>_.
     bindM (timestamp E) (\<lambda>now.
     bindM (seqM
       [updateRequest reqID (\<lambda>r. r\<lparr>req_version := req_version r + 1, req_status := RCancelled, req_updated := now\<rparr>),
        updateMessage (req_message r) (\<lambda>m. m\<lparr>msg_version := msg_version m + 1, msg_disposition := Some DCancelled\<rparr>),
        writeState (\<lambda>s. s\<lparr>PendingCount := PendingCount s - 1, QueueVersion := QueueVersion s + 1, StateVersion := StateVersion s + 1\<rparr>),
        appendEvent E (req_message r) 2 '''' ''''
          (PMessageDisposition (req_message r) ''queued'' ''cancelled'' ''request_cancelled'') False,
        appendQueueEvent E,
        appendNodeEvent E]) (\<lambda>_.
     returnM (refs [(''requestId'', reqID)], ''admitted'', '''', None)))))))"

definition applyQueueResume :: "env \<Rightarrow> commandEnvelope \<Rightarrow> applied tx" where
  "applyQueueResume E c =
     bindM (readState id) (\<lambda>s.
     bindM (seqM
       [guardM (jint (ce_expected c) ''queueVersion'' = QueueVersion s) (stale (QueueVersion s) ''queue''),
        writeState (\<lambda>s. s\<lparr>QueuePaused := False, BlockedReasons := removeReason (BlockedReasons s) ''operator_pause'',
          QueueVersion := QueueVersion s + 1, StateVersion := StateVersion s + 1\<rparr>),
        appendQueueEvent E,
        appendNodeEvent E]) (\<lambda>_.
     bindM (readState blockingReason) (\<lambda>blocking.
     returnM (refs [(''nodeId'', NodeID s)], ''applied'', blocking, None))))"

section \<open>Control of attempts\<close>

definition stoppable :: "attempt_state \<Rightarrow> bool" where
  "stoppable a \<longleftrightarrow> a = ADispatching \<or> a = ARunning \<or> a = AWaitingInput \<or> a = AStopping"

definition applyAttemptStop :: "env \<Rightarrow> commandEnvelope \<Rightarrow> applied tx" where
  "applyAttemptStop E c = (let attID = jstring (ce_target c) ''attemptId'' in
     bindM (readDb (\<lambda>d. sel att_id attID (attempts d))) (\<lambda>row.
     bindM (needM row) (\<lambda>a.
     bindM (readState id) (\<lambda>s.
     bindM (seqM
       [guardM (jint (ce_expected c) ''attemptGeneration'' = att_generation a \<and> ActiveAttemptID s = Some attID)
          (stale (att_generation a) (attempt_state_str (att_state a))),
        guardM (stoppable (att_state a)) (stale (att_generation a) (attempt_state_str (att_state a))),
        updateAttempt attID (\<lambda>a. a\<lparr>att_version := att_version a + 1, att_state := AStopping\<rparr>),
        writeState (\<lambda>s. s\<lparr>QueuePaused := True, BlockedReasons := addReason (BlockedReasons s) ''operator_pause'',
          QueueVersion := QueueVersion s + 1, StateVersion := StateVersion s + 1\<rparr>),
        appendEvent E attID (att_version a + 1) attID (att_dialog a) (PAttemptStopRequested (att_generation a) (ce_commandId c)) False,
        appendQueueEvent E,
        appendNodeEvent E]) (\<lambda>_.
     returnM (refs [(''attemptId'', attID)], ''admitted'', ''operator_pause'',
       Some \<lparr>pca_kind = kind_str AttemptStop, pca_attemptID = attID, pca_messageID = '''', pca_actorID = '''',
         pca_payload = JObj [(''dialogId'', JStr (att_dialog a)), (''generation'', JInt (att_generation a)),
           (''requestId'', JStr (att_request a))]\<rparr>))))))"

definition maxOf :: "int list \<Rightarrow> int option" where
  "maxOf xs = (case xs of [] \<Rightarrow> None | x # ys \<Rightarrow> Some (fold max ys x))"

definition latestSequence :: "db \<Rightarrow> string \<Rightarrow> int option" where
  "latestSequence d m = maxOf (map req_sequence (filter (\<lambda>r. req_message r = m) (requests d)))"

definition attemptMessage :: "db \<Rightarrow> attemptRow \<Rightarrow> string option" where
  "attemptMessage d a = map_option req_message (sel req_id (att_request a) (requests d))"

definition latestGeneration :: "db \<Rightarrow> string \<Rightarrow> int option" where
  "latestGeneration d m = maxOf (map att_generation (filter (\<lambda>a. attemptMessage d a = Some m) (attempts d)))"

text \<open>The latest request and attempt of input \<open>m\<close> satisfy \<open>P\<close>.\<close>

definition latestPair :: "db \<Rightarrow> string \<Rightarrow> (requestRow \<Rightarrow> attemptRow \<Rightarrow> bool) \<Rightarrow> bool" where
  "latestPair d m P \<longleftrightarrow> list_ex (\<lambda>a. case sel req_id (att_request a) (requests d) of
       None \<Rightarrow> False
     | Some r \<Rightarrow> req_message r = m \<and> Some (req_sequence r) = latestSequence d m \<and>
         Some (att_generation a) = latestGeneration d m \<and> P r a) (attempts d)"

definition retryEligible :: "db \<Rightarrow> string \<Rightarrow> string \<Rightarrow> string \<Rightarrow> bool" where
  "retryEligible d attID dlg msgID \<longleftrightarrow>
     list_ex (\<lambda>a. att_id a = attID \<and> (case sel req_id (att_request a) (requests d) of
         None \<Rightarrow> False
       | Some r \<Rightarrow> Some (req_sequence r) = latestSequence d msgID \<and> Some (att_generation a) = latestGeneration d msgID)) (attempts d) \<and>
     \<not> list_ex (\<lambda>m. msg_dialog m = dlg \<and> msg_role m = ''user'' \<and>
         list_ex (\<lambda>r. req_message r = msg_id m) (requests d) \<and>
         (case sel msg_id msgID (messages d) of None \<Rightarrow> False | Some o1 \<Rightarrow> msg_sequence o1 < msg_sequence m) \<and>
         \<not> latestPair d (msg_id m) (\<lambda>r a. (req_status r = RFailed \<or> req_status r = RInterrupted) \<and>
             (att_state a = AFailed \<or> att_state a = AInterrupted) \<and> att_effect a = ''none'')) (messages d)"

definition applyAttemptRetry :: "env \<Rightarrow> commandEnvelope \<Rightarrow> applied tx" where
  "applyAttemptRetry E c = (let attID = jstring (ce_target c) ''attemptId'' in
     bindM (readDb id) (\<lambda>d.
     bindM (needM (sel att_id attID (attempts d))) (\<lambda>a.
     bindM (needM (attemptMessage d a)) (\<lambda>msgID.
     bindM (readState id) (\<lambda>s.
     bindM (seqM
       [guardM (jint (ce_expected c) ''attemptGeneration'' = att_generation a) (stale (att_generation a) (attempt_state_str (att_state a))),
        guardM (att_state a = AFailed \<or> att_state a = AInterrupted) (stale (att_generation a) (attempt_state_str (att_state a))),
        guardM (att_effect a \<noteq> ''unknown'') (reject 409 ''stale'' ''unknown effects require reconciliation''),
        guardM (\<not> (att_effect a = ''known'' \<and> \<not> jbool (ce_payload c) ''acknowledgeKnownEffects''))
          (reject 409 ''stale'' ''known effects require acknowledgement''),
        guardM (retryEligible d attID (att_dialog a) msgID)
          (reject 409 ''stale'' ''retry target is superseded or outside the safe failed tail''),
        guardM (PendingCount s < QueueCapacity) (reject 429 ''queue_full'' ''pending queue is full''),
        guardM (\<not> list_ex (\<lambda>r. req_message r = msgID \<and> (req_status r = RQueued \<or> req_status r = RDispatching \<or>
            req_status r = RActive \<or> req_status r = RUnknown)) (requests d))
          (reject 409 ''stale'' ''a retry for this input is already pending'')]) (\<lambda>_.
     bindM (newID E) (\<lambda>requestID.
     bindM (timestamp E) (\<lambda>now.
     bindM (seqM
       [insertRequest \<lparr>req_id = requestID, req_dialog = att_dialog a, req_message = msgID, req_sequence = NextQueueSequence s,
          req_version = 1, req_status = RQueued, req_created = now, req_updated = now\<rparr>,
        writeState (\<lambda>s. s\<lparr>NextQueueSequence := NextQueueSequence s + 1, PendingCount := PendingCount s + 1,
          QueueVersion := QueueVersion s + 1, StateVersion := StateVersion s + 1\<rparr>),
        appendQueueEvent E,
        appendNodeEvent E]) (\<lambda>_.
     bindM (readState blockingReason) (\<lambda>blocking.
     returnM (refs [(''priorAttemptId'', attID), (''requestId'', requestID)], ''admitted'', blocking, None)))))))))))"

definition applyMessageSteer :: "env \<Rightarrow> commandEnvelope \<Rightarrow> applied tx" where
  "applyMessageSteer E c = (let attID = jstring (ce_target c) ''attemptId''; dlg = jstring (ce_target c) ''dialogId'';
       msgID = jstring (ce_target c) ''messageId'' in
     bindM (readDb id) (\<lambda>d.
     bindM (needM (sel att_id attID (attempts d))) (\<lambda>a.
     bindM (needM (List.find (\<lambda>m. msg_id m = msgID \<and> msg_dialog m = dlg) (messages d))) (\<lambda>m.
     bindM (needM (msg_disposition m)) (\<lambda>disp.
     bindM (needM (msg_request m)) (\<lambda>requestID.
     bindM (needM (msg_text m)) (\<lambda>txt.
     bindM (readState id) (\<lambda>s.
     bindM (seqM
       [guardM (att_generation a = jint (ce_expected c) ''attemptGeneration'' \<and> msg_version m = jint (ce_expected c) ''messageVersion'' \<and>
          att_dialog a = dlg \<and> ActiveAttemptID s = Some attID) (stale (att_generation a) (attempt_state_str (att_state a))),
        guardM (disp = DQueued \<and> (att_state a = ARunning \<or> att_state a = AWaitingInput)) (stale (msg_version m) (disposition_str disp)),
        updateMessage msgID (\<lambda>m. m\<lparr>msg_version := msg_version m + 1, msg_disposition := Some DSteerPending\<rparr>),
        writeState (\<lambda>s. s\<lparr>QueueVersion := QueueVersion s + 1, StateVersion := StateVersion s + 1\<rparr>),
        appendEvent E msgID (msg_version m + 1) '''' '''' (PMessageDisposition msgID ''queued'' ''steer_pending'' ''steer_requested'') False,
        appendQueueEvent E]) (\<lambda>_.
     returnM (refs [(''dialogId'', dlg), (''messageId'', msgID), (''attemptId'', attID)], ''admitted'', '''',
       Some \<lparr>pca_kind = kind_str MessageSteer, pca_attemptID = attID, pca_messageID = msgID, pca_actorID = '''',
         pca_payload = JObj [(''dialogId'', JStr dlg), (''generation'', JInt (att_generation a)),
           (''requestId'', JStr requestID), (''text'', JStr txt)]\<rparr>))))))))))"

text \<open>The attempt an approval or an input request belongs to.\<close>

definition applyApproval :: "env \<Rightarrow> commandEnvelope \<Rightarrow> applied tx" where
  "applyApproval E c = (let appID = jstring (ce_target c) ''approvalId''; attID = jstring (ce_target c) ''attemptId'';
       dec = jstring (ce_payload c) ''decision'' in
     bindM (readDb id) (\<lambda>d.
     bindM (needM (List.find (\<lambda>p. app_id p = appID \<and> app_attempt p = attID) (approvals d))) (\<lambda>p.
     bindM (needM (sel att_id attID (attempts d))) (\<lambda>a.
     bindM (seqM
       [guardM (app_version p = jint (ce_expected c) ''approvalVersion'' \<and> att_generation a = jint (ce_expected c) ''attemptGeneration'' \<and>
          app_status p = SPending \<and> app_actionHash p = jstring (ce_payload c) ''actionHash'')
          (stale (app_version p) (response_status_str (app_status p))),
        updateApproval appID (\<lambda>_. True) (\<lambda>p. p\<lparr>app_version := app_version p + 1, app_status := SResponding,
          app_decision := Some dec, app_actor := Some (env_ownerID E)\<rparr>)]) (\<lambda>_.
     returnM (refs [(''approvalId'', appID), (''attemptId'', attID)], ''admitted'', '''',
       Some \<lparr>pca_kind = kind_str ApprovalRespond, pca_attemptID = attID, pca_messageID = '''', pca_actorID = env_ownerID E,
         pca_payload = JObj [(''actionHash'', JStr (app_actionHash p)), (''approvalId'', JStr appID),
           (''approvalVersion'', JInt (app_version p + 1)), (''callId'', JStr (app_call p)), (''decision'', JStr dec),
           (''dialogId'', JStr (att_dialog a)), (''generation'', JInt (att_generation a)), (''requestId'', JStr (att_request a))]\<rparr>))))))"

definition applyInput :: "env \<Rightarrow> commandEnvelope \<Rightarrow> applied tx" where
  "applyInput E c = (let inpID = jstring (ce_target c) ''inputRequestId''; attID = jstring (ce_target c) ''attemptId'';
       txt = jstring (ce_payload c) ''text'' in
     bindM (readDb id) (\<lambda>d.
     bindM (needM (List.find (\<lambda>i. inp_id i = inpID \<and> inp_attempt i = attID) (input_requests d))) (\<lambda>i.
     bindM (needM (sel att_id attID (attempts d))) (\<lambda>a.
     bindM (guardM (inp_version i = jint (ce_expected c) ''inputVersion'' \<and> att_generation a = jint (ce_expected c) ''attemptGeneration'' \<and>
          inp_status i = SPending) (stale (inp_version i) (response_status_str (inp_status i)))) (\<lambda>_.
     bindM (newID E) (\<lambda>messageID.
     bindM (timestamp E) (\<lambda>now.
     bindM (readState NextMessageSequence) (\<lambda>sq.
     bindM (seqM
       [insertMessage \<lparr>msg_id = messageID, msg_dialog = att_dialog a, msg_sequence = sq, msg_version = 1, msg_role = ''user'',
          msg_text = Some txt, msg_content = None, msg_disposition = Some DApplied, msg_command = Some (ce_commandId c),
          msg_request = Some (att_request a), msg_attempt = Some attID, msg_finish = None, msg_created = now\<rparr>,
        updateInput inpID (\<lambda>_. True) (\<lambda>i. i\<lparr>inp_version := inp_version i + 1, inp_status := SResponding, inp_message := Some messageID\<rparr>),
        writeState (\<lambda>s. s\<lparr>NextMessageSequence := NextMessageSequence s + 1\<rparr>)]) (\<lambda>_.
     returnM (refs [(''inputRequestId'', inpID), (''attemptId'', attID), (''messageId'', messageID)], ''admitted'', '''',
       Some \<lparr>pca_kind = kind_str InputRespond, pca_attemptID = attID, pca_messageID = messageID, pca_actorID = env_ownerID E,
         pca_payload = JObj [(''dialogId'', JStr (att_dialog a)), (''generation'', JInt (att_generation a)),
           (''inputRequestId'', JStr inpID), (''inputVersion'', JInt (inp_version i + 1)), (''requestId'', JStr (att_request a)),
           (''text'', JStr txt)]\<rparr>))))))))))"

section \<open>Contracts kept\<close>

text \<open>Every handler stays within the contract of \<open>tx_rel\<close>.\<close>

context tx_rel
begin

lemma keeps_applyDialogCreate [keeps_rules]: "keeps R (applyDialogCreate E c)"
  unfolding applyDialogCreate_def by (intro keeps_rules) (simp_all add: state_laws core_defs)

lemma keeps_applyDialogDelete [keeps_rules]: "keeps R (applyDialogDelete E c)"
  unfolding applyDialogDelete_def by (intro keeps_rules) (simp_all add: state_laws core_defs)

lemma keeps_applyMessageEnqueue [keeps_rules]: "keeps R (applyMessageEnqueue E c)"
  unfolding applyMessageEnqueue_def by (intro keeps_rules) (simp_all add: state_laws core_defs)

lemma keeps_applyRequestCancel [keeps_rules]: "keeps R (applyRequestCancel E c)"
  unfolding applyRequestCancel_def by (intro keeps_rules) (simp_all add: state_laws core_defs)

lemma keeps_applyQueueResume [keeps_rules]: "keeps R (applyQueueResume E c)"
  unfolding applyQueueResume_def by (intro keeps_rules) (simp_all add: state_laws core_defs)

lemma keeps_applyAttemptStop [keeps_rules]: "keeps R (applyAttemptStop E c)"
  unfolding applyAttemptStop_def by (intro keeps_rules) (simp_all add: state_laws core_defs)

lemma keeps_applyAttemptRetry [keeps_rules]: "keeps R (applyAttemptRetry E c)"
  unfolding applyAttemptRetry_def by (intro keeps_rules) (simp_all add: state_laws core_defs)

lemma keeps_applyMessageSteer [keeps_rules]: "keeps R (applyMessageSteer E c)"
  unfolding applyMessageSteer_def by (intro keeps_rules) (simp_all add: state_laws core_defs)

lemma keeps_applyApproval [keeps_rules]: "keeps R (applyApproval E c)"
  unfolding applyApproval_def by (intro keeps_rules) (simp_all add: state_laws core_defs)

lemma keeps_applyInput [keeps_rules]: "keeps R (applyInput E c)"
  unfolding applyInput_def by (intro keeps_rules) (simp_all add: state_laws core_defs)

end

section \<open>What a dialog deletion does\<close>

lemma applyDialogDeleteD:
  assumes "applyDialogDelete E c t = Inr (a, t')" and dlg: "jstring (ce_target c) ''dialogId'' = dlg"
  shows "\<exists>row. sel dlg_id dlg (dialogs (tx_db t)) = Some row \<and> jint (ce_expected c) ''dialogVersion'' = dlg_version row \<and>
    \<not> dialogDeleted (tx_db t) dlg \<and> \<not> dialogUnresolved (tx_db t) dlg \<and> (dlg \<noteq> [] \<longrightarrow> dialogDeleted (tx_db t') dlg) \<and>
    LastEventSeq (tx_state t') = LastEventSeq (tx_state t) + 1 \<and> a = (refs [(''dialogId'', dlg)], ''deleted'', '''', None)"
proof -
  obtain row where row: "sel dlg_id dlg (dialogs (tx_db t)) = Some row"
    using assms by (auto simp: applyDialogDelete_def Let_def split: option.splits)
  obtain t1 n where ev: "appendEvent E dlg (dlg_version row + 1) '''' dlg (PDialogDeleted dlg) False
      (t\<lparr>tx_db := (tx_db t)\<lparr>dialogs := upd dlg_id dlg (\<lambda>r. r\<lparr>dlg_version := dlg_version r + 1\<rparr>) (dialogs (tx_db t))\<rparr>,
        tx_state := (tx_state t)\<lparr>StateVersion := StateVersion (tx_state t) + 1\<rparr>\<rparr>) = Inr ((), t1)"
    and b: "bindEvent (\<lambda>e. evt_node e = NodeID (tx_state t1) \<and> evt_seq e = LastEventSeq (tx_state t1)) ''dialog.deleted'' None t1 = Inr (n, t')"
    and g: "jint (ce_expected c) ''dialogVersion'' = dlg_version row" "\<not> dialogDeleted (tx_db t) dlg" "\<not> dialogUnresolved (tx_db t) dlg"
      "a = (refs [(''dialogId'', dlg)], ''deleted'', '''', None)"
    using assms row by (auto simp: applyDialogDelete_def Let_def updateDialog_def)
  have "LastEventSeq (tx_state t') = LastEventSeq (tx_state t) + 1"
    using appendEventD [OF ev] bindEventD [OF b] by auto
  moreover have "dlg \<noteq> [] \<Longrightarrow> dialogDeleted (tx_db t') dlg"
    using appendEventD [OF ev] bindEventD [OF b] by (auto simp: dialogDeleted_def eventRowOf_def nullText_def)
  ultimately show ?thesis using row g by blast
qed

end
