(* ===== verification/Commands.thy ===== *)
theory Commands
  imports Handlers
begin

text \<open>
  Durable command admission: \<open>runtime/command.go\<close> with the storage floor of
  \<open>runtime/reserve.go\<close> and \<open>runtime/store.go\<close>. \<open>SubmitCommand\<close> is the whole critical section
  under the node lock: identity fence, idempotency lookup, object isolation, covering hold,
  storage admission, the handler, receipt, control intent, command row, state and commit.
\<close>

section \<open>Storage admission\<close>

definition MinimumFreeBytes :: "64 word" where "MinimumFreeBytes = 1073741824"

definition admissionFloor :: "64 word \<Rightarrow> 64 word" where
  "admissionFloor totalBytes = (let floor = totalBytes div 10 in if floor < MinimumFreeBytes then MinimumFreeBytes else floor)"

definition belowFloor :: "(64 word \<times> 64 word) option \<Rightarrow> bool" where
  "belowFloor space = (case space of None \<Rightarrow> True | Some (freeBytes, totalBytes) \<Rightarrow> freeBytes < admissionFloor totalBytes)"

definition admitStorage :: "env \<Rightarrow> command_kind \<Rightarrow> unit tx" where
  "admitStorage E k =
     (if IsAdmissionCommand k
      then guardM (\<not> belowFloor (env_space E)) (notDurable ''admission storage floor is unavailable'')
      else seqM
        [releaseReserve E,
         if belowFloor (env_space E) \<or> belowFloor (env_physical E)
         then writeState (\<lambda>s. s\<lparr>EngineReadiness := ''blocked'', BlockedReasons := addReason (BlockedReasons s) ''storage_unavailable''\<rparr>)
         else returnM ()])"

section \<open>Object isolation\<close>

definition approvalDialog :: "db \<Rightarrow> string \<Rightarrow> string \<Rightarrow> string option" where
  "approvalDialog d p a = (if list_ex (\<lambda>r. app_id r = p \<and> app_attempt r = a) (approvals d) then attemptDialog d a else None)"

definition inputDialog :: "db \<Rightarrow> string \<Rightarrow> string \<Rightarrow> string option" where
  "inputDialog d i a = (if list_ex (\<lambda>r. inp_id r = i \<and> inp_attempt r = a) (input_requests d) then attemptDialog d a else None)"

definition requestDialog :: "db \<Rightarrow> string \<Rightarrow> string option" where
  "requestDialog d r = map_option req_dialog (sel req_id r (requests d))"

text \<open>The dialog a command's target resolves to.\<close>

fun targetDialogOf :: "db \<Rightarrow> command_kind \<Rightarrow> json \<Rightarrow> string option" where
  "targetDialogOf d MessageEnqueue t = Some (jstring t ''dialogId'')"
| "targetDialogOf d MessageSteer t = Some (jstring t ''dialogId'')"
| "targetDialogOf d RequestCancel t = requestDialog d (jstring t ''requestId'')"
| "targetDialogOf d AttemptStop t = attemptDialog d (jstring t ''attemptId'')"
| "targetDialogOf d AttemptRetry t = attemptDialog d (jstring t ''attemptId'')"
| "targetDialogOf d ApprovalRespond t = approvalDialog d (jstring t ''approvalId'') (jstring t ''attemptId'')"
| "targetDialogOf d InputRespond t = inputDialog d (jstring t ''inputRequestId'') (jstring t ''attemptId'')"
| "targetDialogOf d _ t = None"

definition authorizeObject :: "env \<Rightarrow> commandEnvelope \<Rightarrow> unit tx" where
  "authorizeObject E c =
     bindM (guardM (jstring (ce_target c) ''nodeId'' = env_nodeID E) (reject 404 ''not_found'' ''target was not found'')) (\<lambda>_.
     if ce_kind c = DialogCreate \<or> ce_kind c = QueueResume then returnM ()
     else if ce_kind c = DialogDelete then failM (reject 400 ''invalid'' ''unsupported command kind'')
     else bindM (readDb (\<lambda>d. Option.bind (targetDialogOf d (ce_kind c) (ce_target c)) (dialogOwner d (env_nodeID E)))) (\<lambda>owner.
       guardM (owner = Some (env_ownerID E)) (reject 404 ''not_found'' ''target was not found'')))"

section \<open>Idempotent replay\<close>

definition outcomeDialog :: "db \<Rightarrow> storedCommandOutcome \<Rightarrow> string" where
  "outcomeDialog d oc = (let fromRefs = (if so_accepted oc then (case jfield (so_body oc) ''references'' of
         Some r \<Rightarrow> jstring r ''dialogId'' | None \<Rightarrow> '''') else '''') in
     if fromRefs \<noteq> '''' then fromRefs
     else (case jfield (so_canonical oc) ''target'' of
       None \<Rightarrow> ''''
     | Some t \<Rightarrow>
         if jstring t ''dialogId'' \<noteq> '''' then jstring t ''dialogId''
         else (let found = (if jstring t ''requestId'' \<noteq> '''' then requestDialog d (jstring t ''requestId'')
             else if jstring t ''attemptId'' \<noteq> '''' then attemptDialog d (jstring t ''attemptId'')
             else if jstring t ''approvalId'' \<noteq> '''' then
               Option.bind (sel app_id (jstring t ''approvalId'') (approvals d)) (\<lambda>p. attemptDialog d (app_attempt p))
             else if jstring t ''inputRequestId'' \<noteq> '''' then
               Option.bind (sel inp_id (jstring t ''inputRequestId'') (input_requests d)) (\<lambda>i. attemptDialog d (inp_attempt i))
             else None) in case found of None \<Rightarrow> '''' | Some x \<Rightarrow> x)))"

definition commandOutcomeTargetsDeletedDialog :: "db \<Rightarrow> storedCommandOutcome \<Rightarrow> bool" where
  "commandOutcomeTargetsDeletedDialog d oc \<longleftrightarrow> outcomeDialog d oc \<noteq> '''' \<and> dialogDeleted d (outcomeDialog d oc)"

definition replayOutcome :: "storedCommandOutcome \<Rightarrow> string \<Rightarrow> txOutcome tx" where
  "replayOutcome oc digest =
     bindM (guardM (so_hash oc = digest) (reject 409 ''id_conflict'' ''commandId already names different bytes'')) (\<lambda>_.
     bindM (readDb (\<lambda>d. commandOutcomeTargetsDeletedDialog d oc)) (\<lambda>gone.
     bindM (guardM (\<not> gone) (reject 404 ''not_found'' ''command was not found'')) (\<lambda>_.
     returnM (Answer (okResult (so_status oc) (so_body oc))))))"

section \<open>Submission\<close>

definition applyCommand :: "env \<Rightarrow> commandEnvelope \<Rightarrow> applied tx" where
  "applyCommand E c = (case ce_kind c of
     DialogCreate \<Rightarrow> applyDialogCreate E c
   | MessageEnqueue \<Rightarrow> applyMessageEnqueue E c
   | RequestCancel \<Rightarrow> applyRequestCancel E c
   | QueueResume \<Rightarrow> applyQueueResume E c
   | AttemptStop \<Rightarrow> applyAttemptStop E c
   | AttemptRetry \<Rightarrow> applyAttemptRetry E c
   | MessageSteer \<Rightarrow> applyMessageSteer E c
   | ApprovalRespond \<Rightarrow> applyApproval E c
   | InputRespond \<Rightarrow> applyInput E c
   | DialogDelete \<Rightarrow> failM (reject 400 ''invalid'' ''unsupported command kind''))"

definition recordIntent :: "string \<Rightarrow> postCommitAction option \<Rightarrow> unit tx" where
  "recordIntent commandID action = (case action of
     None \<Rightarrow> returnM ()
   | Some a \<Rightarrow> orElseM (insertAction \<lparr>act_command = commandID, act_kind = pca_kind a, act_attempt = pca_attemptID a,
       act_message = nullText (pca_messageID a), act_actor = nullText (pca_actorID a), act_payload = pca_payload a,
       act_status = CPending\<rparr>) (notDurable ''control intent commit failed''))"

text \<open>The receipt, the control intent, the command row and the state, after the handler has run.\<close>

definition recordCommand :: "env \<Rightarrow> commandEnvelope \<Rightarrow> json \<Rightarrow> string \<Rightarrow> applied \<Rightarrow> txOutcome tx" where
  "recordCommand E c canonical digest = (\<lambda>(references, res, blocking, action).
     bindM (orElseM (newID E) (notDurable ''receipt identity is unavailable'')) (\<lambda>receiptID.
     bindM (timestamp E) (\<lambda>now.
     bindM (readState LastEventSeq) (\<lambda>sq.
     let receipt = \<lparr>rc_commandId = ce_commandId c, rc_commandKind = ce_kind c, rc_receiptId = receiptID, rc_acceptedAt = now,
           rc_nodeId = env_nodeID E, rc_eventSeq = sq, rc_result = res, rc_blockingReason = blocking, rc_references = references\<rparr>
     in bindM (seqM
          [guardM (Validate ''receipt'' (receipt_json receipt)) (notDurable ''internal receipt is invalid''),
           recordIntent (ce_commandId c) action,
           orElseM (insertCommand \<lparr>cmd_id = ce_commandId c, cmd_actor = env_ownerID E, cmd_node = env_nodeID E, cmd_kind = ce_kind c,
             cmd_canonical = canonical, cmd_hash = digest, cmd_receipt = receipt, cmd_accepted = now, cmd_seq = sq\<rparr>)
             (notDurable ''command commit failed''),
           orElseM saveState (notDurable ''state commit failed'')])
        (\<lambda>_. returnM (Commit (okResult 202 (receipt_json receipt)) ''commit was not attempted'' ''atomic commit failed''
           ''receipt delivery was interrupted''))))))"

definition admitCommand :: "env \<Rightarrow> commandEnvelope \<Rightarrow> json \<Rightarrow> string \<Rightarrow> txOutcome tx" where
  "admitCommand E c canonical digest =
     bindM (admitStorage E (ce_kind c)) (\<lambda>_.
     bindM (applyCommand E c) (\<lambda>a. recordCommand E c canonical digest a))"

record expectedIdentity =
  xi_nodeId :: string
  xi_registryVersion :: int
  xi_identityEpoch :: int
  xi_adapterKind :: string
  xi_adapterVersion :: string

record trustContext =
  tc_transportNodeID :: string
  tc_expectedIdentity :: "expectedIdentity option"

definition identityExpected :: "env \<Rightarrow> trustContext \<Rightarrow> durableState \<Rightarrow> bool" where
  "identityExpected E trust s = (case tc_expectedIdentity trust of
     None \<Rightarrow> True
   | Some x \<Rightarrow> xi_nodeId x = env_nodeID E \<and> xi_registryVersion x = RegistryVersion s \<and> xi_identityEpoch x = Epoch s \<and>
       xi_adapterKind x = env_adapterKind E \<and> xi_adapterVersion x = env_adapterVersion E)"

definition submitBody :: "env \<Rightarrow> trustContext \<Rightarrow> commandEnvelope \<Rightarrow> json \<Rightarrow> string \<Rightarrow> txOutcome tx" where
  "submitBody E trust c canonical digest =
     bindM (readState id) (\<lambda>s.
     bindM (guardM (identityExpected E trust s) (reject 409 ''stale'' ''routing identity changed'')) (\<lambda>_.
     bindM (orElseM (loadCommandOutcome (ce_commandId c)) (notDurable ''command lookup failed'')) (\<lambda>found.
     case found of
       Some oc \<Rightarrow> replayOutcome oc digest
     | None \<Rightarrow>
         bindM (authorizeObject E c) (\<lambda>_.
         bindM (orElseM (coveringHoldForCommand E c) (notDurable ''hold lookup failed'')) (\<lambda>hold. case hold of
           Some h \<Rightarrow> bindM (releaseReserve E) (\<lambda>_. commitCommandRejection E c canonical digest h)
         | None \<Rightarrow> admitCommand E c canonical digest)))))"

text \<open>
  \<open>bestEffortCommandID\<close> reads the bytes with the lenient decoder: \<open>lenient\<close> is what
  \<open>encoding/json\<close> makes of them, \<open>raw\<close> the value when they are strict JSON.
\<close>

definition bestEffortCommandID :: "json option \<Rightarrow> string" where
  "bestEffortCommandID lenient = (case lenient of
     Some (JObj kvs) \<Rightarrow>
       (let s = lastOr '''' (List.map_filter goString (goValues kvs ''commandId'')) in if uuidPattern s then s else '''')
   | _ \<Rightarrow> '''')"

definition SubmitCommand :: "env \<Rightarrow> trustContext \<Rightarrow> json option \<Rightarrow> json option \<Rightarrow> db \<Rightarrow> result \<times> db" where
  "SubmitCommand E trust lenient raw d = (let correlation = bestEffortCommandID lenient in
     if tc_transportNodeID trust \<noteq> env_nodeID E
     then (errorResult E 404 ''not_found'' ''node was not found'' correlation None '''', d)
     else (case raw of
       None \<Rightarrow> (errorResult E 400 ''invalid'' ''command does not match harness-wire-v2'' correlation None '''', d)
     | Some v \<Rightarrow> (case CanonicalCommand (env_sha E) v of
         None \<Rightarrow> (errorResult E 400 ''invalid'' ''command does not match harness-wire-v2'' correlation None '''', d)
       | Some (canonical, digest) \<Rightarrow> (case decodeEnvelope v of
           None \<Rightarrow> (errorResult E 400 ''invalid'' ''command cannot be decoded'' correlation None '''', d)
         | Some c \<Rightarrow>
             if ce_kind c = DialogDelete
             then (errorResult E 403 ''forbidden'' ''dialog deletion requires the logical delete coordinator'' (ce_commandId c) None '''', d)
             else runTx E (ce_commandId c) ''durable store is unavailable'' (submitBody E trust c v digest) d))))"

section \<open>Contracts kept\<close>

text \<open>The submission body within both contracts.\<close>

context tx_rel
begin

lemma keeps_applyCommand [keeps_rules]: "keeps R (applyCommand E c)"
  unfolding applyCommand_def by (cases "ce_kind c") (simp_all, (intro keeps_rules)+)

lemma keeps_admitStorage [keeps_rules]: "keeps R (admitStorage E k)"
  unfolding admitStorage_def by (intro keeps_rules) (simp_all add: state_laws)

lemma keeps_authorizeObject [keeps_rules]: "keeps R (authorizeObject E c)"
  unfolding authorizeObject_def by (intro keeps_rules)

lemma keeps_replayOutcome [keeps_rules]: "keeps R (replayOutcome oc digest)"
  unfolding replayOutcome_def by (intro keeps_rules)

lemma keeps_recordIntent [keeps_rules]: "keeps R (recordIntent i a)"
  unfolding recordIntent_def by (intro keeps_rules)

end

context commit_rel
begin

lemma keeps_recordCommand [keeps_rules]: "keeps R (recordCommand E c canonical digest a)"
  unfolding recordCommand_def by (intro keeps_rules)

lemma keeps_admitCommand [keeps_rules]: "keeps R (admitCommand E c canonical digest)"
  unfolding admitCommand_def by (intro keeps_rules)

lemma keeps_submitBody [keeps_rules]: "keeps R (submitBody E trust c canonical digest)"
  unfolding submitBody_def by (intro keeps_rules)

end

lemma settles_recordCommand [settle_rules]: "settles (recordCommand E c canonical digest a)"
  unfolding recordCommand_def by (intro settle_rules keeps_rules)

lemma settles_admitCommand: "settles (admitCommand E c canonical digest)"
  unfolding admitCommand_def by (intro settle_rules keeps_rules)


lemma settled_authorizeObject [keeps_rules]: "keeps settled_step (authorizeObject E c)"
  unfolding authorizeObject_def by (intro keeps_rules)

lemma settled_replayOutcome [keeps_rules]: "keeps settled_step (replayOutcome oc digest)"
  unfolding replayOutcome_def by (intro keeps_rules)

lemma settled_submitBody: "keeps settled_step (submitBody E trust c canonical digest)"
  unfolding submitBody_def by (intro keeps_rules settles_keeps [OF settles_admitCommand])

lemma sound_submitBody: "sound_body (submitBody E trust c canonical digest)"
  unfolding sound_body_def by (intro conjI keeps_rules settled_submitBody)

lemma SubmitCommand_step: "db_step d (snd (SubmitCommand E trust lenient raw d))"
  by (auto simp: SubmitCommand_def Let_def intro: runTx_step sound_submitBody split: option.splits)

section \<open>What a submission does\<close>

lemma loadCommandOutcome_Inr:
  "loadCommandOutcome c t = Inr (x, t') \<longleftrightarrow> t' = t \<and>
     (outcomeRows (tx_db t) c = [] \<and> x = None \<or> (\<exists>so. outcomeRows (tx_db t) c = [so] \<and> x = Some so))"
  by (auto simp: loadCommandOutcome_def split: list.splits)

lemma coveringHoldForCommand_pure: "coveringHoldForCommand E c t = Inr (x, t') \<Longrightarrow> t' = t"
  by (auto simp: coveringHoldForCommand_def split: if_splits)

lemma authorizeObject_pure: "authorizeObject E c t = Inr (x, t') \<Longrightarrow> t' = t"
  by (auto simp: authorizeObject_def split: if_splits)

lemma submitBody_cases:
  assumes "submitBody E trust c canonical digest t = Inr (oc, t')"
  obtains (replay) so where "outcomeRows (tx_db t) (ce_commandId c) = [so]" and "so_hash so = digest"
      and "\<not> commandOutcomeTargetsDeletedDialog (tx_db t) so" and "oc = Answer (okResult (so_status so) (so_body so))" and "t' = t"
  | (held) h where "outcomeRows (tx_db t) (ce_commandId c) = []" and "authorizeObject E c t = Inr ((), t)"
      and "coveringHoldForCommand E c t = Inr (Some h, t)" and "commitCommandRejection E c canonical digest h t = Inr (oc, t')"
  | (admitted) "outcomeRows (tx_db t) (ce_commandId c) = []" and "authorizeObject E c t = Inr ((), t)"
      and "coveringHoldForCommand E c t = Inr (None, t)" and "admitCommand E c canonical digest t = Inr (oc, t')"
proof -
  obtain found where f: "loadCommandOutcome (ce_commandId c) t = Inr (found, t)"
    and rest: "(case found of Some oc \<Rightarrow> replayOutcome oc digest
      | None \<Rightarrow> bindM (authorizeObject E c) (\<lambda>_. bindM (orElseM (coveringHoldForCommand E c) (notDurable ''hold lookup failed'')) (\<lambda>hold. case hold of
           Some h \<Rightarrow> bindM (releaseReserve E) (\<lambda>_. commitCommandRejection E c canonical digest h)
         | None \<Rightarrow> admitCommand E c canonical digest))) t = Inr (oc, t')"
    using assms by (auto simp: submitBody_def loadCommandOutcome_Inr)
  show ?thesis
  proof (cases found)
    case None
    then obtain x where "authorizeObject E c t = Inr ((), t)" and "coveringHoldForCommand E c t = Inr (x, t)"
      and "(case x of Some h \<Rightarrow> bindM (releaseReserve E) (\<lambda>_. commitCommandRejection E c canonical digest h)
         | None \<Rightarrow> admitCommand E c canonical digest) t = Inr (oc, t')"
      using rest by (auto dest: authorizeObject_pure coveringHoldForCommand_pure)
    then show ?thesis using None f held admitted by (cases x) (auto simp: releaseReserve_def loadCommandOutcome_Inr)
  next
    case (Some so)
    then show ?thesis using f rest replay by (auto simp: replayOutcome_def loadCommandOutcome_Inr)
  qed
qed

lemma commitCommandRejectionD:
  assumes "commitCommandRejection E c canonical digest h t = Inr (oc, t')"
  shows "\<exists>r. tx_db t' = (tx_db t)\<lparr>command_rejections := command_rejections (tx_db t) @ [r]\<rparr> \<and> tx_state t' = tx_state t \<and>
    rej_id r = ce_commandId c \<and> rej_hash r = digest \<and> rej_canonical r = canonical \<and> rej_status r = 409 \<and>
    rej_hold r = hold_operation h \<and> validRejectionReceipt (rej_receipt r) \<and> jr_holdOperationId (rej_receipt r) = hold_operation h \<and>
    (\<exists>a b f. oc = Commit (okResult 409 (rejectionReceipt_json (rej_receipt r))) a b f)"
  using assms by (fastforce simp: commitCommandRejection_def Let_def dest!: insertRejectionD)

lemma handler_outcomes_same:
  assumes "handler_step t t'"
  shows "commands (tx_db t') = commands (tx_db t)" and "command_rejections (tx_db t') = command_rejections (tx_db t)"
    and "administrative_holds (tx_db t') = administrative_holds (tx_db t)" and "hold_outcomes (tx_db t') = hold_outcomes (tx_db t)"
    and "logical_deletes (tx_db t') = logical_deletes (tx_db t)" and "node_state (tx_db t') = node_state (tx_db t)"
  using assms by (auto simp: handler_step_def outcomes_same_def)

text \<open>An admission is its handler plus exactly one command row that carries the receipt.\<close>

lemma recordCommandD:
  assumes "recordCommand E c canonical digest a t = Inr (oc, t')"
  shows "\<exists>r. commands (tx_db t') = commands (tx_db t) @ [r] \<and> command_rejections (tx_db t') = command_rejections (tx_db t) \<and>
    cmd_id r = ce_commandId c \<and> cmd_hash r = digest \<and> cmd_canonical r = canonical \<and> cmd_kind r = ce_kind c \<and>
    Validate ''receipt'' (receipt_json (cmd_receipt r)) \<and> rc_commandId (cmd_receipt r) = ce_commandId c \<and>
    rc_references (cmd_receipt r) = fst a \<and> rc_eventSeq (cmd_receipt r) = LastEventSeq (tx_state t) \<and>
    (\<exists>m1 m2 m3. oc = Commit (okResult 202 (receipt_json (cmd_receipt r))) m1 m2 m3)"
proof -
  obtain references res blocking action where a: "a = (references, res, blocking, action)" by (cases a)
  have intent: "recordIntent i x s = Inr (u, s') \<Longrightarrow> commands (tx_db s') = commands (tx_db s) \<and>
      command_rejections (tx_db s') = command_rejections (tx_db s)" for i x s u s'
    by (auto simp: recordIntent_def split: option.splits dest!: insertActionD)
  show ?thesis
    using assms unfolding a recordCommand_def
    by (clarsimp simp: Let_def dest!: intent insertCommandD saveState_frame)
qed

lemma admitCommandD:
  assumes "admitCommand E c canonical digest t = Inr (oc, t')"
  obtains t1 t2 a where "admitStorage E (ce_kind c) t = Inr ((), t1)" and "applyCommand E c t1 = Inr (a, t2)"
    and "recordCommand E c canonical digest a t2 = Inr (oc, t')" and "handler_step t t2"
proof -
  obtain t1 a t2 where *: "admitStorage E (ce_kind c) t = Inr ((), t1)" "applyCommand E c t1 = Inr (a, t2)"
    "recordCommand E c canonical digest a t2 = Inr (oc, t')"
    using assms by (auto simp: admitCommand_def)
  moreover have "handler_step t t2"
    using keepsD [OF hist.keeps_admitStorage *(1)] keepsD [OF hist.keeps_applyCommand *(2)] by (rule hist.R_trans)
  ultimately show ?thesis by (rule that)
qed

section \<open>One outcome per command\<close>

definition outcome_ids :: "db \<Rightarrow> string list" where
  "outcome_ids d = map cmd_id (commands d) @ map rej_id (command_rejections d)"

definition one_outcome :: "db \<Rightarrow> bool" where
  "one_outcome d \<longleftrightarrow> distinct (outcome_ids d)"

lemma outcomeRows_Nil: "outcomeRows d c = [] \<longleftrightarrow> c \<notin> set (outcome_ids d)"
  by (auto simp: outcomeRows_def outcome_ids_def filter_empty_conv)

lemma length_filter_distinct: "distinct (map f xs) \<Longrightarrow> length (filter (\<lambda>x. f x = k) xs) \<le> 1"
  by (induction xs) (auto simp: filter_empty_conv image_iff)

lemma outcomeRows_one:
  assumes "one_outcome d"
  shows "length (outcomeRows d c) \<le> 1"
proof (cases "c \<in> set (map cmd_id (commands d))")
  case True
  then have "filter (\<lambda>r. rej_id r = c) (command_rejections d) = []"
    using assms by (auto simp: one_outcome_def outcome_ids_def filter_empty_conv)
  then show ?thesis using assms length_filter_distinct [of cmd_id "commands d" c]
    by (simp add: outcomeRows_def one_outcome_def outcome_ids_def)
next
  case False
  then have "filter (\<lambda>r. cmd_id r = c) (commands d) = []" by (auto simp: filter_empty_conv)
  then show ?thesis using assms length_filter_distinct [of rej_id "command_rejections d" c]
    by (simp add: outcomeRows_def one_outcome_def outcome_ids_def)
qed

lemma outcomeRows_grow:
  assumes "outcomes_grow d d'" and "so \<in> set (outcomeRows d c)"
  shows "so \<in> set (outcomeRows d' c)"
  using assms by (auto simp: outcomes_grow_def outcomeRows_def prefix_def)

lemma outcomeRows_stable:
  assumes "outcomes_grow d d'" and "one_outcome d'" and "so \<in> set (outcomeRows d c)"
  shows "outcomeRows d' c = [so]"
proof -
  have "so \<in> set (outcomeRows d' c)" using assms outcomeRows_grow by blast
  with outcomeRows_one [OF assms(2), of c] show ?thesis by (cases "outcomeRows d' c") auto
qed

lemma one_outcome_cong:
  "commands d' = commands d \<Longrightarrow> command_rejections d' = command_rejections d \<Longrightarrow> one_outcome d' = one_outcome d"
  by (simp add: one_outcome_def outcome_ids_def)

lemma one_outcome_command:
  assumes "one_outcome d" and "outcomeRows d (cmd_id r) = []" and "commands d' = commands d @ [r]"
    and "command_rejections d' = command_rejections d"
  shows "one_outcome d'"
  using assms by (auto simp: one_outcome_def outcomeRows_Nil outcome_ids_def)

lemma one_outcome_rejection:
  assumes "one_outcome d" and "outcomeRows d (rej_id r) = []" and "commands d' = commands d"
    and "command_rejections d' = command_rejections d @ [r]"
  shows "one_outcome d'"
  using assms by (auto simp: one_outcome_def outcomeRows_Nil outcome_ids_def)

lemma submitBody_one_outcome:
  assumes "submitBody E trust c canonical digest t = Inr (oc, t')" and "one_outcome (tx_db t)"
  shows "one_outcome (tx_db t')"
  using assms(1)
proof (cases rule: submitBody_cases)
  case (replay so)
  with assms(2) show ?thesis by simp
next
  case (held h)
  obtain r where r: "tx_db t' = (tx_db t)\<lparr>command_rejections := command_rejections (tx_db t) @ [r]\<rparr>" "rej_id r = ce_commandId c"
    using commitCommandRejectionD [OF held(4)] by blast
  show ?thesis by (rule one_outcome_rejection [of "tx_db t" r]) (simp_all add: r held(1) assms(2))
next
  case admitted
  obtain a t1 t2 where rc: "recordCommand E c canonical digest a t2 = Inr (oc, t')" and h: "handler_step t t2"
    by (rule admitCommandD [OF admitted(4)])
  obtain r where r: "commands (tx_db t') = commands (tx_db t2) @ [r]" "command_rejections (tx_db t') = command_rejections (tx_db t2)"
      "cmd_id r = ce_commandId c" using recordCommandD [OF rc] by blast
  show ?thesis
    by (rule one_outcome_command [of "tx_db t" r]) (simp_all add: r admitted(1) assms(2) handler_outcomes_same [OF h])
qed

lemma runTx_one_outcome:
  assumes "\<And>oc t'. body (beginTx d) = Inr (oc, t') \<Longrightarrow> one_outcome (tx_db t')" and "one_outcome d"
  shows "one_outcome (snd (runTx E cor m body d))"
  by (rule runTx_cases [of E cor m body d]) (use assms in auto)

lemma SubmitCommand_one_outcome:
  assumes "one_outcome d"
  shows "one_outcome (snd (SubmitCommand E trust lenient raw d))"
proof -
  have "one_outcome (snd (runTx E cor m (submitBody E trust c v digest) d))" for cor m c v digest
    by (rule runTx_one_outcome) (use assms submitBody_one_outcome in \<open>fastforce+\<close>)
  then show ?thesis using assms by (auto simp: SubmitCommand_def Let_def split: option.splits)
qed

text \<open>The parsed form of a submission: what \<open>SubmitCommand\<close> computes before it opens a transaction.\<close>

definition parsedCommand :: "env \<Rightarrow> trustContext \<Rightarrow> json option \<Rightarrow> (commandEnvelope \<times> json \<times> string) option" where
  "parsedCommand E trust raw =
     (if tc_transportNodeID trust \<noteq> env_nodeID E then None
      else Option.bind raw (\<lambda>v. Option.bind (CanonicalCommand (env_sha E) v) (\<lambda>(_, digest).
        Option.bind (decodeEnvelope v) (\<lambda>c. if ce_kind c = DialogDelete then None else Some (c, v, digest)))))"

lemma SubmitCommand_parsed:
  "parsedCommand E trust raw = Some (c, v, digest) \<Longrightarrow> SubmitCommand E trust lenient raw d =
     runTx E (ce_commandId c) ''durable store is unavailable'' (submitBody E trust c v digest) d"
  by (auto simp: parsedCommand_def SubmitCommand_def Let_def split: if_splits option.splits prod.splits bind_splits)

lemma SubmitCommand_unparsed: "parsedCommand E trust raw = None \<Longrightarrow> snd (SubmitCommand E trust lenient raw d) = d"
  by (auto simp: parsedCommand_def SubmitCommand_def Let_def split: if_splits option.splits prod.splits)

lemma submit_replay:
  assumes "parsedCommand E trust raw = Some (c, v, digest)" and "env_beginOk E" and "identityExpected E trust (node_state d)"
    and "outcomeRows d (ce_commandId c) = [so]"
  shows "SubmitCommand E trust lenient raw d =
    (if so_hash so \<noteq> digest then (errorResult E 409 ''id_conflict'' ''commandId already names different bytes'' (ce_commandId c) None '''', d)
     else if commandOutcomeTargetsDeletedDialog d so then (errorResult E 404 ''not_found'' ''command was not found'' (ce_commandId c) None '''', d)
     else (okResult (so_status so) (so_body so), d))"
proof -
  have "submitBody E trust c v digest (beginTx d) = replayOutcome so digest (beginTx d)"
    using assms by (simp add: submitBody_def bindM_def readState_def guardM_def returnM_def orElseM_def loadCommandOutcome_def readDb_def)
  then show ?thesis
    unfolding SubmitCommand_parsed [OF assms(1)] using assms(2)
    by (simp add: runTx_def replayOutcome_def bindM_def guardM_def readDb_def returnM_def failM_def reject_def)
qed

end
