(* ===== verification/Logical_Delete.thy ===== *)
theory Logical_Delete
  imports Commands
begin

text \<open>
  Deleting a dialog, \<open>runtime/logical_delete.go\<close>: only under the exact dialog hold of the
  operation, and in one transaction with the tombstone event, the ordinary command receipt,
  the operation receipt and the release of the hold.
\<close>

definition deleteCommand :: "durableState \<Rightarrow> nodeRequest \<Rightarrow> json" where
  "deleteCommand s r = JObj [(''protocolVersion'', JInt ProtocolVersion), (''schemaId'', JStr SchemaID),
     (''commandId'', JStr (nr_commandId r)), (''kind'', JStr (kind_str DialogDelete)),
     (''target'', JObj [(''nodeId'', JStr (NodeID s)), (''dialogId'', JStr (nr_nodeDialogId r))]),
     (''expected'', JObj [(''dialogVersion'', JInt (nr_expectedDialogVersion r))]), (''payload'', JObj [])]"

definition holdMatches :: "nodeRequest \<Rightarrow> holdRow \<Rightarrow> bool" where
  "holdMatches r h \<longleftrightarrow> hold_scope h = DialogScope (nr_nodeDialogId r) \<and> hold_version h = nr_holdVersion r \<and>
     hold_revision h = nr_holdScopeRevision r \<and> hold_epoch h = nr_expectedEpoch r \<and> hold_binding h = nr_registryVersion r"

text \<open>The writes after the hold and the delete command have been checked.\<close>

definition deleteUnderHold :: "env \<Rightarrow> json \<Rightarrow> nodeRequest \<Rightarrow> string \<Rightarrow> holdRow \<Rightarrow> json \<Rightarrow> string \<Rightarrow> commandEnvelope \<Rightarrow> txOutcome tx" where
  "deleteUnderHold E raw r requestHash h canonical commandHash c =
     bindM (applyDialogDelete E c) (\<lambda>(references, res, blocking, _).
     bindM (orElseM (newID E) (notDurable ''command receipt identity is unavailable'')) (\<lambda>commandReceiptID.
     bindM (timestamp E) (\<lambda>deletedAt.
     bindM (readState id) (\<lambda>s.
     let receipt = \<lparr>rc_commandId = nr_commandId r, rc_commandKind = DialogDelete, rc_receiptId = commandReceiptID, rc_acceptedAt = deletedAt,
           rc_nodeId = NodeID s, rc_eventSeq = LastEventSeq s, rc_result = res, rc_blockingReason = blocking, rc_references = references\<rparr>;
         key = dialogKey (nr_nodeDialogId r); rev = hold_revision h
     in bindM (seqM
          [guardM (Validate ''receipt'' (receipt_json receipt)) (notDurable ''internal command receipt is invalid''),
           orElseM (insertCommand \<lparr>cmd_id = nr_commandId r, cmd_actor = env_ownerID E, cmd_node = NodeID s, cmd_kind = DialogDelete,
             cmd_canonical = canonical, cmd_hash = commandHash, cmd_receipt = receipt, cmd_accepted = deletedAt, cmd_seq = LastEventSeq s\<rparr>)
             (notDurable ''delete command commit failed'')]) (\<lambda>_.
     bindM (orElseM (newID E) (notDurable ''release receipt identity is unavailable'')) (\<lambda>releaseReceiptID.
     let released = \<lparr>lr_kind = ''hold.released'', lr_operationId = nr_operationId r, lr_receiptId = releaseReceiptID, lr_nodeId = NodeID s,
           lr_epoch = Epoch s, lr_bindingGeneration = RegistryVersion s, lr_scope = hold_scope h, lr_holdVersion = hold_version h,
           lr_scopeRevision = rev + 1, lr_manualPause = QueuePaused s, lr_releasedAt = deletedAt\<rparr> in
     bindM (guardM (validReleaseReceipt released) (notDurable ''internal release receipt is invalid'')) (\<lambda>_.
     bindM (orElseM (newID E) (notDurable ''logical delete receipt identity is unavailable'')) (\<lambda>receiptID.
     let nodeReceipt = \<lparr>nc_operationId = nr_operationId r, nc_nodeRequestHash = requestHash,
           nc_coordinatorRequestHash = nr_coordinatorRequestHash r, nc_receiptId = receiptID, nc_commandId = nr_commandId r,
           nc_logicalDialogId = nr_logicalDialogId r, nc_nodeId = NodeID s, nc_nodeDialogId = nr_nodeDialogId r, nc_epoch = Epoch s,
           nc_registryVersion = RegistryVersion s, nc_bindingVersion = nr_bindingVersion r,
           nc_deletedDialogVersion = nr_expectedDialogVersion r + 1, nc_holdVersion = hold_version h, nc_holdScopeRevision = rev + 1,
           nc_tombstoneEventSeq = LastEventSeq s, nc_commandReceipt = receipt, nc_deletedAt = deletedAt\<rparr>
     in bindM (seqM
          [guardM (ValidateNodeReceipt nodeReceipt) (notDurable ''internal logical delete receipt is invalid''),
           releaseReserve E,
           orElseM (casScopeRevision key rev (rev + 1)) (notDurable ''release revision commit failed''),
           orElseM (insertHoldOutcome \<lparr>hout_operation = nr_operationId r, hout_action = ''release'', hout_canonical = raw,
             hout_hash = requestHash, hout_receipt = released, hout_revision = rev + 1, hout_released = deletedAt\<rparr>)
             (notDurable ''logical delete release commit failed''),
           orElseM (insertLogicalDelete \<lparr>ldr_operation = nr_operationId r, ldr_hash = requestHash,
             ldr_coordinatorHash = nr_coordinatorRequestHash r, ldr_command = nr_commandId r, ldr_logicalDialog = nr_logicalDialogId r,
             ldr_dialog = nr_nodeDialogId r, ldr_bindingVersion = nr_bindingVersion r, ldr_holdVersion = nr_holdVersion r,
             ldr_holdRevision = rev + 1, ldr_receipt = nodeReceipt, ldr_deleted = deletedAt\<rparr>)
             (notDurable ''logical delete receipt commit failed''),
           orElseM saveState (notDurable ''logical delete state commit failed'')])
        (\<lambda>_. returnM (Commit (okResult 201 (nodeReceipt_json nodeReceipt)) ''logical delete commit was not attempted''
           ''atomic logical delete commit failed'' ''logical delete receipt delivery was interrupted''))))))))))"

definition logicalDeleteBody :: "env \<Rightarrow> json \<Rightarrow> nodeRequest \<Rightarrow> string \<Rightarrow> txOutcome tx" where
  "logicalDeleteBody E raw r requestHash =
     bindM (readState id) (\<lambda>s. bindM (readDb id) (\<lambda>d.
     bindM (guardM (nr_expectedEpoch r = Epoch s \<and> nr_registryVersion r = RegistryVersion s)
       (conflict ''node identity changed'' (Some (Epoch s)) ''blocked'')) (\<lambda>_.
     case sel ldr_operation (nr_operationId r) (logical_deletes d) of
       Some l \<Rightarrow>
         (if ldr_hash l \<noteq> requestHash then failM (reject 409 ''id_conflict'' ''operationId already names different bytes'')
          else returnM (Answer (okResult 200 (nodeReceipt_json (ldr_receipt l)))))
     | None \<Rightarrow> (case sel hold_operation (nr_operationId r) (administrative_holds d) of
         None \<Rightarrow> failM (conflict ''logical delete hold is not active'' None ''blocked'')
       | Some h \<Rightarrow>
           bindM (seqM
             [guardM (hold_node h = NodeID s \<and> activeHold d h) (conflict ''logical delete hold is not active'' None ''blocked''),
              guardM (holdMatches r h) (conflict ''logical delete hold changed'' None ''blocked''),
              guardM (scopeRevision d (dialogKey (nr_nodeDialogId r)) = Some (hold_revision h))
                (conflict ''logical delete scope changed'' (Some (currentRevision d (dialogKey (nr_nodeDialogId r)))) ''blocked'')]) (\<lambda>_.
           let v = deleteCommand s r in
           case (CanonicalCommand (env_sha E) v, decodeEnvelope v) of
             (Some (canonical, commandHash), Some c) \<Rightarrow>
               bindM (orElseM (loadCommandOutcome (nr_commandId r)) (notDurable ''delete command lookup failed'')) (\<lambda>found.
               case found of
                 Some oc \<Rightarrow>
                   (if so_hash oc \<noteq> commandHash then failM (reject 409 ''id_conflict'' ''commandId already names different bytes'')
                    else failM (conflict ''delete command exists without operation receipt'' None ''blocked''))
               | None \<Rightarrow> deleteUnderHold E raw r requestHash h v commandHash c)
           | _ \<Rightarrow> failM (notDurable ''internal delete command is invalid''))))))"

definition DeleteLogicalDialog :: "env \<Rightarrow> string \<Rightarrow> json option \<Rightarrow> db \<Rightarrow> result \<times> db" where
  "DeleteLogicalDialog E transportNode raw d =
     (if transportNode \<noteq> env_nodeID E then (errorResult E 404 ''not_found'' ''node was not found'' '''' None '''', d)
      else (case Option.bind raw decodeNodeRequest of
        None \<Rightarrow> (errorResult E 400 ''invalid'' ''logical delete request is invalid'' '''' None '''', d)
      | Some r \<Rightarrow>
          if \<not> ValidateNodeRequest r then (errorResult E 400 ''invalid'' ''logical delete request is invalid'' '''' None '''', d)
          else if nr_nodeId r \<noteq> env_nodeID E then (errorResult E 404 ''not_found'' ''node was not found'' (nr_operationId r) None '''', d)
          else runTx E (nr_operationId r) ''durable store is unavailable''
            (logicalDeleteBody E (the raw) r (NodeRequestHash (env_sha E) r)) d))"

definition LogicalDeleteStatus :: "env \<Rightarrow> string \<Rightarrow> string \<Rightarrow> db \<Rightarrow> result" where
  "LogicalDeleteStatus E transportNode operationID d =
     (if transportNode \<noteq> env_nodeID E \<or> \<not> uuidPattern operationID
      then errorResult E 404 ''not_found'' ''operation was not found'' operationID None ''''
      else (case sel ldr_operation operationID (logical_deletes d) of
        None \<Rightarrow> errorResult E 404 ''not_found'' ''operation was not found'' operationID None ''''
      | Some l \<Rightarrow>
          if \<not> ValidateNodeReceipt (ldr_receipt l) then errorResult E 503 ''not_durable'' ''logical delete status is invalid'' operationID None ''''
          else okResult 200 (nodeReceipt_json (ldr_receipt l))))"

section \<open>Contracts kept\<close>

text \<open>Deletion within the contract of \<open>commit_rel\<close>.\<close>

context commit_rel
begin

lemma keeps_deleteUnderHold [keeps_rules]: "keeps R (deleteUnderHold E raw r rh h canonical ch c)"
  unfolding deleteUnderHold_def by (intro keeps_rules)

lemma keeps_logicalDeleteBody [keeps_rules]: "keeps R (logicalDeleteBody E raw r rh)"
  unfolding logicalDeleteBody_def by (intro keeps_rules)

end

lemma settles_deleteUnderHold: "settles (deleteUnderHold E raw r rh h canonical ch c)"
  unfolding deleteUnderHold_def by (intro settle_rules keeps_rules)

lemma settled_logicalDeleteBody: "keeps settled_step (logicalDeleteBody E raw r rh)"
  unfolding logicalDeleteBody_def by (intro keeps_rules settles_keeps [OF settles_deleteUnderHold])

lemma sound_logicalDeleteBody: "sound_body (logicalDeleteBody E raw r rh)"
  unfolding sound_body_def by (intro conjI keeps_rules settled_logicalDeleteBody)

lemma DeleteLogicalDialog_step: "db_step d (snd (DeleteLogicalDialog E node raw d))"
  by (auto simp: DeleteLogicalDialog_def intro: runTx_step sound_logicalDeleteBody split: option.splits)

section \<open>What a deletion does\<close>

lemma deleteUnderHoldD:
  assumes "deleteUnderHold E raw r requestHash h canonical commandHash c t = Inr (oc, t')"
  shows "\<exists>a t1 row ho l. applyDialogDelete E c t = Inr (a, t1) \<and> events (tx_db t') = events (tx_db t1) \<and>
    commands (tx_db t') = commands (tx_db t) @ [row] \<and> cmd_id row = nr_commandId r \<and> cmd_hash row = commandHash \<and>
    command_rejections (tx_db t') = command_rejections (tx_db t) \<and>
    administrative_holds (tx_db t') = administrative_holds (tx_db t) \<and>
    hold_outcomes (tx_db t') = hold_outcomes (tx_db t) @ [ho] \<and> hout_operation ho = nr_operationId r \<and>
    logical_deletes (tx_db t') = logical_deletes (tx_db t) @ [l] \<and> ldr_operation l = nr_operationId r \<and> ldr_hash l = requestHash \<and>
    nc_commandReceipt (ldr_receipt l) = cmd_receipt row \<and> ValidateNodeReceipt (ldr_receipt l) \<and>
    (\<exists>m1 m2 m3. oc = Commit (okResult 201 (nodeReceipt_json (ldr_receipt l))) m1 m2 m3)"
proof -
  obtain a t1 where a: "applyDialogDelete E c t = Inr (a, t1)" using assms by (auto simp: deleteUnderHold_def)
  have h: "handler_step t t1" using keepsD [OF hist.keeps_applyDialogDelete a] .
  have cas: "casScopeRevision k x y s = Inr (u, s') \<Longrightarrow> events (tx_db s') = events (tx_db s) \<and> commands (tx_db s') = commands (tx_db s) \<and>
     command_rejections (tx_db s') = command_rejections (tx_db s) \<and> administrative_holds (tx_db s') = administrative_holds (tx_db s) \<and>
     hold_outcomes (tx_db s') = hold_outcomes (tx_db s) \<and> logical_deletes (tx_db s') = logical_deletes (tx_db s)" for k x y s u s'
    by (auto simp: casScopeRevision_def split: if_splits dest!: putScopeRevisionD)
  show ?thesis
    using assms a unfolding deleteUnderHold_def
    by (clarsimp simp: Let_def releaseReserve_def handler_outcomes_same [OF h] split: prod.splits
        dest!: cas insertCommandD insertHoldOutcomeD insertLogicalDeleteD saveState_frame)
qed

lemma deleteCommand_decoded:
  assumes "decodeEnvelope (deleteCommand s r) = Some c"
  shows "jstring (ce_target c) ''dialogId'' = nr_nodeDialogId r" and "ce_kind c = DialogDelete"
  using assms by (auto simp: decodeEnvelope_def deleteCommand_def jstring_def jfield_def kind_of_def all_kinds_def split: option.splits)

lemma uuidPattern_nonempty: "uuidPattern s \<Longrightarrow> s \<noteq> []"
  by (auto simp: uuidPattern_def match_classes_def)

lemma logicalDeleteBody_cases:
  assumes "logicalDeleteBody E raw r requestHash t = Inr (oc, t')"
  obtains (replay) l where "sel ldr_operation (nr_operationId r) (logical_deletes (tx_db t)) = Some l" and "ldr_hash l = requestHash"
      and "oc = Answer (okResult 200 (nodeReceipt_json (ldr_receipt l)))" and "t' = t"
  | (deleted) h canonical commandHash c where "sel ldr_operation (nr_operationId r) (logical_deletes (tx_db t)) = None"
      and "sel hold_operation (nr_operationId r) (administrative_holds (tx_db t)) = Some h" and "holdMatches r h"
      and "hold_node h = NodeID (tx_state t)" and "activeHold (tx_db t) h" and "outcomeRows (tx_db t) (nr_commandId r) = []"
      and "decodeEnvelope (deleteCommand (tx_state t) r) = Some c"
      and "deleteUnderHold E raw r requestHash h canonical commandHash c t = Inr (oc, t')"
proof -
  let ?s = "tx_state t" and ?d = "tx_db t"
  show ?thesis
  proof (cases "sel ldr_operation (nr_operationId r) (logical_deletes ?d)")
    case (Some l)
    with assms replay show ?thesis by (auto simp: logicalDeleteBody_def split: if_splits)
  next
    case None
    obtain h where h: "sel hold_operation (nr_operationId r) (administrative_holds ?d) = Some h"
      using assms None by (auto simp: logicalDeleteBody_def split: option.splits)
    obtain v commandHash c where "holdMatches r h" "hold_node h = NodeID ?s" "activeHold ?d h"
      "decodeEnvelope (deleteCommand ?s r) = Some c" "outcomeRows ?d (nr_commandId r) = []"
      "deleteUnderHold E raw r requestHash h v commandHash c t = Inr (oc, t')"
      using assms None h by (auto simp: logicalDeleteBody_def Let_def loadCommandOutcome_Inr split: option.splits prod.splits if_splits)
    with None h deleted show ?thesis by blast
  qed
qed

lemma deleteLogical_one_outcome:
  assumes "one_outcome d"
  shows "one_outcome (snd (DeleteLogicalDialog E node raw d))"
proof -
  have "one_outcome (tx_db t')" if b: "logicalDeleteBody E v r rh (beginTx d) = Inr (oc, t')" for v r rh oc t'
    using b
  proof (cases rule: logicalDeleteBody_cases)
    case (replay l)
    with assms show ?thesis by simp
  next
    case (deleted h canonical commandHash c)
    obtain row where r: "commands (tx_db t') = commands d @ [row]" "cmd_id row = nr_commandId r"
        "command_rejections (tx_db t') = command_rejections d"
      using deleteUnderHoldD [OF deleted(8)] by auto
    show ?thesis by (rule one_outcome_command [of d row]) (use r deleted(6) assms in simp_all)
  qed
  then have "one_outcome (snd (runTx E cor m (logicalDeleteBody E v r rh) d))" for cor m v r rh
    using assms by (intro runTx_one_outcome)
  then show ?thesis using assms by (auto simp: DeleteLogicalDialog_def split: option.splits)
qed

end
