(* ===== verification/Attempts.thy ===== *)
theory Attempts
  imports Handlers
begin

text \<open>
  The life of an attempt after its dispatch, from \<open>runtime/observe.go\<close> and
  \<open>runtime/actions.go\<close>: falling into the unknown state, confirmed start, the entry to a
  terminal state, late observations, the stop scheduled when the output budget is exceeded,
  and the binding of an event to the projection it came from.
\<close>

record attemptRef =
  ref_nodeID :: string
  ref_dialogID :: string
  ref_requestID :: string
  ref_attemptID :: string
  ref_generation :: int

text \<open>As \<open>json.Marshal\<close> writes a struct without field tags.\<close>

definition ref_json :: "attemptRef \<Rightarrow> json" where
  "ref_json r = JObj [(''NodeID'', JStr (ref_nodeID r)), (''DialogID'', JStr (ref_dialogID r)), (''RequestID'', JStr (ref_requestID r)),
     (''AttemptID'', JStr (ref_attemptID r)), (''Generation'', JInt (ref_generation r))]"

text \<open>
  The frame of operations that return a Go \<open>error\<close>: a failed body or commit leaves the ledger
  as it was.
\<close>

definition commitTx :: "env \<Rightarrow> 'a tx \<Rightarrow> db \<Rightarrow> (failure + 'a) \<times> db" where
  "commitTx E body d =
     (if \<not> env_beginOk E then (Inl (RawError ''begin failed''), d)
      else (case body (beginTx d) of
        Inl e \<Rightarrow> (Inl e, d)
      | Inr (x, t) \<Rightarrow>
          if \<not> env_commitOk E then (Inl (RawError ''commit failed''), d) else (Inr x, tx_db t)))"

section \<open>Projections\<close>

definition adapterProjectionHash :: "env \<Rightarrow> json \<Rightarrow> string" where
  "adapterProjectionHash E v = env_sha E (marshal v)"

definition recordAdapterProjection :: "env \<Rightarrow> int \<Rightarrow> string \<Rightarrow> string \<Rightarrow> json \<Rightarrow> unit tx" where
  "recordAdapterProjection E sq attID key hashPayload =
     (if key = '''' then returnM ()
      else bindM (bindEvent (\<lambda>e. evt_seq e = sq \<and> evt_attempt e = Some attID) key (Some (adapterProjectionHash E hashPayload))) (\<lambda>n.
        guardM (n = 1) (RawError ''adapter projection event binding failed'')))"

section \<open>Unknown\<close>

definition setAttemptUnknown :: "env \<Rightarrow> attemptRef \<Rightarrow> string \<Rightarrow> string \<Rightarrow> unit tx" where
  "setAttemptUnknown E ref reason effectStatus =
     bindM (readDb (\<lambda>d. List.find (\<lambda>a. att_id a = ref_attemptID ref \<and> att_generation a = ref_generation ref) (attempts d))) (\<lambda>row.
     bindM (needM row) (\<lambda>a.
     if att_state a = AUnknown then returnM ()
     else let eff = (if effectStatus = '''' then ''unknown'' else effectStatus) in
       bindM (updateAttempt (ref_attemptID ref) (\<lambda>a. a\<lparr>att_version := att_version a + 1, att_state := AUnknown, att_effect := eff\<rparr>)) (\<lambda>_.
       bindM (timestamp E) (\<lambda>now. seqM
         [updateRequest (ref_requestID ref) (\<lambda>r. r\<lparr>req_version := req_version r + 1, req_status := RUnknown, req_updated := now\<rparr>),
          writeState (\<lambda>s. s\<lparr>StateVersion := StateVersion s + 1, EngineReadiness := ''unknown'', Occupancy := ''unknown'',
            ActiveAttemptID := Some (ref_attemptID ref), BlockedReasons := addReason (BlockedReasons s) ''execution_unknown''\<rparr>),
          appendEvent E (ref_attemptID ref) (att_version a + 1) (ref_attemptID ref) (ref_dialogID ref)
            (PAttemptUnknown (ref_generation ref) reason eff) False,
          appendNodeEvent E]))))"

definition markUnknownBody :: "env \<Rightarrow> attemptRef \<Rightarrow> string \<Rightarrow> string \<Rightarrow> unit tx" where
  "markUnknownBody E ref reason effectStatus =
     bindM (readState ActiveAttemptID) (\<lambda>active. seqM
       [guardM (active = Some (ref_attemptID ref)) (RawError ''attempt is not active''),
        setAttemptUnknown E ref reason effectStatus,
        saveState])"

definition markAttemptUnknown :: "env \<Rightarrow> attemptRef \<Rightarrow> string \<Rightarrow> string \<Rightarrow> db \<Rightarrow> db" where
  "markAttemptUnknown E ref reason effectStatus d = snd (commitTx E (markUnknownBody E ref reason effectStatus) d)"

section \<open>Start\<close>

definition markStartedBody :: "env \<Rightarrow> attemptRef \<Rightarrow> unit tx" where
  "markStartedBody E ref =
     bindM (readState id) (\<lambda>s.
     bindM (guardM (ActiveAttemptID s = Some (ref_attemptID ref)) (RawError ''dispatch attempt is no longer active'')) (\<lambda>_.
     bindM (readDb (\<lambda>d. sel att_id (ref_attemptID ref) (attempts d))) (\<lambda>row.
     bindM (needM row) (\<lambda>a.
     bindM (guardM (att_state a = ADispatching) (RawError ''attempt is not dispatching'')) (\<lambda>_.
     bindM (timestamp E) (\<lambda>now.
     let pl = PAttemptStarted (ref_requestID ref) (ref_generation ref) in
     bindM (seqM
       [updateAttempt (ref_attemptID ref) (\<lambda>a. a\<lparr>att_version := att_version a + 1, att_state := ARunning, att_started := Some now\<rparr>),
        updateRequest (ref_requestID ref) (\<lambda>r. r\<lparr>req_version := req_version r + 1, req_status := RActive, req_updated := now\<rparr>),
        writeState (\<lambda>s. s\<lparr>StateVersion := StateVersion s + 1\<rparr>),
        appendEvent E (ref_attemptID ref) (att_version a + 1) (ref_attemptID ref) (ref_dialogID ref) pl False]) (\<lambda>_.
     bindM (readState LastEventSeq) (\<lambda>sq. seqM
       [recordAdapterProjection E sq (ref_attemptID ref) ''started'' (payload_json pl),
        appendNodeEvent E,
        saveState]))))))))"

definition markStarted :: "env \<Rightarrow> attemptRef \<Rightarrow> db \<Rightarrow> (failure + unit) \<times> db" where
  "markStarted E ref = commitTx E (markStartedBody E ref)"

section \<open>Terminal observations\<close>

record observation =
  ob_attemptID :: string
  ob_generation :: int
  ob_kind :: string
  ob_terminalState :: string
  ob_reason :: string
  ob_effectStatus :: string
  ob_confirmed :: bool

definition observation_json :: "observation \<Rightarrow> json" where
  "observation_json x = JObj [(''AttemptID'', JStr (ob_attemptID x)), (''Generation'', JInt (ob_generation x)), (''Kind'', JStr (ob_kind x)),
     (''TerminalState'', JStr (ob_terminalState x)), (''Reason'', JStr (ob_reason x)), (''EffectStatus'', JStr (ob_effectStatus x)),
     (''Confirmed'', JBool (ob_confirmed x))]"

definition terminalState :: "string \<Rightarrow> (attempt_state \<times> request_status) option" where
  "terminalState t =
     (if t = ''completed'' then Some (ACompleted, RCompleted)
      else if t = ''failed'' then Some (AFailed, RFailed)
      else if t = ''interrupted'' then Some (AInterrupted, RInterrupted) else None)"

definition terminalPayload :: "string \<Rightarrow> string \<Rightarrow> int \<Rightarrow> attempt_state \<Rightarrow> string \<Rightarrow> payload" where
  "terminalPayload code msg g st eff =
     (if st = ACompleted then PAttemptCompleted g OutEmpty None
      else if st = AFailed then PAttemptFailed g ''task'' code msg False eff
      else PAttemptInterrupted g ''provider_interrupt'' eff)"

definition applyTerminal :: "env \<Rightarrow> attemptRef \<Rightarrow> int \<Rightarrow> observation \<Rightarrow> unit tx" where
  "applyTerminal E ref version x = (case terminalState (ob_terminalState x) of
     None \<Rightarrow> failM (RawError ''unsupported terminal state'')
   | Some (ast, rst) \<Rightarrow>
       bindM (timestamp E) (\<lambda>now. seqM
         [updateAttempt (ref_attemptID ref) (\<lambda>a. a\<lparr>att_version := att_version a + 1, att_state := ast,
            att_effect := ob_effectStatus x, att_finished := Some now\<rparr>),
          updateRequest (ref_requestID ref) (\<lambda>r. r\<lparr>req_version := req_version r + 1, req_status := rst, req_updated := now\<rparr>),
          writeState (\<lambda>s. s\<lparr>StateVersion := StateVersion s + 1, ActiveAttemptID := None, Occupancy := ''idle'',
            EngineReadiness := (if EngineReadiness s = ''unknown'' then ''blocked'' else EngineReadiness s)\<rparr>),
          appendEvent E (ref_attemptID ref) (version + 1) (ref_attemptID ref) (ref_dialogID ref)
            (terminalPayload ''adapter_failed'' ''attempt failed'' (ref_generation ref) ast (ob_effectStatus x)) False,
          appendNodeEvent E]))"

definition latePayload :: "observation \<Rightarrow> payload option" where
  "latePayload x =
     (if ob_kind x = ''terminal''
      then map_option (\<lambda>(ast, _). terminalPayload ''late_failure'' ''late attempt failure'' (ob_generation x) ast (ob_effectStatus x))
             (terminalState (ob_terminalState x))
      else Some (PAttemptUnknown (ob_generation x) ''provider_state'' (ob_effectStatus x)))"

definition archiveLateObservation :: "env \<Rightarrow> observation \<Rightarrow> int \<Rightarrow> string \<Rightarrow> unit tx" where
  "archiveLateObservation E x entityVersion dlg = (case latePayload x of
     None \<Rightarrow> failM (RawError ''unsupported late terminal state'')
   | Some pl \<Rightarrow>
       bindM (appendEvent E (ob_attemptID x) entityVersion (ob_attemptID x) dlg pl True) (\<lambda>_.
       bindM (timestamp E) (\<lambda>now.
       bindM (readState LastEventSeq) (\<lambda>sq. seqM
         [insertLate \<lparr>late_attempt = ob_attemptID x, late_generation = ob_generation x, late_kind = ob_kind x,
            late_json = observation_json x, late_seq = sq, late_observed = now, late_key = None, late_hash = None, late_output = 0\<rparr>,
          saveState]))))"

definition observeBody :: "env \<Rightarrow> observation \<Rightarrow> unit tx" where
  "observeBody E x =
     bindM (readState id) (\<lambda>s.
     bindM (readDb id) (\<lambda>d.
     bindM (needM (sel att_id (ob_attemptID x) (attempts d))) (\<lambda>a.
     bindM (guardM (\<not> dialogDeleted d (att_dialog a)) (RawError ''sql: no rows in result set'')) (\<lambda>_.
     if ob_generation x \<noteq> att_generation a \<or> ActiveAttemptID s \<noteq> Some (ob_attemptID x)
     then archiveLateObservation E x (att_version a) (att_dialog a)
     else let ref = \<lparr>ref_nodeID = NodeID s, ref_dialogID = att_dialog a, ref_requestID = att_request a,
                ref_attemptID = ob_attemptID x, ref_generation = att_generation a\<rparr> in
       bindM (if ob_kind x = ''unknown'' then setAttemptUnknown E ref (ob_reason x) (ob_effectStatus x)
         else if ob_kind x = ''terminal'' then
           bindM (guardM (ob_confirmed x) (RawError ''unconfirmed terminal observation'')) (\<lambda>_. applyTerminal E ref (att_version a) x)
         else failM (RawError ''unsupported observation kind'')) (\<lambda>_. saveState)))))"

definition Observe :: "env \<Rightarrow> observation \<Rightarrow> db \<Rightarrow> (failure + unit) \<times> db" where
  "Observe E x = commitTx E (observeBody E x)"

section \<open>Stop on an exceeded output budget\<close>

definition scheduleOutputLimitStop :: "env \<Rightarrow> attemptRef \<Rightarrow> unit tx" where
  "scheduleOutputLimitStop E ref =
     bindM (readState ActiveAttemptID) (\<lambda>active.
     if active \<noteq> Some (ref_attemptID ref) then returnM ()
     else bindM (readDb (\<lambda>d. sel att_id (ref_attemptID ref) (attempts d))) (\<lambda>row.
       bindM (needM row) (\<lambda>a.
       if att_generation a \<noteq> ref_generation ref \<or> (att_state a \<noteq> ARunning \<and> att_state a \<noteq> AWaitingInput) then returnM ()
       else bindM (newID E) (\<lambda>commandID. seqM
         [updateAttempt (ref_attemptID ref) (\<lambda>a. a\<lparr>att_version := att_version a + 1, att_state := AStopping\<rparr>),
          writeState (\<lambda>s. s\<lparr>StateVersion := StateVersion s + 1\<rparr>),
          appendEvent E (ref_attemptID ref) (att_version a + 1) (ref_attemptID ref) (ref_dialogID ref)
            (PAttemptStopRequested (ref_generation ref) commandID) False,
          insertAction \<lparr>act_command = commandID, act_kind = kind_str AttemptStop, act_attempt = ref_attemptID ref,
            act_message = None, act_actor = None,
            act_payload = JObj [(''dialogId'', JStr (ref_dialogID ref)), (''generation'', JInt (ref_generation ref)),
              (''requestId'', JStr (ref_requestID ref))], act_status = CPending\<rparr>]))))"

section \<open>Contracts kept\<close>

text \<open>Observations within both contracts.\<close>

context tx_rel
begin

lemma keeps_recordAdapterProjection [keeps_rules]: "keeps R (recordAdapterProjection E sq a k h)"
  unfolding recordAdapterProjection_def by (intro keeps_rules)

lemma keeps_setAttemptUnknown [keeps_rules]: "keeps R (setAttemptUnknown E ref reason eff)"
  unfolding setAttemptUnknown_def by (intro keeps_rules) (simp_all add: state_laws core_defs)

lemma keeps_applyTerminal [keeps_rules]: "keeps R (applyTerminal E ref v x)"
  unfolding applyTerminal_def by (intro keeps_rules) (simp_all add: state_laws core_defs)

lemma keeps_scheduleOutputLimitStop [keeps_rules]: "keeps R (scheduleOutputLimitStop E ref)"
  unfolding scheduleOutputLimitStop_def by (intro keeps_rules) (simp_all add: state_laws core_defs)

end

context save_rel
begin

lemma keeps_archiveLateObservation [keeps_rules]: "keeps R (archiveLateObservation E x v dlg)"
  unfolding archiveLateObservation_def by (intro keeps_rules)

lemma keeps_observeBody [keeps_rules]: "keeps R (observeBody E x)"
  unfolding observeBody_def by (intro keeps_rules)

lemma keeps_markUnknownBody [keeps_rules]: "keeps R (markUnknownBody E ref reason eff)"
  unfolding markUnknownBody_def by (intro keeps_rules)

lemma keeps_markStartedBody [keeps_rules]: "keeps R (markStartedBody E ref)"
  unfolding markStartedBody_def by (intro keeps_rules) (simp_all add: state_laws core_defs)

end

lemma settles_archiveLateObservation [settle_rules]: "settles (archiveLateObservation E x v dlg)"
  unfolding archiveLateObservation_def by (intro settle_rules keeps_rules)

lemma settles_observeBody: "settles (observeBody E x)"
  unfolding observeBody_def by (intro settle_rules keeps_rules)

lemma sound_observeBody: "sound_body (observeBody E x)"
  unfolding sound_body_def by (intro conjI keeps_rules settles_keeps [OF settles_observeBody])

lemma settles_markUnknownBody: "settles (markUnknownBody E ref reason eff)"
  unfolding markUnknownBody_def by (intro settle_rules keeps_rules)

lemma sound_markUnknownBody: "sound_body (markUnknownBody E ref reason eff)"
  unfolding sound_body_def by (intro conjI keeps_rules settles_keeps [OF settles_markUnknownBody])

lemma settles_markStartedBody: "settles (markStartedBody E ref)"
  unfolding markStartedBody_def by (intro settle_rules keeps_rules) (simp_all add: state_laws core_defs)

lemma sound_markStartedBody: "sound_body (markStartedBody E ref)"
  unfolding sound_body_def by (intro conjI keeps_rules settles_keeps [OF settles_markStartedBody])

lemma commitTx_cases:
  obtains (same) "snd (commitTx E body d) = d" and "\<exists>e. fst (commitTx E body d) = Inl e"
  | (committed) x t where "body (beginTx d) = Inr (x, t)" and "commitTx E body d = (Inr x, tx_db t)"
  using same committed
  by (cases "env_beginOk E \<and> env_commitOk E"; cases "body (beginTx d)") (auto simp: commitTx_def split: if_splits)

lemma commitTx_step: "sound_body body \<Longrightarrow> db_step d (snd (commitTx E body d))"
  by (rule commitTx_cases [of E body d]) (auto dest: sound_body_step)

lemma Observe_step: "db_step d (snd (Observe E x d))"
  unfolding Observe_def by (intro commitTx_step sound_observeBody)

lemma markAttemptUnknown_step: "db_step d (markAttemptUnknown E ref reason eff d)"
  unfolding markAttemptUnknown_def by (intro commitTx_step sound_markUnknownBody)

lemma markStarted_step: "db_step d (snd (markStarted E ref d))"
  unfolding markStarted_def by (intro commitTx_step sound_markStartedBody)

end
