(* ===== verification/Dispatch.thy ===== *)
theory Dispatch
  imports Attempts
begin

text \<open>
  Choosing and committing the next dispatch: \<open>runtime/dispatch.go\<close> and
  \<open>runtime/failed_tail_retry.go\<close>, with the policy snapshot checks of
  \<open>internal/harnessadapter/adapter.go\<close>. \<open>DispatchNext\<close> takes the node lock twice, once to look at
  the queue and once to commit, and asks the policy source in between; the ledgers it meets at
  the two moments are separate arguments, so whatever other operations ran in between is
  covered. The policy source and the authentication manager are parameters.
\<close>

section \<open>Policy snapshots\<close>

definition bigEndian64 :: "int \<Rightarrow> string" where
  "bigEndian64 n = map (\<lambda>i. char_of (n div 256 ^ i mod 256)) [7, 6, 5, 4, 3, 2, 1, 0]"

definition EffectivePolicyHash :: "(string \<Rightarrow> string) \<Rightarrow> policyRow \<Rightarrow> string" where
  "EffectivePolicyHash sha p = sha (''harness-effective-policy-v1'' @ [CHR 0x00] @
     concat (map (\<lambda>v. bigEndian64 (int (length v)) @ v) [pol_revision p, pol_contentHash p, pol_toolsHash p, pol_approvalMode p]))"

definition ValidatePolicySnapshot :: "(string \<Rightarrow> string) \<Rightarrow> policyRow \<Rightarrow> bool" where
  "ValidatePolicySnapshot sha p \<longleftrightarrow> pol_revision p \<noteq> '''' \<and> pol_content p \<noteq> '''' \<and> pol_tools p \<noteq> '''' \<and> pol_contentHash p \<noteq> '''' \<and>
     pol_toolsHash p \<noteq> '''' \<and> pol_effectiveHash p \<noteq> '''' \<and>
     (pol_approvalMode p = ''deny'' \<or> pol_approvalMode p = ''explicit_once'') \<and>
     sha (pol_content p) = pol_contentHash p \<and> sha (pol_tools p) = pol_toolsHash p \<and> EffectivePolicyHash sha p = pol_effectiveHash p"

section \<open>The failed tail\<close>

record tailAttempt =
  ta_ref :: attemptRef
  ta_messageID :: string
  ta_sequence :: int
  ta_policyHash :: string
  ta_promptHash :: string

record tailProof =
  tp_highWater :: "string \<times> int"
  tp_attempts :: "tailAttempt list"

definition boundary_json :: "string \<times> int \<Rightarrow> json" where
  "boundary_json b = JObj [(''MessageID'', JStr (fst b)), (''Sequence'', JInt (snd b))]"

definition tailProof_json :: "tailProof option \<Rightarrow> json" where
  "tailProof_json p = (case p of
     None \<Rightarrow> JNull
   | Some q \<Rightarrow> JObj [(''HighWater'', boundary_json (tp_highWater q)), (''Attempts'', JArr (map (\<lambda>a. JObj
       [(''Attempt'', ref_json (ta_ref a)), (''Context'', boundary_json (ta_messageID a, ta_sequence a)),
        (''PolicyHash'', JStr (ta_policyHash a)), (''PromptHash'', JStr (ta_promptHash a))]) (tp_attempts q)))])"

text \<open>The joined rows: attempts of the dialog that natively started, at or after the input, in order.\<close>

definition tailRows :: "db \<Rightarrow> string \<Rightarrow> string \<Rightarrow> (attemptRow \<times> messageRow) list" where
  "tailRows d dlg msgID = sort_key (\<lambda>p. msg_sequence (snd p)) (sort_key (\<lambda>p. att_generation (fst p))
     (List.map_filter (\<lambda>a. case Option.bind (attemptMessage d a) (\<lambda>m. sel msg_id m (messages d)) of
          None \<Rightarrow> None
        | Some m \<Rightarrow> if att_dialog a = dlg \<and> att_started a \<noteq> None \<and>
              (case sel msg_id msgID (messages d) of None \<Rightarrow> False | Some b \<Rightarrow> msg_sequence b \<le> msg_sequence m)
            then Some (a, m) else None) (attempts d)))"

definition tailActivity :: "db \<Rightarrow> attemptRow \<Rightarrow> messageRow \<Rightarrow> int" where
  "tailActivity d a m =
     count_rows (\<lambda>x. msg_attempt x = Some (att_id a) \<and> (msg_role x = ''assistant'' \<or> msg_id x \<noteq> msg_id m)) (messages d) +
     count_rows (\<lambda>x. tc_attempt x = att_id a) (tool_calls d) +
     count_rows (\<lambda>x. app_attempt x = att_id a) (approvals d) +
     count_rows (\<lambda>x. inp_attempt x = att_id a) (input_requests d) +
     count_rows (\<lambda>x. art_attempt x = att_id a) (artifacts d) +
     count_rows (\<lambda>x. act_attempt x = att_id a \<and> (act_kind x \<noteq> actionDispatchStart \<or> act_status x \<noteq> CAcknowledged)) (control_actions d)"

text \<open>
  The row loop: \<open>Inl\<close> is a scan error (a null prompt), \<open>Inr None\<close> the early return without a
  proof; \<open>n\<close> counts the attempts taken so far.
\<close>

fun scanTail :: "env \<Rightarrow> db \<Rightarrow> int \<Rightarrow> (attemptRow \<times> messageRow) list \<Rightarrow> failure + tailAttempt list option" where
  "scanTail E d n [] = Inr (Some [])"
| "scanTail E d n ((a, m) # rows) = (case msg_text m of
     None \<Rightarrow> Inl (RawError ''converting NULL to string is unsupported'')
   | Some prompt \<Rightarrow>
       if att_state a \<noteq> AFailed \<or> att_effect a \<noteq> ''none'' \<or> att_output a \<noteq> 0 \<or> tailActivity d a m \<noteq> 0 \<or> 100 \<le> n then Inr None
       else (case scanTail E d (n + 1) rows of
         Inr (Some rest) \<Rightarrow> Inr (Some (\<lparr>ta_ref = \<lparr>ref_nodeID = att_node a, ref_dialogID = att_dialog a, ref_requestID = att_request a,
             ref_attemptID = att_id a, ref_generation = att_generation a\<rparr>, ta_messageID = msg_id m, ta_sequence = msg_sequence m,
             ta_policyHash = att_policy a, ta_promptHash = env_sha E prompt\<rparr> # rest))
       | other \<Rightarrow> other))"

text \<open>The archived terminal that the earlier unsupported-model recovery leaves behind.\<close>

definition lateTerminalOk :: "attemptRef \<Rightarrow> lateRow \<Rightarrow> bool" where
  "lateTerminalOk ref l \<longleftrightarrow> late_generation l = ref_generation ref \<and> late_kind l = ''terminal_while_steer_unresolved'' \<and>
     late_key l = Some ''archive:terminal'' \<and> late_output l = 17 \<and>
     jfield (late_json l) ''Attempt'' = Some (ref_json ref) \<and> jstring (late_json l) ''Outcome'' = ''failed'' \<and>
     jstring (late_json l) ''EffectStatus'' = ''unknown'' \<and> jfield (late_json l) ''Output'' = Some JNull \<and>
     jfield (late_json l) ''Usage'' = Some JNull \<and>
     (case jfield (late_json l) ''Failure'' of
        Some f \<Rightarrow> jstring f ''Class'' = ''task'' \<and> jstring f ''Code'' = ''codex_turn_failed'' \<and>
          jstring f ''SafeMessage'' = ''codex turn failed'' \<and> \<not> jbool f ''Retryable''
      | None \<Rightarrow> False)"

definition unsupportedModelFailure :: "string \<Rightarrow> attemptRef \<Rightarrow> eventRow \<Rightarrow> bool" where
  "unsupportedModelFailure dlg ref e \<longleftrightarrow> ev_attemptId (evt_event e) = ref_attemptID ref \<and> ev_dialogId (evt_event e) = dlg \<and>
     (case ev_payload (evt_event e) of
        PAttemptFailed g cls code msg retry eff \<Rightarrow> g = ref_generation ref \<and> cls = ''task'' \<and> code = ''codex_model_unsupported'' \<and> eff = ''none''
      | _ \<Rightarrow> False)"

definition checkTailAttempt :: "db \<Rightarrow> string \<Rightarrow> attemptRef \<Rightarrow> failure + bool" where
  "checkTailAttempt d dlg ref =
     (case first_by (\<lambda>e. - evt_seq e) (filter (\<lambda>e. evt_attempt e = Some (ref_attemptID ref) \<and> \<not> evt_late e) (events d)) of
        None \<Rightarrow> Inl (RawError ''sql: no rows in result set'')
      | Some e \<Rightarrow>
          if \<not> unsupportedModelFailure dlg ref e then Inr False
          else (case filter (\<lambda>l. late_attempt l = ref_attemptID ref) (late_observations d) of
            [] \<Rightarrow> Inr True
          | l # ls \<Rightarrow>
              if late_key l = None then Inl (RawError ''converting NULL to string is unsupported'')
              else if \<not> lateTerminalOk ref l then Inr False
              else (case ls of [] \<Rightarrow> Inr True
                | l2 # _ \<Rightarrow> if late_key l2 = None then Inl (RawError ''converting NULL to string is unsupported'') else Inr False)))"

fun checkTail :: "db \<Rightarrow> string \<Rightarrow> tailAttempt list \<Rightarrow> failure + bool" where
  "checkTail d dlg [] = Inr True"
| "checkTail d dlg (a # rest) = (case checkTailAttempt d dlg (ta_ref a) of
     Inl e \<Rightarrow> Inl e | Inr False \<Rightarrow> Inr False | Inr True \<Rightarrow> checkTail d dlg rest)"

definition failedTailProof :: "env \<Rightarrow> db \<Rightarrow> string \<Rightarrow> string \<Rightarrow> failure + tailProof option" where
  "failedTailProof E d dlg msgID = (case scanTail E d 0 (tailRows d dlg msgID) of
     Inl e \<Rightarrow> Inl e
   | Inr None \<Rightarrow> Inr None
   | Inr (Some atts) \<Rightarrow> (case atts of
       [] \<Rightarrow> Inr None
     | a # _ \<Rightarrow>
         if ta_messageID a \<noteq> msgID then Inr None
         else (case checkTail d dlg atts of
           Inl e \<Rightarrow> Inl e
         | Inr False \<Rightarrow> Inr None
         | Inr True \<Rightarrow> Inr (Some \<lparr>tp_highWater = (ta_messageID (last atts), ta_sequence (last atts)), tp_attempts = atts\<rparr>))))"

section \<open>The queue head\<close>

record dispatchCandidate =
  dc_requestID :: string
  dc_dialogID :: string
  dc_messageID :: string
  dc_queueSequence :: int
  dc_stateVersion :: int

text \<open>
  The queued requests whose dialog no active hold covers and whose input message exists, and
  the one with the least queue sequence among them.
\<close>

definition dispatchable :: "db \<Rightarrow> string \<Rightarrow> requestRow list" where
  "dispatchable d node = filter (\<lambda>r. req_status r = RQueued \<and> has_key msg_id (req_message r) (messages d) \<and>
     \<not> dialogHeld d node (req_dialog r)) (requests d)"

definition queueHead :: "db \<Rightarrow> string \<Rightarrow> requestRow option" where
  "queueHead d node = first_by req_sequence (dispatchable d node)"

definition peekDispatch :: "db \<Rightarrow> failure + dispatchCandidate option" where
  "peekDispatch d = (let s = node_state d in
     if QueuePaused s \<or> ActiveAttemptID s \<noteq> None \<or> PendingCount s = 0 \<or> List.member (BlockedReasons s) ''execution_unknown'' then Inr None
     else (case queueHead d (NodeID s) of
       None \<Rightarrow> Inr None
     | Some r \<Rightarrow>
         if Option.bind (sel msg_id (req_message r) (messages d)) msg_text = None
         then Inl (RawError ''converting NULL to string is unsupported'')
         else Inr (Some \<lparr>dc_requestID = req_id r, dc_dialogID = req_dialog r, dc_messageID = req_message r,
           dc_queueSequence = req_sequence r, dc_stateVersion = StateVersion s\<rparr>)))"

section \<open>Committing a dispatch\<close>

text \<open>
  \<open>NoDispatch\<close> carries the outcome word; \<open>DispatchUnknown\<close> is the outcome \<open>unknown\<close> that is returned
  together with an error once the intent is committed.
\<close>

datatype dispatchResult = NoDispatch string | Dispatched string string | DispatchUnknown string string

definition nextGeneration :: "db \<Rightarrow> string \<Rightarrow> int" where
  "nextGeneration d msgID = (case latestGeneration d msgID of None \<Rightarrow> 0 | Some g \<Rightarrow> g) + 1"

text \<open>
  The writes of a dispatch decided for request \<open>r\<close> with input message \<open>m\<close>: the policy and the
  attempt row, the request and its message, the node state, the events, and the start intent with
  the failed-tail evidence.
\<close>

definition openAttempt :: "env \<Rightarrow> policyRow \<Rightarrow> requestRow \<Rightarrow> (string \<times> int) tx" where
  "openAttempt E policy r =
     bindM (newID E) (\<lambda>attID.
     bindM (readDb (\<lambda>d. nextGeneration d (req_message r))) (\<lambda>g.
     bindM (readState NodeID) (\<lambda>nodeID.
     bindM (seqM
       [insertPolicy policy,
        insertAttempt \<lparr>att_id = attID, att_node = nodeID, att_dialog = req_dialog r, att_request = req_id r, att_generation = g,
          att_version = 1, att_state = ADispatching, att_effect = ''none'', att_boundary = req_message r,
          att_policy = pol_effectiveHash policy, att_started = None, att_finished = None, att_output = 0\<rparr>]) (\<lambda>_.
     returnM (attID, g)))))"

definition takeRequest :: "env \<Rightarrow> requestRow \<Rightarrow> messageRow \<Rightarrow> string \<Rightarrow> unit tx" where
  "takeRequest E r m attID = bindM (timestamp E) (\<lambda>now. seqM
     [updateRequest (req_id r) (\<lambda>r. r\<lparr>req_version := req_version r + 1, req_status := RDispatching, req_updated := now\<rparr>),
      if msg_disposition m = Some DQueued then seqM
        [updateMessage (req_message r) (\<lambda>m. m\<lparr>msg_version := msg_version m + 1, msg_disposition := Some DApplied, msg_attempt := Some attID\<rparr>),
         appendEvent E (req_message r) (msg_version m + 1) '''' ''''
           (PMessageDisposition (req_message r) ''queued'' ''applied'' ''request_dispatched'') False]
      else returnM ()])"

definition occupied :: "string \<Rightarrow> durableState \<Rightarrow> durableState" where
  "occupied attID s = s\<lparr>PendingCount := PendingCount s - 1, QueueVersion := QueueVersion s + 1, StateVersion := StateVersion s + 1,
     ActiveAttemptID := Some attID, EngineReadiness := ''ready'', Occupancy := ''active'',
     BlockedReasons := removeReason (BlockedReasons s) ''policy_unavailable''\<rparr>"

definition announceDispatch :: "env \<Rightarrow> policyRow \<Rightarrow> requestRow \<Rightarrow> string \<Rightarrow> int \<Rightarrow> unit tx" where
  "announceDispatch E policy r attID g = seqM
     [appendEvent E attID 1 attID (req_dialog r)
        (PAttemptDispatching (req_id r) g (req_message r) (pol_revision policy) (pol_effectiveHash policy)) False,
      appendQueueEvent E,
      appendNodeEvent E]"

definition startIntent :: "requestRow \<Rightarrow> string \<Rightarrow> int \<Rightarrow> tailProof option \<Rightarrow> actionRow" where
  "startIntent r attID g tail = \<lparr>act_command = attID, act_kind = actionDispatchStart, act_attempt = attID, act_message = None, act_actor = None,
     act_payload = JObj [(''dialogId'', JStr (req_dialog r)), (''failedTailRetry'', tailProof_json tail), (''generation'', JInt g),
       (''requestId'', JStr (req_id r))], act_status = CPending\<rparr>"

definition recordStart :: "env \<Rightarrow> requestRow \<Rightarrow> string \<Rightarrow> int \<Rightarrow> unit tx" where
  "recordStart E r attID g =
     bindM (readDb (\<lambda>d. failedTailProof E d (req_dialog r) (req_message r))) (\<lambda>res.
     bindM (liftM res) (\<lambda>tail. seqM [insertAction (startIntent r attID g tail), saveState]))"

definition commitDispatch :: "env \<Rightarrow> policyRow \<Rightarrow> requestRow \<Rightarrow> messageRow \<Rightarrow> dispatchResult tx" where
  "commitDispatch E policy r m =
     bindM (openAttempt E policy r) (\<lambda>(attID, g).
     bindM (seqM
       [takeRequest E r m attID,
        writeState (occupied attID),
        announceDispatch E policy r attID g,
        recordStart E r attID g]) (\<lambda>_.
     returnM (Dispatched attID (req_id r))))"

definition dispatchBody :: "env \<Rightarrow> policyRow \<Rightarrow> dispatchCandidate \<Rightarrow> dispatchResult tx" where
  "dispatchBody E policy cand =
     bindM (readState id) (\<lambda>s.
     bindM (readDb id) (\<lambda>d.
     if StateVersion s \<noteq> dc_stateVersion cand \<or> QueuePaused s \<or> ActiveAttemptID s \<noteq> None \<or> PendingCount s = 0
     then returnM (NoDispatch ''changed'')
     else (case queueHead d (NodeID s) of
       None \<Rightarrow> returnM (NoDispatch ''held'')
     | Some r \<Rightarrow> (case sel msg_id (req_message r) (messages d) of
         None \<Rightarrow> returnM (NoDispatch ''held'')
       | Some m \<Rightarrow>
           if msg_text m = None \<or> msg_disposition m = None then failM (RawError ''converting NULL to string is unsupported'')
           else if req_id r \<noteq> dc_requestID cand \<or> req_dialog r \<noteq> dc_dialogID cand \<or> req_message r \<noteq> dc_messageID cand \<or>
              req_sequence r \<noteq> dc_queueSequence cand
           then returnM (NoDispatch ''changed'')
           else commitDispatch E policy r m))))"

definition blockPolicyBody :: "env \<Rightarrow> unit tx" where
  "blockPolicyBody E = seqM
     [writeState (\<lambda>s. s\<lparr>EngineReadiness := ''blocked'', BlockedReasons := addReason (BlockedReasons s) ''policy_unavailable'',
        StateVersion := StateVersion s + 1\<rparr>),
      appendNodeEvent E,
      saveState]"

definition blockPolicy :: "env \<Rightarrow> db \<Rightarrow> db" where
  "blockPolicy E d =
     (if EngineReadiness (node_state d) = ''blocked'' \<and> List.member (BlockedReasons (node_state d)) ''policy_unavailable'' then d
      else snd (commitTx E (blockPolicyBody E) d))"

record dispatchGate =
  dg_authFirst :: bool
  dg_policy :: "policyRow option"
  dg_authSecond :: bool
  dg_settingsBlocked :: bool

text \<open>
  \<open>peeked\<close> is the ledger under the first lock, \<open>d\<close> the one under the second. A missing policy
  source and a source that fails are both \<open>dg_policy = None\<close>.
\<close>

definition dispatchReply :: "env \<Rightarrow> failure + dispatchResult \<Rightarrow> failure + dispatchResult" where
  "dispatchReply E res = (case res of
     Inr (Dispatched attID reqID) \<Rightarrow> Inr (if env_faultAfter E then DispatchUnknown attID reqID else Dispatched attID reqID)
   | _ \<Rightarrow> res)"

definition DispatchNext :: "env \<Rightarrow> dispatchGate \<Rightarrow> db \<Rightarrow> db \<Rightarrow> (failure + dispatchResult) \<times> db" where
  "DispatchNext E G peeked d =
     (if \<not> dg_authFirst G then (Inr (NoDispatch ''blocked''), d)
      else (case peekDispatch peeked of
        Inl e \<Rightarrow> (Inl e, d)
      | Inr None \<Rightarrow> (Inr (NoDispatch ''idle''), d)
      | Inr (Some cand) \<Rightarrow> (case dg_policy G of
          None \<Rightarrow> (Inr (NoDispatch ''blocked''), blockPolicy E d)
        | Some policy \<Rightarrow>
            if \<not> ValidatePolicySnapshot (env_sha E) policy then (Inr (NoDispatch ''blocked''), blockPolicy E d)
            else if \<not> dg_authSecond G \<or> dg_settingsBlocked G then (Inr (NoDispatch ''blocked''), d)
            else (case dispatchBody E policy cand (beginTx d) of
              Inr (NoDispatch why, _) \<Rightarrow>
                (if env_beginOk E then Inr (NoDispatch why) else Inl (RawError ''begin failed''), d)
            | _ \<Rightarrow> (case commitTx E (dispatchBody E policy cand) d of (res, d') \<Rightarrow> (dispatchReply E res, d'))))))"

text \<open>What the second critical section can do to the ledger.\<close>

lemma DispatchNext_ledger:
  "snd (DispatchNext E G peeked d) = d \<or> snd (DispatchNext E G peeked d) = blockPolicy E d \<or>
   (\<exists>policy cand. snd (DispatchNext E G peeked d) = snd (commitTx E (dispatchBody E policy cand) d))"
  by (auto simp: DispatchNext_def case_prod_beta split: option.split sum.split dispatchResult.split)

section \<open>Contracts kept\<close>

text \<open>A dispatch within both contracts.\<close>

context tx_rel
begin

lemma keeps_openAttempt [keeps_rules]: "keeps R (openAttempt E p r)"
  unfolding openAttempt_def by (intro keeps_rules)

lemma keeps_takeRequest [keeps_rules]: "keeps R (takeRequest E r m a)"
  unfolding takeRequest_def by (intro keeps_rules) (simp_all add: core_defs)

lemma keeps_announceDispatch [keeps_rules]: "keeps R (announceDispatch E p r a g)"
  unfolding announceDispatch_def by (intro keeps_rules)

end

context save_rel
begin

lemma keeps_blockPolicyBody [keeps_rules]: "keeps R (blockPolicyBody E)"
  unfolding blockPolicyBody_def by (intro keeps_rules) (simp_all add: state_laws)

lemma keeps_recordStart [keeps_rules]: "keeps R (recordStart E r a g)"
  unfolding recordStart_def by (intro keeps_rules)

lemma keeps_commitDispatch [keeps_rules]: "keeps R (commitDispatch E p r m)"
  unfolding commitDispatch_def by (intro keeps_rules) (simp_all add: state_laws occupied_def)

lemma keeps_dispatchBody [keeps_rules]: "keeps R (dispatchBody E p cand)"
  unfolding dispatchBody_def by (intro keeps_rules)

end

lemma settles_recordStart [settle_rules]: "settles (recordStart E r a g)"
  unfolding recordStart_def by (intro settle_rules keeps_rules)

lemma settles_commitDispatch: "settles (commitDispatch E p r m)"
  unfolding commitDispatch_def case_prod_beta by (intro settle_rules keeps_rules) (simp_all add: state_laws occupied_def)

lemma settled_dispatchBody: "keeps settled_step (dispatchBody E p cand)"
  unfolding dispatchBody_def by (intro keeps_rules settles_keeps [OF settles_commitDispatch])

lemma sound_dispatchBody: "sound_body (dispatchBody E p cand)"
  unfolding sound_body_def by (intro conjI keeps_rules settled_dispatchBody)

lemma settles_blockPolicyBody: "settles (blockPolicyBody E)"
  unfolding blockPolicyBody_def by (intro settle_rules keeps_rules) (simp_all add: state_laws)

lemma sound_blockPolicyBody: "sound_body (blockPolicyBody E)"
  unfolding sound_body_def by (intro conjI keeps_rules settles_keeps [OF settles_blockPolicyBody])

lemma blockPolicy_step: "db_step d (blockPolicy E d)"
  unfolding blockPolicy_def by (auto intro: commitTx_step sound_blockPolicyBody)

lemma DispatchNext_step: "db_step d (snd (DispatchNext E G peeked d))"
  using DispatchNext_ledger [of E G peeked d] by (auto simp: commitTx_step [OF sound_dispatchBody] intro: blockPolicy_step)

section \<open>The run of a dispatch\<close>

lemma commitDispatch_run:
  assumes "commitDispatch E policy r m t = Inr (x, t')"
  obtains attID g t1 t2 t3 where "x = Dispatched attID (req_id r)" and "openAttempt E policy r t = Inr ((attID, g), t1)"
    and "takeRequest E r m attID t1 = Inr ((), t2)"
    and "announceDispatch E policy r attID g (t2\<lparr>tx_state := occupied attID (tx_state t2)\<rparr>) = Inr ((), t3)"
    and "recordStart E r attID g t3 = Inr ((), t')"
  using assms by (auto simp: commitDispatch_def)

lemma openAttemptD:
  assumes "openAttempt E policy r t = Inr ((attID, g), t')"
  obtains P S where "env_ids E (tx_ids t) = Some attID" and "g = nextGeneration (tx_db t) (req_message r)"
    and "attID \<notin> att_id ` set (attempts (tx_db t))" and "tx_state t' = tx_state t"
    and "tx_db t' = (tx_db t)\<lparr>policy_snapshots := P, attempts := attempts (tx_db t) @ [\<lparr>att_id = attID, att_node = NodeID (tx_state t),
      att_dialog = req_dialog r, att_request = req_id r, att_generation = g, att_version = 1, att_state = ADispatching,
      att_effect = ''none'', att_boundary = req_message r, att_policy = pol_effectiveHash policy, att_started = None,
      att_finished = None, att_output = 0\<rparr>], scope_revisions := S\<rparr>"
proof -
  obtain t1 where a: "env_ids E (tx_ids t) = Some attID" "g = nextGeneration (tx_db t) (req_message r)"
    and p: "insertPolicy policy (t\<lparr>tx_ids := Suc (tx_ids t)\<rparr>) = Inr ((), t1)"
    and i: "insertAttempt \<lparr>att_id = attID, att_node = NodeID (tx_state t), att_dialog = req_dialog r, att_request = req_id r,
      att_generation = g, att_version = 1, att_state = ADispatching, att_effect = ''none'', att_boundary = req_message r,
      att_policy = pol_effectiveHash policy, att_started = None, att_finished = None, att_output = 0\<rparr> t1 = Inr ((), t')"
    using assms by (auto simp: openAttempt_def)
  obtain P where P: "t1 = t\<lparr>tx_ids := Suc (tx_ids t), tx_db := (tx_db t)\<lparr>policy_snapshots := P\<rparr>\<rparr>" using insertPolicyD [OF p] by auto
  obtain S where "t' = t1\<lparr>tx_db := (tx_db t1)\<lparr>attempts := attempts (tx_db t1) @ [\<lparr>att_id = attID, att_node = NodeID (tx_state t),
      att_dialog = req_dialog r, att_request = req_id r, att_generation = g, att_version = 1, att_state = ADispatching,
      att_effect = ''none'', att_boundary = req_message r, att_policy = pol_effectiveHash policy, att_started = None,
      att_finished = None, att_output = 0\<rparr>], scope_revisions := S\<rparr>\<rparr>" and "sel att_id attID (attempts (tx_db t1)) = None"
    using insertAttemptD [OF i] by auto
  then show ?thesis using a by (intro that [of S P]) (simp_all add: P sel_None_iff)
qed

end
