(* ===== verification/Actions.thy ===== *)
theory Actions
  imports Dispatch
begin

text \<open>
  The action worker of \<open>runtime/actions.go\<close>: claiming a control intent for a lane, performing
  it against the adapter and recording the outcome. The adapter's answers are arguments. Every
  definition up to \<open>performDispatch\<close> is one critical section under the node lock;
  \<open>performDispatch\<close> and \<open>performAction\<close> run several of them one after the other with the lock
  released in between.
\<close>

section \<open>Claiming\<close>

datatype lane = StopLane | DispatchLane | ControlLane

definition laneAccepts :: "db \<Rightarrow> lane \<Rightarrow> actionRow \<Rightarrow> bool" where
  "laneAccepts d l c = (case l of
     StopLane \<Rightarrow> act_kind c = kind_str AttemptStop
   | ControlLane \<Rightarrow> act_kind c \<noteq> actionDispatchStart \<and> act_kind c \<noteq> kind_str AttemptStop
   | DispatchLane \<Rightarrow> act_kind c = actionDispatchStart \<and> (case sel att_id (act_attempt c) (attempts d) of
       None \<Rightarrow> False | Some a \<Rightarrow> \<not> dialogHeld d (att_node a) (att_dialog a)))"

definition claimAction :: "env \<Rightarrow> lane \<Rightarrow> db \<Rightarrow> actionRow option \<times> db" where
  "claimAction E l d = (case List.find (\<lambda>c. act_status c = CPending \<and> laneAccepts d l c) (control_actions d) of
     None \<Rightarrow> (None, d)
   | Some c \<Rightarrow> (case commitTx E (updateActions (\<lambda>x. act_command x = act_command c \<and> act_status x = CPending) CInflight) d of
       (Inl _, _) \<Rightarrow> (None, d)
     | (Inr _, d') \<Rightarrow> (Some c, d')))"

definition requeueAction :: "env \<Rightarrow> string \<Rightarrow> db \<Rightarrow> db" where
  "requeueAction E commandID d =
     snd (commitTx E (updateActions (\<lambda>x. act_command x = commandID \<and> act_status x = CInflight) CPending) d)"

definition finishAction :: "env \<Rightarrow> string \<Rightarrow> action_status \<Rightarrow> db \<Rightarrow> db" where
  "finishAction E commandID st d =
     snd (commitTx E (updateActions (\<lambda>x. act_command x = commandID \<and> act_status x = CInflight) st) d)"

section \<open>Steering\<close>

datatype steerOutcome = SteerApplied | SteerFallbackQueued | SteerUnknown | SteerRejected

definition finishSteerBody :: "env \<Rightarrow> attemptRef \<Rightarrow> string \<Rightarrow> steerOutcome \<Rightarrow> unit tx" where
  "finishSteerBody E ref msgID outcome =
     bindM (readDb (\<lambda>d. sel msg_id msgID (messages d))) (\<lambda>row.
     bindM (needM row) (\<lambda>m.
     bindM (needM (msg_request m)) (\<lambda>reqID.
     bindM (guardM (msg_disposition m = Some DSteerPending) (RawError ''message is not steer_pending'')) (\<lambda>_.
     bindM (case outcome of
         SteerApplied \<Rightarrow> bindM (timestamp E) (\<lambda>now. seqM
           [writeState (\<lambda>s. s\<lparr>PendingCount := PendingCount s - 1\<rparr>),
            updateRequest reqID (\<lambda>r. r\<lparr>req_version := req_version r + 1, req_status := RCompleted, req_updated := now\<rparr>)])
       | SteerUnknown \<Rightarrow> bindM (timestamp E) (\<lambda>now. seqM
           [writeState (\<lambda>s. s\<lparr>PendingCount := PendingCount s - 1\<rparr>),
            updateRequest reqID (\<lambda>r. r\<lparr>req_version := req_version r + 1, req_status := RUnknown, req_updated := now\<rparr>)])
       | _ \<Rightarrow> returnM ()) (\<lambda>_.
     let (to, reason) = (case outcome of SteerApplied \<Rightarrow> (DApplied, ''steer_applied'') | SteerUnknown \<Rightarrow> (DUnknown, ''steer_unknown'')
           | _ \<Rightarrow> (DQueued, ''steer_fallback'')) in
     seqM
       [updateMessage msgID (\<lambda>m. m\<lparr>msg_version := msg_version m + 1, msg_disposition := Some to\<rparr>),
        writeState (\<lambda>s. s\<lparr>QueueVersion := QueueVersion s + 1, StateVersion := StateVersion s + 1\<rparr>),
        appendEvent E msgID (msg_version m + 1) '''' '''' (PMessageDisposition msgID ''steer_pending'' (disposition_str to) reason) False,
        if outcome = SteerUnknown then setAttemptUnknown E ref ''provider_state'' ''unknown'' else returnM (),
        appendQueueEvent E,
        saveState])))))"

definition finishSteer :: "env \<Rightarrow> attemptRef \<Rightarrow> string \<Rightarrow> steerOutcome \<Rightarrow> db \<Rightarrow> db" where
  "finishSteer E ref msgID outcome d = snd (commitTx E (finishSteerBody E ref msgID outcome) d)"

section \<open>Responses\<close>

datatype response_outcome = ResponseApplied | ResponseRejected | ResponseUnknown

definition responseStatus :: "response_outcome \<Rightarrow> response_status" where
  "responseStatus oc = (case oc of ResponseApplied \<Rightarrow> SResolved | ResponseUnknown \<Rightarrow> SUnknown | ResponseRejected \<Rightarrow> SPending)"

definition actionStatus :: "response_outcome \<Rightarrow> action_status" where
  "actionStatus oc = (case oc of ResponseApplied \<Rightarrow> CAcknowledged | ResponseRejected \<Rightarrow> CRejected | ResponseUnknown \<Rightarrow> CUnknown)"

definition finishResponse :: "env \<Rightarrow> attemptRef \<Rightarrow> response_outcome \<Rightarrow> unit tx \<Rightarrow> unit tx" where
  "finishResponse E ref outcome mutate = seqM
     [mutate,
      if outcome = ResponseUnknown then setAttemptUnknown E ref ''provider_state'' ''unknown'' else returnM (),
      saveState]"

definition finishApprovalBody :: "env \<Rightarrow> attemptRef \<Rightarrow> string \<Rightarrow> json \<Rightarrow> response_outcome \<Rightarrow> unit tx" where
  "finishApprovalBody E ref actor pl outcome = (let appID = jstring pl ''approvalId''; v = jint pl ''approvalVersion'' in
     finishResponse E ref outcome (seqM
       [updateApproval appID (\<lambda>p. app_version p = v) (\<lambda>p. p\<lparr>app_status := responseStatus outcome\<rparr>),
        if outcome = ResponseApplied
        then appendEvent E appID v (ref_attemptID ref) (ref_dialogID ref) (PApprovalResolved appID (jstring pl ''decision'') actor v) False
        else returnM ()]))"

definition finishInputBody :: "env \<Rightarrow> attemptRef \<Rightarrow> string \<Rightarrow> json \<Rightarrow> response_outcome \<Rightarrow> unit tx" where
  "finishInputBody E ref msgID pl outcome = (let inpID = jstring pl ''inputRequestId''; v = jint pl ''inputVersion'' in
     finishResponse E ref outcome (seqM
       [updateInput inpID (\<lambda>i. inp_version i = v) (\<lambda>i. i\<lparr>inp_status := responseStatus outcome\<rparr>),
        if outcome = ResponseApplied
        then appendEvent E inpID v (ref_attemptID ref) (ref_dialogID ref) (PInputResolved inpID msgID v) False
        else returnM ()]))"

definition finishApproval :: "env \<Rightarrow> attemptRef \<Rightarrow> string \<Rightarrow> json \<Rightarrow> response_outcome \<Rightarrow> db \<Rightarrow> db" where
  "finishApproval E ref actor pl outcome d = snd (commitTx E (finishApprovalBody E ref actor pl outcome) d)"

definition finishInput :: "env \<Rightarrow> attemptRef \<Rightarrow> string \<Rightarrow> json \<Rightarrow> response_outcome \<Rightarrow> db \<Rightarrow> db" where
  "finishInput E ref msgID pl outcome d = snd (commitTx E (finishInputBody E ref msgID pl outcome) d)"

section \<open>Performing\<close>

text \<open>What the adapter answered; \<open>AInvalid\<close> is an outcome outside its contract.\<close>

datatype 'o answer = AError | AOutcome 'o | AInvalid

datatype cancelOutcome = CancelAcknowledged | CancelRejected | CancelUnknown

text \<open>The outcomes of \<open>Start\<close> and \<open>Resume\<close>; a missing native context is an outcome of \<open>Resume\<close> only.\<close>

datatype startOutcome = Started | StartRejected | StartUnknown | ResumeContextMissing

definition responseOutcome :: "response_outcome answer \<Rightarrow> response_outcome \<times> bool" where
  "responseOutcome ans = (case ans of AError \<Rightarrow> (ResponseUnknown, False) | AOutcome oc \<Rightarrow> (oc, False) | AInvalid \<Rightarrow> (ResponseUnknown, True))"

definition actionRef :: "env \<Rightarrow> actionRow \<Rightarrow> attemptRef" where
  "actionRef E c = \<lparr>ref_nodeID = env_nodeID E, ref_dialogID = jstring (act_payload c) ''dialogId'',
     ref_requestID = jstring (act_payload c) ''requestId'', ref_attemptID = act_attempt c, ref_generation = jint (act_payload c) ''generation''\<rparr>"

definition unknownAndFinish :: "env \<Rightarrow> actionRow \<Rightarrow> string \<Rightarrow> db \<Rightarrow> db" where
  "unknownAndFinish E c reason d = finishAction E (act_command c) CUnknown (markAttemptUnknown E (actionRef E c) reason ''unknown'' d)"

definition performStop :: "env \<Rightarrow> actionRow \<Rightarrow> cancelOutcome answer \<Rightarrow> db \<Rightarrow> db" where
  "performStop E c ans d = (case ans of
     AError \<Rightarrow> unknownAndFinish E c ''cancel_unconfirmed'' d
   | AOutcome CancelUnknown \<Rightarrow> unknownAndFinish E c ''cancel_unconfirmed'' d
   | AOutcome CancelRejected \<Rightarrow> finishAction E (act_command c) CRejected d
   | AOutcome CancelAcknowledged \<Rightarrow> finishAction E (act_command c) CAcknowledged d
   | AInvalid \<Rightarrow> unknownAndFinish E c ''adapter_protocol'' d)"

definition optText :: "string option \<Rightarrow> string" where
  "optText r = (case r of None \<Rightarrow> '''' | Some x \<Rightarrow> x)"

definition performSteer :: "env \<Rightarrow> actionRow \<Rightarrow> steerOutcome answer \<Rightarrow> db \<Rightarrow> db" where
  "performSteer E c ans d = (let ref = actionRef E c; m = optText (act_message c) in case ans of
     AError \<Rightarrow> finishAction E (act_command c) CUnknown (finishSteer E ref m SteerUnknown d)
   | AOutcome oc \<Rightarrow> finishAction E (act_command c)
       (if oc = SteerUnknown then CUnknown else if oc = SteerRejected then CRejected else CAcknowledged) (finishSteer E ref m oc d)
   | AInvalid \<Rightarrow> finishAction E (act_command c) CUnknown
       (finishSteer E ref m SteerUnknown (markAttemptUnknown E ref ''adapter_protocol'' ''unknown'' d)))"

definition performResponse :: "env \<Rightarrow> actionRow \<Rightarrow> response_outcome answer \<Rightarrow> db \<Rightarrow> db" where
  "performResponse E c ans d = (let ref = actionRef E c; (oc, invalid) = responseOutcome ans;
       d1 = (if invalid then markAttemptUnknown E ref ''adapter_protocol'' ''unknown'' d else d);
       d2 = (if act_kind c = kind_str ApprovalRespond then finishApproval E ref (optText (act_actor c)) (act_payload c) oc d1
             else finishInput E ref (optText (act_message c)) (act_payload c) oc d1)
     in finishAction E (act_command c) (actionStatus oc) d2)"

text \<open>What the start of an attempt needs from the ledger; \<open>None\<close> when the joined row is missing.\<close>

definition startInput :: "string \<Rightarrow> db \<Rightarrow> (string \<times> (string \<times> int) \<times> policyRow \<times> bool) option" where
  "startInput attID d =
     Option.bind (sel att_id attID (attempts d)) (\<lambda>a.
     Option.bind (Option.bind (attemptMessage d a) (\<lambda>m. sel msg_id m (messages d))) (\<lambda>m.
     Option.bind (sel pol_effectiveHash (att_policy a) (policy_snapshots d)) (\<lambda>p.
     Option.bind (msg_text m) (\<lambda>prompt.
     if att_state a = ADispatching
     then Some (prompt, (att_boundary a, msg_sequence m), p, list_ex (\<lambda>x. att_dialog x = att_dialog a \<and> att_id x \<noteq> attID \<and>
       (att_state x = ACompleted \<or> att_state x = AFailed \<or> att_state x = AInterrupted)) (attempts d))
     else None))))"

definition rejectStart :: "env \<Rightarrow> actionRow \<Rightarrow> db \<Rightarrow> db" where
  "rejectStart E c d = finishAction E (act_command c) CRejected (snd (Observe E
     \<lparr>ob_attemptID = act_attempt c, ob_generation = ref_generation (actionRef E c), ob_kind = ''terminal'', ob_terminalState = ''failed'',
      ob_reason = '''', ob_effectStatus = ''none'', ob_confirmed = True\<rparr> d))"

text \<open>The input of \<open>Start\<close> (\<open>sc_resume\<close> false) or \<open>Resume\<close>.\<close>

record startCall =
  sc_attempt :: attemptRef
  sc_prompt :: string
  sc_policy :: policyRow
  sc_context :: "string \<times> int"
  sc_resume :: bool
  sc_failedTail :: "tailProof option"

text \<open>The adapter: what it answers to each call.\<close>

record adapter =
  ad_Start :: "startCall \<Rightarrow> startOutcome answer"
  ad_Cancel :: "attemptRef \<Rightarrow> cancelOutcome answer"
  ad_Steer :: "attemptRef \<Rightarrow> string \<Rightarrow> string \<Rightarrow> steerOutcome answer"
  ad_Respond :: "attemptRef \<Rightarrow> json \<Rightarrow> response_outcome answer"

text \<open>
  The failed-tail evidence stored with the intent is handed on only while the ledger still
  proves exactly it; it is compared as the JSON the intent stores.
\<close>

definition currentTail :: "env \<Rightarrow> actionRow \<Rightarrow> string \<Rightarrow> db \<Rightarrow> tailProof option" where
  "currentTail E c boundary d = (case jfield (act_payload c) ''failedTailRetry'' of
     None \<Rightarrow> None
   | Some JNull \<Rightarrow> None
   | Some stored \<Rightarrow>
       if \<not> env_beginOk E then None
       else (case failedTailProof E d (ref_dialogID (actionRef E c)) boundary of
         Inr current \<Rightarrow> if tailProof_json current = stored then current else None
       | Inl _ \<Rightarrow> None))"

definition performDispatch :: "env \<Rightarrow> adapter \<Rightarrow> bool \<Rightarrow> actionRow \<Rightarrow> db \<Rightarrow> db" where
  "performDispatch E A authReady c d =
     (if \<not> authReady then requeueAction E (act_command c) d
      else (case startInput (act_attempt c) d of
        None \<Rightarrow> unknownAndFinish E c ''dispatch_uncertain'' d
      | Some (prompt, boundary, p, resume) \<Rightarrow>
          if \<not> ValidatePolicySnapshot (env_sha E) p then unknownAndFinish E c ''adapter_protocol'' d
          else (case ad_Start A \<lparr>sc_attempt = actionRef E c, sc_prompt = prompt, sc_policy = p, sc_context = boundary, sc_resume = resume,
              sc_failedTail = (if resume then currentTail E c (fst boundary) d else None)\<rparr> of
            AError \<Rightarrow> unknownAndFinish E c ''dispatch_uncertain'' d
          | AOutcome StartUnknown \<Rightarrow> unknownAndFinish E c ''dispatch_uncertain'' d
          | AOutcome StartRejected \<Rightarrow> rejectStart E c d
          | AOutcome ResumeContextMissing \<Rightarrow> if resume then rejectStart E c d else unknownAndFinish E c ''adapter_protocol'' d
          | AInvalid \<Rightarrow> unknownAndFinish E c ''adapter_protocol'' d
          | AOutcome Started \<Rightarrow> (case markStarted E (actionRef E c) d of
              (Inl _, d') \<Rightarrow> unknownAndFinish E c ''dispatch_uncertain'' d'
            | (Inr _, d') \<Rightarrow> finishAction E (act_command c) CAcknowledged d'))))"

definition performAction :: "env \<Rightarrow> adapter \<Rightarrow> bool \<Rightarrow> actionRow \<Rightarrow> db \<Rightarrow> db" where
  "performAction E A authReady c d = (let ref = actionRef E c in
     if act_kind c = actionDispatchStart then performDispatch E A authReady c d
     else if act_kind c = kind_str AttemptStop then performStop E c (ad_Cancel A ref) d
     else if act_kind c = kind_str MessageSteer
     then performSteer E c (ad_Steer A ref (optText (act_message c)) (jstring (act_payload c) ''text'')) d
     else if act_kind c = kind_str ApprovalRespond \<or> act_kind c = kind_str InputRespond
     then performResponse E c (ad_Respond A ref (act_payload c)) d
     else d)"

section \<open>Contracts kept\<close>

text \<open>Finishing a control within the contract of \<open>save_rel\<close>.\<close>

context save_rel
begin

lemma keeps_finishSteerBody [keeps_rules]: "keeps R (finishSteerBody E ref m oc)"
  unfolding finishSteerBody_def by (cases oc) (simp_all, (intro keeps_rules; simp add: state_laws core_defs)+)

lemma keeps_finishResponse [keeps_rules]: "keeps R m \<Longrightarrow> keeps R (finishResponse E ref oc m)"
  unfolding finishResponse_def by (intro keeps_rules)

lemma keeps_finishApprovalBody [keeps_rules]: "keeps R (finishApprovalBody E ref actor pl oc)"
  unfolding finishApprovalBody_def by (intro keeps_rules) simp

lemma keeps_finishInputBody [keeps_rules]: "keeps R (finishInputBody E ref actor pl oc)"
  unfolding finishInputBody_def by (intro keeps_rules) simp

end

lemma settles_finishSteerBody: "settles (finishSteerBody E ref m oc)"
  unfolding finishSteerBody_def by (cases oc) (simp_all, (intro settle_rules keeps_rules; simp add: state_laws core_defs)+)

lemma sound_finishSteerBody: "sound_body (finishSteerBody E ref m oc)"
  unfolding sound_body_def by (intro conjI keeps_rules settles_keeps [OF settles_finishSteerBody])

lemma settles_finishResponse: "keeps ledger_step m \<Longrightarrow> settles (finishResponse E ref oc m)"
  unfolding finishResponse_def by (intro settle_rules keeps_rules)

lemma settles_finishApprovalBody: "settles (finishApprovalBody E ref actor pl oc)"
  unfolding finishApprovalBody_def by (intro settle_rules settles_finishResponse keeps_rules) simp

lemma sound_finishApprovalBody: "sound_body (finishApprovalBody E ref actor pl oc)"
  unfolding sound_body_def by (intro conjI keeps_rules settles_keeps [OF settles_finishApprovalBody])

lemma settles_finishInputBody: "settles (finishInputBody E ref actor pl oc)"
  unfolding finishInputBody_def by (intro settle_rules settles_finishResponse keeps_rules) simp

lemma sound_finishInputBody: "sound_body (finishInputBody E ref actor pl oc)"
  unfolding sound_body_def by (intro conjI keeps_rules settles_keeps [OF settles_finishInputBody])

lemma sound_updateActions: "sound_body (updateActions P st)"
  unfolding sound_body_def by (intro conjI keeps_rules)

lemma claimAction_step: "db_step d (snd (claimAction E l d))"
  using commitTx_step [OF sound_updateActions] by (auto simp: claimAction_def split: option.splits prod.splits sum.splits) (metis snd_conv)

lemma requeueAction_step: "db_step d (requeueAction E c d)"
  unfolding requeueAction_def by (intro commitTx_step sound_updateActions)

lemma finishAction_step: "db_step d (finishAction E c st d)"
  unfolding finishAction_def by (intro commitTx_step sound_updateActions)

lemma finishSteer_step: "db_step d (finishSteer E ref m oc d)"
  unfolding finishSteer_def by (intro commitTx_step sound_finishSteerBody)

lemma finishApproval_step: "db_step d (finishApproval E ref actor pl oc d)"
  unfolding finishApproval_def by (intro commitTx_step sound_finishApprovalBody)

lemma finishInput_step: "db_step d (finishInput E ref m pl oc d)"
  unfolding finishInput_def by (intro commitTx_step sound_finishInputBody)

end
