(* ===== verification/Recovery.thy ===== *)
theory Recovery
  imports Dispatch
begin

text \<open>
  What a starting node does to the ledger it finds, \<open>runtime/recovery.go\<close>: control intents that
  were pending or in flight become unknown, an attempt that held the slot falls into the
  unknown state, and the untouched policy-blocked ledger of older binaries becomes ready.
\<close>

definition slotActive :: "attempt_state \<Rightarrow> bool" where
  "slotActive a \<longleftrightarrow> a = ADispatching \<or> a = ARunning \<or> a = AWaitingInput \<or> a = AStopping"

definition recoverStartupBody :: "env \<Rightarrow> unit tx" where
  "recoverStartupBody E =
     bindM (readState id) (\<lambda>s.
     bindM (updateActions (\<lambda>c. act_status c = CPending \<or> act_status c = CInflight) CUnknown) (\<lambda>_.
     case ActiveAttemptID s of
       None \<Rightarrow> returnM ()
     | Some attID \<Rightarrow>
         bindM (readDb (\<lambda>d. sel att_id attID (attempts d))) (\<lambda>row. case row of
           None \<Rightarrow> failM (RawError ''node active attempt reference is missing'')
         | Some a \<Rightarrow>
             if att_state a = AUnknown then returnM ()
             else if \<not> slotActive (att_state a) then failM (RawError ''node active attempt is not active'')
             else seqM
               [setAttemptUnknown E \<lparr>ref_nodeID = NodeID s, ref_dialogID = att_dialog a, ref_requestID = att_request a,
                  ref_attemptID = att_id a, ref_generation = att_generation a\<rparr> ''dispatch_uncertain'' ''unknown'',
                saveState])))"

definition recoverStartup :: "env \<Rightarrow> db \<Rightarrow> (failure + unit) \<times> db" where
  "recoverStartup E = commitTx E (recoverStartupBody E)"

definition isPristinePolicySentinel :: "durableState \<Rightarrow> bool" where
  "isPristinePolicySentinel s \<longleftrightarrow> StateVersion s = 0 \<and> LastEventSeq s = 0 \<and> QueueVersion s = 0 \<and> \<not> QueuePaused s \<and>
     TransportAvailability s = ''online'' \<and> EngineReadiness s = ''blocked'' \<and> Occupancy s = ''idle'' \<and> ActiveAttemptID s = None \<and>
     PendingCount s = 0 \<and> BlockedReasons s = [''policy_unavailable''] \<and> NextQueueSequence s = 1 \<and> NextMessageSequence s = 1"

definition durableRows :: "db \<Rightarrow> nat" where
  "durableRows d = length (dialogs d) + length (messages d) + length (requests d) + length (attempts d) + length (commands d) +
     length (control_actions d) + length (events d) + length (tool_calls d) + length (approvals d) + length (input_requests d) +
     length (artifacts d) + length (late_observations d) + length (policy_snapshots d) + length (administrative_holds d) +
     length (hold_outcomes d) + length (command_rejections d)"

definition recoverPristineBody :: "env \<Rightarrow> unit tx" where
  "recoverPristineBody E = bindM (readState id) (\<lambda>s. bindM (readDb durableRows) (\<lambda>n.
     if \<not> isPristinePolicySentinel s \<or> n \<noteq> 0 then returnM ()
     else seqM
       [writeState (\<lambda>s. s\<lparr>EngineReadiness := ''ready'', BlockedReasons := [], StateVersion := StateVersion s + 1\<rparr>),
        appendNodeEvent E,
        saveState]))"

text \<open>The policy source is consulted first; without a valid snapshot the ledger is not touched.\<close>

definition recoverPristinePolicy :: "env \<Rightarrow> policyRow option \<Rightarrow> db \<Rightarrow> (failure + unit) \<times> db" where
  "recoverPristinePolicy E policy d = (case policy of
     None \<Rightarrow> (Inr (), d)
   | Some p \<Rightarrow>
       if \<not> ValidatePolicySnapshot (env_sha E) p then (Inr (), d)
       else commitTx E (recoverPristineBody E) d)"

section \<open>Contracts kept\<close>

text \<open>Recovery within the contract of \<open>save_rel\<close>.\<close>

context save_rel
begin

lemma keeps_recoverPristineBody [keeps_rules]: "keeps R (recoverPristineBody E)"
  unfolding recoverPristineBody_def by (intro keeps_rules) (simp_all add: state_laws)

lemma keeps_recoverStartupBody [keeps_rules]: "keeps R (recoverStartupBody E)"
  unfolding recoverStartupBody_def by (intro keeps_rules)

end

lemma settled_recoverStartupBody: "keeps settled_step (recoverStartupBody E)"
proof -
  have "settles (seqM [setAttemptUnknown E ref x y, saveState])" for ref x y
    by (intro settle_rules keeps_rules)
  from settles_keeps [OF this] show ?thesis
    unfolding recoverStartupBody_def by (intro stl.keeps_bind stl.keeps_option stl.keeps_if settled_stmt stl.keeps_return stl.keeps_fail)
qed

lemma sound_recoverStartupBody: "sound_body (recoverStartupBody E)"
  unfolding sound_body_def by (intro conjI keeps_rules settled_recoverStartupBody)

lemma settled_recoverPristineBody: "keeps settled_step (recoverPristineBody E)"
proof -
  have "settles (seqM [writeState (\<lambda>s. s\<lparr>EngineReadiness := ''ready'', BlockedReasons := [], StateVersion := StateVersion s + 1\<rparr>),
        appendNodeEvent E, saveState])"
    by (intro settle_rules keeps_rules) (simp_all add: state_laws)
  from settles_keeps [OF this] show ?thesis
    unfolding recoverPristineBody_def by (intro stl.keeps_bind stl.keeps_if settled_stmt stl.keeps_return)
qed

lemma sound_recoverPristineBody: "sound_body (recoverPristineBody E)"
  unfolding sound_body_def by (intro conjI keeps_rules settled_recoverPristineBody)

lemma recoverStartup_step: "db_step d (snd (recoverStartup E d))"
  unfolding recoverStartup_def by (intro commitTx_step sound_recoverStartupBody)

lemma recoverPristinePolicy_step: "db_step d (snd (recoverPristinePolicy E p d))"
  by (auto simp: recoverPristinePolicy_def intro: commitTx_step sound_recoverPristineBody split: option.splits)

end
