(* ===== verification/Strict_Json.thy ===== *)
theory Strict_Json
  imports Barrier
begin

text \<open>
  Strict JSON text, \<open>internal/strictjson/strict.go\<close> over the scanner and decoder of
  \<open>encoding/json\<close>: valid UTF-8, the grammar of RFC 8259, no unpaired surrogate escape, no member
  name twice in an object, nesting of at most 32, nothing after the value. \<open>strictParse\<close> gives the
  value that the decoder then builds, with numbers kept as tokens.
\<close>

section \<open>UTF-8 validity\<close>

text \<open>\<open>utf8.Valid\<close>: no byte decodes to the error rune of width one.\<close>

definition validStart :: "string \<Rightarrow> bool" where
  "validStart s \<longleftrightarrow> (case decodeRune s of (r, n) \<Rightarrow> \<not> (r = 65533 \<and> n \<le> 1))"

fun validUtf8 :: "string \<Rightarrow> bool" where
  "validUtf8 [] \<longleftrightarrow> True"
| "validUtf8 (c # cs) \<longleftrightarrow> validStart (c # cs) \<and> validUtf8 (drop (snd (decodeRune (c # cs)) - 1) cs)"

section \<open>Tokens\<close>

definition skipSpace :: "string \<Rightarrow> string" where
  "skipSpace = dropWhile (\<lambda>c. c \<in> {CHR 0x20, CHR 0x09, CHR 0x0A, CHR 0x0D})"

lemma length_skipSpace [simp, termination_simp]: "length (skipSpace s) \<le> length s"
  by (simp add: skipSpace_def length_dropWhile_le)

definition hexValue :: "char \<Rightarrow> int option" where
  "hexValue c = (if is_digit c then Some (byte c - 48)
     else if between 97 102 c then Some (byte c - 87)
     else if between 65 70 c then Some (byte c - 55) else None)"

definition hex4 :: "char \<Rightarrow> char \<Rightarrow> char \<Rightarrow> char \<Rightarrow> int option" where
  "hex4 a b c d = (case (hexValue a, hexValue b, hexValue c, hexValue d) of
     (Some w, Some x, Some y, Some z) \<Rightarrow> Some (4096 * w + 256 * x + 16 * y + z) | _ \<Rightarrow> None)"

definition simpleEscape :: "char \<Rightarrow> char option" where
  "simpleEscape e = (if e = CHR 0x22 \<or> e = CHR 0x5C \<or> e = CHR ''/'' then Some e
     else if e = CHR ''b'' then Some (CHR 0x08) else if e = CHR ''f'' then Some (CHR 0x0C)
     else if e = CHR ''n'' then Some (CHR 0x0A) else if e = CHR ''r'' then Some (CHR 0x0D)
     else if e = CHR ''t'' then Some (CHR 0x09) else None)"

text \<open>
  The rune of an escape \<open>\u....\<close> and the text after it: a low surrogate needs a high one before it,
  a high one needs the escape of a low one behind it.
\<close>

definition unicodeEscape :: "string \<Rightarrow> (int \<times> string) option" where
  "unicodeEscape s = (case s of
     a # b # c # d # rest \<Rightarrow> (case hex4 a b c d of
       None \<Rightarrow> None
     | Some n \<Rightarrow>
         if 56320 \<le> n \<and> n \<le> 57343 then None
         else if 55296 \<le> n \<and> n \<le> 56319 then (case rest of
             p # u # w # x # y # z # rest' \<Rightarrow>
               (if p \<noteq> CHR 0x5C \<or> u \<noteq> CHR ''u'' then None
                else (case hex4 w x y z of
                  None \<Rightarrow> None
                | Some low \<Rightarrow>
                    if 56320 \<le> low \<and> low \<le> 57343 then Some (65536 + (n - 55296) * 1024 + (low - 56320), rest') else None))
           | _ \<Rightarrow> None)
         else Some (n, rest))
   | _ \<Rightarrow> None)"

lemma unicodeEscape_shorter [termination_simp]: "unicodeEscape s = Some (n, rest) \<Longrightarrow> length rest < length s"
  by (auto simp: unicodeEscape_def split: list.splits option.splits if_splits)

text \<open>The bytes of a string literal after its opening quote.\<close>

function jsonChars :: "string \<Rightarrow> (string \<times> string) option" where
  "jsonChars s = (case s of
     [] \<Rightarrow> None
   | c # cs \<Rightarrow>
       if c = CHR 0x22 then Some ([], cs)
       else if c = CHR 0x5C then (case cs of
           [] \<Rightarrow> None
         | e # es \<Rightarrow>
             if e = CHR ''u'' then (case unicodeEscape es of
                 None \<Rightarrow> None
               | Some (n, rest) \<Rightarrow> map_option (apfst (\<lambda>t. encodeRune n @ t)) (jsonChars rest))
             else (case simpleEscape e of
                 None \<Rightarrow> None
               | Some x \<Rightarrow> map_option (apfst (\<lambda>t. x # t)) (jsonChars es)))
       else if byte c < 32 then None
       else map_option (apfst (\<lambda>t. c # t)) (jsonChars cs))"
  by pat_completeness auto
termination by (relation "measure length") (auto dest: unicodeEscape_shorter)

declare jsonChars.simps [simp del]

text \<open>The token of a number: the longest run of each part, as the scanner takes it.\<close>

definition numberFraction :: "string \<Rightarrow> (string \<times> string) option" where
  "numberFraction s = (case s of
     c # cs \<Rightarrow> (if c \<noteq> CHR ''.'' then Some ([], s)
       else if takeWhile is_digit cs = [] then None else Some (c # takeWhile is_digit cs, dropWhile is_digit cs))
   | [] \<Rightarrow> Some ([], []))"

definition numberExponent :: "string \<Rightarrow> (string \<times> string) option" where
  "numberExponent s = (case s of
     c # cs \<Rightarrow> (if c \<noteq> CHR ''e'' \<and> c \<noteq> CHR ''E'' then Some ([], s)
       else let sign = takeWhile (\<lambda>x. x = CHR ''+'' \<or> x = CHR ''-'') (take 1 cs); ds = drop (length sign) cs in
         if takeWhile is_digit ds = [] then None else Some (c # sign @ takeWhile is_digit ds, dropWhile is_digit ds))
   | [] \<Rightarrow> Some ([], []))"

definition jsonNumber :: "string \<Rightarrow> (string \<times> string) option" where
  "jsonNumber s =
     (let minus = (case s of c # _ \<Rightarrow> if c = CHR ''-'' then [c] else [] | [] \<Rightarrow> []);
          s1 = drop (length minus) s; whole = takeWhile is_digit s1 in
      if whole = [] \<or> (hd whole = CHR ''0'' \<and> length whole \<noteq> 1) then None
      else (case numberFraction (dropWhile is_digit s1) of
        None \<Rightarrow> None
      | Some (frac, s2) \<Rightarrow> map_option (apfst (\<lambda>ex. minus @ whole @ frac @ ex)) (numberExponent s2)))"

definition jsonWord :: "string \<Rightarrow> json \<Rightarrow> string \<Rightarrow> (json \<times> string) option" where
  "jsonWord w v s = (if take (length w) s = w then Some (v, drop (length w) s) else None)"

section \<open>Values\<close>

text \<open>
  \<open>value(d, depth)\<close> of the package, run on the text itself. A value always takes at least one byte,
  so the length tests in \<open>jsonItems\<close> and \<open>jsonMembers\<close> never fail (\<open>strict_progress\<close>); they let the
  recursion be total by itself.
\<close>

function (sequential) jsonValue :: "nat \<Rightarrow> string \<Rightarrow> (json \<times> string) option"
and jsonItems :: "nat \<Rightarrow> string \<Rightarrow> (json list \<times> string) option"
and jsonMembers :: "nat \<Rightarrow> string list \<Rightarrow> string \<Rightarrow> ((string \<times> json) list \<times> string) option" where
  "jsonValue depth s = (if 32 < depth then None else case skipSpace s of
     [] \<Rightarrow> None
   | c # cs \<Rightarrow>
       if c = CHR ''{'' then (case skipSpace cs of
           [] \<Rightarrow> None
         | e # es \<Rightarrow> if e = CHR ''}'' then Some (JObj [], es)
             else map_option (apfst JObj) (jsonMembers (Suc depth) [] (e # es)))
       else if c = CHR ''['' then (case skipSpace cs of
           [] \<Rightarrow> None
         | e # es \<Rightarrow> if e = CHR '']'' then Some (JArr [], es)
             else map_option (apfst JArr) (jsonItems (Suc depth) (e # es)))
       else if c = CHR 0x22 then map_option (apfst JStr) (jsonChars cs)
       else if c = CHR ''n'' then jsonWord ''null'' JNull (c # cs)
       else if c = CHR ''t'' then jsonWord ''true'' (JBool True) (c # cs)
       else if c = CHR ''f'' then jsonWord ''false'' (JBool False) (c # cs)
       else map_option (apfst JNum) (jsonNumber (c # cs)))"
| "jsonItems depth s = (case jsonValue depth s of
     None \<Rightarrow> None
   | Some (v, rest) \<Rightarrow> (case skipSpace rest of
       [] \<Rightarrow> None
     | c # cs \<Rightarrow>
         if c = CHR '']'' then Some ([v], cs)
         else if c = CHR '','' \<and> length cs < length s then map_option (apfst (\<lambda>vs. v # vs)) (jsonItems depth cs)
         else None))"
| "jsonMembers depth seen s = (case skipSpace s of
     [] \<Rightarrow> None
   | q # qs \<Rightarrow> if q \<noteq> CHR 0x22 then None else (case jsonChars qs of
       None \<Rightarrow> None
     | Some (k, rest) \<Rightarrow> (case skipSpace rest of
         [] \<Rightarrow> None
       | e # es \<Rightarrow> if e \<noteq> CHR '':'' \<or> List.member seen k \<or> \<not> length es < length s then None else (case jsonValue depth es of
           None \<Rightarrow> None
         | Some (v, rest2) \<Rightarrow> (case skipSpace rest2 of
             [] \<Rightarrow> None
           | c # cs \<Rightarrow>
               if c = CHR ''}'' then Some ([(k, v)], cs)
               else if c = CHR '','' \<and> length cs < length s
                 then map_option (apfst (\<lambda>kvs. (k, v) # kvs)) (jsonMembers depth (k # seen) cs)
               else None)))))"
  by pat_completeness auto
termination
proof (relation "measure (\<lambda>x. case x of Inl (_, s) \<Rightarrow> 2 * length s | Inr (Inl (_, s)) \<Rightarrow> 2 * length s + 1 |
    Inr (Inr (_, _, s)) \<Rightarrow> 2 * length s + 1)")
  have sk: "length es < length s" if "skipSpace s = c # cs" and "skipSpace cs = e # es" for s :: string and c cs e es
    using that length_skipSpace [of s] length_skipSpace [of cs] by simp
  show "(Inr (Inr (Suc depth, [], e # es)), Inl (depth, s)) \<in> measure (\<lambda>x. case x of Inl (_, s) \<Rightarrow> 2 * length s |
      Inr (Inl (_, s)) \<Rightarrow> 2 * length s + 1 | Inr (Inr (_, _, s)) \<Rightarrow> 2 * length s + 1)"
    if "skipSpace s = c # cs" and "skipSpace cs = e # es" for depth s c cs e es
    using that length_skipSpace [of s] length_skipSpace [of cs] by simp
  show "(Inr (Inl (Suc depth, e # es)), Inl (depth, s)) \<in> measure (\<lambda>x. case x of Inl (_, s) \<Rightarrow> 2 * length s |
      Inr (Inl (_, s)) \<Rightarrow> 2 * length s + 1 | Inr (Inr (_, _, s)) \<Rightarrow> 2 * length s + 1)"
    if "skipSpace s = c # cs" and "skipSpace cs = e # es" for depth s c cs e es
    using that length_skipSpace [of s] length_skipSpace [of cs] by simp
qed auto

declare jsonValue.simps [simp del] jsonItems.simps [simp del] jsonMembers.simps [simp del]

definition strictParse :: "string \<Rightarrow> json option" where
  "strictParse data = (if \<not> validUtf8 data then None else case jsonValue 0 data of
     None \<Rightarrow> None
   | Some (v, rest) \<Rightarrow> if skipSpace rest = [] then Some v else None)"

definition strictValid :: "string \<Rightarrow> bool" where
  "strictValid data \<longleftrightarrow> strictParse data \<noteq> None"

section \<open>Progress\<close>

lemma jsonChars_shorter: "jsonChars s = Some (t, rest) \<Longrightarrow> length rest < length s"
proof (induction s arbitrary: t rest rule: measure_induct_rule [of length])
  case (less s)
  have ih: "length r' < length s" if "jsonChars s' = Some (x, r')" and "length s' < length s" for s' x r'
    using less.IH [OF that(2,1)] that(2) by simp
  show ?case
    using less.prems
    by (subst (asm) jsonChars.simps) (auto split: if_splits list.splits option.splits dest!: unicodeEscape_shorter dest: ih)
qed

lemma jsonNumber_shorter: "jsonNumber s = Some (t, rest) \<Longrightarrow> length rest < length s"
proof -
  have f: "numberFraction x = Some (y, z) \<Longrightarrow> length z \<le> length x" for x y z
    by (auto simp: numberFraction_def split: list.splits if_splits intro: le_SucI order_trans [OF length_dropWhile_le])
  have e: "numberExponent x = Some (y, z) \<Longrightarrow> length z \<le> length x" for x y z
  proof -
    have "length (dropWhile is_digit (drop n cs)) \<le> Suc (length cs)" for n cs
      using length_dropWhile_le [of is_digit "drop n cs"] by simp
    then show "numberExponent x = Some (y, z) \<Longrightarrow> length z \<le> length x"
      by (auto simp: numberExponent_def Let_def split: list.splits if_splits)
  qed
  have w: "length (dropWhile is_digit x) < length x" if "takeWhile is_digit x \<noteq> []" for x
    using that by (cases x) (auto simp: le_imp_less_Suc length_dropWhile_le split: if_splits)
  assume "jsonNumber s = Some (t, rest)"
  then obtain n frac s2 ex where n: "takeWhile is_digit (drop n s) \<noteq> []"
      and fr: "numberFraction (dropWhile is_digit (drop n s)) = Some (frac, s2)" and ex: "numberExponent s2 = Some (ex, rest)"
    by (auto simp: jsonNumber_def Let_def split: if_splits option.splits)
  from f [OF fr] e [OF ex] w [OF n] show ?thesis by simp
qed

text \<open>The length tests of the loops hold: every value and every list takes at least one byte.\<close>

lemma strict_progress:
  "(\<forall>depth v rest. jsonValue depth s = Some (v, rest) \<longrightarrow> length rest < length s) \<and>
   (\<forall>depth vs rest. jsonItems depth s = Some (vs, rest) \<longrightarrow> length rest < length s) \<and>
   (\<forall>depth seen kvs rest. jsonMembers depth seen s = Some (kvs, rest) \<longrightarrow> length rest < length s)"
proof (induction s rule: measure_induct_rule [of length])
  case (less s)
  have sk: "skipSpace x = c # cs \<Longrightarrow> length cs < length x" for x c cs using length_skipSpace [of x] by simp
  have items: "length rest < length x" if "jsonItems depth x = Some (vs, rest)" and "length x < length s" for depth x vs rest
    using less.IH [OF that(2)] that(1) by blast
  have members: "length rest < length x" if "jsonMembers depth seen x = Some (kvs, rest)" and "length x < length s" for depth seen x kvs rest
    using less.IH [OF that(2)] that(1) by blast
  have val: "length rest < length x" if "jsonValue depth x = Some (v, rest)" and "length x < length s" for depth x v rest
    using less.IH [OF that(2)] that(1) by blast
  have here: "length rest < length s" if v: "jsonValue depth s = Some (v, rest)" for depth v rest
  proof -
    obtain c cs where c: "skipSpace s = c # cs" using v by (subst (asm) jsonValue.simps) (auto split: if_splits list.splits)
    have lc: "length (c # cs) \<le> length s" using length_skipSpace [of s] c by simp
    have shorter: "length (e # es) < length s" if "skipSpace cs = e # es" for e es using that length_skipSpace [of cs] lc by simp
    have es: "length es < length s" if "skipSpace cs = e # es" for e es using shorter [OF that] by simp
    have mm: "length rest < length s" if "skipSpace cs = e # es" and "jsonMembers (Suc depth) [] (e # es) = Some (kvs, rest)" for e es kvs
      using members [OF that(2) shorter [OF that(1)]] shorter [OF that(1)] by simp
    have ii: "length rest < length s" if "skipSpace cs = e # es" and "jsonItems (Suc depth) (e # es) = Some (vs, rest)" for e es vs
      using items [OF that(2) shorter [OF that(1)]] shorter [OF that(1)] by simp
    have ch: "length rest < length s" if "jsonChars cs = Some (t, rest)" for t using jsonChars_shorter [OF that] lc by simp
    have nu: "length rest < length s" if "jsonNumber (c # cs) = Some (t, rest)" for t using jsonNumber_shorter [OF that] lc by simp
    have wo: "length rest < length s" if "jsonWord w x (c # cs) = Some (v, rest)" and "w \<noteq> []" for w x
      using that lc by (cases w) (auto simp: jsonWord_def split: if_splits)
    have "depth \<le> 32" using v by (subst (asm) jsonValue.simps) (simp split: if_splits)
    show ?thesis
      using v c \<open>depth \<le> 32\<close> es mm ii ch nu wo
      by (subst (asm) jsonValue.simps) (simp split: if_splits list.splits; elim exE conjE; simp)
  qed
  have "length rest < length s" if i: "jsonItems depth s = Some (vs, rest)" for depth vs rest
  proof -
    obtain v r c cs where v: "jsonValue depth s = Some (v, r)" "skipSpace r = c # cs"
      "rest = cs \<or> (\<exists>vs. length cs < length s \<and> jsonItems depth cs = Some (vs, rest))"
      using i by (subst (asm) jsonItems.simps) (auto split: if_splits list.splits option.splits)
    have "length cs < length s" using here [OF v(1)] sk [OF v(2)] by simp
    with v(3) items show ?thesis by fastforce
  qed
  moreover have "length rest < length s" if m: "jsonMembers depth seen s = Some (kvs, rest)" for depth seen kvs rest
  proof -
    obtain es v r c cs seen' where v: "length es < length s" "jsonValue depth es = Some (v, r)" "skipSpace r = c # cs"
      "rest = cs \<or> (\<exists>kvs. length cs < length s \<and> jsonMembers depth seen' cs = Some (kvs, rest))"
      using m by (subst (asm) jsonMembers.simps) (fastforce split: if_splits list.splits option.splits)
    have "length cs < length s" using val [OF v(2,1)] sk [OF v(3)] v(1) by simp
    with v(4) members show ?thesis by fastforce
  qed
  ultimately show ?case using here by blast
qed

end
