(* ===== verification/Json_Laws.thy ===== *)
theory Json_Laws
  imports Wire_Validate "HOL-Library.Multiset"
begin

text \<open>
  Laws of the JSON layer: decimal integers are read back as written, and the canonical form does
  not depend on the order in which an object lists its members.
\<close>

section \<open>Decimal integers\<close>

lemma byte_digit: "0 \<le> (k::int) \<Longrightarrow> k < 10 \<Longrightarrow> byte (char_of (48 + k)) = 48 + k"
  by (simp add: byte_def of_char_of)

lemma is_digit_char: "0 \<le> (k::int) \<Longrightarrow> k < 10 \<Longrightarrow> is_digit (char_of (48 + k))"
  by (simp add: is_digit_def between_def byte_digit)

lemma digits_value_decimal: "0 \<le> n \<Longrightarrow> digits_value (decimal n) = n"
proof (induction n rule: decimal.induct)
  case (1 n)
  then show ?case
    by (cases "n < 10") (simp_all add: decimal.simps [of n] digits_value_def byte_digit)
qed

lemma decimal_pattern: "0 < n \<Longrightarrow> list_all is_digit (decimal n) \<and> decimal n \<noteq> [] \<and> between 49 57 (hd (decimal n))"
proof (induction n rule: decimal.induct)
  case (1 n)
  show ?case
  proof (cases "n < 10")
    case True
    then show ?thesis using 1(2) by (simp add: decimal.simps [of n] is_digit_char between_def byte_digit)
  next
    case False
    then show ?thesis using 1 by (simp add: decimal.simps [of n] is_digit_char)
  qed
qed

lemma integerPattern_decimal: "0 \<le> n \<Longrightarrow> integerPattern (decimal n)"
proof (cases "n = 0")
  case True
  then show ?thesis by (simp add: decimal.simps [of 0] integerPattern_def) code_simp
next
  case False
  assume "0 \<le> n"
  then show ?thesis using decimal_pattern [of n] False by (cases "decimal n") (auto simp: integerPattern_def)
qed

lemma jsonInteger_JInt [simp]: "0 \<le> n \<Longrightarrow> n \<le> 9223372036854775807 \<Longrightarrow> jsonInteger (JInt n) = Some n"
  by (simp add: jsonInteger_def JInt_def integerPattern_decimal digits_value_decimal)

lemma decimal_digits: "0 \<le> n \<Longrightarrow> list_all is_digit (decimal n) \<and> decimal n \<noteq> []"
proof (cases "n = 0")
  case True
  then show ?thesis by (simp add: decimal.simps [of 0]) code_simp
next
  case False
  assume "0 \<le> n"
  with False show ?thesis using decimal_pattern [of n] by simp
qed

lemma is_digit_not_sign: "is_digit c \<Longrightarrow> c \<noteq> CHR ''-'' \<and> c \<noteq> CHR ''+''"
  by (auto simp: is_digit_def between_def byte_def)

lemma appendCanonical_JInt [simp]: "0 \<le> n \<Longrightarrow> n \<le> MaximumSafeInteger \<Longrightarrow> appendCanonical (JInt n) = Some (decimal n)"
  using decimal_digits [of n] digits_value_decimal [of n] is_digit_not_sign
  by (cases "decimal n") (auto simp: JInt_def canonicalNumber_def)

section \<open>Canonical form\<close>

text \<open>Two values that differ only in the order of the members of their objects, at any depth.\<close>

inductive same_json :: "json \<Rightarrow> json \<Rightarrow> bool" where
  same_self: "same_json v v"
| same_items: "list_all2 same_json xs ys \<Longrightarrow> same_json (JArr xs) (JArr ys)"
| same_members: "distinct (map fst kvs) \<Longrightarrow> list_all2 (rel_prod (=) same_json) kvs ms \<Longrightarrow> mset ms = mset kvs' \<Longrightarrow> same_json (JObj kvs) (JObj kvs')"
monos list_all2_mono prod.rel_mono

lemma canonicalItems_cong: "list_all2 (\<lambda>x y. appendCanonical x = appendCanonical y) xs ys \<Longrightarrow> canonicalItems xs = canonicalItems ys"
  by (induction rule: list_all2_induct) (auto split: option.splits)

lemma canonicalMembers_cong:
  "list_all2 (rel_prod (=) (\<lambda>x y. appendCanonical x = appendCanonical y)) kvs ms \<Longrightarrow> canonicalMembers kvs = canonicalMembers ms"
  by (induction rule: list_all2_induct) (auto split: option.splits)

lemma canonicalMembers_those:
  "canonicalMembers kvs = those (map (\<lambda>(k, v). map_option (Pair k) (appendCanonical v)) kvs)"
  by (induction kvs) (auto split: option.splits)

lemma those_perm:
  assumes "mset xs = mset ys"
  shows "those xs = None \<and> those ys = None \<or> (\<exists>us vs. those xs = Some us \<and> those ys = Some vs \<and> mset us = mset vs)"
proof -
  have those_iff: "those zs = (if None \<in> set zs then None else Some (map the zs))" for zs :: "'a option list"
    by (induction zs) (auto split: option.splits)
  have "set xs = set ys" using assms by (metis set_mset_mset)
  then show ?thesis using assms by (simp add: those_iff)
qed

lemma canonicalMembers_keys: "canonicalMembers kvs = Some ms \<Longrightarrow> map fst ms = map fst kvs"
  by (induction kvs arbitrary: ms) (auto split: option.splits)

lemma canonicalMembers_perm:
  assumes "mset kvs = mset kvs'" and "distinct (map fst kvs)"
  shows "appendCanonical (JObj kvs) = appendCanonical (JObj kvs')"
proof -
  have m: "mset (map f kvs) = mset (map f kvs')" for f :: "string \<times> json \<Rightarrow> (string \<times> string) option" using assms(1) by simp
  from those_perm [OF m [of "\<lambda>(k, v). map_option (Pair k) (appendCanonical v)"], folded canonicalMembers_those]
  show ?thesis
  proof (elim disjE exE conjE)
    fix us vs
    assume u: "canonicalMembers kvs = Some us" "canonicalMembers kvs' = Some vs" "mset us = mset vs"
    have d: "distinct (map fst us)" using assms(2) canonicalMembers_keys [OF u(1)] by simp
    then have "sort_key fst us = sort_key fst vs"
      using u(3) by (intro sort_key_inj_key_eq) (simp_all add: distinct_map)
    then show ?thesis using u by simp
  qed simp
qed

lemma same_json_canonical: "same_json v w \<Longrightarrow> appendCanonical v = appendCanonical w"
proof (induction rule: same_json.induct)
  case (same_items xs ys)
  then have "canonicalItems xs = canonicalItems ys" by (intro canonicalItems_cong) (auto elim: list_all2_mono)
  then show ?case by simp
next
  case (same_members kvs ms kvs')
  have "list_all2 (rel_prod (=) (\<lambda>x y. appendCanonical x = appendCanonical y)) kvs ms"
    using same_members(3) by (rule list_all2_mono) (auto simp: rel_prod_sel)
  then have eq: "canonicalMembers kvs = canonicalMembers ms" by (rule canonicalMembers_cong)
  have "list_all2 (\<lambda>a b. fst a = fst b) kvs ms" using same_members(3) by (rule list_all2_mono) (auto simp: rel_prod_sel)
  then have "map fst kvs = map fst ms" by (induction rule: list_all2_induct) auto
  with same_members(1) eq canonicalMembers_perm [OF same_members(2)] show ?case by simp
qed simp

lemma same_json_perm: "distinct (map fst kvs) \<Longrightarrow> mset kvs = mset kvs' \<Longrightarrow> same_json (JObj kvs) (JObj kvs')"
  by (rule same_members [where ms = kvs]) (simp_all add: list_all2_same rel_prod_sel same_self)

end
