(* ===== verification/Strict_Json_Laws.thy ===== *)
theory Strict_Json_Laws
  imports Strict_Json Json_Laws
begin

text \<open>
  Writing and reading back: a rune is encoded as it was decoded, \<open>jsonChars\<close> undoes the escapes of
  \<open>json.Marshal\<close>, and \<open>strictParse\<close> gives back every value whose strings are valid UTF-8, whose numbers
  are decimal integers, whose objects name their members once and whose nesting is at most 32.
\<close>

section \<open>Runes\<close>

lemma byte_range: "0 \<le> byte c" "byte c \<le> 255"
proof -
  have "byte c = int (of_char c)" by (simp add: byte_def of_nat_of_char)
  moreover have "(of_char c :: nat) < 256" by simp
  ultimately show "0 \<le> byte c" "byte c \<le> 255" by linarith+
qed

lemma char_of_byte [simp]: "char_of (byte c) = c"
  by (simp add: byte_def)

lemma byte_char_of: "0 \<le> n \<Longrightarrow> n \<le> 255 \<Longrightarrow> byte (char_of n) = n"
  by (simp add: byte_def of_char_of)

lemma div_digits: "0 \<le> (b::int) \<Longrightarrow> b < m \<Longrightarrow> (a * m + b) div m = a" "0 \<le> (b::int) \<Longrightarrow> b < m \<Longrightarrow> (a * m + b) mod m = b"
  by (simp_all add: div_pos_pos_trivial)

text \<open>The four shapes of a valid sequence.\<close>

lemma validStart_cases:
  assumes "validStart s"
  obtains (one) c cs where "s = c # cs" "byte c < 128" "decodeRune s = (byte c, 1)"
  | (two) a b cs where "s = a # b # cs" "194 \<le> byte a" "byte a \<le> 223" "cont b" "decodeRune s = ((byte a - 192) * 64 + (byte b - 128), 2)"
  | (three) a b c cs where "s = a # b # c # cs" "224 \<le> byte a" "byte a \<le> 239" "cont b" "cont c" "byte a = 224 \<longrightarrow> 160 \<le> byte b"
      "byte a = 237 \<longrightarrow> byte b \<le> 159" "decodeRune s = ((byte a - 224) * 4096 + (byte b - 128) * 64 + (byte c - 128), 3)"
  | (four) a b c d cs where "s = a # b # c # d # cs" "240 \<le> byte a" "byte a \<le> 244" "cont b" "cont c" "cont d"
      "byte a = 240 \<longrightarrow> 144 \<le> byte b" "byte a = 244 \<longrightarrow> byte b \<le> 143"
      "decodeRune s = ((byte a - 240) * 262144 + (byte b - 128) * 4096 + (byte c - 128) * 64 + (byte d - 128), 4)"
proof (cases s)
  case Nil
  with assms show ?thesis by (simp add: validStart_def decodeRune_def)
next
  case (Cons a s1)
  show ?thesis
  proof (cases "byte a < 128")
    case True
    then show ?thesis using Cons one by (simp add: decodeRune_def)
  next
    case a: False
    then obtain b s2 where s1: "s1 = b # s2" using assms Cons by (cases s1) (auto simp: validStart_def decodeRune_def)
    show ?thesis
    proof (cases "194 \<le> byte a \<and> byte a \<le> 223")
      case True
      then show ?thesis using assms Cons s1 a two by (auto simp: validStart_def decodeRune_def Let_def split: if_splits)
    next
      case b: False
      then obtain c s3 where s2: "s2 = c # s3" using assms Cons s1 a by (cases s2) (auto simp: validStart_def decodeRune_def Let_def split: if_splits)
      show ?thesis
      proof (cases "224 \<le> byte a \<and> byte a \<le> 239")
        case True
        then have "cont b \<and> cont c \<and> (byte a = 224 \<longrightarrow> 160 \<le> byte b) \<and> (byte a = 237 \<longrightarrow> byte b \<le> 159)"
          using assms Cons s1 s2 a b by (auto simp: validStart_def decodeRune_def Let_def split: if_splits)
        with True show ?thesis using Cons s1 s2 a b by (intro three) (auto simp: decodeRune_def Let_def)
      next
        case c: False
        then obtain d s4 where s3: "s3 = d # s4" using assms Cons s1 s2 a b by (cases s3) (auto simp: validStart_def decodeRune_def Let_def split: if_splits)
        have "240 \<le> byte a \<and> byte a \<le> 244 \<and> cont b \<and> cont c \<and> cont d \<and> (byte a = 240 \<longrightarrow> 144 \<le> byte b) \<and> (byte a = 244 \<longrightarrow> byte b \<le> 143)"
          using assms Cons s1 s2 s3 a b c by (auto simp: validStart_def decodeRune_def Let_def split: if_splits)
        then show ?thesis using Cons s1 s2 s3 a b c by (intro four) (auto simp: decodeRune_def Let_def)
      qed
    qed
  qed
qed

lemma cont_range: "cont c \<longleftrightarrow> 128 \<le> byte c \<and> byte c \<le> 191"
  by (simp add: cont_def between_def)

text \<open>A valid sequence is what \<open>utf8.AppendRune\<close> writes for its rune, and decodes alike before any text.\<close>

lemma encode_decoded:
  assumes "validStart s" and "decodeRune s = (r, n)"
  shows "encodeRune r = take n s \<and> 1 \<le> n \<and> n \<le> length s \<and> 0 \<le> r \<and> (r < 128 \<longrightarrow> n = 1) \<and>
    (128 \<le> r \<longrightarrow> list_all (\<lambda>c. 128 \<le> byte c) (take n s))"
  using assms(1)
proof (cases rule: validStart_cases)
  case (one c cs)
  then show ?thesis using assms(2) byte_range [of c] by (auto simp: encodeRune_def)
next
  case (two a b cs)
  let ?y = "byte b - 128"
  have y: "0 \<le> ?y" "?y < 64" using two(4) by (auto simp: cont_range)
  have r: "r = (byte a - 192) * 64 + ?y" "n = 2" using two assms(2) by auto
  have "r div 64 = byte a - 192" "r mod 64 = ?y" unfolding r by (rule div_digits [OF y])+
  moreover have "128 \<le> r" "r < 2048" using two(2,3) y r by auto
  ultimately show ?thesis using two(1,2,4) r(2) by (simp add: encodeRune_def cont_range)
next
  case (three a b c cs)
  let ?x = "byte a - 224" and ?y = "byte b - 128" and ?z = "byte c - 128"
  have y: "0 \<le> ?y" "?y < 64" and z: "0 \<le> ?z" "?z < 64" using three(4,5) by (auto simp: cont_range)
  have r: "r = (?x * 64 + ?y) * 64 + ?z" "n = 3" using three assms(2) by auto
  have d: "r div 64 = ?x * 64 + ?y" "r mod 64 = ?z" unfolding r by (rule div_digits [OF z])+
  have "r div 4096 = r div 64 div 64" by (simp add: zdiv_zmult2_eq [symmetric])
  then have d2: "r div 4096 = ?x" "r div 64 mod 64 = ?y" unfolding d by (simp_all only: div_digits [OF y])
  have "2048 \<le> r" "r < 65536" using three(2,3,6) y z r by auto
  moreover have "\<not> (55296 \<le> r \<and> r \<le> 57343)"
  proof (cases "byte a \<le> 236")
    case True
    then show ?thesis using y z r by auto
  next
    case False
    then show ?thesis using three(3,7) y z r by (cases "byte a = 237") auto
  qed
  ultimately show ?thesis using three(1,2,4,5) r(2) d d2 by (auto simp: encodeRune_def cont_range)
next
  case (four a b c d cs)
  let ?w = "byte a - 240" and ?x = "byte b - 128" and ?y = "byte c - 128" and ?z = "byte d - 128"
  have x: "0 \<le> ?x" "?x < 64" and y: "0 \<le> ?y" "?y < 64" and z: "0 \<le> ?z" "?z < 64" using four(4-6) by (auto simp: cont_range)
  have r: "r = ((?w * 64 + ?x) * 64 + ?y) * 64 + ?z" "n = 4" using four assms(2) by auto
  have d: "r div 64 = (?w * 64 + ?x) * 64 + ?y" "r mod 64 = ?z" unfolding r by (rule div_digits [OF z])+
  have "r div 4096 = r div 64 div 64" by (simp add: zdiv_zmult2_eq [symmetric])
  then have d2: "r div 4096 = ?w * 64 + ?x" "r div 64 mod 64 = ?y" unfolding d by (simp_all only: div_digits [OF y])
  have "r div 262144 = r div 4096 div 64" by (simp add: zdiv_zmult2_eq [symmetric])
  then have d3: "r div 262144 = ?w" "r div 4096 mod 64 = ?x" unfolding d2 by (simp_all only: div_digits [OF x])
  have "65536 \<le> r" using four(2,7) x y z r by (cases "byte a = 240") auto
  moreover have "r \<le> 1114111" using four(3,8) x y z r by (cases "byte a = 244") auto
  ultimately show ?thesis using four(1,2,4-6) r(2) d d2 d3 by (simp add: encodeRune_def cont_range)
qed

lemma decode_again:
  assumes "validStart s" and "decodeRune s = (r, n)"
  shows "decodeRune (take n s @ x) = (r, n)"
  using assms(1) by (cases rule: validStart_cases) (use assms(2) in \<open>auto simp: decodeRune_def cont_range\<close>)


section \<open>Strings\<close>

lemma validStart_take:
  assumes "validStart s" and "decodeRune s = (r, n)"
  shows "validUtf8 (take n s @ x) = validUtf8 x"
proof -
  obtain c cs where c: "take n s = c # cs" using encode_decoded [OF assms] by (cases s; cases n) auto
  have len: "length (take n s) = n" using encode_decoded [OF assms] by simp
  have dec: "decodeRune (c # cs @ x) = (r, n)" using decode_again [OF assms, of x] c by simp
  have "validStart (c # cs @ x)" using assms dec by (simp add: validStart_def)
  moreover have "drop (n - 1) (cs @ x) = x" using len c by simp
  ultimately show ?thesis by (simp add: c dec)
qed

lemma validUtf8_ascii: "byte c < 128 \<Longrightarrow> validUtf8 (c # x) = validUtf8 x"
  using validStart_take [of "[c]" "byte c" 1 x] byte_range [of c] by (simp add: validStart_def decodeRune_def)

lemma validUtf8_asciis: "list_all (\<lambda>c. byte c < 128) w \<Longrightarrow> validUtf8 (w @ x) = validUtf8 x"
  by (induction w) (simp_all add: validUtf8_ascii del: validUtf8.simps(2))

text \<open>Induction over the sequences of a valid text.\<close>

lemma validUtf8_induct [consumes 1, case_names Nil step]:
  assumes "validUtf8 s" and "P []"
    and "\<And>s r n. validStart s \<Longrightarrow> decodeRune s = (r, n) \<Longrightarrow> s \<noteq> [] \<Longrightarrow> 1 \<le> n \<Longrightarrow> n \<le> length s \<Longrightarrow> validUtf8 (drop n s) \<Longrightarrow> P (drop n s) \<Longrightarrow>
      runes s = r # runes (drop n s) \<Longrightarrow> P s"
  shows "P s"
  using assms(1)
proof (induction s rule: validUtf8.induct)
  case (2 c cs)
  obtain r n where d: "decodeRune (c # cs) = (r, n)" by (cases "decodeRune (c # cs)")
  have v: "validStart (c # cs)" using 2(2) by simp
  from encode_decoded [OF v d] obtain m where n: "n = Suc m" by (cases n) auto
  have "validUtf8 (drop m cs)" "P (drop m cs)" using 2 d n by auto
  then show ?case using assms(3) [OF v d] encode_decoded [OF v d] n d by simp
qed (rule assms(2))

lemma prepend_simps:
  "map_option (apfst ((@) a)) (map_option (apfst ((@) b)) r) = map_option (apfst ((@) (a @ b))) r"
  "map_option (apfst ((#) c)) (map_option (apfst ((@) b)) r) = map_option (apfst ((@) (c # b))) r"
  "map_option (apfst ((@) [])) r = r" "map_option (apfst (\<lambda>a. a)) r = r" "map_option (apfst ((@) [c])) r = map_option (apfst ((#) c)) r"
  by (cases r; auto)+

lemma jsonChars_plain: "32 \<le> byte c \<Longrightarrow> c \<noteq> CHR 0x22 \<Longrightarrow> c \<noteq> CHR 0x5C \<Longrightarrow> jsonChars (c # x) = map_option (apfst ((#) c)) (jsonChars x)"
  by (subst jsonChars.simps) simp

lemma jsonChars_high: "list_all (\<lambda>c. 128 \<le> byte c) w \<Longrightarrow> jsonChars (w @ x) = map_option (apfst ((@) w)) (jsonChars x)"
proof (induction w)
  case Nil
  then show ?case by (simp add: prepend_simps)
next
  case (Cons c w)
  have "c \<noteq> CHR 0x22" "c \<noteq> CHR 0x5C" using Cons(2) by (auto simp: byte_def)
  then show ?case using Cons by (cases "jsonChars x") (auto simp: jsonChars_plain apfst_def map_prod_def split: prod.split)
qed

lemma jsonChars_escape:
  "simpleEscape e = Some c \<Longrightarrow> e \<noteq> CHR ''u'' \<Longrightarrow> jsonChars (CHR 0x5C # e # x) = map_option (apfst ((#) c)) (jsonChars x)"
  by (subst jsonChars.simps) simp

lemma hexValue_digit: "0 \<le> k \<Longrightarrow> k < 16 \<Longrightarrow> hexValue (hex_digit k) = Some k"
  by (auto simp: hexValue_def hex_digit_def is_digit_def between_def byte_char_of)

lemma unicodeEscape_digits:
  assumes "0 \<le> a" "a < 16" "0 \<le> b" "b < 16" "0 \<le> c" "c < 16" "0 \<le> d" "d < 16"
    and "4096 * a + 256 * b + 16 * c + d = n" and "n < 55296"
  shows "unicodeEscape (hex_digit a # hex_digit b # hex_digit c # hex_digit d # x) = Some (n, x)"
  using assms by (simp add: unicodeEscape_def hex4_def hexValue_digit)

lemma jsonChars_hex:
  assumes "0 \<le> n" and "n < 55296"
  shows "jsonChars (CHR 0x5C # CHR ''u'' # hex_digit (n div 4096) # hex_digit (n div 256 mod 16) # hex_digit (n div 16 mod 16) #
    hex_digit (n mod 16) # x) = map_option (apfst ((@) (encodeRune n))) (jsonChars x)"
proof -
  have q: "n div 256 = n div 16 div 16" "n div 4096 = n div 16 div 16 div 16" by (simp_all add: zdiv_zmult2_eq [symmetric])
  have sum: "4096 * c + 256 * m2 + 16 * m1 + m0 = n"
    if "16 * a + m0 = n" and "16 * b + m1 = a" and "16 * c + m2 = b" for a b c m0 m1 m2 :: int
    using that by simp
  have whole: "4096 * (n div 4096) + 256 * (n div 256 mod 16) + 16 * (n div 16 mod 16) + n mod 16 = n"
    unfolding q by (rule sum) (rule mult_div_mod_eq)+
  have top: "0 \<le> n div 4096" "n div 4096 < 16" using assms by auto
  have "unicodeEscape (hex_digit (n div 4096) # hex_digit (n div 256 mod 16) # hex_digit (n div 16 mod 16) # hex_digit (n mod 16) # x) =
      Some (n, x)"
    by (rule unicodeEscape_digits [OF top _ _ _ _ _ _ whole assms(2)]) simp_all
  then show ?thesis by (subst jsonChars.simps) simp
qed

lemma jsonChars_hex_small:
  assumes "0 \<le> n" and "n < 128"
  shows "jsonChars (CHR 0x5C # ''u00'' @ [hex_digit (n div 16), hex_digit (n mod 16)] @ x) = map_option (apfst ((#) (char_of n))) (jsonChars x)"
proof -
  have "n div 4096 = 0" "n div 256 mod 16 = 0" "n div 16 mod 16 = n div 16" using assms by (simp_all add: div_pos_pos_trivial)
  moreover have "hex_digit 0 = CHR ''0''" by code_simp
  ultimately show ?thesis using jsonChars_hex [of n x] assms by (simp add: encodeRune_def prepend_simps)
qed

lemma escape_chars:
  "char_of (34::int) = CHR 0x22" "char_of (92::int) = CHR 0x5C" "char_of (8::int) = CHR 0x08" "char_of (12::int) = CHR 0x0C"
  "char_of (10::int) = CHR 0x0A" "char_of (13::int) = CHR 0x0D" "char_of (9::int) = CHR 0x09"
  by code_simp+

lemma jsonChars_escapes:
  "jsonChars (CHR 0x5C # CHR 0x22 # x) = map_option (apfst ((#) (CHR 0x22))) (jsonChars x)"
  "jsonChars (CHR 0x5C # CHR 0x5C # x) = map_option (apfst ((#) (CHR 0x5C))) (jsonChars x)"
  "jsonChars (CHR 0x5C # CHR ''b'' # x) = map_option (apfst ((#) (CHR 0x08))) (jsonChars x)"
  "jsonChars (CHR 0x5C # CHR ''f'' # x) = map_option (apfst ((#) (CHR 0x0C))) (jsonChars x)"
  "jsonChars (CHR 0x5C # CHR ''n'' # x) = map_option (apfst ((#) (CHR 0x0A))) (jsonChars x)"
  "jsonChars (CHR 0x5C # CHR ''r'' # x) = map_option (apfst ((#) (CHR 0x0D))) (jsonChars x)"
  "jsonChars (CHR 0x5C # CHR ''t'' # x) = map_option (apfst ((#) (CHR 0x09))) (jsonChars x)"
  by (rule jsonChars_escape; simp add: simpleEscape_def)+

lemma jsonChars_rune:
  assumes "validStart s" and "decodeRune s = (r, n)"
  shows "jsonChars (marshalRune r @ x) = map_option (apfst ((@) (take n s))) (jsonChars x)"
proof -
  note e = encode_decoded [OF assms]
  have one: "take n s = [char_of r]" if "r < 128" using e that by (simp add: encodeRune_def)
  have esc: "jsonChars (escapeRune r @ x) = map_option (apfst ((@) (take n s))) (jsonChars x)"
  proof (cases "r < 128")
    case False
    then show ?thesis using e jsonChars_high [of "take n s" x] by (simp add: escapeRune_def)
  next
    case True
    have c: "byte (char_of r) = r" using True e by (simp add: byte_char_of)
    consider "r = 34" | "r = 92" | "r = 8" | "r = 12" | "r = 10" | "r = 13" | "r = 9" | "r < 32" "r \<notin> {8, 12, 10, 13, 9}" | "32 \<le> r" "r \<noteq> 34" "r \<noteq> 92"
      by force
    then show ?thesis
    proof cases
      case 8
      then show ?thesis using e one jsonChars_hex_small [of r x] by (auto simp: escapeRune_def prepend_simps)
    next
      case 9
      have "byte (CHR 0x22) = 34" "byte (CHR 0x5C) = 92" by (simp_all add: byte_def)
      then have "char_of r \<noteq> CHR 0x22" "char_of r \<noteq> CHR 0x5C" using 9 c by metis+
      then show ?thesis using 9 True one c jsonChars_plain [of "char_of r" x] by (simp add: escapeRune_def encodeRune_def prepend_simps)
    qed (use one in \<open>simp_all add: escapeRune_def escape_chars jsonChars_escapes prepend_simps\<close>)
  qed
  consider "r = 60 \<or> r = 62 \<or> r = 38" | "r = 8232 \<or> r = 8233" | "marshalRune r = escapeRune r"
    unfolding marshalRune_def by (cases "r = 60 \<or> r = 62 \<or> r = 38"; cases "r = 8232 \<or> r = 8233") simp_all
  then show ?thesis
  proof cases
    case 1
    then have "r < 128" "0 \<le> r" by auto
    then show ?thesis using 1 one jsonChars_hex_small [of r x] by (auto simp: marshalRune_def prepend_simps)
  next
    case 2
    moreover have "hex_digit 2 = CHR ''2''" "hex_digit 0 = CHR ''0''" by code_simp+
    ultimately show ?thesis using e jsonChars_hex [of r x] by (auto simp: marshalRune_def)
  qed (simp add: esc)
qed

lemma jsonChars_marshal:
  assumes "validUtf8 s"
  shows "jsonChars (concat (map marshalRune (runes s)) @ CHR 0x22 # x) = Some (s, x)"
  using assms
proof (induction rule: validUtf8_induct)
  case Nil
  show ?case by (subst jsonChars.simps) simp
next
  case (step s r n)
  then show ?case using jsonChars_rune [OF step(1,2)] by simp
qed

lemma validUtf8_rune:
  assumes "validStart s" and "decodeRune s = (r, n)"
  shows "validUtf8 (marshalRune r @ x) = validUtf8 x"
proof -
  note e = encode_decoded [OF assms]
  have hex: "byte (hex_digit k) < 128" if "0 \<le> k" "k < 16" for k using that by (simp add: hex_digit_def byte_char_of)
  have low: "list_all (\<lambda>c. byte c < 128) [CHR 0x5C, CHR 0x22, CHR ''u'', CHR ''0'', CHR ''2'', CHR ''b'', CHR ''f'', CHR ''n'', CHR ''r'', CHR ''t'']"
    by (simp add: byte_def)
  have esc: "validUtf8 (escapeRune r @ x) = validUtf8 x"
  proof (cases "r < 128")
    case True
    have "0 \<le> r" using e by simp
    with True low have "list_all (\<lambda>c. byte c < 128) (escapeRune r)"
      by (auto simp: escapeRune_def encodeRune_def byte_char_of escape_chars intro!: hex)
    then show ?thesis by (rule validUtf8_asciis)
  next
    case False
    then show ?thesis using e validStart_take [OF assms, of x] by (simp add: escapeRune_def)
  qed
  consider "r = 60 \<or> r = 62 \<or> r = 38" | "r = 8232 \<or> r = 8233" | "marshalRune r = escapeRune r"
    unfolding marshalRune_def by (cases "r = 60 \<or> r = 62 \<or> r = 38"; cases "r = 8232 \<or> r = 8233") simp_all
  then show ?thesis
  proof cases
    case 1
    then have "list_all (\<lambda>c. byte c < 128) (marshalRune r)" using low by (auto simp: marshalRune_def intro!: hex)
    then show ?thesis by (rule validUtf8_asciis)
  next
    case 2
    then have "list_all (\<lambda>c. byte c < 128) (marshalRune r)" using low by (auto simp: marshalRune_def intro!: hex)
    then show ?thesis by (rule validUtf8_asciis)
  qed (simp add: esc)
qed

lemma validUtf8_marshalString: "validUtf8 s \<Longrightarrow> validUtf8 (marshalString s @ x) = validUtf8 x"
proof (induction rule: validUtf8_induct)
  case Nil
  have "byte (CHR 0x22) < 128" by (simp add: byte_def)
  then show ?case by (simp add: marshalString_def validUtf8_ascii del: validUtf8.simps(2))
next
  case (step s r n)
  have q: "byte (CHR 0x22) < 128" by (simp add: byte_def)
  then show ?case
    using step validUtf8_rune [OF step(1,2)] by (simp add: marshalString_def validUtf8_ascii del: validUtf8.simps(2))
qed

section \<open>Numbers\<close>

definition numberEnds :: "string \<Rightarrow> bool" where
  "numberEnds x \<longleftrightarrow> x = [] \<or> \<not> is_digit (hd x) \<and> hd x \<notin> {CHR ''.'', CHR ''e'', CHR ''E''}"

lemma digits_before:
  assumes "numberEnds x"
  shows "takeWhile is_digit (s @ x) = takeWhile is_digit s" and "dropWhile is_digit (s @ x) = dropWhile is_digit s @ x"
  using assms by (induction s) (auto simp: numberEnds_def dest: hd_in_set elim: list.set_cases intro: takeWhile_eq_Nil_iff [THEN iffD2] dropWhile_eq_self_iff [THEN iffD2])

lemma numberFraction_before: "numberFraction s = Some (f, r) \<Longrightarrow> numberEnds x \<Longrightarrow> numberFraction (s @ x) = Some (f, r @ x)"
  by (auto simp: numberFraction_def digits_before split: list.splits if_splits) (auto simp: numberEnds_def)

lemma numberExponent_before: "numberExponent s = Some (f, r) \<Longrightarrow> numberEnds x \<Longrightarrow> numberExponent (s @ x) = Some (f, r @ x)"
proof (cases s)
  case Nil
  then show "numberExponent s = Some (f, r) \<Longrightarrow> numberEnds x \<Longrightarrow> ?thesis"
    by (cases x) (auto simp: numberExponent_def numberEnds_def)
next
  case (Cons c cs)
  then show "numberExponent s = Some (f, r) \<Longrightarrow> numberEnds x \<Longrightarrow> ?thesis"
    by (cases cs) (auto simp: numberExponent_def Let_def digits_before split: if_splits)
qed

text \<open>The parts of a number token.\<close>

lemma jsonNumberI:
  assumes "m = [] \<and> hd s1 \<noteq> CHR ''-'' \<or> m = ''-''" and "takeWhile is_digit s1 \<noteq> []"
    and "\<not> (hd (takeWhile is_digit s1) = CHR ''0'' \<and> length (takeWhile is_digit s1) \<noteq> 1)"
    and "numberFraction (dropWhile is_digit s1) = Some (frac, s2)" and "numberExponent s2 = Some (ex, r)"
  shows "jsonNumber (m @ s1) = Some (m @ takeWhile is_digit s1 @ frac @ ex, r)"
  using assms by (cases s1) (auto simp: jsonNumber_def Let_def)

lemma jsonNumberE:
  assumes "jsonNumber s = Some (t, r)"
  obtains m s1 frac s2 ex where "s = m @ s1" "m = [] \<and> hd s1 \<noteq> CHR ''-'' \<or> m = ''-''" "takeWhile is_digit s1 \<noteq> []"
    "\<not> (hd (takeWhile is_digit s1) = CHR ''0'' \<and> length (takeWhile is_digit s1) \<noteq> 1)"
    "numberFraction (dropWhile is_digit s1) = Some (frac, s2)" "numberExponent s2 = Some (ex, r)"
    "t = m @ takeWhile is_digit s1 @ frac @ ex"
proof (cases s)
  case Nil
  with assms show ?thesis by (simp add: jsonNumber_def)
next
  case (Cons c cs)
  define m where "m = (if c = CHR ''-'' then [c] else [])"
  define s1 where "s1 = drop (length m) s"
  have "jsonNumber s = (if takeWhile is_digit s1 = [] \<or> (hd (takeWhile is_digit s1) = CHR ''0'' \<and> length (takeWhile is_digit s1) \<noteq> 1) then None
      else (case numberFraction (dropWhile is_digit s1) of None \<Rightarrow> None
      | Some (frac, s2) \<Rightarrow> map_option (apfst (\<lambda>ex. m @ takeWhile is_digit s1 @ frac @ ex)) (numberExponent s2)))"
    by (simp only: jsonNumber_def Let_def Cons list.case m_def s1_def)
  with assms obtain frac s2 ex where "takeWhile is_digit s1 \<noteq> []"
    "\<not> (hd (takeWhile is_digit s1) = CHR ''0'' \<and> length (takeWhile is_digit s1) \<noteq> 1)"
    "numberFraction (dropWhile is_digit s1) = Some (frac, s2)" "numberExponent s2 = Some (ex, r)"
    "t = m @ takeWhile is_digit s1 @ frac @ ex"
    by (auto split: if_splits option.splits)
  moreover have "s = m @ s1" "m = [] \<and> hd s1 \<noteq> CHR ''-'' \<or> m = ''-''" by (auto simp: m_def s1_def Cons)
  ultimately show ?thesis using that by blast
qed

lemma jsonNumber_before:
  assumes "jsonNumber s = Some (t, r)" and "numberEnds x"
  shows "jsonNumber (s @ x) = Some (t, r @ x)"
  using assms(1)
proof (rule jsonNumberE)
  fix m s1 frac s2 ex
  assume n: "s = m @ s1" "m = [] \<and> hd s1 \<noteq> CHR ''-'' \<or> m = ''-''" "takeWhile is_digit s1 \<noteq> []"
    "\<not> (hd (takeWhile is_digit s1) = CHR ''0'' \<and> length (takeWhile is_digit s1) \<noteq> 1)"
    "numberFraction (dropWhile is_digit s1) = Some (frac, s2)" "numberExponent s2 = Some (ex, r)"
    "t = m @ takeWhile is_digit s1 @ frac @ ex"
  have "s1 \<noteq> []" using n(3) by auto
  then have "m = [] \<and> hd (s1 @ x) \<noteq> CHR ''-'' \<or> m = ''-''" using n(2) by simp
  then show ?thesis
    using jsonNumberI [of m "s1 @ x" frac "s2 @ x" ex "r @ x"] n(3-6) numberFraction_before [OF n(5) assms(2)] numberExponent_before [OF n(6) assms(2)]
    by (simp add: n(1,7) digits_before [OF assms(2)])
qed

lemma ascii_digits: "list_all (\<lambda>c. byte c < 128) (takeWhile is_digit y)"
  by (induction y) (auto simp: is_digit_def between_def)

lemma numberFraction_text: "numberFraction y = Some (a, b) \<Longrightarrow> y = a @ b \<and> list_all (\<lambda>c. byte c < 128) a"
proof -
  have "byte (CHR ''.'') < 128" by (simp add: byte_def)
  then show "numberFraction y = Some (a, b) \<Longrightarrow> ?thesis"
    by (auto simp: numberFraction_def ascii_digits split: list.splits if_splits)
qed

lemma numberExponent_text: "numberExponent y = Some (a, b) \<Longrightarrow> y = a @ b \<and> list_all (\<lambda>c. byte c < 128) a"
proof -
  have low: "byte (CHR ''e'') < 128" "byte (CHR ''E'') < 128" "byte (CHR ''+'') < 128" "byte (CHR ''-'') < 128" by (simp_all add: byte_def)
  assume s: "numberExponent y = Some (a, b)"
  show ?thesis
  proof (cases y)
    case Nil
    then show ?thesis using s by (simp add: numberExponent_def)
  next
    case (Cons c cs)
    define sign where "sign = takeWhile (\<lambda>x. x = CHR ''+'' \<or> x = CHR ''-'') (take 1 cs)"
    have sign: "list_all (\<lambda>c. byte c < 128) sign" "cs = sign @ drop (length sign) cs"
      using low by (cases cs; auto simp: sign_def)+
    have "numberExponent y = (if c \<noteq> CHR ''e'' \<and> c \<noteq> CHR ''E'' then Some ([], y)
        else if takeWhile is_digit (drop (length sign) cs) = [] then None
        else Some (c # sign @ takeWhile is_digit (drop (length sign) cs), dropWhile is_digit (drop (length sign) cs)))"
      by (simp only: Cons numberExponent_def Let_def list.case sign_def)
    then show ?thesis using s sign low ascii_digits [of "drop (length sign) cs"] Cons by (auto split: if_splits)
  qed
qed

lemma jsonNumber_text:
  assumes "jsonNumber s = Some (t, r)"
  shows "s = t @ r" and "t \<noteq> [] \<and> (hd t = CHR ''-'' \<or> is_digit (hd t))" and "list_all (\<lambda>c. byte c < 128) t"
proof -
  obtain m s1 frac s2 ex where n: "s = m @ s1" "m = [] \<and> hd s1 \<noteq> CHR ''-'' \<or> m = ''-''" "takeWhile is_digit s1 \<noteq> []"
    "numberFraction (dropWhile is_digit s1) = Some (frac, s2)" "numberExponent s2 = Some (ex, r)"
    "t = m @ takeWhile is_digit s1 @ frac @ ex"
    by (rule jsonNumberE [OF assms]) (rule that)
  have "byte (CHR ''-'') < 128" by (simp add: byte_def)
  moreover have "is_digit (hd (takeWhile is_digit s1))" using n(3) by (meson hd_in_set set_takeWhileD)
  ultimately show "s = t @ r" "t \<noteq> [] \<and> (hd t = CHR ''-'' \<or> is_digit (hd t))" "list_all (\<lambda>c. byte c < 128) t"
    using n numberFraction_text [OF n(4)] numberExponent_text [OF n(5)] ascii_digits [of s1]
      takeWhile_dropWhile_id [of is_digit s1] by auto
qed

section \<open>Values\<close>

text \<open>The values whose text the package accepts, at a nesting depth.\<close>

fun strictValue :: "nat \<Rightarrow> json \<Rightarrow> bool" where
  "strictValue depth JNull \<longleftrightarrow> depth \<le> 32"
| "strictValue depth (JBool b) \<longleftrightarrow> depth \<le> 32"
| "strictValue depth (JNum t) \<longleftrightarrow> depth \<le> 32 \<and> jsonNumber t = Some (t, [])"
| "strictValue depth (JStr s) \<longleftrightarrow> depth \<le> 32 \<and> validUtf8 s"
| "strictValue depth (JArr items) \<longleftrightarrow> depth \<le> 32 \<and> list_all (strictValue (Suc depth)) items"
| "strictValue depth (JObj kvs) \<longleftrightarrow> depth \<le> 32 \<and> distinct (map fst kvs) \<and>
     list_all (\<lambda>(k, v). validUtf8 k \<and> strictValue (Suc depth) v) kvs"

lemma skipSpace_token [simp]: "c \<notin> {CHR 0x20, CHR 0x09, CHR 0x0A, CHR 0x0D} \<Longrightarrow> skipSpace (c # cs) = c # cs"
  by (simp add: skipSpace_def)

lemma number_head:
  assumes "jsonNumber t = Some (t, [])"
  obtains c cs where "t = c # cs" "c = CHR ''-'' \<or> is_digit c"
  using jsonNumber_text(2) [OF assms] by (cases t) auto

lemma digit_token: "is_digit c \<Longrightarrow> c \<notin> {CHR 0x20, CHR 0x09, CHR 0x0A, CHR 0x0D, CHR ''{'', CHR ''['', CHR 0x22, CHR ''n'', CHR ''t'', CHR ''f'', CHR '']'', CHR ''}''}"
  by (auto simp: is_digit_def between_def byte_def)

text \<open>A value starts with a token that is neither space nor the end of a list.\<close>

lemma marshal_head:
  assumes "strictValue depth v"
  obtains c cs where "marshal v = c # cs" "c \<notin> {CHR 0x20, CHR 0x09, CHR 0x0A, CHR 0x0D, CHR '']'', CHR ''}''}"
proof (cases v)
  case (JNum t)
  then have "jsonNumber t = Some (t, [])" using assms by simp
  then obtain c cs where t: "t = c # cs" "c = CHR ''-'' \<or> is_digit c" by (rule number_head)
  have "c \<notin> {CHR 0x20, CHR 0x09, CHR 0x0A, CHR 0x0D, CHR '']'', CHR ''}''}"
    using t(2) digit_token [of c] by (elim disjE) simp_all
  then show ?thesis by (rule that [rotated]) (simp add: JNum t(1))
next
  case (JBool b)
  then show ?thesis by (intro that [of "if b then CHR ''t'' else CHR ''f''" "if b then ''rue'' else ''alse''"]) simp_all
next
  case JNull
  then show ?thesis by (intro that [of "CHR ''n''" "''ull''"]) simp_all
next
  case (JStr s)
  then show ?thesis by (intro that [of "CHR 0x22" "concat (map marshalRune (runes s)) @ [CHR 0x22]"]) (simp_all add: marshalString_def)
next
  case (JArr items)
  then show ?thesis by (intro that [of "CHR ''[''" "joinWith '','' (marshalItems items) @ '']''"]) simp_all
next
  case (JObj kvs)
  then show ?thesis by (intro that [of "CHR ''{''" "joinWith '','' (marshalMembers kvs) @ ''}''"]) simp_all
qed

lemma jsonChars_string: "validUtf8 s \<Longrightarrow> marshalString s @ x = CHR 0x22 # y \<Longrightarrow> jsonChars y = Some (s, x)"
  using jsonChars_marshal [of s x] by (simp add: marshalString_def)

lemma numberEnds_tokens [simp]: "numberEnds []" "numberEnds (CHR '','' # x)" "numberEnds (CHR '']'' # x)" "numberEnds (CHR ''}'' # x)"
  by (simp_all add: numberEnds_def is_digit_def between_def byte_def)

lemma jsonValue_marshal:
  "strictValue depth v \<Longrightarrow> numberEnds x \<Longrightarrow> jsonValue depth (marshal v @ x) = Some (v, x)"
  and jsonItems_marshal: "list_all (strictValue depth) vs \<Longrightarrow> vs \<noteq> [] \<Longrightarrow>
    jsonItems depth (joinWith '','' (marshalItems vs) @ CHR '']'' # x) = Some (vs, x)"
  and jsonMembers_marshal: "list_all (\<lambda>(k, v). validUtf8 k \<and> strictValue depth v) kvs \<Longrightarrow> kvs \<noteq> [] \<Longrightarrow> distinct (map fst kvs) \<Longrightarrow>
    set (map fst kvs) \<inter> set seen = {} \<Longrightarrow>
    jsonMembers depth seen (joinWith '','' (marshalMembers kvs) @ CHR ''}'' # x) = Some (kvs, x)"
proof (induction v and vs and kvs arbitrary: depth x and depth x and depth seen x rule: marshal_marshalItems_marshalMembers.induct)
  case 1
  then show ?case by (subst jsonValue.simps) (simp add: jsonWord_def)
next
  case (2 b)
  then show ?case by (subst jsonValue.simps) (simp add: jsonWord_def)
next
  case (3 t)
  then obtain c cs where t: "t = c # cs" "c = CHR ''-'' \<or> is_digit c" using number_head by auto
  have "jsonNumber (t @ x) = Some (t, x)" using 3 jsonNumber_before [of t t "[]" x] by simp
  then show ?case using 3 t digit_token [of c] by (subst jsonValue.simps) auto
next
  case (4 s)
  have "marshalString s @ x = CHR 0x22 # concat (map marshalRune (runes s)) @ CHR 0x22 # x" by (simp add: marshalString_def)
  then show ?case using 4 jsonChars_marshal [of s x] by (subst jsonValue.simps) simp
next
  case (5 items)
  show ?case
  proof (cases items)
    case Nil
    then show ?thesis using 5 by (subst jsonValue.simps) simp
  next
    case (Cons v vs)
    then have "strictValue (Suc depth) v" using 5(2) by simp
    then obtain c cs where c: "marshal v = c # cs" "c \<notin> {CHR 0x20, CHR 0x09, CHR 0x0A, CHR 0x0D, CHR '']'', CHR ''}''}"
      by (rule marshal_head)
    obtain cs' where j: "joinWith '','' (marshalItems items) = c # cs'" using c Cons by (cases vs) auto
    have "jsonItems (Suc depth) (c # cs' @ CHR '']'' # x) = Some (items, x)" using 5(1) [of "Suc depth" x] 5(2) Cons j by simp
    then show ?thesis using 5(2) c(2) j by (subst jsonValue.simps) simp
  qed
next
  case (6 kvs)
  show ?case
  proof (cases kvs)
    case Nil
    then show ?thesis using 6 by (subst jsonValue.simps) simp
  next
    case (Cons kv rest)
    then obtain cs' where j: "joinWith '','' (marshalMembers kvs) = CHR 0x22 # cs'"
      by (cases kv; cases rest) (auto simp: marshalString_def)
    have "jsonMembers (Suc depth) [] (CHR 0x22 # cs' @ CHR ''}'' # x) = Some (kvs, x)" using 6(1) [of "Suc depth" "[]" x] 6(2) Cons j by simp
    then show ?thesis using 6(2) j by (subst jsonValue.simps) simp
  qed
next
  case 7
  then show ?case by simp
next
  case (8 v vs)
  show ?case
  proof (cases vs)
    case Nil
    have "jsonValue depth (marshal v @ CHR '']'' # x) = Some (v, CHR '']'' # x)" using 8 by simp
    then show ?thesis using Nil by (subst jsonItems.simps) simp
  next
    case (Cons w ws)
    let ?rest = "joinWith '','' (marshalItems vs) @ CHR '']'' # x"
    have j: "joinWith '','' (marshalItems (v # vs)) @ CHR '']'' # x = marshal v @ CHR '','' # ?rest" using Cons by simp
    have "jsonValue depth (marshal v @ CHR '','' # ?rest) = Some (v, CHR '','' # ?rest)" using 8(1) [of depth "CHR '','' # ?rest"] 8(3) by simp
    moreover have "jsonItems depth ?rest = Some (vs, x)" using 8(2) [of depth x] 8(3) Cons by simp
    ultimately show ?thesis unfolding j by (subst jsonItems.simps) simp
  qed
next
  case 9
  then show ?case by simp
next
  case (10 k v kvs)
  define cs where "cs = concat (map marshalRune (runes k))"
  have k: "marshalString k = CHR 0x22 # cs @ [CHR 0x22]" by (simp add: cs_def marshalString_def)
  have chars: "jsonChars (cs @ CHR 0x22 # y) = Some (k, y)" for y using 10(3) jsonChars_marshal [of k y] by (simp add: cs_def)
  have new: "\<not> List.member seen k" using 10(6) by (auto simp: List.member_iff)
  show ?case
  proof (cases kvs)
    case Nil
    have "jsonValue depth (marshal v @ CHR ''}'' # x) = Some (v, CHR ''}'' # x)" using 10 by simp
    then show ?thesis using Nil chars new by (subst jsonMembers.simps) (simp add: k)
  next
    case (Cons w ws)
    let ?rest = "joinWith '','' (marshalMembers kvs) @ CHR ''}'' # x"
    have j: "joinWith '','' (marshalMembers ((k, v) # kvs)) @ CHR ''}'' # x = marshalString k @ CHR '':'' # marshal v @ CHR '','' # ?rest"
      using Cons by (cases w) simp
    have "jsonValue depth (marshal v @ CHR '','' # ?rest) = Some (v, CHR '','' # ?rest)" using 10(1) [of depth "CHR '','' # ?rest"] 10(3) by simp
    moreover have "jsonMembers depth (k # seen) ?rest = Some (kvs, x)" using 10(2) [of depth "k # seen" x] 10(3,5,6) Cons by auto
    ultimately show ?thesis using chars new unfolding j by (subst jsonMembers.simps) (simp add: k)
  qed
qed

text \<open>Marshalled text is UTF-8.\<close>

lemma ascii_tokens:
  "byte (CHR '','') < 128" "byte (CHR '':'') < 128" "byte (CHR ''['') < 128" "byte (CHR '']'') < 128" "byte (CHR ''{'') < 128" "byte (CHR ''}'') < 128"
  by (simp_all add: byte_def)

lemma validUtf8_marshal:
  "strictValue depth v \<Longrightarrow> validUtf8 (marshal v @ x) = validUtf8 x"
  and validUtf8_items: "list_all (strictValue depth) vs \<Longrightarrow> validUtf8 (joinWith '','' (marshalItems vs) @ x) = validUtf8 x"
  and validUtf8_members: "list_all (\<lambda>(k, v). validUtf8 k \<and> strictValue depth v) kvs \<Longrightarrow>
    validUtf8 (joinWith '','' (marshalMembers kvs) @ x) = validUtf8 x"
proof (induction v and vs and kvs arbitrary: depth x and depth x and depth x rule: marshal_marshalItems_marshalMembers.induct)
  case 1
  show ?case by (rule validUtf8_asciis [of "marshal JNull"]) (simp add: byte_def)
next
  case (2 b)
  show ?case by (rule validUtf8_asciis) (simp add: byte_def)
next
  case (3 t)
  then show ?case using validUtf8_asciis [OF jsonNumber_text(3), of t t "[]" x] by simp
next
  case (4 s)
  then show ?case by (simp add: validUtf8_marshalString)
next
  case (5 items)
  then have "list_all (strictValue (Suc depth)) items" by simp
  then show ?case by (simp add: 5(1) [of "Suc depth"] validUtf8_ascii ascii_tokens del: validUtf8.simps(2))
next
  case (6 kvs)
  then have "list_all (\<lambda>(k, v). validUtf8 k \<and> strictValue (Suc depth) v) kvs" by simp
  then show ?case by (simp add: 6(1) [of "Suc depth"] validUtf8_ascii ascii_tokens del: validUtf8.simps(2))
next
  case (8 v vs)
  then have v: "strictValue depth v" "list_all (strictValue depth) vs" by simp_all
  show ?case using 8(1) [OF v(1)] 8(2) [OF v(2)]
    by (cases vs) (simp_all add: validUtf8_ascii ascii_tokens del: validUtf8.simps(2))
next
  case (10 k v kvs)
  then have v: "validUtf8 k" "strictValue depth v" "list_all (\<lambda>(k, v). validUtf8 k \<and> strictValue depth v) kvs" by simp_all
  note head = validUtf8_ascii validUtf8_marshalString [OF v(1)] 10(1) [OF v(2)] 10(2) [OF v(3)] ascii_tokens
  show ?case
  proof (cases kvs)
    case Nil
    then show ?thesis by (simp add: head del: validUtf8.simps(2))
  next
    case (Cons w ws)
    have "joinWith '','' (marshalMembers ((k, v) # kvs)) @ x =
        marshalString k @ CHR '':'' # marshal v @ CHR '','' # joinWith '','' (marshalMembers kvs) @ x"
      using Cons by (cases w) simp
    then show ?thesis by (simp only: head)
  qed
qed simp_all

lemma strictParse_marshal: "strictValue 0 v \<Longrightarrow> strictParse (marshal v) = Some v"
  using jsonValue_marshal [of 0 v "[]"] validUtf8_marshal [of 0 v "[]"] by (simp add: strictParse_def skipSpace_def)

text \<open>What a document holds: decimal integers and ASCII text.\<close>

lemma jsonNumber_decimal: "0 \<le> n \<Longrightarrow> jsonNumber (decimal n) = Some (decimal n, [])"
proof -
  assume n: "0 \<le> n"
  note d = decimal_digits [OF n]
  have tw: "takeWhile is_digit (decimal n) = decimal n" "dropWhile is_digit (decimal n) = []"
    using d by (simp_all add: list_all_iff takeWhile_eq_all_conv)
  have "hd (decimal n) \<noteq> CHR ''-''" using d is_digit_not_sign by (cases "decimal n") auto
  moreover have "\<not> (hd (decimal n) = CHR ''0'' \<and> length (decimal n) \<noteq> 1)"
  proof (cases "n = 0")
    case True
    then show ?thesis by (simp add: decimal.simps [of 0])
  next
    case False
    then have "between 49 57 (hd (decimal n))" using decimal_pattern [of n] n by simp
    then show ?thesis by (auto simp: between_def byte_def)
  qed
  ultimately show ?thesis
    using jsonNumberI [of "[]" "decimal n" "[]" "[]" "[]" "[]"] d by (simp add: tw numberFraction_def numberExponent_def)
qed

lemma strictValue_JInt [simp]: "0 \<le> n \<Longrightarrow> strictValue depth (JInt n) \<longleftrightarrow> depth \<le> 32"
  by (auto simp: JInt_def jsonNumber_decimal)

lemma validUtf8_plain: "list_all (\<lambda>c. byte c < 128) s \<Longrightarrow> validUtf8 s"
  using validUtf8_asciis [of s "[]"] by simp

end
