(* ===== verification/Transcript.thy ===== *)
theory Transcript
  imports Strict_Json_Laws
begin

text \<open>
  The transcript manifest, \<open>internal/transcriptview/types.go\<close>: the document that describes the
  full text behind one bounded preview, cut into chunks that are stored as files of their own.
\<close>

definition TranscriptSchemaID :: string where "TranscriptSchemaID = ''transcript-view-v1''"
definition MaximumPreview :: nat where "MaximumPreview = 65536"
definition MaximumChunkBytes :: nat where "MaximumChunkBytes = 16777216"
definition MaximumTextBytes :: int where "MaximumTextBytes = 536870912"
definition MaximumChunks :: nat where "MaximumChunks = 64"

record source =
  src_kind :: string
  src_id :: string
  src_index :: int
  src_stream :: string

record chunk =
  chk_index :: int
  chk_offset :: int
  chk_artifact :: string
  chk_size :: int
  chk_sha256 :: string

record manifest =
  mf_schemaId :: string
  mf_nodeId :: string
  mf_dialogId :: string
  mf_attemptId :: string
  mf_generation :: int
  mf_textId :: string
  mf_source :: source
  mf_preview :: string
  mf_previewTruncated :: bool
  mf_redaction :: string
  mf_complete :: bool
  mf_reason :: string
  mf_size :: int
  mf_sha256 :: string
  mf_chunks :: "chunk list"

section \<open>Validation\<close>

definition validSource :: "source \<Rightarrow> bool" where
  "validSource s \<longleftrightarrow> uuidPattern (src_id s) \<and>
     (if src_kind s = ''assistant_message'' \<or> src_kind s = ''tool_input'' \<or> src_kind s = ''tool_result''
      then src_index s = 0 \<and> src_stream s = ''none''
      else if src_kind s = ''tool_output''
      then 0 \<le> src_index s \<and> src_index s \<le> MaximumSafeInteger \<and>
        (src_stream s = ''stdout'' \<or> src_stream s = ''stderr'' \<or> src_stream s = ''result'' \<or> src_stream s = ''diagnostic'')
      else False)"

text \<open>The loop over the chunks: the offset behind the last one, or an error.\<close>

fun coverChunks :: "int \<Rightarrow> int \<Rightarrow> string list \<Rightarrow> chunk list \<Rightarrow> int option" where
  "coverChunks index offset seen [] = Some offset"
| "coverChunks index offset seen (c # cs) =
     (if chk_index c \<noteq> index \<or> chk_offset c \<noteq> offset \<or> chk_size c < 1 \<or> int MaximumChunkBytes < chk_size c \<or>
         \<not> uuidPattern (chk_artifact c) \<or> \<not> sha256Pattern (chk_sha256 c) \<or> List.member seen (chk_artifact c) then None
      else coverChunks (index + 1) (offset + chk_size c) (chk_artifact c # seen) cs)"

definition ValidateManifest :: "manifest \<Rightarrow> bool" where
  "ValidateManifest m \<longleftrightarrow>
     mf_schemaId m = TranscriptSchemaID \<and> uuidPattern (mf_nodeId m) \<and> uuidPattern (mf_dialogId m) \<and> uuidPattern (mf_attemptId m) \<and>
     uuidPattern (mf_textId m) \<and> 1 \<le> mf_generation m \<and> mf_generation m \<le> MaximumSafeInteger \<and> validSource (mf_source m) \<and>
     validUtf8 (mf_preview m) \<and> length (mf_preview m) \<le> MaximumPreview \<and>
     (mf_redaction m = ''none'' \<or> mf_redaction m = ''applied'') \<and> 0 \<le> mf_size m \<and> mf_size m \<le> MaximumSafeInteger \<and>
     sha256Pattern (mf_sha256 m) \<and>
     (if \<not> mf_complete m then mf_reason m = ''output_limit_exceeded'' \<and> mf_chunks m = []
      else mf_reason m = '''' \<and> mf_size m \<le> MaximumTextBytes \<and> length (mf_chunks m) \<le> MaximumChunks \<and>
        (if mf_size m = 0 then mf_chunks m = []
         else mf_chunks m \<noteq> [] \<and> coverChunks 0 0 [] (mf_chunks m) = Some (mf_size m)))"

section \<open>The document\<close>

definition source_json :: "source \<Rightarrow> json" where
  "source_json s = JObj [(''kind'', JStr (src_kind s)), (''id'', JStr (src_id s)), (''index'', JInt (src_index s)),
     (''stream'', JStr (src_stream s))]"

definition chunk_json :: "chunk \<Rightarrow> json" where
  "chunk_json c = JObj [(''index'', JInt (chk_index c)), (''offsetBytes'', JInt (chk_offset c)), (''artifactId'', JStr (chk_artifact c)),
     (''sizeBytes'', JInt (chk_size c)), (''sha256'', JStr (chk_sha256 c))]"

definition manifest_json :: "manifest \<Rightarrow> json" where
  "manifest_json m = JObj ([(''schemaId'', JStr (mf_schemaId m)), (''nodeId'', JStr (mf_nodeId m)), (''dialogId'', JStr (mf_dialogId m)),
     (''attemptId'', JStr (mf_attemptId m)), (''generation'', JInt (mf_generation m)), (''textId'', JStr (mf_textId m)),
     (''source'', source_json (mf_source m)), (''preview'', JStr (mf_preview m)), (''previewTruncated'', JBool (mf_previewTruncated m)),
     (''redaction'', JStr (mf_redaction m)), (''complete'', JBool (mf_complete m))] @ omitEmpty ''reason'' (mf_reason m) @
     [(''sizeBytes'', JInt (mf_size m)), (''sha256'', JStr (mf_sha256 m)), (''chunks'', JArr (map chunk_json (mf_chunks m)))])"

text \<open>\<open>Encode\<close>; the chunk slices of its callers are never nil.\<close>

definition EncodeManifest :: "manifest \<Rightarrow> string option" where
  "EncodeManifest m = (if ValidateManifest m then Some (marshal (manifest_json m)) else None)"

definition decodeSource :: "json \<Rightarrow> source option" where
  "decodeSource v = (case v of
     JObj kvs \<Rightarrow>
       (if \<not> onlyFields [''kind'', ''id'', ''index'', ''stream''] kvs then None
        else (case (str_field kvs ''kind'', str_field kvs ''id'', int_field kvs ''index'', str_field kvs ''stream'') of
          (Some k, Some i, Some n, Some st) \<Rightarrow> Some \<lparr>src_kind = k, src_id = i, src_index = n, src_stream = st\<rparr> | _ \<Rightarrow> None))
   | _ \<Rightarrow> None)"

definition decodeChunk :: "(string \<times> json) list \<Rightarrow> chunk option" where
  "decodeChunk kvs =
     (if \<not> onlyFields [''index'', ''offsetBytes'', ''artifactId'', ''sizeBytes'', ''sha256''] kvs then None
      else (case (int_field kvs ''index'', int_field kvs ''offsetBytes'', str_field kvs ''artifactId'', int_field kvs ''sizeBytes'',
             str_field kvs ''sha256'') of
        (Some i, Some off, Some a, Some n, Some h) \<Rightarrow>
          Some \<lparr>chk_index = i, chk_offset = off, chk_artifact = a, chk_size = n, chk_sha256 = h\<rparr>
      | _ \<Rightarrow> None))"

text \<open>
  A slice of structs as the decoder fills it: the member lists decoded so far into each place of the
  backing array, and the length. A further value for the same field reuses the places; an empty
  array or \<open>null\<close> starts a new slice, a \<open>null\<close> element leaves its place as it is.
\<close>

fun fillPlaces :: "(string \<times> json) list list \<Rightarrow> json list \<Rightarrow> (string \<times> json) list list option" where
  "fillPlaces old [] = Some old"
| "fillPlaces old (v # vs) =
     (let before = (case old of [] \<Rightarrow> [] | x # _ \<Rightarrow> x) in
      case (if v = JNull then Some [] else objectMembers v) of
        None \<Rightarrow> None
      | Some kvs \<Rightarrow> map_option (\<lambda>rest. (before @ kvs) # rest) (fillPlaces (tl old) vs))"

definition fillSlice :: "(string \<times> json) list list \<times> nat \<Rightarrow> json \<Rightarrow> ((string \<times> json) list list \<times> nat) option" where
  "fillSlice st v = (case v of
     JNull \<Rightarrow> Some ([], 0)
   | JArr items \<Rightarrow> (if items = [] then Some ([], 0)
       else map_option (\<lambda>places. (places, length items)) (fillPlaces (fst st) items))
   | _ \<Rightarrow> None)"

fun fillSlices :: "(string \<times> json) list list \<times> nat \<Rightarrow> json list \<Rightarrow> ((string \<times> json) list list \<times> nat) option" where
  "fillSlices st [] = Some st"
| "fillSlices st (v # vs) = Option.bind (fillSlice st v) (\<lambda>st'. fillSlices st' vs)"

text \<open>Every element is decoded by itself; a mismatch in one is an error even when a later value replaces it.\<close>

definition chunkItem :: "json \<Rightarrow> bool" where
  "chunkItem v \<longleftrightarrow> v = JNull \<or> Option.bind (objectMembers v) decodeChunk \<noteq> None"

definition chunkItems :: "json \<Rightarrow> bool" where
  "chunkItems v = (case v of JArr items \<Rightarrow> list_all chunkItem items | _ \<Rightarrow> v = JNull)"

definition chunk_list :: "(string \<times> json) list \<Rightarrow> string \<Rightarrow> chunk list option" where
  "chunk_list kvs name = (let vs = map snd (filter (\<lambda>(k, _). foldName k = foldName name) kvs) in
     if \<not> list_all chunkItems vs then None
     else Option.bind (fillSlices ([], 0) vs) (\<lambda>(places, n). those (map decodeChunk (take n places))))"

abbreviation bool_field where "bool_field \<equiv> decodeField goBool False"

definition manifestFields :: "string list" where
  "manifestFields = [''schemaId'', ''nodeId'', ''dialogId'', ''attemptId'', ''generation'', ''textId'', ''source'', ''preview'',
     ''previewTruncated'', ''redaction'', ''complete'', ''reason'', ''sizeBytes'', ''sha256'', ''chunks'']"

definition decodeManifest :: "json \<Rightarrow> manifest option" where
  "decodeManifest v = (case v of
     JObj kvs \<Rightarrow>
       (if \<not> onlyFields manifestFields kvs then None
        else (case (str_field kvs ''schemaId'', str_field kvs ''nodeId'', str_field kvs ''dialogId'', str_field kvs ''attemptId'',
               int_field kvs ''generation'', str_field kvs ''textId'', structField decodeSource kvs ''source'') of
          (Some sid, Some nid, Some did, Some aid, Some g, Some tid, Some src) \<Rightarrow>
            (case (str_field kvs ''preview'', bool_field kvs ''previewTruncated'', str_field kvs ''redaction'', bool_field kvs ''complete'',
               str_field kvs ''reason'', int_field kvs ''sizeBytes'', str_field kvs ''sha256'', chunk_list kvs ''chunks'') of
              (Some p, Some pt, Some red, Some com, Some why, Some n, Some h, Some cs) \<Rightarrow>
                Some \<lparr>mf_schemaId = sid, mf_nodeId = nid, mf_dialogId = did, mf_attemptId = aid, mf_generation = g, mf_textId = tid,
                  mf_source = src, mf_preview = p, mf_previewTruncated = pt, mf_redaction = red, mf_complete = com, mf_reason = why,
                  mf_size = n, mf_sha256 = h, mf_chunks = cs\<rparr>
            | _ \<Rightarrow> None)
        | _ \<Rightarrow> None))
   | _ \<Rightarrow> None)"

definition zeroManifest :: manifest where
  "zeroManifest = \<lparr>mf_schemaId = '''', mf_nodeId = '''', mf_dialogId = '''', mf_attemptId = '''', mf_generation = 0, mf_textId = '''',
     mf_source = \<lparr>src_kind = '''', src_id = '''', src_index = 0, src_stream = ''''\<rparr>, mf_preview = '''', mf_previewTruncated = False,
     mf_redaction = '''', mf_complete = False, mf_reason = '''', mf_size = 0, mf_sha256 = '''', mf_chunks = []\<rparr>"

text \<open>\<open>Decode\<close>: \<open>null\<close> leaves the zero manifest, and what follows the value was excluded by the strict parser.\<close>

definition DecodeManifest :: "string \<Rightarrow> manifest option" where
  "DecodeManifest raw = (case strictParse raw of
     None \<Rightarrow> None
   | Some v \<Rightarrow> (case (if v = JNull then Some zeroManifest else decodeManifest v) of
       None \<Rightarrow> None
     | Some m \<Rightarrow> if ValidateManifest m then Some m else None))"

section \<open>Round trip\<close>

lemma match_classes_ascii:
  "match_classes ps s \<Longrightarrow> list_all (\<lambda>p. \<forall>c. p c \<longrightarrow> byte c < 128) ps \<Longrightarrow> list_all (\<lambda>c. byte c < 128) s"
  unfolding match_classes_def by (induction rule: list_all2_induct) auto

lemma pattern_utf8:
  shows "uuidPattern s \<Longrightarrow> validUtf8 s" and "sha256Pattern s \<Longrightarrow> validUtf8 s"
proof -
  have hex: "is_lower_hex c \<Longrightarrow> byte c < 128" for c by (auto simp: is_lower_hex_def is_digit_def between_def)
  have dash: "byte (CHR ''-'') < 128" by (simp add: byte_def)
  show "uuidPattern s \<Longrightarrow> validUtf8 s" unfolding uuidPattern_def
    by (rule validUtf8_plain, erule match_classes_ascii) (auto simp: hex dash between_def list_all_iff)
  show "sha256Pattern s \<Longrightarrow> validUtf8 s" unfolding sha256Pattern_def
    by (rule validUtf8_plain, erule match_classes_ascii) (auto simp: hex list_all_iff)
qed


lemma transcript_names:
  "foldName ''schemaId'' = ''schemaid''" "foldName ''nodeId'' = ''nodeid''" "foldName ''dialogId'' = ''dialogid''"
  "foldName ''attemptId'' = ''attemptid''" "foldName ''generation'' = ''generation''" "foldName ''textId'' = ''textid''"
  "foldName ''source'' = ''source''" "foldName ''preview'' = ''preview''" "foldName ''previewTruncated'' = ''previewtruncated''"
  "foldName ''redaction'' = ''redaction''" "foldName ''complete'' = ''complete''" "foldName ''reason'' = ''reason''"
  "foldName ''sizeBytes'' = ''sizebytes''" "foldName ''sha256'' = ''sha256''" "foldName ''chunks'' = ''chunks''"
  "foldName ''kind'' = ''kind''" "foldName ''id'' = ''id''" "foldName ''index'' = ''index''" "foldName ''stream'' = ''stream''"
  "foldName ''offsetBytes'' = ''offsetbytes''" "foldName ''artifactId'' = ''artifactid''"
  by code_simp+

lemma goInt64_JInt [simp]: "0 \<le> n \<Longrightarrow> n \<le> 9223372036854775807 \<Longrightarrow> goInt64 (JInt n) = Some n"
  using decimal_digits [of n] digits_value_decimal [of n] is_digit_not_sign
  by (cases "decimal n") (auto simp: JInt_def goInt64_def Let_def)

lemma JInt_not_null [simp]: "JInt n \<noteq> JNull"
  by (simp add: JInt_def)

lemmas decode_defs = transcript_names onlyFields_def decodeField_def goValues_def goString_def goBool_def lastOr_def

definition small :: "int \<Rightarrow> bool" where
  "small n \<longleftrightarrow> 0 \<le> n \<and> n \<le> 9223372036854775807"

lemma small_decodes [simp]: "small n \<Longrightarrow> goInt64 (JInt n) = Some n"
  by (simp add: small_def)

lemma decodeSource_json: "small (src_index s) \<Longrightarrow> decodeSource (source_json s) = Some s"
  by (simp add: decodeSource_def source_json_def decode_defs del: foldName.simps)

lemma decodeChunk_json:
  assumes "small (chk_index c)" and "small (chk_offset c)" and "small (chk_size c)"
  shows "\<exists>kvs. chunk_json c = JObj kvs \<and> decodeChunk kvs = Some c"
  using assms by (simp add: decodeChunk_def chunk_json_def decode_defs del: foldName.simps)

lemma fillPlaces_chunks: "fillPlaces [] (map (\<lambda>c. JObj (f c)) cs) = Some (map f cs)"
  by (induction cs) (simp_all add: objectMembers_def)

lemma those_map_Some: "(\<And>x. x \<in> set xs \<Longrightarrow> f x = Some (g x)) \<Longrightarrow> those (map f xs) = Some (map g xs)"
  by (induction xs) auto

lemma chunk_list_json:
  assumes cs: "list_all (\<lambda>c. small (chk_index c) \<and> small (chk_offset c) \<and> small (chk_size c)) cs"
    and f: "filter (\<lambda>(k, _). foldName k = foldName name) kvs = [(name, JArr (map chunk_json cs))]"
  shows "chunk_list kvs name = Some cs"
proof -
  obtain fs where fs: "\<And>c. c \<in> set cs \<Longrightarrow> chunk_json c = JObj (fs c) \<and> decodeChunk (fs c) = Some c"
    using decodeChunk_json cs by (auto simp: list_all_iff) (metis Ball_set)
  have m: "map chunk_json cs = map (\<lambda>c. JObj (fs c)) cs" using fs by simp
  have d: "those (map decodeChunk (map fs cs)) = Some cs"
    using those_map_Some [of cs "decodeChunk \<circ> fs" "\<lambda>c. c"] fs by simp
  have ok: "list_all chunkItem (map chunk_json cs)" using fs by (auto simp: list_all_iff chunkItem_def objectMembers_def)
  show ?thesis
  proof (cases "cs = []")
    case True
    then show ?thesis by (simp add: chunk_list_def f chunkItems_def fillSlice_def)
  next
    case False
    then show ?thesis using ok d by (simp add: chunk_list_def f chunkItems_def fillSlice_def m fillPlaces_chunks)
  qed
qed

lemma coverChunks_small:
  "coverChunks i off seen cs = Some whole \<Longrightarrow> 0 \<le> i \<Longrightarrow> 0 \<le> off \<Longrightarrow> i + int (length cs) \<le> 9223372036854775807 \<Longrightarrow> whole \<le> 9223372036854775807 \<Longrightarrow>
    off \<le> whole \<and> list_all (\<lambda>c. small (chk_index c) \<and> small (chk_offset c) \<and> small (chk_size c)) cs"
proof (induction cs arbitrary: i off seen)
  case (Cons c cs)
  then have c: "chk_index c = i" "chk_offset c = off" "1 \<le> chk_size c" "chk_size c \<le> int MaximumChunkBytes"
    and r: "coverChunks (i + 1) (off + chk_size c) (chk_artifact c # seen) cs = Some whole" by (auto split: if_splits)
  have "off + chk_size c \<le> whole \<and> list_all (\<lambda>c. small (chk_index c) \<and> small (chk_offset c) \<and> small (chk_size c)) cs"
    using Cons.IH [OF r] Cons.prems c by simp
  then show ?case using c Cons.prems by (simp add: small_def MaximumChunkBytes_def)
qed simp

lemma manifest_small:
  assumes "ValidateManifest m"
  shows "small (mf_generation m) \<and> small (mf_size m) \<and> small (src_index (mf_source m)) \<and>
    list_all (\<lambda>c. small (chk_index c) \<and> small (chk_offset c) \<and> small (chk_size c)) (mf_chunks m)"
proof -
  have s: "small (mf_generation m)" "small (mf_size m)" "small (src_index (mf_source m))"
    using assms by (auto simp: ValidateManifest_def validSource_def small_def MaximumSafeInteger_def split: if_splits)
  show ?thesis
  proof (cases "mf_chunks m = []")
    case False
    then have "coverChunks 0 0 [] (mf_chunks m) = Some (mf_size m)" "length (mf_chunks m) \<le> 64"
      using assms by (auto simp: ValidateManifest_def MaximumChunks_def split: if_splits)
    then show ?thesis using coverChunks_small [of 0 0 "[]" "mf_chunks m" "mf_size m"] s by (simp add: small_def)
  qed (use s in simp)
qed

lemma onlyFields_subset: "set (map fst kvs) \<subseteq> set names \<Longrightarrow> onlyFields names kvs"
  by (force simp: onlyFields_def list_all_iff list_ex_iff)

lemma decodeManifest_json:
  assumes v: "ValidateManifest m"
  shows "decodeManifest (manifest_json m) = Some m"
proof -
  note sm = manifest_small [OF v]
  obtain kvs where kvs: "manifest_json m = JObj kvs" by (simp add: manifest_json_def)
  have c: "chunk_list kvs ''chunks'' = Some (mf_chunks m)"
    by (rule chunk_list_json) (use sm kvs in \<open>auto simp: manifest_json_def transcript_names omitEmpty_def simp del: foldName.simps\<close>)
  have s: "structField decodeSource kvs ''source'' = Some (mf_source m)"
    using kvs decodeSource_json [of "mf_source m"] sm
    by (auto simp: manifest_json_def structField_def goValues_def transcript_names omitEmpty_def objectMembers_def source_json_def simp del: foldName.simps)
  have "str_field kvs ''schemaId'' = Some (mf_schemaId m)" "str_field kvs ''nodeId'' = Some (mf_nodeId m)"
    "str_field kvs ''dialogId'' = Some (mf_dialogId m)" "str_field kvs ''attemptId'' = Some (mf_attemptId m)"
    "int_field kvs ''generation'' = Some (mf_generation m)" "str_field kvs ''textId'' = Some (mf_textId m)"
    "str_field kvs ''preview'' = Some (mf_preview m)" "bool_field kvs ''previewTruncated'' = Some (mf_previewTruncated m)"
    "str_field kvs ''redaction'' = Some (mf_redaction m)" "bool_field kvs ''complete'' = Some (mf_complete m)"
    "str_field kvs ''reason'' = Some (mf_reason m)" "int_field kvs ''sizeBytes'' = Some (mf_size m)" "str_field kvs ''sha256'' = Some (mf_sha256 m)"
    using kvs sm by (auto simp: manifest_json_def omitEmpty_def decode_defs simp del: foldName.simps)
  moreover have "onlyFields manifestFields kvs"
    by (rule onlyFields_subset) (use kvs in \<open>auto simp: manifest_json_def manifestFields_def omitEmpty_def split: if_splits\<close>)
  ultimately show ?thesis unfolding kvs decodeManifest_def by (simp add: c s)
qed

lemma utf8_words:
  "validUtf8 ''transcript-view-v1''" "validUtf8 ''assistant_message''" "validUtf8 ''tool_input''" "validUtf8 ''tool_result''"
  "validUtf8 ''tool_output''" "validUtf8 ''none''" "validUtf8 ''stdout''" "validUtf8 ''stderr''" "validUtf8 ''result''"
  "validUtf8 ''diagnostic''" "validUtf8 ''applied''" "validUtf8 ''output_limit_exceeded''"
  "validUtf8 ''schemaId''" "validUtf8 ''nodeId''" "validUtf8 ''dialogId''" "validUtf8 ''attemptId''" "validUtf8 ''generation''"
  "validUtf8 ''textId''" "validUtf8 ''source''" "validUtf8 ''preview''" "validUtf8 ''previewTruncated''" "validUtf8 ''redaction''"
  "validUtf8 ''complete''" "validUtf8 ''reason''" "validUtf8 ''sizeBytes''" "validUtf8 ''sha256''" "validUtf8 ''chunks''"
  "validUtf8 ''kind''" "validUtf8 ''id''" "validUtf8 ''index''" "validUtf8 ''stream''" "validUtf8 ''offsetBytes''" "validUtf8 ''artifactId''"
  by code_simp+

lemma strictValue_small: "small n \<Longrightarrow> strictValue depth (JInt n) \<longleftrightarrow> depth \<le> 32"
  by (simp add: small_def)

lemma coverChunks_utf8:
  "coverChunks i off seen cs = Some whole \<Longrightarrow> list_all (\<lambda>c. validUtf8 (chk_artifact c) \<and> validUtf8 (chk_sha256 c)) cs"
  by (induction cs arbitrary: i off seen) (auto simp: pattern_utf8 split: if_splits)

lemma strictValue_manifest:
  assumes v: "ValidateManifest m"
  shows "strictValue 0 (manifest_json m)"
proof -
  note sm = manifest_small [OF v]
  have "list_all (\<lambda>c. validUtf8 (chk_artifact c) \<and> validUtf8 (chk_sha256 c)) (mf_chunks m)"
  proof (cases "mf_chunks m = []")
    case False
    then have "coverChunks 0 0 [] (mf_chunks m) = Some (mf_size m)" using v by (auto simp: ValidateManifest_def split: if_splits)
    then show ?thesis by (rule coverChunks_utf8)
  qed simp
  then have chunks: "list_all (strictValue (Suc (Suc 0))) (map chunk_json (mf_chunks m))"
    using sm by (auto simp: list_all_iff chunk_json_def strictValue_small utf8_words simp del: validUtf8.simps)
  have src: "strictValue (Suc 0) (source_json (mf_source m))"
    using v sm by (auto simp: source_json_def ValidateManifest_def validSource_def strictValue_small pattern_utf8 utf8_words
        simp del: validUtf8.simps split: if_splits)
  have str: "validUtf8 (mf_schemaId m)" "validUtf8 (mf_nodeId m)" "validUtf8 (mf_dialogId m)" "validUtf8 (mf_attemptId m)" "validUtf8 (mf_textId m)"
    "validUtf8 (mf_preview m)" "validUtf8 (mf_redaction m)" "mf_reason m \<noteq> [] \<longrightarrow> validUtf8 (mf_reason m)" "validUtf8 (mf_sha256 m)"
    using v by (auto simp: ValidateManifest_def TranscriptSchemaID_def pattern_utf8 utf8_words simp del: validUtf8.simps split: if_splits)
  show ?thesis
    using sm chunks src str unfolding manifest_json_def
    by (simp add: omitEmpty_def strictValue_small utf8_words del: validUtf8.simps)
qed

lemma manifest_decoded:
  assumes "EncodeManifest m = Some raw"
  shows "DecodeManifest raw = Some m"
proof -
  have v: "ValidateManifest m" and raw: "raw = marshal (manifest_json m)" using assms by (auto simp: EncodeManifest_def split: if_splits)
  have "manifest_json m \<noteq> JNull" by (simp add: manifest_json_def)
  then show ?thesis
    by (simp add: DecodeManifest_def raw strictParse_marshal [OF strictValue_manifest [OF v]] decodeManifest_json [OF v] v)
qed

end
