(* ===== verification/Output_Budget.thy ===== *)
theory Output_Budget
  imports Attempts
begin

text \<open>
  The output budget of one attempt, \<open>runtime/output_budget.go\<close>: bytes of distinct projections
  are charged to the attempt row, bytes of archived observations are kept with the archive
  row. A stored value above the maximum is the sticky mark of an overflow.
\<close>

definition MaximumAttemptOutputBytes :: int where "MaximumAttemptOutputBytes = 67108864"

datatype outputCharge = Charged | Exceeded | NewlyExceeded

definition archivedBytes :: "db \<Rightarrow> string \<Rightarrow> int" where
  "archivedBytes d attID = sum_list (map late_output (filter (\<lambda>l. late_attempt l = attID \<and> late_key l \<noteq> None) (late_observations d)))"

definition overBudget :: "int \<Rightarrow> int \<Rightarrow> bool" where
  "overBudget active archived \<longleftrightarrow> MaximumAttemptOutputBytes < active \<or> MaximumAttemptOutputBytes < archived \<or>
     MaximumAttemptOutputBytes - archived < active"

text \<open>
  \<open>UPDATE attempts SET output_bytes=? WHERE attempt_id=? AND output_bytes=?\<close>: the value was read
  in the same transaction, so the fence matches and one row changes.
\<close>

definition setOutput :: "string \<Rightarrow> int \<Rightarrow> unit tx" where
  "setOutput attID v = updateAttempt attID (\<lambda>a. a\<lparr>att_output := v\<rparr>)"

definition chargeAttemptOutput :: "string \<Rightarrow> int \<Rightarrow> outputCharge tx" where
  "chargeAttemptOutput attID n =
     bindM (guardM (0 \<le> n \<and> n \<le> MaximumAttemptOutputBytes) (RawError ''output charge is invalid'')) (\<lambda>_.
     bindM (readDb id) (\<lambda>d.
     bindM (needM (sel att_id attID (attempts d))) (\<lambda>a.
     let current = att_output a; archived = archivedBytes d attID in
     if overBudget current archived then returnM Exceeded
     else if MaximumAttemptOutputBytes - current - archived < n
       then bindM (setOutput attID (MaximumAttemptOutputBytes + 1)) (\<lambda>_. returnM NewlyExceeded)
     else if n = 0 then returnM Charged
     else bindM (setOutput attID (current + n)) (\<lambda>_. returnM Charged))))"

definition chargeSafeOutput :: "string \<Rightarrow> safeContent \<Rightarrow> outputCharge tx" where
  "chargeSafeOutput attID c = chargeAttemptOutput attID (if sc_kind c = ''inline'' then int (length (sc_content c)) else 0)"

text \<open>The second component is the amount the caller stores with the archive row.\<close>

definition chargeArchivedAttemptOutput :: "string \<Rightarrow> int \<Rightarrow> (outputCharge \<times> int) tx" where
  "chargeArchivedAttemptOutput attID n =
     bindM (guardM (0 \<le> n \<and> n \<le> MaximumAttemptOutputBytes) (RawError ''archived output charge is invalid'')) (\<lambda>_.
     bindM (readDb id) (\<lambda>d.
     bindM (needM (sel att_id attID (attempts d))) (\<lambda>a.
     let active = att_output a; archived = archivedBytes d attID; current = active + archived in
     if overBudget active archived then returnM (Exceeded, 0)
     else if MaximumAttemptOutputBytes - current < n then returnM (NewlyExceeded, MaximumAttemptOutputBytes + 1 - current)
     else returnM (Charged, n))))"

definition attemptOutputExceeded :: "db \<Rightarrow> string \<Rightarrow> bool option" where
  "attemptOutputExceeded d attID = map_option (\<lambda>a. overBudget (att_output a) (archivedBytes d attID)) (sel att_id attID (attempts d))"

definition outputLimitContent :: safeContent where
  "outputLimitContent = \<lparr>sc_kind = ''unavailable'', sc_content = '''', sc_artifactId = '''', sc_sizeBytes = None, sc_sha256 = '''',
     sc_reason = ''output_limit'', sc_redaction = ''unknown'', sc_truncated = True\<rparr>"

definition appendArtifactOutputLimitMarker :: "env \<Rightarrow> attemptRef \<Rightarrow> unit tx" where
  "appendArtifactOutputLimitMarker E ref =
     bindM (newID E) (\<lambda>messageID.
     bindM (readState id) (\<lambda>s.
     bindM (timestamp E) (\<lambda>now.
     let pl = PAssistantMessage messageID outputLimitContent ''length'' in
     bindM (seqM
       [insertMessage \<lparr>msg_id = messageID, msg_dialog = ref_dialogID ref, msg_sequence = NextMessageSequence s, msg_version = 1,
          msg_role = ''assistant'', msg_text = None, msg_content = Some outputLimitContent, msg_disposition = None, msg_command = None,
          msg_request = None, msg_attempt = Some (ref_attemptID ref), msg_finish = Some ''length'', msg_created = now\<rparr>,
        writeState (\<lambda>s. s\<lparr>NextMessageSequence := NextMessageSequence s + 1, StateVersion := StateVersion s + 1\<rparr>),
        appendEvent E messageID 1 (ref_attemptID ref) (ref_dialogID ref) pl (ActiveAttemptID s \<noteq> Some (ref_attemptID ref))]) (\<lambda>_.
     bindM (readState LastEventSeq) (\<lambda>sq.
     recordAdapterProjection E sq (ref_attemptID ref) ''output_limit:artifact'' (payload_json pl))))))"

section \<open>Accounting laws\<close>

text \<open>The bytes an attempt has used, in its row and in its archive.\<close>

definition usedBytes :: "db \<Rightarrow> string \<Rightarrow> int" where
  "usedBytes d attID = (case sel att_id attID (attempts d) of None \<Rightarrow> 0 | Some a \<Rightarrow> att_output a) + archivedBytes d attID"

lemma usedBytes_setOutput:
  assumes "setOutput attID v t = Inr (u, t')" and "sel att_id attID (attempts (tx_db t)) = Some a"
  shows "usedBytes (tx_db t') attID = v + archivedBytes (tx_db t) attID"
  using assms by (auto simp: setOutput_def usedBytes_def archivedBytes_def sel_upd dest!: updateAttemptD)

section \<open>Contracts kept\<close>

text \<open>Charges within the contract of \<open>tx_rel\<close>.\<close>

context tx_rel
begin

lemma keeps_setOutput [keeps_rules]: "keeps R (setOutput a v)"
  unfolding setOutput_def by (intro keeps_rules) (simp add: core_defs)

lemma keeps_chargeAttemptOutput [keeps_rules]: "keeps R (chargeAttemptOutput a n)"
  unfolding chargeAttemptOutput_def by (intro keeps_rules)

lemma keeps_chargeArchivedAttemptOutput [keeps_rules]: "keeps R (chargeArchivedAttemptOutput a n)"
  unfolding chargeArchivedAttemptOutput_def by (intro keeps_rules)

lemma keeps_appendArtifactOutputLimitMarker [keeps_rules]: "keeps R (appendArtifactOutputLimitMarker E ref)"
  unfolding appendArtifactOutputLimitMarker_def by (intro keeps_rules) (simp_all add: state_laws core_defs)

end

end
