(* ===== verification/Safe_Text.thy ===== *)
theory Safe_Text
  imports Transcript Output_Budget Commands
begin

text \<open>
  The private full texts behind the bounded previews, \<open>runtime/safe_text.go\<close>: stable ids, the longest
  valid preview, the cut into chunks, the usage row that bounds the storage of one attempt, the capture of
  a text inside the transaction that records its preview, and the two reads. The artifact files are those
  of \<open>runtime/artifact.go\<close>: a file is there with its bytes, or it may not be read. Ids hold no path
  separators, so the relative path of a row is clean as it is written.
\<close>

section \<open>Names and ids\<close>

definition formatInt :: "int \<Rightarrow> string" where
  "formatInt n = (if n < 0 then ''-'' @ decimal (- n) else decimal n)"

text \<open>\<open>%02d\<close>.\<close>

definition twoDigits :: "int \<Rightarrow> string" where
  "twoDigits n = (if 0 \<le> n \<and> n < 10 then CHR ''0'' # formatInt n else formatInt n)"

text \<open>The first 16 bytes of the digest as hexadecimal digits, with version 5 and the variant bits set.\<close>

definition variantDigit :: "char \<Rightarrow> char" where
  "variantDigit c = (case hexValue c of Some v \<Rightarrow> hex_digit (8 + v mod 4) | None \<Rightarrow> c)"

definition stableSafeTextUUID :: "(string \<Rightarrow> string) \<Rightarrow> string \<Rightarrow> string \<Rightarrow> string" where
  "stableSafeTextUUID sha namespace value =
     (let h = sha (namespace @ [CHR 0x00] @ value) in
      take 8 h @ ''-'' @ take 4 (drop 8 h) @ ''-5'' @ take 3 (drop 13 h) @ ''-'' @
      map variantDigit (take 1 (drop 16 h)) @ take 3 (drop 17 h) @ ''-'' @ take 12 (drop 20 h))"

definition safeTextID :: "(string \<Rightarrow> string) \<Rightarrow> attemptRef \<Rightarrow> source \<Rightarrow> string" where
  "safeTextID sha ref s = stableSafeTextUUID sha ''transcript-text-v1'' (joinWith [CHR 0x00]
     [ref_nodeID ref, ref_dialogID ref, ref_requestID ref, ref_attemptID ref, formatInt (ref_generation ref), src_kind s, src_id s,
      formatInt (src_index s), src_stream s])"

definition safeTextManifestID :: "(string \<Rightarrow> string) \<Rightarrow> string \<Rightarrow> string" where
  "safeTextManifestID sha textID = stableSafeTextUUID sha ''transcript-manifest-v1'' textID"

definition safeTextChunkID :: "(string \<Rightarrow> string) \<Rightarrow> string \<Rightarrow> int \<Rightarrow> string" where
  "safeTextChunkID sha textID index = stableSafeTextUUID sha ''transcript-chunk-v1'' (textID @ [CHR 0x00] @ formatInt index)"

definition safeTextUsageID :: "(string \<Rightarrow> string) \<Rightarrow> string \<Rightarrow> string" where
  "safeTextUsageID sha attemptID = stableSafeTextUUID sha ''transcript-usage-v1'' attemptID"

definition safeTextManifestName :: "string \<Rightarrow> string" where
  "safeTextManifestName textID = ''safe-text-manifest-'' @ textID @ ''.json''"

definition safeTextChunkName :: "int \<Rightarrow> string" where
  "safeTextChunkName index = ''safe-text-'' @ twoDigits index @ ''.txt''"

definition safeTextUsageName :: "string \<Rightarrow> string" where
  "safeTextUsageName attemptID = ''safe-text-usage-'' @ attemptID @ ''.state''"

definition safeTextManifestMediaType :: string where "safeTextManifestMediaType = ''application/vnd.homelab.transcript-view-v1+json''"
definition safeTextChunkMediaType :: string where "safeTextChunkMediaType = ''text/plain; charset=utf-8''"
definition safeTextUsageMediaType :: string where "safeTextUsageMediaType = ''application/vnd.homelab.transcript-usage-v1''"
definition safeTextDisposition :: string where "safeTextDisposition = ''transcript_internal''"
definition safeTextEmptySHA256 :: string where
  "safeTextEmptySHA256 = ''e3b0c44298fc1c149afbf4c8996fb92427ae41e4649b934ca495991b7852b855''"

definition reservedSafeTextArtifact :: "string \<Rightarrow> string \<Rightarrow> bool" where
  "reservedSafeTextArtifact name media \<longleftrightarrow> take 10 name = ''safe-text-'' \<or> media = safeTextManifestMediaType"

section \<open>The preview\<close>

text \<open>Cut bytes off the end until the rest is valid UTF-8.\<close>

primrec validPrefix :: "nat \<Rightarrow> string \<Rightarrow> string" where
  "validPrefix 0 s = []"
| "validPrefix (Suc n) s = (if validUtf8 (take (Suc n) s) then take (Suc n) s else validPrefix n s)"

definition safeTextPreview :: "string \<Rightarrow> string" where
  "safeTextPreview value = (if length value \<le> MaximumPreview then value else validPrefix MaximumPreview value)"

text \<open>\<open>safeTextValue\<close>: the text to keep, if any.\<close>

definition safeTextValue :: "safeContent \<Rightarrow> string option \<Rightarrow> bool \<Rightarrow> failure + string option" where
  "safeTextValue c full incomplete =
     (if sc_kind c \<noteq> ''inline'' then
        (if full \<noteq> None \<or> incomplete then Inl (RawError ''non-inline content carried full safe text'') else Inr None)
      else if sc_redaction c \<noteq> ''none'' \<and> sc_redaction c \<noteq> ''applied'' then Inl (RawError ''safe text redaction is invalid'')
      else (case full of
        None \<Rightarrow> (if incomplete then Inl (RawError ''incomplete safe text has no retained prefix'')
          else if sc_truncated c then Inr None else Inr (Some (sc_content c)))
      | Some text \<Rightarrow>
          (if \<not> validUtf8 text then Inl (RawError ''full safe text is not UTF-8'')
           else let preview = safeTextPreview text in
             if sc_content c \<noteq> preview \<or> sc_truncated c \<noteq> (incomplete \<or> length preview \<noteq> length text)
             then Inl (RawError ''full safe text does not match preview'') else Inr (Some text))))"

section \<open>Usage\<close>

definition safeTextMaximumSources :: int where "safeTextMaximumSources = 1024"
definition safeTextMaximumChunks :: int where "safeTextMaximumChunks = 2048"
definition safeTextMaximumStorage :: int where "safeTextMaximumStorage = 1073741824"
definition safeTextLimitMarkerReserve :: int where "safeTextLimitMarkerReserve = 524288"

record safeTextUsage =
  stu_text :: int
  stu_storage :: int
  stu_sources :: int
  stu_chunks :: int
  stu_sealed :: bool

definition initialUsage :: safeTextUsage where
  "initialUsage = \<lparr>stu_text = 0, stu_storage = 0, stu_sources = 0, stu_chunks = 0, stu_sealed = False\<rparr>"

definition validSafeTextUsage :: "safeTextUsage \<Rightarrow> bool" where
  "validSafeTextUsage u \<longleftrightarrow> 0 \<le> stu_text u \<and> stu_text u \<le> MaximumTextBytes \<and> 0 \<le> stu_storage u \<and> stu_storage u \<le> safeTextMaximumStorage \<and>
     0 \<le> stu_sources u \<and> stu_sources u \<le> safeTextMaximumSources \<and> 0 \<le> stu_chunks u \<and> stu_chunks u \<le> safeTextMaximumChunks \<and>
     (\<not> stu_sealed u \<or> 0 < stu_sources u)"

definition encodeSafeTextUsage :: "safeTextUsage \<Rightarrow> string" where
  "encodeSafeTextUsage u = ''v1:'' @ formatInt (stu_text u) @ '':'' @ formatInt (stu_storage u) @ '':'' @ formatInt (stu_sources u) @ '':'' @
     formatInt (stu_chunks u)"

text \<open>\<open>strings.Split\<close> and \<open>strconv.ParseInt(part, 10, 64)\<close>.\<close>

fun splitOn :: "char \<Rightarrow> string \<Rightarrow> string list" where
  "splitOn sep [] = [[]]"
| "splitOn sep (c # cs) = (if c = sep then [] # splitOn sep cs else (case splitOn sep cs of [] \<Rightarrow> [[c]] | p # ps \<Rightarrow> (c # p) # ps))"

definition parseInt64 :: "string \<Rightarrow> int option" where
  "parseInt64 s = (case s of [] \<Rightarrow> None | c # cs \<Rightarrow>
     (let neg = (c = CHR ''-''); ds = (if neg \<or> c = CHR ''+'' then cs else s) in
      if ds \<noteq> [] \<and> list_all is_digit ds \<and> digits_value ds \<le> (if neg then 9223372036854775808 else 9223372036854775807)
      then Some (if neg then - digits_value ds else digits_value ds) else None))"

definition usageValue :: "string \<Rightarrow> int option" where
  "usageValue part = (case parseInt64 part of Some v \<Rightarrow> if formatInt v = part then Some v else None | None \<Rightarrow> None)"

definition decodeSafeTextUsage :: "string \<Rightarrow> bool \<Rightarrow> safeTextUsage option" where
  "decodeSafeTextUsage encoded sealed = (case splitOn (CHR '':'') encoded of
     [version, a, b, c, d] \<Rightarrow>
       (if version \<noteq> ''v1'' then None
        else (case (usageValue a, usageValue b, usageValue c, usageValue d) of
          (Some ta, Some sb, Some sc, Some ch) \<Rightarrow>
            (let u = \<lparr>stu_text = ta, stu_storage = sb, stu_sources = sc, stu_chunks = ch, stu_sealed = sealed\<rparr> in
             if validSafeTextUsage u then Some u else None)
        | _ \<Rightarrow> None))
   | _ \<Rightarrow> None)"

definition safeTextCanStoreComplete :: "safeTextUsage \<Rightarrow> int \<Rightarrow> int \<Rightarrow> int \<Rightarrow> bool" where
  "safeTextCanStoreComplete u text storage chunks \<longleftrightarrow>
     validSafeTextUsage u \<and> \<not> stu_sealed u \<and> 0 \<le> text \<and> text \<le> storage \<and> 0 \<le> chunks \<and> stu_text u \<le> MaximumTextBytes - text \<and>
     stu_storage u \<le> safeTextMaximumStorage - safeTextLimitMarkerReserve - storage \<and>
     stu_sources u < safeTextMaximumSources - 1 \<and> stu_chunks u \<le> safeTextMaximumChunks - chunks"

definition nextUsage :: "safeTextUsage \<Rightarrow> manifest \<Rightarrow> int \<Rightarrow> safeTextUsage" where
  "nextUsage u m bytes =
     (let n = u\<lparr>stu_sources := stu_sources u + 1, stu_storage := stu_storage u + bytes\<rparr> in
      if mf_complete m then n\<lparr>stu_text := stu_text n + mf_size m, stu_storage := stu_storage n + mf_size m,
        stu_chunks := stu_chunks n + int (length (mf_chunks m))\<rparr>
      else n\<lparr>stu_sealed := True\<rparr>)"

section \<open>Cutting a text\<close>

text \<open>Each piece is the longest valid one of at most \<open>limit\<close> bytes; an empty one is the error of the loop.\<close>

lemma validPrefix_take: "\<exists>k \<le> n. validPrefix n s = take k s"
  by (induction n) (auto intro: le_SucI)

function textPieces :: "nat \<Rightarrow> string \<Rightarrow> string list option" where
  "textPieces limit value =
     (if value = [] then Some []
      else let piece = validPrefix (min limit (length value)) value in
        if piece = [] then None else map_option (\<lambda>ps. piece # ps) (textPieces limit (drop (length piece) value)))"
  by pat_completeness auto
termination by (relation "measure (\<lambda>(_, s). length s)") auto

declare textPieces.simps [simp del]

fun pieceChunks :: "(string \<Rightarrow> string) \<Rightarrow> string \<Rightarrow> int \<Rightarrow> int \<Rightarrow> string list \<Rightarrow> chunk list" where
  "pieceChunks sha textID index start [] = []"
| "pieceChunks sha textID index start (p # ps) =
     \<lparr>chk_index = index, chk_offset = start, chk_artifact = safeTextChunkID sha textID index, chk_size = int (length p), chk_sha256 = sha p\<rparr>
     # pieceChunks sha textID (index + 1) (start + int (length p)) ps"

definition incompleteManifest :: "manifest \<Rightarrow> manifest" where
  "incompleteManifest base = base\<lparr>mf_complete := False, mf_reason := ''output_limit_exceeded'', mf_chunks := []\<rparr>"

definition sealManifest :: "manifest \<Rightarrow> safeTextUsage \<Rightarrow> failure + (manifest \<times> string list \<times> string)" where
  "sealManifest base usage = (case EncodeManifest (incompleteManifest base) of
     None \<Rightarrow> Inl (RawError ''incomplete transcript manifest is invalid'')
   | Some text \<Rightarrow>
       if safeTextLimitMarkerReserve < int (length text) \<or> safeTextMaximumSources \<le> stu_sources usage \<or>
          safeTextMaximumStorage - int (length text) < stu_storage usage
       then Inl (RawError ''safe text usage reserve is invalid'')
       else Inr (incompleteManifest base, [], text))"

text \<open>
  \<open>prepareSafeTextManifest\<close>: the manifest with the pieces to publish. The text is kept whole when it is
  complete and fits the attempt's bounds; otherwise the manifest only records that it was not.
\<close>

definition completeManifest :: "(string \<Rightarrow> string) \<Rightarrow> manifest \<Rightarrow> string list \<Rightarrow> manifest" where
  "completeManifest sha base pieces = base\<lparr>mf_complete := True, mf_chunks := pieceChunks sha (mf_textId base) 0 0 pieces\<rparr>"

definition prepareSafeTextManifest ::
  "(string \<Rightarrow> string) \<Rightarrow> manifest \<Rightarrow> string \<Rightarrow> safeTextUsage \<Rightarrow> bool \<Rightarrow> failure + (manifest \<times> string list \<times> string)" where
  "prepareSafeTextManifest sha base value usage upstreamIncomplete =
     (if \<not> upstreamIncomplete \<and> int (length value) \<le> MaximumTextBytes then
        (case textPieces MaximumChunkBytes value of
          None \<Rightarrow> Inl (RawError ''safe text chunk boundary is invalid'')
        | Some pieces \<Rightarrow> (case EncodeManifest (completeManifest sha base pieces) of
            None \<Rightarrow> Inl (RawError ''complete transcript manifest is invalid'')
          | Some text \<Rightarrow>
              if safeTextCanStoreComplete usage (int (length value)) (int (length value) + int (length text)) (int (length pieces))
              then Inr (completeManifest sha base pieces, pieces, text)
              else sealManifest base usage))
      else sealManifest base usage)"

section \<open>Artifact files\<close>

definition relativePath :: "string \<Rightarrow> string" where
  "relativePath artifactID = ''artifacts/'' @ artifactID"

definition readArtifactFile :: "env \<Rightarrow> string \<Rightarrow> string \<Rightarrow> int \<Rightarrow> string \<Rightarrow> string tx" where
  "readArtifactFile E relative artifactID bytes hash =
     bindM (guardM (relative = relativePath artifactID) (RawError ''artifact path is invalid'')) (\<lambda>_.
     bindM (fileAt E artifactID) (\<lambda>file. case file of
       Some (FileBytes body) \<Rightarrow>
         bindM (guardM (int (length body) = bytes \<and> int (length body) \<le> MaximumArtifactBytes) (RawError ''artifact size mismatch'')) (\<lambda>_.
         bindM (guardM (env_sha E body = hash) (RawError ''artifact hash mismatch'')) (\<lambda>_. returnM body))
     | _ \<Rightarrow> failM (RawError ''artifact file is unsafe'')))"

text \<open>\<open>publishSafeTextArtifact\<close>: the same bytes again are no new file.\<close>

definition publish :: "env \<Rightarrow> string \<Rightarrow> string \<Rightarrow> string tx" where
  "publish E artifactID content =
     bindM (fileAt E artifactID) (\<lambda>file. case file of
       Some _ \<Rightarrow>
         bindM (orElseM (readArtifactFile E (relativePath artifactID) artifactID (int (length content)) (env_sha E content))
           (RawError ''orphan safe text artifact conflicts with source'')) (\<lambda>body.
         bindM (guardM (body = content) (RawError ''orphan safe text artifact conflicts with source'')) (\<lambda>_.
         returnM (relativePath artifactID)))
     | None \<Rightarrow>
         bindM (newID E) (\<lambda>_.
         bindM (guardM (env_publish E artifactID) (RawError ''safe text artifact write failed'')) (\<lambda>_.
         bindM (createFile artifactID content) (\<lambda>_. returnM (relativePath artifactID)))))"

definition noRows :: failure where
  "noRows = RawError ''sql: no rows in result set''"

section \<open>Reading a manifest\<close>

definition readSafeTextArtifact :: "env \<Rightarrow> artifactRow \<Rightarrow> string tx" where
  "readSafeTextArtifact E r = readArtifactFile E (art_relative r) (art_id r) (art_size r) (art_sha256 r)"

definition expectedSafeTextCallID :: "source \<Rightarrow> string" where
  "expectedSafeTextCallID s = (if src_kind s = ''assistant_message'' then '''' else src_id s)"

text \<open>The call of a row, empty when there is none.\<close>

definition callText :: "artifactRow \<Rightarrow> string" where
  "callText r = (case art_call r of None \<Rightarrow> '''' | Some c \<Rightarrow> c)"

definition validSafeTextManifestRow :: "env \<Rightarrow> artifactRow \<Rightarrow> string \<Rightarrow> manifest \<Rightarrow> attemptRef \<Rightarrow> bool" where
  "validSafeTextManifestRow E r raw m ref \<longleftrightarrow>
     mf_nodeId m = ref_nodeID ref \<and> mf_dialogId m = ref_dialogID ref \<and> mf_attemptId m = ref_attemptID ref \<and>
     mf_generation m = ref_generation ref \<and> mf_textId m = safeTextID (env_sha E) ref (mf_source m) \<and>
     art_id r = safeTextManifestID (env_sha E) (mf_textId m) \<and> art_dialog r = ref_dialogID ref \<and> art_attempt r = ref_attemptID ref \<and>
     callText r = expectedSafeTextCallID (mf_source m) \<and> art_name r = safeTextManifestName (mf_textId m) \<and>
     art_media r = safeTextManifestMediaType \<and> art_size r = int (length raw) \<and> art_sha256 r = env_sha E raw \<and>
     art_redaction r = mf_redaction m \<and> \<not> art_truncated r \<and> art_disposition r = safeTextDisposition \<and>
     art_relative r = relativePath (art_id r)"

definition validSafeTextChunkRow :: "env \<Rightarrow> manifest \<Rightarrow> chunk \<Rightarrow> artifactRow \<Rightarrow> bool" where
  "validSafeTextChunkRow E m c r \<longleftrightarrow>
     chk_artifact c = safeTextChunkID (env_sha E) (mf_textId m) (chk_index c) \<and> art_id r = chk_artifact c \<and>
     art_dialog r = mf_dialogId m \<and> art_attempt r = mf_attemptId m \<and> callText r = expectedSafeTextCallID (mf_source m) \<and>
     art_name r = safeTextChunkName (chk_index c) \<and> art_media r = safeTextChunkMediaType \<and> art_size r = chk_size c \<and>
     art_sha256 r = chk_sha256 c \<and> art_redaction r = mf_redaction m \<and> \<not> art_truncated r \<and>
     art_disposition r = safeTextDisposition \<and> art_relative r = relativePath (art_id r)"

definition selectArtifact :: "string \<Rightarrow> artifactRow tx" where
  "selectArtifact k = bindM (readDb (\<lambda>d. sel art_id k (artifacts d))) needM"

definition validateSafeTextRows :: "env \<Rightarrow> manifest \<Rightarrow> unit tx" where
  "validateSafeTextRows E m = seqM (map (\<lambda>c. bindM (selectArtifact (chk_artifact c)) (\<lambda>r.
     guardM (validSafeTextChunkRow E m c r) (RawError ''safe text chunk binding mismatch''))) (mf_chunks m))"

definition readSafeTextManifest :: "env \<Rightarrow> attemptRef \<Rightarrow> source \<Rightarrow> (manifest \<times> string) tx" where
  "readSafeTextManifest E ref src =
     (let textID = safeTextID (env_sha E) ref src in
      bindM (selectArtifact (safeTextManifestID (env_sha E) textID)) (\<lambda>r.
      bindM (readSafeTextArtifact E r) (\<lambda>raw. case DecodeManifest raw of
        None \<Rightarrow> failM (RawError ''safe text manifest is invalid'')
      | Some m \<Rightarrow> bindM (seqM
          [guardM (mf_source m = src \<and> mf_textId m = textID) (RawError ''safe text manifest is invalid''),
           guardM (validSafeTextManifestRow E r raw m ref) (RawError ''safe text manifest binding mismatch''),
           validateSafeTextRows E m]) (\<lambda>_. returnM (m, raw)))))"

definition safeTextManifestMatches :: "manifest \<Rightarrow> attemptRef \<Rightarrow> source \<Rightarrow> string \<Rightarrow> string \<Rightarrow> int \<Rightarrow> string \<Rightarrow> bool \<Rightarrow> bool" where
  "safeTextManifestMatches m ref src preview redaction bytes hash upstreamIncomplete \<longleftrightarrow>
     mf_nodeId m = ref_nodeID ref \<and> mf_dialogId m = ref_dialogID ref \<and> mf_attemptId m = ref_attemptID ref \<and>
     mf_generation m = ref_generation ref \<and> mf_source m = src \<and> mf_preview m = preview \<and>
     mf_previewTruncated m = (upstreamIncomplete \<or> int (length preview) \<noteq> bytes) \<and> mf_redaction m = redaction \<and>
     mf_size m = bytes \<and> mf_sha256 m = hash \<and> (\<not> upstreamIncomplete \<or> \<not> mf_complete m)"

text \<open>
  \<open>validateExistingSafeTextReplay\<close>: the text of a replayed event against the manifest it left, if it left
  one.
\<close>

definition validateExistingSafeTextReplay :: "env \<Rightarrow> attemptRef \<Rightarrow> source \<Rightarrow> safeContent \<Rightarrow> string option \<Rightarrow> bool \<Rightarrow> unit tx" where
  "validateExistingSafeTextReplay E ref src content full incomplete =
     bindM (liftM (safeTextValue content full incomplete)) (\<lambda>value. case value of
       None \<Rightarrow> returnM ()
     | Some text \<Rightarrow>
         bindM (guardM (validSource src) (RawError ''transcript source is invalid'')) (\<lambda>_.
         bindM (attemptM (readSafeTextManifest E ref src)) (\<lambda>found. case found of
           Inl e \<Rightarrow> if e = noRows then returnM () else failM e
         | Inr r \<Rightarrow> guardM (safeTextManifestMatches (fst r) ref src (safeTextPreview text) (sc_redaction content) (int (length text))
             (env_sha E text) incomplete) (RawError ''conflicting safe text source''))))"

section \<open>Capture\<close>

record publishedArtifact =
  pa_id :: string
  pa_name :: string
  pa_media :: string
  pa_size :: int
  pa_hash :: string
  pa_relative :: string

definition insertSafeTextArtifact :: "attemptRef \<Rightarrow> string \<Rightarrow> string \<Rightarrow> publishedArtifact \<Rightarrow> unit tx" where
  "insertSafeTextArtifact ref callID redaction a = insertArtifact \<lparr>art_id = pa_id a, art_dialog = ref_dialogID ref,
     art_attempt = ref_attemptID ref, art_call = nullText callID, art_name = pa_name a, art_media = pa_media a, art_size = pa_size a,
     art_sha256 = pa_hash a, art_redaction = redaction, art_truncated = False, art_disposition = safeTextDisposition,
     art_relative = pa_relative a\<rparr>"

definition loadSafeTextUsage :: "env \<Rightarrow> attemptRef \<Rightarrow> safeTextUsage tx" where
  "loadSafeTextUsage E ref =
     (let k = safeTextUsageID (env_sha E) (ref_attemptID ref) in
      bindM (readDb (\<lambda>d. sel art_id k (artifacts d))) (\<lambda>row. case row of
        None \<Rightarrow>
          bindM (publish E k '''') (\<lambda>relative.
          bindM (insertArtifact \<lparr>art_id = k, art_dialog = ref_dialogID ref, art_attempt = ref_attemptID ref,
            art_call = Some (encodeSafeTextUsage initialUsage), art_name = safeTextUsageName (ref_attemptID ref),
            art_media = safeTextUsageMediaType, art_size = 0, art_sha256 = safeTextEmptySHA256, art_redaction = ''none'',
            art_truncated = False, art_disposition = safeTextDisposition, art_relative = relative\<rparr>) (\<lambda>_.
          returnM initialUsage))
      | Some r \<Rightarrow>
          bindM (guardM (art_id r = k \<and> art_dialog r = ref_dialogID ref \<and> art_attempt r = ref_attemptID ref \<and>
            art_name r = safeTextUsageName (ref_attemptID ref) \<and> art_media r = safeTextUsageMediaType \<and> art_size r = 0 \<and>
            art_sha256 r = safeTextEmptySHA256 \<and> art_redaction r = ''none'' \<and> art_disposition r = safeTextDisposition \<and>
            art_relative r = relativePath k) (RawError ''safe text usage binding mismatch'')) (\<lambda>_.
          bindM (orElseM (readSafeTextArtifact E r) (RawError ''safe text usage artifact mismatch'')) (\<lambda>body.
          bindM (guardM (body = []) (RawError ''safe text usage artifact mismatch'')) (\<lambda>_.
          liftM (case decodeSafeTextUsage (callText r) (art_truncated r) of
            None \<Rightarrow> Inl (RawError ''safe text usage encoding is invalid'') | Some u \<Rightarrow> Inr u))))))"

definition updateSafeTextUsage :: "env \<Rightarrow> string \<Rightarrow> safeTextUsage \<Rightarrow> manifest \<Rightarrow> int \<Rightarrow> unit tx" where
  "updateSafeTextUsage E attemptID prior m bytes =
     (let next = nextUsage prior m bytes; k = safeTextUsageID (env_sha E) attemptID in
      bindM (guardM (validSafeTextUsage next) (RawError ''safe text usage update exceeds bound'')) (\<lambda>_.
      bindM (updateArtifacts (\<lambda>r. art_id r = k \<and> art_call r = Some (encodeSafeTextUsage prior) \<and> art_truncated r = stu_sealed prior \<and>
          art_media r = safeTextUsageMediaType \<and> art_disposition r = safeTextDisposition)
        (Some (encodeSafeTextUsage next)) (stu_sealed next)) (\<lambda>changed.
      guardM (changed = 1) (RawError ''safe text usage fence changed''))))"

text \<open>The chunk files, in order; the first that cannot be published ends the capture.\<close>

fun publishChunks :: "env \<Rightarrow> chunk list \<Rightarrow> string list \<Rightarrow> publishedArtifact list tx" where
  "publishChunks E (c # cs) (p # ps) =
     bindM (publish E (chk_artifact c) p) (\<lambda>relative.
     bindM (publishChunks E cs ps) (\<lambda>rest.
     returnM (\<lparr>pa_id = chk_artifact c, pa_name = safeTextChunkName (chk_index c), pa_media = safeTextChunkMediaType,
       pa_size = chk_size c, pa_hash = chk_sha256 c, pa_relative = relative\<rparr> # rest)))"
| "publishChunks E _ _ = returnM []"

definition baseManifest :: "env \<Rightarrow> attemptRef \<Rightarrow> source \<Rightarrow> string \<Rightarrow> string \<Rightarrow> bool \<Rightarrow> manifest" where
  "baseManifest E ref src value redaction upstreamIncomplete =
     \<lparr>mf_schemaId = TranscriptSchemaID, mf_nodeId = ref_nodeID ref, mf_dialogId = ref_dialogID ref, mf_attemptId = ref_attemptID ref,
      mf_generation = ref_generation ref, mf_textId = safeTextID (env_sha E) ref src, mf_source = src,
      mf_preview = safeTextPreview value, mf_previewTruncated = (upstreamIncomplete \<or> length (safeTextPreview value) \<noteq> length value),
      mf_redaction = redaction, mf_complete = False, mf_reason = '''', mf_size = int (length value), mf_sha256 = env_sha E value,
      mf_chunks = []\<rparr>"

definition storeSafeText :: "env \<Rightarrow> attemptRef \<Rightarrow> source \<Rightarrow> string \<Rightarrow> safeTextUsage \<Rightarrow> manifest \<times> string list \<times> string \<Rightarrow> unit tx" where
  "storeSafeText E ref src redaction usage = (\<lambda>(m, pieces, text).
     bindM (publishChunks E (mf_chunks m) pieces) (\<lambda>published.
     let manifestID = safeTextManifestID (env_sha E) (mf_textId m); callID = expectedSafeTextCallID src in
     bindM (publish E manifestID text) (\<lambda>relative. seqM
       (map (insertSafeTextArtifact ref callID redaction) published @
        [insertSafeTextArtifact ref callID redaction \<lparr>pa_id = manifestID, pa_name = safeTextManifestName (mf_textId m),
           pa_media = safeTextManifestMediaType, pa_size = int (length text), pa_hash = env_sha E text, pa_relative = relative\<rparr>,
         updateSafeTextUsage E (ref_attemptID ref) usage m (int (length text))]))))"

definition captureSafeText :: "env \<Rightarrow> attemptRef \<Rightarrow> source \<Rightarrow> safeContent \<Rightarrow> string option \<Rightarrow> bool \<Rightarrow> unit tx" where
  "captureSafeText E ref src content full incomplete =
     bindM (liftM (safeTextValue content full incomplete)) (\<lambda>value. case value of
       None \<Rightarrow> returnM ()
     | Some text \<Rightarrow>
         bindM (guardM (validSource src) (RawError ''transcript source is invalid'')) (\<lambda>_.
         bindM (loadSafeTextUsage E ref) (\<lambda>usage.
         bindM (attemptM (readSafeTextManifest E ref src)) (\<lambda>found. case found of
           Inr r \<Rightarrow> guardM (safeTextManifestMatches (fst r) ref src (safeTextPreview text) (sc_redaction content) (int (length text))
             (env_sha E text) incomplete) (RawError ''conflicting safe text source'')
         | Inl e \<Rightarrow>
             if e \<noteq> noRows then failM e
             else if stu_sealed usage then returnM ()
             else bindM (liftM (prepareSafeTextManifest (env_sha E) (baseManifest E ref src text (sc_redaction content) incomplete) text usage
                 incomplete)) (storeSafeText E ref src (sc_redaction content) usage)))))"

section \<open>Reads\<close>

datatype 'a read = ReadFailed result | ReadOk 'a

definition authorizeRead :: "env \<Rightarrow> trustContext \<Rightarrow> result option" where
  "authorizeRead E trust = (if tc_transportNodeID trust \<noteq> env_nodeID E
     then Some (errorResult E 404 ''not_found'' ''node was not found'' '''' None '''') else None)"

definition Invalid :: "env \<Rightarrow> string \<Rightarrow> result" where
  "Invalid E message = errorResult E 400 ''invalid'' message '''' None ''''"

text \<open>A lookup in a read transaction, whose state is dropped: an absent row and any other error have their own answers.\<close>

definition lookup :: "db \<Rightarrow> 'a tx \<Rightarrow> failure + 'a" where
  "lookup d m = (case m (beginTx d) of Inl e \<Rightarrow> Inl e | Inr (x, _) \<Rightarrow> Inr x)"

definition textError :: "env \<Rightarrow> string \<Rightarrow> string \<Rightarrow> failure \<Rightarrow> result" where
  "textError E srcID message e = (if e = noRows then errorResult E 404 ''not_found'' ''safe text was not found'' srcID None ''''
     else errorResult E 503 ''not_durable'' message srcID None '''')"

definition safeTextReference :: "string \<Rightarrow> string \<Rightarrow> attemptRef tx" where
  "safeTextReference dialogID attemptID =
     bindM (readState id) (\<lambda>s.
     bindM (readDb (\<lambda>d. List.find (\<lambda>a. att_id a = attemptID \<and> att_dialog a = dialogID \<and>
       list_ex (\<lambda>dl. dlg_id dl = dialogID \<and> dlg_node dl = NodeID s \<and> dlg_owner dl = OwnerID s) (dialogs d) \<and>
       \<not> dialogDeleted d dialogID) (attempts d))) (\<lambda>row.
     bindM (needM row) (\<lambda>a. returnM \<lparr>ref_nodeID = NodeID s, ref_dialogID = dialogID, ref_requestID = att_request a,
       ref_attemptID = attemptID, ref_generation = att_generation a\<rparr>)))"

definition SafeTextManifest :: "env \<Rightarrow> trustContext \<Rightarrow> string \<Rightarrow> string \<Rightarrow> source \<Rightarrow> db \<Rightarrow> string read" where
  "SafeTextManifest E trust dialogID attemptID src d = (case authorizeRead E trust of
     Some denied \<Rightarrow> ReadFailed denied
   | None \<Rightarrow>
       if \<not> uuidPattern dialogID \<or> \<not> uuidPattern attemptID \<or> \<not> validSource src then ReadFailed (Invalid E ''transcript source is invalid'')
       else if \<not> env_beginOk E then ReadFailed (errorResult E 503 ''not_durable'' ''safe text is unavailable'' (src_id src) None '''')
       else (case lookup d (safeTextReference dialogID attemptID) of
         Inl e \<Rightarrow> ReadFailed (textError E (src_id src) ''safe text is unavailable'' e)
       | Inr ref \<Rightarrow> (case lookup d (readSafeTextManifest E ref src) of
           Inl e \<Rightarrow> ReadFailed (textError E (src_id src) ''safe text manifest mismatch'' e)
         | Inr r \<Rightarrow> ReadOk (snd r))))"

definition validSafeTextHash :: "string \<Rightarrow> bool" where
  "validSafeTextHash value \<longleftrightarrow> length value = 64 \<and> list_all is_lower_hex value"

definition SafeTextChunk :: "env \<Rightarrow> trustContext \<Rightarrow> string \<Rightarrow> string \<Rightarrow> string \<Rightarrow> source \<Rightarrow> int \<Rightarrow> string \<Rightarrow> int \<Rightarrow> string \<Rightarrow> db \<Rightarrow>
    (string \<times> chunk \<times> string) read" where
  "SafeTextChunk E trust dialogID attemptID textID src chunkIndex artifactID bytes hash d =
     (let missing = errorResult E 404 ''not_found'' ''safe text chunk was not found'' (src_id src) None '''' in
      case authorizeRead E trust of
     Some denied \<Rightarrow> ReadFailed denied
   | None \<Rightarrow>
       if \<not> uuidPattern dialogID \<or> \<not> uuidPattern attemptID \<or> \<not> uuidPattern textID \<or> \<not> uuidPattern artifactID \<or> chunkIndex < 0 \<or>
          MaximumSafeInteger < chunkIndex \<or> bytes < 1 \<or> int MaximumChunkBytes < bytes \<or> \<not> validSafeTextHash hash \<or> \<not> validSource src
       then ReadFailed (Invalid E ''transcript chunk is invalid'')
       else if \<not> env_beginOk E then ReadFailed (errorResult E 503 ''not_durable'' ''safe text is unavailable'' (src_id src) None '''')
       else (case lookup d (safeTextReference dialogID attemptID) of
         Inl e \<Rightarrow> ReadFailed (textError E (src_id src) ''safe text is unavailable'' e)
       | Inr ref \<Rightarrow> (case lookup d (readSafeTextManifest E ref src) of
           Inl e \<Rightarrow> ReadFailed (textError E (src_id src) ''safe text manifest mismatch'' e)
         | Inr (m, _) \<Rightarrow>
             if \<not> mf_complete m \<or> mf_textId m \<noteq> textID \<or> int (length (mf_chunks m)) \<le> chunkIndex then ReadFailed missing
             else let c = mf_chunks m ! nat chunkIndex in
               if chk_index c \<noteq> chunkIndex \<or> chk_artifact c \<noteq> artifactID \<or> chk_size c \<noteq> bytes \<or> chk_sha256 c \<noteq> hash
               then ReadFailed missing
               else (case lookup d (selectArtifact artifactID) of
                 Inl e \<Rightarrow> ReadFailed (errorResult E 503 ''not_durable'' ''safe text chunk is unavailable'' (src_id src) None '''')
               | Inr r \<Rightarrow> (case lookup d (readSafeTextArtifact E r) of
                   Inl e \<Rightarrow> ReadFailed (errorResult E 503 ''not_durable'' ''safe text chunk mismatch'' (src_id src) None '''')
                 | Inr body \<Rightarrow> ReadOk (mf_textId m, c, body))))))"

section \<open>Contracts kept\<close>

text \<open>What the queue and the slot read of the node state.\<close>

definition desk :: "durableState \<Rightarrow> string \<times> string option \<times> int \<times> int" where
  "desk s = (NodeID s, ActiveAttemptID s, PendingCount s, NextQueueSequence s)"

text \<open>What only reads the ledger and the files moves at most the counters of the clock and of the ids.\<close>

locale read_rel = preorder_rel R for R :: "txn \<Rightarrow> txn \<Rightarrow> bool" +
  assumes A_ticks: "R t (t\<lparr>tx_ticks := n\<rparr>)"
    and A_ids: "R t (t\<lparr>tx_ids := n\<rparr>)"
begin

lemma keeps_read_pure [keeps_rules]:
  "keeps R (readDb g1)" "keeps R (readState g2)" "keeps R (timestamp E)" "keeps R (newID E)" "keeps R (constraintM P0)" "keeps R (fileAt E k)"
  by (auto simp: keeps_def R_refl A_ticks A_ids)

lemma keeps_file [keeps_rules]: "(\<And>b. keeps R (f b)) \<Longrightarrow> keeps R m \<Longrightarrow> keeps R (case x of FileBytes b \<Rightarrow> f b | FileUnsafe \<Rightarrow> m)"
  by (cases x) simp_all

lemma keeps_seq_append [keeps_rules]: "(\<And>x. keeps R (f x)) \<Longrightarrow> keeps R (seqM ms) \<Longrightarrow> keeps R (seqM (map f xs @ ms))"
  by (induction xs) (auto intro: keeps_seq_Cons simp del: seqM.simps)

lemma keeps_seq_map [keeps_rules]: "(\<And>x. keeps R (f x)) \<Longrightarrow> keeps R (seqM (map f xs))"
  using keeps_seq_append [of f "[]" xs] keeps_seq_Nil by simp

lemma keeps_readArtifactFile [keeps_rules]: "keeps R (readArtifactFile E p a n h)"
  unfolding readArtifactFile_def by (intro keeps_rules)

lemma keeps_readSafeTextArtifact [keeps_rules]: "keeps R (readSafeTextArtifact E r)"
  unfolding readSafeTextArtifact_def by (intro keeps_rules)

lemma keeps_selectArtifact [keeps_rules]: "keeps R (selectArtifact k)"
  unfolding selectArtifact_def by (intro keeps_rules)

lemma keeps_readSafeTextManifest [keeps_rules]: "keeps R (readSafeTextManifest E ref src)"
  unfolding readSafeTextManifest_def validateSafeTextRows_def by (intro keeps_rules)

lemma keeps_validateExistingSafeTextReplay [keeps_rules]: "keeps R (validateExistingSafeTextReplay E ref src c f i)"
  unfolding validateExistingSafeTextReplay_def by (intro keeps_rules)

end

text \<open>
  A weaker contract than \<open>tx_rel\<close>, for the relations that look at the queue or at the slot: what
  recording an output writes, the charge and the stop of an exceeded budget included, keeps them.
\<close>

locale archive_rel = read_rel R for R :: "txn \<Rightarrow> txn \<Rightarrow> bool" +
  assumes A_created: "R t (t\<lparr>tx_created := fs\<rparr>)"
    and A_state: "(\<And>s. desk (f s) = desk s) \<Longrightarrow> (\<And>s. frozen (f s) = frozen s) \<Longrightarrow> (\<And>s. advances s (f s)) \<Longrightarrow> keeps R (writeState f)"
    and A_insertMessage: "keeps R (insertMessage r2)"
    and A_insertTool: "keeps R (insertTool r6)"
    and A_updateTool: "(\<And>r. tc_id (f6 r) = tc_id r) \<Longrightarrow> keeps R (updateTool k f6)"
    and A_insertArtifact: "keeps R (insertArtifact r12)"
    and A_updateArtifacts: "keeps R (updateArtifacts P12 c12 b12)"
    and A_insertApproval: "keeps R (insertApproval r7)"
    and A_insertInput: "keeps R (insertInput r8)"
    and A_appendEvent: "keeps R (appendEvent E i v a dl pl late)"
    and A_bindEvent: "keeps R (bindEvent P9 k h)"
    and A_insertLate: "keeps R (insertLate r10)"
    and A_setOutput: "keeps R (setOutput a1 n1)"
    and A_limitStop: "keeps R (scheduleOutputLimitStop E ref)"

sublocale tx_rel \<subseteq> arc: archive_rel R
  by unfold_locales (auto intro: R_ticks R_ids R_created keeps_rules)

text \<open>Captures and their reads within this contract.\<close>

context archive_rel
begin

lemma keeps_newFile [keeps_rules]: "keeps R (createFile k c)"
  by (auto simp: keeps_def R_refl A_created)

lemmas archive_stmts [keeps_rules] = A_state A_insertMessage A_insertTool A_updateTool A_insertArtifact A_updateArtifacts
  A_insertApproval A_insertInput A_appendEvent A_bindEvent A_insertLate A_setOutput A_limitStop

lemma keeps_charges [keeps_rules]:
  "keeps R (chargeAttemptOutput a n)" "keeps R (chargeArchivedAttemptOutput a n)" "keeps R (chargeSafeOutput a c)"
  unfolding chargeAttemptOutput_def chargeArchivedAttemptOutput_def chargeSafeOutput_def by (intro keeps_rules)+

lemma keeps_markers [keeps_rules]: "keeps R (recordAdapterProjection E sq a k v)" "keeps R (appendArtifactOutputLimitMarker E ref)"
  unfolding recordAdapterProjection_def appendArtifactOutputLimitMarker_def
  by (intro keeps_rules; simp add: desk_def state_laws core_defs)+

lemma keeps_publish [keeps_rules]: "keeps R (publish E a c)"
  unfolding publish_def by (intro keeps_rules)

lemma keeps_loadSafeTextUsage [keeps_rules]: "keeps R (loadSafeTextUsage E ref)"
  unfolding loadSafeTextUsage_def by (intro keeps_rules)

lemma keeps_updateSafeTextUsage [keeps_rules]: "keeps R (updateSafeTextUsage E a u m n)"
  unfolding updateSafeTextUsage_def by (intro keeps_rules)

lemma keeps_publishChunks [keeps_rules]: "keeps R (publishChunks E cs ps)"
  by (induction E cs ps rule: publishChunks.induct) (simp_all, (intro keeps_rules | assumption)+)

lemma keeps_storeSafeText [keeps_rules]: "keeps R (storeSafeText E ref src red u p)"
  unfolding storeSafeText_def insertSafeTextArtifact_def by (intro keeps_rules)

lemma keeps_captureSafeText [keeps_rules]: "keeps R (captureSafeText E ref src c f i)"
  unfolding captureSafeText_def by (intro keeps_rules)

end

end
