(* ===== verification/Adapter_Events.thy ===== *)
theory Adapter_Events
  imports Safe_Text
begin

text \<open>
  The events of an adapter, \<open>internal/harnessadapter/adapter.go\<close>, and their projection into the ledger,
  \<open>ObserveAdapterEvent\<close> of \<open>runtime/observe.go\<close>. An event of the running attempt becomes exactly one
  event of the log, bound to a key and a digest by which a replay is recognised; an event of an attempt
  that no longer runs, or a question from one that is being stopped, goes to the archive.
\<close>

section \<open>Events\<close>

record failureInfo =
  fl_class :: string
  fl_code :: string
  fl_message :: string
  fl_retryable :: bool

text \<open>\<open>FullText\<close> with \<open>FullTextIncomplete\<close>; neither is marshalled.\<close>

type_synonym fullText = "string option \<times> bool"

datatype adapterEvent =
    StartedEvent
  | WaitingEvent string
  | AssistantDeltaEvent string int safeContent
  | AssistantMessageEvent string safeContent string fullText
  | ToolStartedEvent string string string safeContent fullText
  | ToolOutputEvent string int string safeContent fullText
  | ToolCompletedEvent string string safeContent string string fullText
  | ApprovalRequestedEvent string string string string
  | InputRequestedEvent string safeContent
  | TerminalEvent string "safeContent option" "usage option" "failureInfo option" string
  | UnknownEvent string string

definition orNull :: "('a \<Rightarrow> json) \<Rightarrow> 'a option \<Rightarrow> json" where
  "orNull f x = (case x of None \<Rightarrow> JNull | Some v \<Rightarrow> f v)"

definition failure_json :: "failureInfo \<Rightarrow> json" where
  "failure_json f = JObj [(''Class'', JStr (fl_class f)), (''Code'', JStr (fl_code f)), (''SafeMessage'', JStr (fl_message f)),
     (''Retryable'', JBool (fl_retryable f))]"

fun eventMembers :: "adapterEvent \<Rightarrow> (string \<times> json) list" where
  "eventMembers StartedEvent = []"
| "eventMembers (WaitingEvent k) = [(''Kind'', JStr k)]"
| "eventMembers (AssistantDeltaEvent m i c) = [(''MessageID'', JStr m), (''DeltaIndex'', JInt i), (''Content'', safeContent_json c)]"
| "eventMembers (AssistantMessageEvent m c fin _) = [(''MessageID'', JStr m), (''Content'', safeContent_json c), (''FinishReason'', JStr fin)]"
| "eventMembers (ToolStartedEvent c n h inp _) = [(''CallID'', JStr c), (''ToolName'', JStr n), (''ActionHash'', JStr h), (''Input'', safeContent_json inp)]"
| "eventMembers (ToolOutputEvent c i st out _) = [(''CallID'', JStr c), (''ChunkIndex'', JInt i), (''Stream'', JStr st), (''Output'', safeContent_json out)]"
| "eventMembers (ToolCompletedEvent c st res eff ef _) = [(''CallID'', JStr c), (''Status'', JStr st), (''Result'', safeContent_json res),
     (''EffectStatus'', JStr eff), (''EffectRef'', JStr ef)]"
| "eventMembers (ApprovalRequestedEvent a c h p) = [(''ApprovalID'', JStr a), (''CallID'', JStr c), (''ActionHash'', JStr h), (''SafePrompt'', JStr p)]"
| "eventMembers (InputRequestedEvent i p) = [(''InputRequestID'', JStr i), (''Prompt'', safeContent_json p)]"
| "eventMembers (TerminalEvent oc out us fl eff) = [(''Outcome'', JStr oc), (''Output'', orNull safeContent_json out), (''Usage'', orNull usage_json us),
     (''Failure'', orNull failure_json fl), (''EffectStatus'', JStr eff)]"
| "eventMembers (UnknownEvent why eff) = [(''Reason'', JStr why), (''EffectStatus'', JStr eff)]"

definition adapterEvent_json :: "attemptRef \<Rightarrow> adapterEvent \<Rightarrow> json" where
  "adapterEvent_json ref ev = JObj ((''Attempt'', ref_json ref) # eventMembers ev)"

definition isInteractiveWaitEvent :: "adapterEvent \<Rightarrow> bool" where
  "isInteractiveWaitEvent ev = (case ev of WaitingEvent _ \<Rightarrow> True | ApprovalRequestedEvent _ _ _ _ \<Rightarrow> True | InputRequestedEvent _ _ \<Rightarrow> True
     | _ \<Rightarrow> False)"

text \<open>\<open>adapterEventSafeText\<close>: the events that carry a full text, with the source it belongs to.\<close>

definition adapterEventSafeText :: "adapterEvent \<Rightarrow> (source \<times> safeContent \<times> string option \<times> bool) option" where
  "adapterEventSafeText ev = (case ev of
     AssistantMessageEvent m c _ (full, inc) \<Rightarrow>
       Some (\<lparr>src_kind = ''assistant_message'', src_id = m, src_index = 0, src_stream = ''none''\<rparr>, c, full, inc)
   | ToolStartedEvent call _ _ c (full, inc) \<Rightarrow>
       Some (\<lparr>src_kind = ''tool_input'', src_id = call, src_index = 0, src_stream = ''none''\<rparr>, c, full, inc)
   | ToolOutputEvent call i st c (full, inc) \<Rightarrow>
       Some (\<lparr>src_kind = ''tool_output'', src_id = call, src_index = i, src_stream = st\<rparr>, c, full, inc)
   | ToolCompletedEvent call _ c _ _ (full, inc) \<Rightarrow>
       Some (\<lparr>src_kind = ''tool_result'', src_id = call, src_index = 0, src_stream = ''none''\<rparr>, c, full, inc)
   | _ \<Rightarrow> None)"

definition captureAdapterEventSafeText :: "env \<Rightarrow> bool \<Rightarrow> attemptRef \<Rightarrow> adapterEvent \<Rightarrow> unit tx" where
  "captureAdapterEventSafeText E publication ref ev = (case adapterEventSafeText ev of
     None \<Rightarrow> returnM ()
   | Some (src, c, full, inc) \<Rightarrow>
       bindM (guardM publication (RawError ''safe text publication is unavailable'')) (\<lambda>_. captureSafeText E ref src c full inc))"

definition validateAdapterEventSafeTextReplay :: "env \<Rightarrow> attemptRef \<Rightarrow> adapterEvent \<Rightarrow> unit tx" where
  "validateAdapterEventSafeTextReplay E ref ev = (case adapterEventSafeText ev of
     None \<Rightarrow> returnM ()
   | Some (src, c, full, inc) \<Rightarrow> validateExistingSafeTextReplay E ref src c full inc)"

section \<open>Projections\<close>

text \<open>\<open>archivedTerminalIdentity\<close>, and the value a projection is hashed by.\<close>

record terminalIdentity =
  ti_outcome :: string
  ti_output :: "safeContent option"
  ti_usage :: "usage option"
  ti_failure :: "failureInfo option"
  ti_effect :: string

definition identity_json :: "terminalIdentity \<Rightarrow> json" where
  "identity_json i = JObj [(''Outcome'', JStr (ti_outcome i)), (''Output'', orNull safeContent_json (ti_output i)),
     (''Usage'', orNull usage_json (ti_usage i)), (''Failure'', orNull failure_json (ti_failure i)), (''EffectStatus'', JStr (ti_effect i))]"

datatype hashPayload = HashEvent | HashPayload payload | HashIdentity terminalIdentity

record adapterProjection =
  pj_entity :: string
  pj_version :: int
  pj_payload :: payload
  pj_hash :: hashPayload
  pj_key :: string
  pj_outputLimit :: bool
  pj_markerOnly :: bool

definition hashed_json :: "adapterProjection \<Rightarrow> json" where
  "hashed_json p = (case pj_hash p of HashEvent \<Rightarrow> payload_json (pj_payload p) | HashPayload pl \<Rightarrow> payload_json pl
     | HashIdentity i \<Rightarrow> identity_json i)"

definition adapterProjectionDigest :: "env \<Rightarrow> adapterProjection \<Rightarrow> string" where
  "adapterProjectionDigest E p = adapterProjectionHash E (hashed_json p)"

definition projection :: "string \<Rightarrow> int \<Rightarrow> payload \<Rightarrow> hashPayload \<Rightarrow> string \<Rightarrow> adapterProjection" where
  "projection i v pl h k = \<lparr>pj_entity = i, pj_version = v, pj_payload = pl, pj_hash = h, pj_key = k, pj_outputLimit = False, pj_markerOnly = False\<rparr>"

definition safeContentEqual :: "env \<Rightarrow> safeContent \<Rightarrow> safeContent \<Rightarrow> bool" where
  "safeContentEqual E l r \<longleftrightarrow> adapterProjectionHash E (safeContent_json l) = adapterProjectionHash E (safeContent_json r)"

definition validateAdapterProjectionEnvelope :: "env \<Rightarrow> attemptRef \<Rightarrow> adapterProjection \<Rightarrow> unit tx" where
  "validateAdapterProjectionEnvelope E ref p =
     bindM (readState id) (\<lambda>s.
     bindM (timestamp E) (\<lambda>now.
     guardM (Validate ''event'' (event_json \<lparr>ev_nodeId = NodeID s, ev_seq = LastEventSeq s + 1, ev_epoch = Epoch s, ev_entityId = pj_entity p,
       ev_entityVersion = pj_version p, ev_attemptId = ref_attemptID ref, ev_dialogId = ref_dialogID ref, ev_observedAt = now,
       ev_payload = pj_payload p\<rparr>)) (RawError ''adapter projection is invalid'')))"

text \<open>A stored digest under a key of the attempt: absent, or its text. Scanning a null digest is an error.\<close>

definition storedDigest :: "(string option \<times> string option \<times> string option) list \<Rightarrow> string \<Rightarrow> string \<Rightarrow> failure + string option" where
  "storedDigest rows attID key = (case List.find (\<lambda>(a, k, _). a = Some attID \<and> k = Some key) rows of
     None \<Rightarrow> Inr None
   | Some (_, _, None) \<Rightarrow> Inl (RawError ''converting NULL to string is unsupported'')
   | Some (_, _, Some h) \<Rightarrow> Inr (Some h))"

definition eventDigests :: "db \<Rightarrow> (string option \<times> string option \<times> string option) list" where
  "eventDigests d = map (\<lambda>e. (evt_attempt e, evt_key e, evt_hash e)) (events d)"

definition lateDigests :: "db \<Rightarrow> (string option \<times> string option \<times> string option) list" where
  "lateDigests d = map (\<lambda>l. (Some (late_attempt l), late_key l, late_hash l)) (late_observations d)"

definition adapterProjectionExists :: "env \<Rightarrow> string \<Rightarrow> adapterProjection \<Rightarrow> bool tx" where
  "adapterProjectionExists E attID p =
     bindM (readDb eventDigests) (\<lambda>rows.
     bindM (liftM (storedDigest rows attID (pj_key p))) (\<lambda>stored. case stored of
       None \<Rightarrow> returnM False
     | Some h \<Rightarrow> bindM (guardM (h = adapterProjectionDigest E p) (RawError ''conflicting duplicate adapter event'')) (\<lambda>_. returnM True)))"

definition recordProjection :: "env \<Rightarrow> string \<Rightarrow> adapterProjection \<Rightarrow> unit tx" where
  "recordProjection E attID p = bindM (readState LastEventSeq) (\<lambda>sq. recordAdapterProjection E sq attID (pj_key p) (hashed_json p))"

section \<open>Content\<close>

text \<open>\<open>validateSafeContentReference\<close>: an artifact reference names an artifact of the attempt with the same metadata.\<close>

definition validateSafeContentReference :: "attemptRef \<Rightarrow> safeContent \<Rightarrow> string \<Rightarrow> bool \<Rightarrow> unit tx" where
  "validateSafeContentReference ref c expectedCallID bindCall =
     (if sc_kind c \<noteq> ''artifact'' then returnM ()
      else (case sc_sizeBytes c of
        None \<Rightarrow> failM (RawError ''artifact safe content is missing size'')
      | Some n \<Rightarrow>
          bindM (readDb (\<lambda>d. List.find (\<lambda>r. art_id r = sc_artifactId c \<and> art_dialog r = ref_dialogID ref \<and>
            art_attempt r = ref_attemptID ref) (artifacts d))) (\<lambda>row.
          bindM (needM row) (\<lambda>r.
          guardM (art_size r = n \<and> art_sha256 r = sc_sha256 c \<and> art_redaction r = sc_redaction c \<and> art_truncated r = sc_truncated c \<and>
              (art_disposition r = ''inline'' \<or> art_disposition r = ''attachment'') \<and> (\<not> bindCall \<or> callText r = expectedCallID))
            (RawError ''artifact safe content binding mismatch'')))))"

text \<open>The content of an event with the call it is bound to; an event without content is not checked.\<close>

definition eventContent :: "adapterEvent \<Rightarrow> (safeContent \<times> string \<times> bool) option" where
  "eventContent ev = (case ev of
     AssistantDeltaEvent _ _ c \<Rightarrow> Some (c, '''', False)
   | AssistantMessageEvent _ c _ _ \<Rightarrow> Some (c, '''', False)
   | ToolStartedEvent call _ _ c _ \<Rightarrow> Some (c, call, True)
   | ToolOutputEvent call _ _ c _ \<Rightarrow> Some (c, call, True)
   | ToolCompletedEvent call _ c _ _ _ \<Rightarrow> Some (c, call, True)
   | InputRequestedEvent _ c \<Rightarrow> Some (c, '''', False)
   | TerminalEvent _ out _ _ _ \<Rightarrow> map_option (\<lambda>c. (c, '''', False)) out
   | _ \<Rightarrow> None)"

definition validateAdapterEventSafeContent :: "attemptRef \<Rightarrow> adapterEvent \<Rightarrow> unit tx" where
  "validateAdapterEventSafeContent ref ev = (case eventContent ev of
     None \<Rightarrow> returnM ()
   | Some (c, call, bound) \<Rightarrow> if sc_kind c = '''' then returnM () else validateSafeContentReference ref c call bound)"

definition selectTool :: "string \<Rightarrow> string \<Rightarrow> toolRow tx" where
  "selectTool call attID = bindM (readDb (\<lambda>d. List.find (\<lambda>r. tc_id r = call \<and> tc_attempt r = attID) (tool_calls d))) needM"

definition inlineBytes :: "safeContent \<Rightarrow> int" where
  "inlineBytes c = (if sc_kind c = ''inline'' then int (length (sc_content c)) else 0)"

definition archivedAdapterOutputBytes :: "adapterEvent \<Rightarrow> int" where
  "archivedAdapterOutputBytes ev = (case ev of
     ApprovalRequestedEvent _ _ _ prompt \<Rightarrow> int (length prompt)
   | TerminalEvent _ out _ fl _ \<Rightarrow> (case fl of None \<Rightarrow> 0 | Some f \<Rightarrow> int (length (fl_message f))) +
       (case out of None \<Rightarrow> 0 | Some c \<Rightarrow> inlineBytes c)
   | _ \<Rightarrow> (case eventContent ev of None \<Rightarrow> 0 | Some (c, _) \<Rightarrow> inlineBytes c))"

text \<open>The payload with its content replaced by the marker of an exceeded budget.\<close>

fun limitPayload :: "payload \<Rightarrow> payload option" where
  "limitPayload (PAssistantDelta m i c) = Some (PAssistantDelta m i outputLimitContent)"
| "limitPayload (PAssistantMessage m c fin) = Some (PAssistantMessage m outputLimitContent fin)"
| "limitPayload (PToolStarted c n h inp) = Some (PToolStarted c n h outputLimitContent)"
| "limitPayload (PToolOutput c i st out) = Some (PToolOutput c i st outputLimitContent)"
| "limitPayload (PToolCompleted c st res eff ef) = Some (PToolCompleted c st outputLimitContent eff ef)"
| "limitPayload (PInputRequested i p v) = Some (PInputRequested i outputLimitContent v)"
| "limitPayload _ = None"

section \<open>The archive\<close>

definition tagged :: "string \<Rightarrow> string list \<Rightarrow> string" where
  "tagged tag parts = joinWith '':'' (tag # parts)"

definition prepareLateProjection :: "attemptRef \<Rightarrow> adapterEvent \<Rightarrow> int \<Rightarrow> failure + adapterProjection" where
  "prepareLateProjection ref ev v =
     (let req = ref_requestID ref; g = ref_generation ref; a = ref_attemptID ref;
          same = (\<lambda>i n pl k. Inr (projection i n pl (HashPayload pl) (''archive:'' @ k))) in
      case ev of
        StartedEvent \<Rightarrow> same a v (PAttemptStarted req g) ''started''
      | WaitingEvent k \<Rightarrow> same a v (PAttemptWaiting req g k) (tagged ''waiting'' [formatInt v])
      | AssistantDeltaEvent m i c \<Rightarrow> same m (i + 1) (PAssistantDelta m i c) (tagged ''assistant.delta'' [m, formatInt i])
      | AssistantMessageEvent m c fin _ \<Rightarrow> same m 1 (PAssistantMessage m c fin) (tagged ''assistant.message'' [m])
      | ToolStartedEvent c n h inp _ \<Rightarrow> same c 1 (PToolStarted c n h inp) (tagged ''tool.started'' [c])
      | ToolOutputEvent c i st out _ \<Rightarrow> same c (i + 1) (PToolOutput c i st out) (tagged ''tool.output'' [c, formatInt i])
      | ToolCompletedEvent c st res eff ef _ \<Rightarrow> same c 1 (PToolCompleted c st res eff ef) (tagged ''tool.completed'' [c])
      | ApprovalRequestedEvent i c h p \<Rightarrow> same i 1 (PApprovalRequested i c h p 1) (tagged ''approval.requested'' [i])
      | InputRequestedEvent i p \<Rightarrow> same i 1 (PInputRequested i p 1) (tagged ''input.requested'' [i])
      | UnknownEvent why eff \<Rightarrow> same a v (PAttemptUnknown g why eff) ''unknown''
      | TerminalEvent oc out us fl eff0 \<Rightarrow>
          (let eff = (if eff0 = '''' then ''none'' else eff0);
               final = (\<lambda>pl. Inr (projection a v pl
                 (HashIdentity \<lparr>ti_outcome = oc, ti_output = out, ti_usage = us, ti_failure = fl, ti_effect = eff\<rparr>) ''archive:terminal'')) in
           if oc = ''completed'' then final (PAttemptCompleted g OutEmpty us)
           else if oc = ''failed'' then (case fl of
               None \<Rightarrow> Inl (RawError ''late failure is missing failure'')
             | Some f \<Rightarrow> final (PAttemptFailed g (fl_class f) (fl_code f) (fl_message f) (fl_retryable f) eff))
           else if oc = ''interrupted'' then final (PAttemptInterrupted g ''provider_interrupt'' eff)
           else Inl (RawError ''unsupported late adapter event'')))"

definition validateArchivedAdapterEvent :: "env \<Rightarrow> attemptRef \<Rightarrow> adapterEvent \<Rightarrow> adapterProjection \<Rightarrow> unit tx" where
  "validateArchivedAdapterEvent E ref ev p = seqM
     [validateAdapterEventSafeContent ref ev,
      (case ev of
         ToolOutputEvent c _ _ _ _ \<Rightarrow> bindM (selectTool c (ref_attemptID ref)) (\<lambda>_. returnM ())
       | ToolCompletedEvent c _ _ _ _ _ \<Rightarrow> bindM (selectTool c (ref_attemptID ref)) (\<lambda>_. returnM ())
       | ApprovalRequestedEvent _ c h _ \<Rightarrow> bindM (selectTool c (ref_attemptID ref)) (\<lambda>r.
           guardM (tc_actionHash r = h) (RawError ''archived approval action hash mismatch''))
       | TerminalEvent _ _ _ _ eff \<Rightarrow> guardM (eff = ''none'' \<or> eff = ''known'' \<or> eff = ''unknown'')
           (RawError ''archived terminal effect status is invalid'')
       | _ \<Rightarrow> returnM ()),
      validateAdapterProjectionEnvelope E ref p]"

definition lastAssistantMessage :: "db \<Rightarrow> string \<Rightarrow> messageRow option" where
  "lastAssistantMessage d attID = first_by (\<lambda>m. - msg_sequence m)
     (filter (\<lambda>m. msg_attempt m = Some attID \<and> msg_role m = ''assistant'') (messages d))"

text \<open>
  \<open>activeTerminalProjectionDigest\<close>: the digest the running attempt would have recorded for this terminal;
  empty when the stored assistant message is not the output the event names.
\<close>

definition activeTerminalProjectionDigest :: "env \<Rightarrow> db \<Rightarrow> string \<Rightarrow> adapterProjection \<Rightarrow> string" where
  "activeTerminalProjectionDigest E d attID p =
     (let output = (case pj_hash p of HashIdentity i \<Rightarrow> ti_output i | _ \<Rightarrow> None) in
      case pj_payload p of
        PAttemptCompleted g _ us \<Rightarrow> (case lastAssistantMessage d attID of
            Some m \<Rightarrow>
              (if output \<noteq> None \<and> \<not> (case msg_content m of Some c \<Rightarrow> safeContentEqual E c (the output) | None \<Rightarrow> False) then ''''
               else adapterProjectionHash E (payload_json (PAttemptCompleted g (OutMessage (msg_id m)) us)))
          | None \<Rightarrow> if output \<noteq> None then '''' else adapterProjectionHash E (payload_json (pj_payload p)))
      | _ \<Rightarrow> adapterProjectionHash E (payload_json (pj_payload p)))"

text \<open>\<open>strings.TrimPrefix\<close>.\<close>

definition trimPrefix :: "string \<Rightarrow> string \<Rightarrow> string" where
  "trimPrefix pre s = (if take (length pre) s = pre then drop (length pre) s else s)"

definition activeKey :: "string \<Rightarrow> string" where
  "activeKey key = (let k = trimPrefix ''archive:'' key in
     if take 9 k = ''terminal:'' then ''terminal'' else if k = ''unknown'' then '''' else k)"

definition archivedAs :: "env \<Rightarrow> string \<Rightarrow> adapterProjection \<Rightarrow> (string option \<times> string option \<times> string option) list \<Rightarrow> failure + bool" where
  "archivedAs E attID p rows = (case storedDigest rows attID (pj_key p) of
     Inl e \<Rightarrow> Inl e
   | Inr None \<Rightarrow> Inr False
   | Inr (Some h) \<Rightarrow> if h \<noteq> adapterProjectionDigest E p then Inl (RawError ''conflicting duplicate archived adapter event'') else Inr True)"

definition archivedProjectionExists :: "env \<Rightarrow> db \<Rightarrow> string \<Rightarrow> adapterProjection \<Rightarrow> failure + bool" where
  "archivedProjectionExists E d attID p =
     (let want = adapterProjectionDigest E p; k = activeKey (pj_key p); isTerminal = (k = ''terminal'');
          stored = (case archivedAs E attID p (eventDigests d) of
            Inl e \<Rightarrow> Inl e | Inr True \<Rightarrow> Inr True | Inr False \<Rightarrow> archivedAs E attID p (lateDigests d)) in
      if list_ex (\<lambda>e. evt_attempt e = Some attID \<and> evt_hash e = Some want \<and> evt_key e \<noteq> None) (events d) then Inr True
      else if k = '''' then stored
      else (case storedDigest (eventDigests d) attID k of
        Inl e \<Rightarrow> Inl e
      | Inr None \<Rightarrow> stored
      | Inr (Some h) \<Rightarrow>
          if isTerminal \<and> h = activeTerminalProjectionDigest E d attID p then Inr True
          else if h \<noteq> want \<and> \<not> isTerminal \<and> take 8 k \<noteq> ''waiting:'' then Inl (RawError ''conflicting duplicate archived adapter event'')
          else stored))"

definition archivedOutputLimitProjection :: "env \<Rightarrow> adapterProjection \<Rightarrow> adapterProjection tx" where
  "archivedOutputLimitProjection E p = (case limitPayload (pj_payload p) of
     Some pl \<Rightarrow> returnM (p\<lparr>pj_payload := pl\<rparr>)
   | None \<Rightarrow> bindM (newID E) (\<lambda>messageID.
       returnM (p\<lparr>pj_entity := messageID, pj_version := 1, pj_payload := PAssistantMessage messageID outputLimitContent ''length''\<rparr>)))"

text \<open>The archive row, and for a late event also an event of the log that is marked late.\<close>

definition storeArchived :: "env \<Rightarrow> attemptRef \<Rightarrow> adapterEvent \<Rightarrow> adapterProjection \<Rightarrow> adapterProjection \<Rightarrow> bool \<Rightarrow> string \<Rightarrow> bool \<Rightarrow> int \<Rightarrow> unit tx" where
  "storeArchived E ref ev p archived suppressed kindOverride limited ledgerBytes = bindM
     (if suppressed then returnM ()
      else seqM
        [appendEvent E (pj_entity archived) (pj_version archived) (ref_attemptID ref) (ref_dialogID ref) (pj_payload archived) True,
         recordProjection E (ref_attemptID ref) p]) (\<lambda>_.
     bindM (readState LastEventSeq) (\<lambda>sq.
     bindM (timestamp E) (\<lambda>now.
     insertLate \<lparr>late_attempt = ref_attemptID ref, late_generation = ref_generation ref,
       late_kind = (if kindOverride \<noteq> '''' then kindOverride
         else if suppressed then ''suppressed.'' @ payload_type (pj_payload p) else payload_type (pj_payload p)),
       late_json = (if limited then safeContent_json outputLimitContent else adapterEvent_json ref ev), late_seq = sq, late_observed = now,
       late_key = Some (pj_key p), late_hash = Some (adapterProjectionDigest E p), late_output = ledgerBytes\<rparr>)))"

definition archiveAdapterEvent :: "env \<Rightarrow> bool \<Rightarrow> attemptRef \<Rightarrow> adapterEvent \<Rightarrow> int \<Rightarrow> bool \<Rightarrow> string \<Rightarrow> unit tx" where
  "archiveAdapterEvent E publication ref ev attemptVersion suppressed kindOverride =
     bindM (liftM (prepareLateProjection ref ev attemptVersion)) (\<lambda>p.
     bindM (validateArchivedAdapterEvent E ref ev p) (\<lambda>_.
     bindM (readDb id) (\<lambda>d.
     bindM (liftM (archivedProjectionExists E d (ref_attemptID ref) p)) (\<lambda>duplicate.
     if duplicate then validateAdapterEventSafeTextReplay E ref ev
     else bindM (captureAdapterEventSafeText E publication ref ev) (\<lambda>_.
       bindM (chargeArchivedAttemptOutput (ref_attemptID ref) (archivedAdapterOutputBytes ev)) (\<lambda>(charge, ledgerBytes).
       if charge = Exceeded then returnM ()
       else if charge = Charged then storeArchived E ref ev p p suppressed kindOverride False ledgerBytes
       else bindM (archivedOutputLimitProjection E p) (\<lambda>archived. seqM
         [validateAdapterProjectionEnvelope E ref archived,
          storeArchived E ref ev p archived suppressed kindOverride True ledgerBytes,
          scheduleOutputLimitStop E ref])))))))"

section \<open>Projecting the events of the running attempt\<close>

definition transitionWaiting :: "env \<Rightarrow> attemptRef \<Rightarrow> int \<Rightarrow> attempt_state \<Rightarrow> string \<Rightarrow> unit tx" where
  "transitionWaiting E ref attemptVersion st waitKind = seqM
     [guardM (st = ARunning \<or> st = AWaitingInput) (RawError ''attempt cannot enter waiting_input''),
      updateAttempt (ref_attemptID ref) (\<lambda>a. a\<lparr>att_version := att_version a + 1, att_state := AWaitingInput\<rparr>),
      writeState (\<lambda>s. s\<lparr>StateVersion := StateVersion s + 1\<rparr>),
      appendEvent E (ref_attemptID ref) (attemptVersion + 1) (ref_attemptID ref) (ref_dialogID ref)
        (PAttemptWaiting (ref_requestID ref) (ref_generation ref) waitKind) False]"

text \<open>
  \<open>chargeSafeAdapterProjection\<close> and \<open>chargeAdapterProjection\<close> with the test every caller makes on their
  result: nothing more to do for a duplicate or for a budget already exceeded, the limited projection when
  this charge exceeds it.
\<close>

definition chargedProjection :: "env \<Rightarrow> attemptRef \<Rightarrow> adapterProjection \<Rightarrow> outputCharge tx \<Rightarrow> (adapterProjection \<Rightarrow> adapterProjection) \<Rightarrow>
    (adapterProjection \<times> bool) option tx" where
  "chargedProjection E ref p charge limit =
     bindM (validateAdapterProjectionEnvelope E ref p) (\<lambda>_.
     bindM (adapterProjectionExists E (ref_attemptID ref) p) (\<lambda>duplicate.
     if duplicate then returnM None
     else bindM charge (\<lambda>c. returnM
       (case c of Exceeded \<Rightarrow> None | NewlyExceeded \<Rightarrow> Some (limit p, True) | Charged \<Rightarrow> Some (p, False)))))"

definition limitProjection :: "adapterProjection \<Rightarrow> adapterProjection" where
  "limitProjection p = p\<lparr>pj_payload := (case limitPayload (pj_payload p) of Some pl \<Rightarrow> pl | None \<Rightarrow> pj_payload p), pj_outputLimit := True\<rparr>"

definition markProjection :: "adapterProjection \<Rightarrow> adapterProjection" where
  "markProjection p = p\<lparr>pj_outputLimit := True, pj_markerOnly := True\<rparr>"

text \<open>The content a projection shows.\<close>

fun payloadContent :: "payload \<Rightarrow> safeContent option" where
  "payloadContent (PAssistantMessage m c fin) = Some c"
| "payloadContent (PToolStarted c n h inp) = Some inp"
| "payloadContent (PToolCompleted c st res eff ef) = Some res"
| "payloadContent (PInputRequested i p v) = Some p"
| "payloadContent _ = None"

definition shownContent :: "adapterProjection \<Rightarrow> safeContent" where
  "shownContent p = (case payloadContent (pj_payload p) of Some c \<Rightarrow> c | None \<Rightarrow> outputLimitContent)"

definition insertAssistantMessage :: "env \<Rightarrow> attemptRef \<Rightarrow> string \<Rightarrow> safeContent \<Rightarrow> string \<Rightarrow> unit tx" where
  "insertAssistantMessage E ref messageID c finish =
     bindM (readState NextMessageSequence) (\<lambda>n.
     bindM (timestamp E) (\<lambda>now. seqM
       [insertMessage \<lparr>msg_id = messageID, msg_dialog = ref_dialogID ref, msg_sequence = n, msg_version = 1, msg_role = ''assistant'',
          msg_text = None, msg_content = Some c, msg_disposition = None, msg_command = None, msg_request = None,
          msg_attempt = Some (ref_attemptID ref), msg_finish = Some finish, msg_created = now\<rparr>,
        writeState (\<lambda>s. s\<lparr>NextMessageSequence := NextMessageSequence s + 1\<rparr>)]))"

text \<open>What a projection writes before it becomes an event; a skipped one writes nothing.\<close>

definition whenCharged :: "(adapterProjection \<times> bool) option tx \<Rightarrow> (adapterProjection \<Rightarrow> bool \<Rightarrow> unit tx) \<Rightarrow> (adapterProjection option \<times> bool) tx" where
  "whenCharged m f = bindM m (\<lambda>r. case r of
     None \<Rightarrow> returnM (None, False)
   | Some (p, exceeded) \<Rightarrow> bindM (f p exceeded) (\<lambda>_. returnM (Some p, False)))"

definition safeProjection :: "env \<Rightarrow> attemptRef \<Rightarrow> string \<Rightarrow> int \<Rightarrow> payload \<Rightarrow> string \<Rightarrow> safeContent \<Rightarrow> (adapterProjection \<times> bool) option tx" where
  "safeProjection E ref i v pl key c = chargedProjection E ref (projection i v pl (HashPayload pl) key)
     (chargeSafeOutput (ref_attemptID ref) c) limitProjection"

section \<open>Terminal events\<close>

definition terminalUnresolved :: "db \<Rightarrow> string \<Rightarrow> bool" where
  "terminalUnresolved d attID \<longleftrightarrow> list_ex (\<lambda>a. act_attempt a = attID \<and>
     (act_kind a = kind_str MessageSteer \<or> act_kind a = kind_str ApprovalRespond \<or> act_kind a = kind_str InputRespond) \<and>
     (act_status a = CPending \<or> act_status a = CInflight \<or> act_status a = CUnknown)) (control_actions d)"

text \<open>The output of a completed attempt is its last assistant message, which must be the one the event names.\<close>

definition completedOutput :: "env \<Rightarrow> db \<Rightarrow> string \<Rightarrow> safeContent option \<Rightarrow> failure + attemptOutput" where
  "completedOutput E d attID output =
     (let mismatch = Inl (RawError ''terminal output does not match assistant message'') in
      case lastAssistantMessage d attID of
        Some m \<Rightarrow> (case output of
          None \<Rightarrow> Inr (OutMessage (msg_id m))
        | Some out \<Rightarrow> (case msg_content m of
            None \<Rightarrow> mismatch
          | Some stored \<Rightarrow>
              if safeContentEqual E stored outputLimitContent then (case attemptOutputExceeded d attID of
                  None \<Rightarrow> Inl noRows
                | Some limited \<Rightarrow> if limited \<or> safeContentEqual E stored out then Inr (OutMessage (msg_id m)) else mismatch)
              else if safeContentEqual E stored out then Inr (OutMessage (msg_id m)) else mismatch))
      | None \<Rightarrow> (case output of
          None \<Rightarrow> Inr OutEmpty
        | Some out \<Rightarrow> (case attemptOutputExceeded d attID of
            None \<Rightarrow> Inl noRows
          | Some limited \<Rightarrow> if limited then Inr OutEmpty else Inl (RawError ''terminal output has no durable assistant message''))))"

definition terminalPlan :: "env \<Rightarrow> db \<Rightarrow> attemptRef \<Rightarrow> string \<Rightarrow> safeContent option \<Rightarrow> usage option \<Rightarrow> failureInfo option \<Rightarrow> string \<Rightarrow>
    failure + ((attempt_state \<times> request_status) \<times> payload)" where
  "terminalPlan E d ref outcome output us fl eff =
     (let g = ref_generation ref in
      if outcome = ''completed'' then (case completedOutput E d (ref_attemptID ref) output of
          Inl e \<Rightarrow> Inl e | Inr out \<Rightarrow> Inr ((ACompleted, RCompleted), PAttemptCompleted g out us))
      else if outcome = ''failed'' then (case fl of
          None \<Rightarrow> Inl (RawError ''failed terminal is missing failure'')
        | Some f \<Rightarrow> Inr ((AFailed, RFailed), PAttemptFailed g (fl_class f) (fl_code f) (fl_message f) (fl_retryable f) eff))
      else if outcome = ''interrupted'' then Inr ((AInterrupted, RInterrupted), PAttemptInterrupted g ''provider_interrupt'' eff)
      else Inl (RawError ''adapter terminal outcome is not terminal''))"

definition failureReasons :: "string \<Rightarrow> failureInfo option \<Rightarrow> string list \<Rightarrow> string list" where
  "failureReasons outcome fl rs = (case fl of
     None \<Rightarrow> rs
   | Some f \<Rightarrow>
       if outcome \<noteq> ''failed'' then rs
       else if fl_class f = ''node'' then addReason rs ''engine_unavailable''
       else if fl_class f = ''policy'' then addReason rs ''policy_unavailable''
       else if fl_class f = ''protocol'' then addReason rs ''adapter_protocol'' else rs)"

text \<open>The state once the slot is free.\<close>

definition vacated :: "string \<Rightarrow> failureInfo option \<Rightarrow> durableState \<Rightarrow> durableState" where
  "vacated outcome fl s =
     (let rs = failureReasons outcome fl (removeReason (BlockedReasons s) ''execution_unknown'') in
      s\<lparr>ActiveAttemptID := None, Occupancy := ''idle'', BlockedReasons := rs,
        EngineReadiness := (if rs = [] then ''ready'' else ''blocked'')\<rparr>)"

definition finishAttempt :: "env \<Rightarrow> attemptRef \<Rightarrow> attempt_state \<times> request_status \<Rightarrow> string \<Rightarrow> (durableState \<Rightarrow> durableState) \<Rightarrow> unit tx" where
  "finishAttempt E ref st eff f =
     bindM (timestamp E) (\<lambda>now. seqM
       [updateAttempt (ref_attemptID ref) (\<lambda>a. a\<lparr>att_version := att_version a + 1, att_state := fst st, att_effect := eff, att_finished := Some now\<rparr>),
        updateRequest (ref_requestID ref) (\<lambda>r. r\<lparr>req_version := req_version r + 1, req_status := snd st, req_updated := now\<rparr>),
        writeState f])"

definition prepareTerminalProjection :: "env \<Rightarrow> attemptRef \<Rightarrow> int \<Rightarrow> adapterEvent \<Rightarrow> (adapterProjection option \<times> bool) tx" where
  "prepareTerminalProjection E ref attemptVersion ev = (case ev of
     TerminalEvent outcome output us fl eff \<Rightarrow>
       bindM (guardM (eff = ''none'' \<or> eff = ''known'' \<or> eff = ''unknown'') (RawError ''adapter terminal effect status is invalid'')) (\<lambda>_.
       bindM (readDb id) (\<lambda>d.
       if terminalUnresolved d (ref_attemptID ref) \<or> eff = ''unknown'' then
         bindM (setAttemptUnknown E ref ''provider_state'' ''unknown'') (\<lambda>_.
         bindM (readDb (\<lambda>d. sel att_id (ref_attemptID ref) (attempts d))) (\<lambda>row.
         bindM (needM row) (\<lambda>a.
         bindM (archiveAdapterEvent E False ref ev (att_version a) True ''terminal_while_steer_unresolved'') (\<lambda>_.
         returnM (None, True)))))
       else if outcome = ''unknown'' then
         bindM (setAttemptUnknown E ref ''provider_state'' eff) (\<lambda>_. returnM (None, True))
       else
         bindM (liftM (terminalPlan E d ref outcome output us fl eff)) (\<lambda>(st, pl).
         let p = projection (ref_attemptID ref) (attemptVersion + 1) pl HashEvent ''terminal'' in
         bindM (adapterProjectionExists E (ref_attemptID ref) p) (\<lambda>duplicate.
         if duplicate then returnM (None, True)
         else bindM (finishAttempt E ref st eff (vacated outcome fl)) (\<lambda>_. returnM (Some p, True))))))
   | _ \<Rightarrow> failM (RawError ''unsupported adapter event''))"

section \<open>All events\<close>

definition prepareProjection :: "env \<Rightarrow> attemptRef \<Rightarrow> int \<Rightarrow> attempt_state \<Rightarrow> adapterEvent \<Rightarrow> (adapterProjection option \<times> bool) tx" where
  "prepareProjection E ref v st ev =
     (let a = ref_attemptID ref; req = ref_requestID ref; g = ref_generation ref in
      case ev of
        StartedEvent \<Rightarrow> returnM (Some (projection a v (PAttemptStarted req g) HashEvent ''started''), False)
      | WaitingEvent k \<Rightarrow>
          bindM (guardM (k = ''approval'' \<or> k = ''input'') (RawError ''adapter wait kind is invalid'')) (\<lambda>_.
          if st = AWaitingInput then returnM (None, False)
          else bindM (guardM (st = ARunning) (RawError ''attempt cannot enter waiting_input'')) (\<lambda>_.
            bindM (updateAttempt a (\<lambda>r. r\<lparr>att_version := att_version r + 1, att_state := AWaitingInput\<rparr>)) (\<lambda>_.
            returnM (Some (projection a (v + 1) (PAttemptWaiting req g k) HashEvent (tagged ''waiting'' [formatInt (v + 1)])), False))))
      | AssistantDeltaEvent m i c \<Rightarrow>
          bindM (validateSafeContentReference ref c '''' False) (\<lambda>_.
          whenCharged (safeProjection E ref m (i + 1) (PAssistantDelta m i c) (tagged ''assistant.delta'' [m, formatInt i]) c)
            (\<lambda>p exceeded. returnM ()))
      | AssistantMessageEvent m c fin _ \<Rightarrow>
          bindM (validateSafeContentReference ref c '''' False) (\<lambda>_.
          whenCharged (safeProjection E ref m 1 (PAssistantMessage m c fin) (tagged ''assistant.message'' [m]) c)
            (\<lambda>p exceeded. insertAssistantMessage E ref m (shownContent p) fin))
      | ToolStartedEvent c n h inp _ \<Rightarrow>
          bindM (validateSafeContentReference ref inp c True) (\<lambda>_.
          whenCharged (safeProjection E ref c 1 (PToolStarted c n h inp) (tagged ''tool.started'' [c]) inp)
            (\<lambda>p exceeded. insertTool \<lparr>tc_id = c, tc_attempt = a, tc_actionHash = h, tc_version = 1, tc_status = ''running'',
               tc_input = shownContent p, tc_result = None, tc_effectRef = None\<rparr>))
      | ToolOutputEvent c i str out _ \<Rightarrow>
          bindM (validateSafeContentReference ref out c True) (\<lambda>_.
          bindM (selectTool c a) (\<lambda>_.
          whenCharged (safeProjection E ref c (i + 1) (PToolOutput c i str out) (tagged ''tool.output'' [c, formatInt i]) out)
            (\<lambda>p exceeded. returnM ())))
      | ToolCompletedEvent c status res eff ef _ \<Rightarrow>
          bindM (validateSafeContentReference ref res c True) (\<lambda>_.
          bindM (selectTool c a) (\<lambda>row.
          whenCharged (safeProjection E ref c (tc_version row + 1) (PToolCompleted c status res eff ef) (tagged ''tool.completed'' [c]) res)
            (\<lambda>p exceeded. updateTool c (\<lambda>r. r\<lparr>tc_version := tc_version r + 1, tc_status := status, tc_result := Some (shownContent p),
               tc_effectRef := nullText ef\<rparr>))))
      | ApprovalRequestedEvent i c h prompt \<Rightarrow>
          bindM (selectTool c a) (\<lambda>row.
          bindM (guardM (tc_actionHash row = h) (RawError ''approval action hash mismatch'')) (\<lambda>_.
          let pl = PApprovalRequested i c h prompt 1 in
          whenCharged (chargedProjection E ref (projection i 1 pl (HashPayload pl) (tagged ''approval.requested'' [i]))
              (chargeAttemptOutput a (int (length prompt))) markProjection)
            (\<lambda>p exceeded. if exceeded then returnM () else seqM
              [insertApproval \<lparr>app_id = i, app_attempt = a, app_call = c, app_actionHash = h, app_version = 1, app_status = SPending,
                 app_decision = None, app_actor = None\<rparr>,
               transitionWaiting E ref v st ''approval''])))
      | InputRequestedEvent i prompt \<Rightarrow>
          bindM (validateSafeContentReference ref prompt '''' False) (\<lambda>_.
          whenCharged (safeProjection E ref i 1 (PInputRequested i prompt 1) (tagged ''input.requested'' [i]) prompt)
            (\<lambda>p exceeded. bindM (insertInput \<lparr>inp_id = i, inp_attempt = a, inp_version = 1, inp_status = SPending,
                inp_prompt = shownContent p, inp_message = None\<rparr>) (\<lambda>_.
              if exceeded then returnM () else transitionWaiting E ref v st ''input'')))
      | TerminalEvent _ _ _ _ _ \<Rightarrow> prepareTerminalProjection E ref v ev
      | UnknownEvent why eff \<Rightarrow> bindM (setAttemptUnknown E ref why eff) (\<lambda>_. returnM (None, True)))"

text \<open>An approval that does not fit the budget leaves a marker message instead, bound to its projection.\<close>

definition appendAdapterOutputLimitMarker :: "env \<Rightarrow> attemptRef \<Rightarrow> adapterProjection \<Rightarrow> unit tx" where
  "appendAdapterOutputLimitMarker E ref src =
     bindM (newID E) (\<lambda>messageID. seqM
       [insertAssistantMessage E ref messageID outputLimitContent ''length'',
        writeState (\<lambda>s. s\<lparr>StateVersion := StateVersion s + 1\<rparr>),
        appendEvent E messageID 1 (ref_attemptID ref) (ref_dialogID ref) (PAssistantMessage messageID outputLimitContent ''length'') False,
        recordProjection E (ref_attemptID ref) src])"

definition emitProjection :: "env \<Rightarrow> attemptRef \<Rightarrow> adapterProjection \<Rightarrow> bool \<Rightarrow> unit tx" where
  "emitProjection E ref p isTerminal =
     (if pj_markerOnly p then seqM [appendAdapterOutputLimitMarker E ref p, scheduleOutputLimitStop E ref]
      else seqM
        [writeState (\<lambda>s. s\<lparr>StateVersion := StateVersion s + 1\<rparr>),
         appendEvent E (pj_entity p) (pj_version p) (ref_attemptID ref) (ref_dialogID ref) (pj_payload p) False,
         recordProjection E (ref_attemptID ref) p,
         if pj_outputLimit p then scheduleOutputLimitStop E ref else returnM (),
         if isTerminal then appendNodeEvent E else returnM ()])"

definition projectAdapterEvent :: "env \<Rightarrow> attemptRef \<Rightarrow> int \<Rightarrow> attempt_state \<Rightarrow> adapterEvent \<Rightarrow> (bool \<times> bool) tx" where
  "projectAdapterEvent E ref v st ev =
     bindM (validateAdapterEventSafeTextReplay E ref ev) (\<lambda>_.
     bindM (prepareProjection E ref v st ev) (\<lambda>(pr, isTerminal). case pr of
       None \<Rightarrow> returnM (isTerminal, False)
     | Some p \<Rightarrow>
         bindM (adapterProjectionExists E (ref_attemptID ref) p) (\<lambda>duplicate.
         if duplicate then bindM (validateAdapterEventSafeTextReplay E ref ev) (\<lambda>_. returnM (isTerminal, False))
         else bindM (captureAdapterEventSafeText E True ref ev) (\<lambda>_.
           bindM (emitProjection E ref p isTerminal) (\<lambda>_.
           returnM (if pj_markerOnly p then (False, True) else (isTerminal, pj_outputLimit p)))))))"

section \<open>ObserveAdapterEvent\<close>

definition observeAdapterBody :: "env \<Rightarrow> attemptRef \<Rightarrow> adapterEvent \<Rightarrow> (bool \<times> bool) tx" where
  "observeAdapterBody E expected ev =
     bindM (readState id) (\<lambda>s.
     bindM (readDb id) (\<lambda>d.
     bindM (needM (sel att_id (ref_attemptID expected) (attempts d))) (\<lambda>a.
     bindM (guardM (\<not> dialogDeleted d (att_dialog a)) noRows) (\<lambda>_.
     bindM (guardM (expected = \<lparr>ref_nodeID = NodeID s, ref_dialogID = att_dialog a, ref_requestID = att_request a, ref_attemptID = att_id a,
         ref_generation = att_generation a\<rparr>) (RawError ''adapter event durable scope mismatch'')) (\<lambda>_.
     if (att_state a = AStopping \<or> att_state a = AUnknown) \<and> isInteractiveWaitEvent ev
     then bindM (archiveAdapterEvent E False expected ev (att_version a) True '''') (\<lambda>_. returnM (False, False))
     else if ActiveAttemptID s \<noteq> Some (ref_attemptID expected) \<or> \<not> holds_slot (att_state a)
     then bindM (seqM [archiveAdapterEvent E True expected ev (att_version a) False '''', saveState]) (\<lambda>_. returnM (False, False))
     else bindM (projectAdapterEvent E expected (att_version a) (att_state a) ev) (\<lambda>r. bindM saveState (\<lambda>_. returnM r)))))))"

text \<open>
  The frame of a call that may publish files: the answer, the ledger, and the files it leaves. They are
  removed after a known rollback, and kept from the moment a commit is tried.
\<close>

definition publishTx :: "env \<Rightarrow> 'a tx \<Rightarrow> db \<Rightarrow> (failure + 'a) \<times> db \<times> (string \<times> string) list" where
  "publishTx E body d =
     (if \<not> env_beginOk E then (Inl (RawError ''begin failed''), d, [])
      else (case body (beginTx d) of
        Inl e \<Rightarrow> (Inl e, d, [])
      | Inr (x, t) \<Rightarrow>
          if env_faultBefore E then (Inl (RawError ''fault before commit''), d, [])
          else if \<not> env_commitOk E then (Inl (RawError ''commit failed''), d, tx_created t)
          else (Inr x, tx_db t, tx_created t)))"

definition ObserveAdapterEvent :: "env \<Rightarrow> attemptRef \<Rightarrow> attemptRef \<Rightarrow> adapterEvent \<Rightarrow> db \<Rightarrow>
    (failure + (bool \<times> bool)) \<times> db \<times> (string \<times> string) list" where
  "ObserveAdapterEvent E expected reference ev d =
     (if reference \<noteq> expected then (Inl (RawError ''adapter event attempt scope mismatch''), d, [])
      else publishTx E (observeAdapterBody E expected ev) d)"

section \<open>Contracts kept\<close>

text \<open>Projections and archives within both contracts.\<close>

context read_rel
begin

lemma keeps_validateAdapterEventSafeTextReplay [keeps_rules]: "keeps R (validateAdapterEventSafeTextReplay E ref ev)"
  unfolding validateAdapterEventSafeTextReplay_def by (intro keeps_rules)

lemma keeps_validateAdapterProjectionEnvelope [keeps_rules]: "keeps R (validateAdapterProjectionEnvelope E ref p)"
  unfolding validateAdapterProjectionEnvelope_def by (intro keeps_rules)

lemma keeps_adapterProjectionExists [keeps_rules]: "keeps R (adapterProjectionExists E a p)"
  unfolding adapterProjectionExists_def by (intro keeps_rules)

lemma keeps_validateSafeContentReference [keeps_rules]: "keeps R (validateSafeContentReference ref c k b)"
  unfolding validateSafeContentReference_def by (intro keeps_rules)

lemma keeps_selectTool [keeps_rules]: "keeps R (selectTool c a)"
  unfolding selectTool_def by (intro keeps_rules)

lemma keeps_validateArchivedAdapterEvent [keeps_rules]: "keeps R (validateArchivedAdapterEvent E ref ev p)"
  unfolding validateArchivedAdapterEvent_def validateAdapterEventSafeContent_def
  by (cases ev) (simp_all only: adapterEvent.case, (intro keeps_rules)+)

end

context archive_rel
begin

lemma keeps_captureAdapterEventSafeText [keeps_rules]: "keeps R (captureAdapterEventSafeText E b ref ev)"
  unfolding captureAdapterEventSafeText_def by (intro keeps_rules)

lemma keeps_recordProjection [keeps_rules]: "keeps R (recordProjection E a p)"
  unfolding recordProjection_def by (intro keeps_rules)

lemma keeps_archiveAdapterEvent [keeps_rules]: "keeps R (archiveAdapterEvent E b ref ev v s k)"
  unfolding archiveAdapterEvent_def storeArchived_def archivedOutputLimitProjection_def by (intro keeps_rules)

lemma keeps_chargedProjection [keeps_rules]: "keeps R c \<Longrightarrow> keeps R (chargedProjection E ref p c f)"
  unfolding chargedProjection_def by (intro keeps_rules)

lemma keeps_insertAssistantMessage [keeps_rules]: "keeps R (insertAssistantMessage E ref m c fin)"
  unfolding insertAssistantMessage_def by (intro keeps_rules) (simp_all add: desk_def state_laws core_defs)

lemma keeps_whenCharged [keeps_rules]: "keeps R m \<Longrightarrow> (\<And>p b. keeps R (f p b)) \<Longrightarrow> keeps R (whenCharged m f)"
  unfolding whenCharged_def by (intro keeps_rules)

lemma keeps_safeProjection [keeps_rules]: "keeps R (safeProjection E ref i v pl k c)"
  unfolding safeProjection_def by (intro keeps_rules)

lemma keeps_limitMarker [keeps_rules]: "keeps R (appendAdapterOutputLimitMarker E ref p)"
  unfolding appendAdapterOutputLimitMarker_def by (intro keeps_rules) (simp_all add: desk_def state_laws)

end

context tx_rel
begin

lemma keeps_transitionWaiting [keeps_rules]: "keeps R (transitionWaiting E ref v st k)"
  unfolding transitionWaiting_def by (intro keeps_rules) (simp_all add: state_laws core_defs)

lemma keeps_finishAttempt [keeps_rules]: "keeps R (finishAttempt E ref st eff (vacated oc fl))"
  unfolding finishAttempt_def vacated_def Let_def by (intro keeps_rules) (simp_all add: state_laws core_defs)

lemma keeps_prepareTerminalProjection [keeps_rules]: "keeps R (prepareTerminalProjection E ref v ev)"
  unfolding prepareTerminalProjection_def by (cases ev) (simp_all only: adapterEvent.case, (intro keeps_rules)+)

lemma keeps_prepareProjection [keeps_rules]: "keeps R (prepareProjection E ref v st ev)"
  unfolding prepareProjection_def Let_def
  by (cases ev) (simp_all only: adapterEvent.case, (intro keeps_rules; simp add: core_defs)+)

lemma keeps_emitProjection [keeps_rules]: "keeps R (emitProjection E ref p b)"
  unfolding emitProjection_def by (intro keeps_rules) (simp_all add: state_laws)

lemma keeps_projectAdapterEvent [keeps_rules]: "keeps R (projectAdapterEvent E ref v st ev)"
  unfolding projectAdapterEvent_def by (intro keeps_rules)

end

context save_rel
begin

lemma keeps_observeAdapterBody [keeps_rules]: "keeps R (observeAdapterBody E ref ev)"
  unfolding observeAdapterBody_def by (intro keeps_rules)

end

text \<open>
  A question from an attempt that is being stopped goes to the archive without a save of the state: the
  attempt does not run, so nothing in that path moves the state.
\<close>

definition idle_frame :: "string \<Rightarrow> txn \<Rightarrow> txn \<Rightarrow> bool" where
  "idle_frame k t t' \<longleftrightarrow>
     (case sel att_id k (attempts (tx_db t)) of None \<Rightarrow> True | Some a \<Rightarrow> att_state a \<noteq> ARunning \<and> att_state a \<noteq> AWaitingInput) \<longrightarrow>
     tx_state t' = tx_state t \<and> node_state (tx_db t') = node_state (tx_db t) \<and> attempts (tx_db t') = attempts (tx_db t)"

interpretation idle: read_rel "idle_frame k" for k
  by unfold_locales (auto simp: idle_frame_def)

lemma idle_stmts [keeps_rules]: "keeps (idle_frame k) (insertLate r)" "keeps (idle_frame (ref_attemptID ref)) (scheduleOutputLimitStop E ref)"
  by (auto simp: keeps_def idle_frame_def scheduleOutputLimitStop_def split: if_splits dest!: stmtD)

lemma idle_capture [keeps_rules]: "keeps (idle_frame k) (captureAdapterEventSafeText E False ref ev)"
  by (auto simp: keeps_def captureAdapterEventSafeText_def idle.R_refl split: option.splits prod.splits)

lemma idle_archive: "keeps (idle_frame (ref_attemptID ref)) (archiveAdapterEvent E False ref ev v True k)"
  unfolding archiveAdapterEvent_def storeArchived_def archivedOutputLimitProjection_def chargeArchivedAttemptOutput_def if_True
  by (intro keeps_rules)

lemma suppressed_settled:
  assumes "archiveAdapterEvent E False ref ev v True k t = Inr (x, t')" and "sel att_id (ref_attemptID ref) (attempts (tx_db t)) = Some a"
    and "att_state a = AStopping \<or> att_state a = AUnknown" and "settled t"
  shows "settled t'"
  using keepsD [OF idle_archive assms(1)] assms(2-4) by (auto simp: idle_frame_def settled_def)

definition scopeOf :: "durableState \<Rightarrow> attemptRow \<Rightarrow> attemptRef" where
  "scopeOf s a = \<lparr>ref_nodeID = NodeID s, ref_dialogID = att_dialog a, ref_requestID = att_request a, ref_attemptID = att_id a,
     ref_generation = att_generation a\<rparr>"

lemma observeAdapterBody_cases:
  assumes "observeAdapterBody E ref ev t = Inr (x, t')"
  obtains (suppressed) a where "sel att_id (ref_attemptID ref) (attempts (tx_db t)) = Some a" and "ref = scopeOf (tx_state t) a"
      and "att_state a = AStopping \<or> att_state a = AUnknown" and "isInteractiveWaitEvent ev"
      and "archiveAdapterEvent E False ref ev (att_version a) True [] t = Inr ((), t')" and "x = (False, False)"
  | (late) a t1 where "sel att_id (ref_attemptID ref) (attempts (tx_db t)) = Some a" and "ref = scopeOf (tx_state t) a"
      and "ActiveAttemptID (tx_state t) \<noteq> Some (ref_attemptID ref) \<or> \<not> holds_slot (att_state a)"
      and "archiveAdapterEvent E True ref ev (att_version a) False [] t = Inr ((), t1)" and "saveState t1 = Inr ((), t')" and "x = (False, False)"
  | (running) a t1 where "sel att_id (ref_attemptID ref) (attempts (tx_db t)) = Some a" and "ref = scopeOf (tx_state t) a"
      and "ActiveAttemptID (tx_state t) = Some (ref_attemptID ref)" and "holds_slot (att_state a)"
      and "projectAdapterEvent E ref (att_version a) (att_state a) ev t = Inr (x, t1)" and "saveState t1 = Inr ((), t')"
      and "\<not> ((att_state a = AStopping \<or> att_state a = AUnknown) \<and> isInteractiveWaitEvent ev)"
proof -
  from assms obtain a where a: "sel att_id (ref_attemptID ref) (attempts (tx_db t)) = Some a" "ref = scopeOf (tx_state t) a"
    and b: "(if (att_state a = AStopping \<or> att_state a = AUnknown) \<and> isInteractiveWaitEvent ev
       then bindM (archiveAdapterEvent E False ref ev (att_version a) True '''') (\<lambda>_. returnM (False, False))
       else if ActiveAttemptID (tx_state t) \<noteq> Some (ref_attemptID ref) \<or> \<not> holds_slot (att_state a)
       then bindM (seqM [archiveAdapterEvent E True ref ev (att_version a) False '''', saveState]) (\<lambda>_. returnM (False, False))
       else bindM (projectAdapterEvent E ref (att_version a) (att_state a) ev) (\<lambda>r. bindM saveState (\<lambda>_. returnM r))) t = Inr (x, t')"
    unfolding observeAdapterBody_def scopeOf_def by (clarsimp split del: if_split)
  consider "(att_state a = AStopping \<or> att_state a = AUnknown) \<and> isInteractiveWaitEvent ev"
    | "\<not> ((att_state a = AStopping \<or> att_state a = AUnknown) \<and> isInteractiveWaitEvent ev)"
      "ActiveAttemptID (tx_state t) \<noteq> Some (ref_attemptID ref) \<or> \<not> holds_slot (att_state a)"
    | "\<not> ((att_state a = AStopping \<or> att_state a = AUnknown) \<and> isInteractiveWaitEvent ev)"
      "ActiveAttemptID (tx_state t) = Some (ref_attemptID ref)" "holds_slot (att_state a)" by blast
  then show ?thesis
  proof cases
    case 1
    with b have "archiveAdapterEvent E False ref ev (att_version a) True [] t = Inr ((), t')" "x = (False, False)" by simp_all
    then show ?thesis using suppressed a 1 by blast
  next
    case 2
    from b have "bindM (seqM [archiveAdapterEvent E True ref ev (att_version a) False [], saveState]) (\<lambda>_. returnM (False, False)) t = Inr (x, t')"
      by (simp only: if_not_P [OF 2(1)] if_P [OF 2(2)])
    then obtain t1 where "archiveAdapterEvent E True ref ev (att_version a) False [] t = Inr ((), t1)" "saveState t1 = Inr ((), t')" "x = (False, False)"
      by auto
    then show ?thesis using late a 2 by blast
  next
    case 3
    then have "bindM (projectAdapterEvent E ref (att_version a) (att_state a) ev) (\<lambda>r. bindM saveState (\<lambda>_. returnM r)) t = Inr (x, t')"
      using b by (simp only: if_not_P [OF 3(1)] 3 simp_thms if_False)
    then obtain t1 where "projectAdapterEvent E ref (att_version a) (att_state a) ev t = Inr (x, t1)" "saveState t1 = Inr ((), t')" by auto
    then show ?thesis using running a 3 by blast
  qed
qed

lemma settled_observeAdapterBody: "keeps settled_step (observeAdapterBody E ref ev)"
proof (rule keepsI)
  fix t x t'
  assume *: "observeAdapterBody E ref ev t = Inr (x, t')"
  have save: "settled v'" if "settled t" "keeps ledger_step m" "m t = Inr (y, v)" "saveState v = Inr ((), v')" for m :: "'b tx" and y v v'
  proof -
    have "settles (bindM m (\<lambda>_. saveState))" by (intro settle_rules that(2))
    then show ?thesis using that settled_in_front unfolding settles_def by fastforce
  qed
  from * show "settled_step t t'"
    by (cases rule: observeAdapterBody_cases)
      (auto simp: settled_step_def intro: suppressed_settled save [OF _ led.arc.keeps_archiveAdapterEvent] save [OF _ led.keeps_projectAdapterEvent])
qed

lemma sound_observeAdapterBody: "sound_body (observeAdapterBody E ref ev)"
  unfolding sound_body_def by (intro conjI keeps_rules settled_observeAdapterBody)

lemma publishTx_cases:
  obtains (same) "fst (snd (publishTx E body d)) = d" and "\<exists>e. fst (publishTx E body d) = Inl e"
  | (committed) x t where "body (beginTx d) = Inr (x, t)" and "publishTx E body d = (Inr x, tx_db t, tx_created t)"
  using same committed
  by (cases "env_beginOk E \<and> \<not> env_faultBefore E \<and> env_commitOk E"; cases "body (beginTx d)") (auto simp: publishTx_def split: if_splits)

lemma ObserveAdapterEvent_step: "db_step d (fst (snd (ObserveAdapterEvent E ref r ev d)))"
proof -
  have "db_step d (fst (snd (publishTx E (observeAdapterBody E ref ev) d)))"
    by (rule publishTx_cases [of E "observeAdapterBody E ref ev" d]) (auto dest: sound_body_step [OF sound_observeAdapterBody])
  then show ?thesis by (simp add: ObserveAdapterEvent_def)
qed

end
