(* ===== verification/Artifacts.thy ===== *)
theory Artifacts
  imports Adapter_Events
begin

text \<open>
  Artifacts, \<open>runtime/artifact.go\<close>: bytes an adapter hands over out of band become a file and a row of the
  attempt, charged to its output budget; they are read back only while row, file and digest agree. Reserved
  rows of the safe texts are not artifacts.
\<close>

record artifactInput =
  ai_attempt :: attemptRef
  ai_callID :: string
  ai_name :: string
  ai_media :: string
  ai_redaction :: string
  ai_truncated :: bool
  ai_disposition :: string

record artifactMetadata =
  am_nodeId :: string
  am_dialogId :: string
  am_attemptId :: string
  am_artifactId :: string
  am_callId :: string
  am_name :: string
  am_media :: string
  am_size :: int
  am_sha256 :: string
  am_redaction :: string
  am_truncated :: bool
  am_disposition :: string

definition artifactMetadata_json :: "artifactMetadata \<Rightarrow> json" where
  "artifactMetadata_json m = JObj ([(''protocolVersion'', JInt ProtocolVersion), (''schemaId'', JStr SchemaID), (''nodeId'', JStr (am_nodeId m)),
     (''dialogId'', JStr (am_dialogId m)), (''attemptId'', JStr (am_attemptId m)), (''artifactId'', JStr (am_artifactId m))] @
     omitEmpty ''callId'' (am_callId m) @
     [(''name'', JStr (am_name m)), (''mediaType'', JStr (am_media m)), (''sizeBytes'', JInt (am_size m)), (''sha256'', JStr (am_sha256 m)),
      (''redaction'', JStr (am_redaction m)), (''truncated'', JBool (am_truncated m)), (''disposition'', JStr (am_disposition m))])"

definition boundedArtifactText :: "string \<Rightarrow> bool" where
  "boundedArtifactText value \<longleftrightarrow> value \<noteq> '''' \<and> validUtf8 value \<and> length (runes value) \<le> 200 \<and> length value \<le> 200"

definition validArtifactInput :: "env \<Rightarrow> artifactInput \<Rightarrow> string \<Rightarrow> bool" where
  "validArtifactInput E i content \<longleftrightarrow>
     int (length content) \<le> MaximumArtifactBytes \<and> ref_nodeID (ai_attempt i) = env_nodeID E \<and> uuidPattern (ref_dialogID (ai_attempt i)) \<and>
     uuidPattern (ref_requestID (ai_attempt i)) \<and> uuidPattern (ref_attemptID (ai_attempt i)) \<and> 1 \<le> ref_generation (ai_attempt i) \<and>
     (ai_callID i = '''' \<or> uuidPattern (ai_callID i)) \<and> boundedArtifactText (ai_name i) \<and>
     list_all (\<lambda>c. c \<notin> {CHR ''/'', CHR 0x5C, CHR 0x00, CHR 0x0D, CHR 0x0A}) (ai_name i) \<and> boundedArtifactText (ai_media i) \<and>
     \<not> reservedSafeTextArtifact (ai_name i) (ai_media i) \<and> (ai_redaction i = ''none'' \<or> ai_redaction i = ''applied'') \<and>
     (ai_disposition i = ''inline'' \<or> ai_disposition i = ''attachment'')"

text \<open>An attempt of a dialog of this owner on this node that is not deleted.\<close>

definition ownedAttempt :: "db \<Rightarrow> durableState \<Rightarrow> string \<Rightarrow> attemptRow option" where
  "ownedAttempt d s attID = List.find (\<lambda>a. att_id a = attID \<and>
     list_ex (\<lambda>dl. dlg_id dl = att_dialog a \<and> dlg_node dl = NodeID s \<and> dlg_owner dl = OwnerID s) (dialogs d) \<and>
     \<not> dialogDeleted d (att_dialog a)) (attempts d)"

text \<open>
  A transaction of \<open>StoreArtifact\<close> commits in two cases: with the metadata of the stored artifact, or with
  the marker of the budget it exceeded, when the answer is \<open>ErrOutputLimit\<close> all the same.
\<close>

datatype storeOutcome = Stored artifactMetadata | LimitMarked

definition storedMetadata :: "env \<Rightarrow> durableState \<Rightarrow> artifactInput \<Rightarrow> string \<Rightarrow> string \<Rightarrow> artifactMetadata" where
  "storedMetadata E s i artifactID content = \<lparr>am_nodeId = NodeID s, am_dialogId = ref_dialogID (ai_attempt i),
     am_attemptId = ref_attemptID (ai_attempt i), am_artifactId = artifactID, am_callId = ai_callID i, am_name = ai_name i,
     am_media = ai_media i, am_size = int (length content), am_sha256 = env_sha E content, am_redaction = ai_redaction i,
     am_truncated = ai_truncated i, am_disposition = ai_disposition i\<rparr>"

definition recordArtifact :: "env \<Rightarrow> artifactMetadata \<Rightarrow> unit tx" where
  "recordArtifact E m = seqM
     [guardM (Validate ''artifactMetadata'' (artifactMetadata_json m)) (RawError ''artifact metadata violates wire contract''),
      insertArtifact \<lparr>art_id = am_artifactId m, art_dialog = am_dialogId m, art_attempt = am_attemptId m, art_call = nullText (am_callId m),
        art_name = am_name m, art_media = am_media m, art_size = am_size m, art_sha256 = am_sha256 m, art_redaction = am_redaction m,
        art_truncated = am_truncated m, art_disposition = am_disposition m, art_relative = relativePath (am_artifactId m)\<rparr>,
      appendEvent E (am_artifactId m) 1 (am_attemptId m) (am_dialogId m)
        (PArtifactAvailable (am_artifactId m) (am_callId m) (am_name m) (am_media m) (am_size m) (am_sha256 m) (am_redaction m) (am_truncated m)) False,
      saveState]"

definition storeArtifactBody :: "env \<Rightarrow> artifactInput \<Rightarrow> string \<Rightarrow> string \<Rightarrow> storeOutcome tx" where
  "storeArtifactBody E i content artifactID =
     (let ref = ai_attempt i; attID = ref_attemptID ref in
      bindM (readState id) (\<lambda>s.
      bindM (readDb id) (\<lambda>d.
      bindM (needM (ownedAttempt d s attID)) (\<lambda>a.
      bindM (guardM (att_dialog a = ref_dialogID ref \<and> att_request a = ref_requestID ref \<and> att_generation a = ref_generation ref)
        (RawError ''artifact attempt scope mismatch'')) (\<lambda>_.
      bindM (if ai_callID i = '''' then returnM () else bindM (selectTool (ai_callID i) attID) (\<lambda>_. returnM ())) (\<lambda>_.
      bindM (chargeAttemptOutput attID (int (length content))) (\<lambda>charge.
      if charge = Exceeded then failM (RawError ''output limit exceeded'')
      else if charge = NewlyExceeded then
        bindM (seqM
          [appendArtifactOutputLimitMarker E ref,
           if ActiveAttemptID s = Some attID \<and> (att_state a = ARunning \<or> att_state a = AWaitingInput) then scheduleOutputLimitStop E ref
           else returnM (),
           saveState]) (\<lambda>_. returnM LimitMarked)
      else let m = storedMetadata E s i artifactID content in
        bindM (recordArtifact E m) (\<lambda>_. returnM (Stored m)))))))))"

text \<open>
  The file is written before the transaction and removed unless a commit was tried. The third component is
  the list of files the call leaves; a commit of the marker removes its file again.
\<close>

definition StoreArtifact :: "env \<Rightarrow> artifactInput \<Rightarrow> string \<Rightarrow> db \<Rightarrow> (failure + artifactMetadata) \<times> db \<times> (string \<times> string) list" where
  "StoreArtifact E i content d =
     (if \<not> validArtifactInput E i content then (Inl (RawError ''artifact input is invalid''), d, [])
      else (case env_ids E 0 of
        None \<Rightarrow> (Inl (RawError ''id source failed''), d, [])
      | Some artifactID \<Rightarrow>
          if \<not> env_publish E artifactID then (Inl (RawError ''artifact write failed''), d, [])
          else if \<not> env_beginOk E then (Inl (RawError ''begin failed''), d, [])
          else (case storeArtifactBody E i content artifactID ((beginTx d)\<lparr>tx_ids := 1\<rparr>) of
            Inl e \<Rightarrow> (Inl e, d, [])
          | Inr (x, t) \<Rightarrow>
              if env_faultBefore E then (Inl (RawError ''fault before commit''), d, [])
              else if \<not> env_commitOk E then (Inl (RawError ''commit failed''), d, [(artifactID, content)])
              else (case x of
                LimitMarked \<Rightarrow> (Inl (RawError ''output limit exceeded''), tx_db t, [])
              | Stored m \<Rightarrow> (if env_faultAfter E then Inl (RawError ''fault after commit'') else Inr m, tx_db t, [(artifactID, content)])))))"

section \<open>Reads\<close>

definition metadataOf :: "durableState \<Rightarrow> artifactRow \<Rightarrow> artifactMetadata" where
  "metadataOf s r = \<lparr>am_nodeId = NodeID s, am_dialogId = art_dialog r, am_attemptId = art_attempt r, am_artifactId = art_id r,
     am_callId = callText r, am_name = art_name r, am_media = art_media r, am_size = art_size r, am_sha256 = art_sha256 r,
     am_redaction = art_redaction r, am_truncated = art_truncated r, am_disposition = art_disposition r\<rparr>"

definition publicArtifact :: "db \<Rightarrow> string \<Rightarrow> artifactRow option" where
  "publicArtifact d k = List.find (\<lambda>r. art_id r = k \<and> art_disposition r \<noteq> safeTextDisposition \<and>
     list_ex (\<lambda>dl. dlg_id dl = art_dialog r \<and> dlg_node dl = NodeID (node_state d) \<and> dlg_owner dl = OwnerID (node_state d)) (dialogs d) \<and>
     \<not> dialogDeleted d (art_dialog r)) (artifacts d)"

definition ArtifactMetadata :: "env \<Rightarrow> trustContext \<Rightarrow> string \<Rightarrow> db \<Rightarrow> artifactMetadata read" where
  "ArtifactMetadata E trust k d = (case authorizeRead E trust of
     Some denied \<Rightarrow> ReadFailed denied
   | None \<Rightarrow> (case publicArtifact d k of
       None \<Rightarrow> ReadFailed (errorResult E 404 ''not_found'' ''artifact was not found'' k None '''')
     | Some r \<Rightarrow> (case lookup d (readSafeTextArtifact E r) of
         Inl e \<Rightarrow> ReadFailed (errorResult E 503 ''not_durable'' ''artifact bytes mismatch'' k None '''')
       | Inr body \<Rightarrow>
           if Validate ''artifactMetadata'' (artifactMetadata_json (metadataOf (node_state d) r)) then ReadOk (metadataOf (node_state d) r)
           else ReadFailed (errorResult E 503 ''not_durable'' ''durable response is invalid'' '''' None ''''))))"

definition Artifact :: "env \<Rightarrow> trustContext \<Rightarrow> string \<Rightarrow> db \<Rightarrow> (artifactMetadata \<times> string) read" where
  "Artifact E trust k d = (case ArtifactMetadata E trust k d of
     ReadFailed r \<Rightarrow> ReadFailed r
   | ReadOk m \<Rightarrow> (case sel art_id k (artifacts d) of
       None \<Rightarrow> ReadFailed (errorResult E 503 ''not_durable'' ''artifact is unavailable'' k None '''')
     | Some r \<Rightarrow> (case lookup d (readArtifactFile E (art_relative r) (am_artifactId m) (am_size m) (am_sha256 m)) of
         Inl e \<Rightarrow> ReadFailed (errorResult E 503 ''not_durable'' ''artifact bytes mismatch'' k None '''')
       | Inr body \<Rightarrow> ReadOk (m, body))))"

section \<open>Contracts kept\<close>

context save_rel
begin

lemma keeps_recordArtifact [keeps_rules]: "keeps R (recordArtifact E m)"
  unfolding recordArtifact_def by (intro keeps_rules)

lemma keeps_storeArtifactBody [keeps_rules]: "keeps R (storeArtifactBody E i c a)"
  unfolding storeArtifactBody_def by (intro keeps_rules)

end

lemma settles_recordArtifact [settle_rules]: "settles (recordArtifact E m)"
  unfolding recordArtifact_def by (intro settle_rules keeps_rules)

lemma settles_storeArtifactBody: "settles (storeArtifactBody E i c a)"
  unfolding storeArtifactBody_def by (intro settle_rules keeps_rules)

lemma sound_storeArtifactBody: "sound_body (storeArtifactBody E i c a)"
  unfolding sound_body_def by (intro conjI keeps_rules settles_keeps [OF settles_storeArtifactBody])

text \<open>The body runs after one id was drawn.\<close>

definition afterID :: "'a tx \<Rightarrow> 'a tx" where
  "afterID m = (\<lambda>t. m (t\<lparr>tx_ids := 1\<rparr>))"

lemma afterID_bind: "afterID m = bindM (\<lambda>t. Inr ((), t\<lparr>tx_ids := 1\<rparr>)) (\<lambda>_. m)"
  by (simp add: fun_eq_iff afterID_def bindM_def)

lemma sound_afterID:
  assumes "sound_body m"
  shows "sound_body (afterID m)"
proof -
  define draw where "draw = (\<lambda>t :: txn. Inr ((), t\<lparr>tx_ids := 1\<rparr>) :: failure + unit \<times> txn)"
  have "keeps settled_step draw" by (simp add: draw_def keeps_def settled_step_def settled_def)
  moreover have "keeps ledger_step draw" "keeps log_step draw" "keeps keys_step draw" "keeps slot_step draw"
    using led.R_ids log.R_ids keys.R_ids slot.R_ids by (simp_all add: draw_def keeps_def)
  ultimately show ?thesis
    using assms unfolding sound_body_def afterID_bind draw_def [symmetric] by (intro conjI keeps_rules) auto
qed

lemma StoreArtifact_cases:
  obtains (same) "fst (snd (StoreArtifact E i c d)) = d"
  | (committed) k x t where "env_ids E 0 = Some k" and "afterID (storeArtifactBody E i c k) (beginTx d) = Inr (x, t)"
      and "fst (snd (StoreArtifact E i c d)) = tx_db t"
proof (cases "env_ids E 0")
  case None
  then show ?thesis using same by (simp add: StoreArtifact_def)
next
  case (Some k)
  show ?thesis
  proof (cases "storeArtifactBody E i c k ((beginTx d)\<lparr>tx_ids := 1\<rparr>)")
    case (Inl e)
    then show ?thesis using same Some by (simp add: StoreArtifact_def)
  next
    case (Inr p)
    obtain x t where p: "p = (x, t)" by (cases p)
    have "fst (snd (StoreArtifact E i c d)) = d \<or> fst (snd (StoreArtifact E i c d)) = tx_db t"
      using Some Inr p by (cases x) (simp_all add: StoreArtifact_def)
    then show ?thesis using same committed [OF Some, of x t] Inr p by (auto simp: afterID_def)
  qed
qed

lemma StoreArtifact_step: "db_step d (fst (snd (StoreArtifact E i c d)))"
  by (rule StoreArtifact_cases [of E i c d]) (auto dest: sound_body_step [OF sound_afterID [OF sound_storeArtifactBody]])

end
