(* ===== verification/Section_Rel.thy ===== *)
theory Section_Rel
  imports Logical_Delete Actions Recovery Artifacts
begin

text \<open>
  The contract for relations that look at the queue and the slot. Most statements and most writes of
  the state leave both alone; only a few pieces of code move a request or an attempt. \<open>section_rel\<close>
  asks a relation to be kept by the former and by each of those, and gives it for the body of every
  critical section of the node.
\<close>

definition inv_step :: "(durableState \<Rightarrow> db \<Rightarrow> bool) \<Rightarrow> txn \<Rightarrow> txn \<Rightarrow> bool" where
  "inv_step I t t' \<longleftrightarrow> (I (tx_state t) (tx_db t) \<longrightarrow> I (tx_state t') (tx_db t'))"

locale section_rel = preorder_rel R for R :: "txn \<Rightarrow> txn \<Rightarrow> bool" +
  assumes sec_ticks: "R t (t\<lparr>tx_ticks := n\<rparr>)"
    and sec_ids: "R t (t\<lparr>tx_ids := n\<rparr>)"
    and sec_state: "(\<And>s. desk (f s) = desk s) \<Longrightarrow> keeps R (writeState f)"
    and sec_insertDialog: "keeps R (insertDialog r1)"
    and sec_updateDialog: "keeps R (updateDialog k f1)"
    and sec_insertMessage: "keeps R (insertMessage r2)"
    and sec_updateMessage: "(\<And>r. msg_core (f2 r) = msg_core r) \<Longrightarrow> keeps R (updateMessage k f2)"
    and sec_insertAction: "keeps R (insertAction r5)"
    and sec_updateActions: "keeps R (updateActions P st)"
    and sec_updateApproval: "keeps R (updateApproval k P7 f7)"
    and sec_updateInput: "keeps R (updateInput k P8 f8)"
    and sec_appendEvent: "keeps R (appendEvent E i v a dl pl late)"
    and sec_bindEvent: "keeps R (bindEvent P9 k h)"
    and sec_insertCommand: "keeps R (insertCommand c1)"
    and sec_insertRejection: "keeps R (insertRejection c2)"
    and sec_insertHold: "keeps R (insertHold c3)"
    and sec_insertHoldOutcome: "keeps R (insertHoldOutcome c4)"
    and sec_insertLogicalDelete: "keeps R (insertLogicalDelete c5)"
    and sec_advanceHoldClock: "keeps R (advanceHoldClock i1)"
    and sec_putScopeRevision: "keeps R (putScopeRevision k i1)"
    and sec_saveState: "keeps R saveState"
    and sec_enqueue: "keeps R (applyMessageEnqueue E c)"
    and sec_retry: "keeps R (applyAttemptRetry E c)"
    and sec_cancel: "keeps R (applyRequestCancel E c)"
    and sec_stop: "keeps R (applyAttemptStop E c)"
    and sec_unknown: "keeps R (setAttemptUnknown E ref reason eff)"
    and sec_started: "keeps R (markStartedBody E ref)"
    and sec_observe: "keeps R (observeBody E ob)"
    and sec_dispatch: "keeps R (dispatchBody E policy cand)"
    and sec_steer: "keeps R (finishSteerBody E ref msgID so)"
    and sec_adapter: "keeps R (observeAdapterBody E ref ev)"
    and sec_artifact: "keeps R (storeArtifactBody E input bytes k1)"
begin

lemma section_pure [keeps_rules]: "keeps R (readDb g1)" "keeps R (readState g2)" "keeps R (timestamp E)" "keeps R (newID E)"
  by (auto simp: keeps_def R_refl sec_ticks sec_ids)

lemmas section_stmts [keeps_rules] = sec_state sec_insertDialog sec_updateDialog sec_insertMessage sec_updateMessage sec_insertAction sec_updateActions sec_updateApproval
  sec_updateInput sec_appendEvent sec_bindEvent sec_insertCommand sec_insertRejection sec_insertHold sec_insertHoldOutcome sec_insertLogicalDelete sec_advanceHoldClock
  sec_putScopeRevision sec_saveState sec_enqueue sec_retry sec_cancel sec_stop sec_unknown sec_started sec_observe sec_dispatch sec_steer sec_adapter sec_artifact

lemma section_events [keeps_rules]: "keeps R (appendNodeEvent E)" "keeps R (appendQueueEvent E)"
  unfolding appendNodeEvent_def appendQueueEvent_def by (intro keeps_rules)+

lemma section_handlers [keeps_rules]:
  "keeps R (applyDialogCreate E c)" "keeps R (applyDialogDelete E c)" "keeps R (applyQueueResume E c)" "keeps R (applyMessageSteer E c)"
  "keeps R (applyApproval E c)" "keeps R (applyInput E c)"
  unfolding applyDialogCreate_def applyDialogDelete_def applyQueueResume_def applyMessageSteer_def applyApproval_def applyInput_def
  by (intro keeps_rules; simp add: desk_def msg_core_def)+

lemma section_applyCommand [keeps_rules]: "keeps R (applyCommand E c)"
  unfolding applyCommand_def by (cases "ce_kind c") (simp_all, (intro keeps_rules)+)

lemma section_lookups [keeps_rules]:
  "keeps R (releaseReserve E)" "keeps R (coveringHoldForCommand E c)" "keeps R (installGuards s d q)"
  "keeps R (authorizeObject E c)" "keeps R (replayOutcome oc digest)" "keeps R (recordIntent i a)"
  "keeps R (casScopeRevision k u v)" "keeps R (admitStorage E kd)"
  unfolding releaseReserve_def coveringHoldForCommand_def installGuards_def authorizeObject_def replayOutcome_def recordIntent_def
    casScopeRevision_def admitStorage_def
  by (intro keeps_rules; simp add: desk_def msg_core_def)+

lemma section_loadCommandOutcome [keeps_rules]: "keeps R (loadCommandOutcome c)"
  by (auto simp: keeps_def loadCommandOutcome_def R_refl split: list.splits)

lemma section_entries [keeps_rules]:
  "keeps R (commitCommandRejection E c v digest h)" "keeps R (recordCommand E c v digest a)"
  "keeps R (placeHold E v q digest)" "keeps R (liftHold E v rq digest h)" "keeps R (deleteUnderHold E v nr rh h v' ch c)"
  unfolding commitCommandRejection_def recordCommand_def placeHold_def liftHold_def deleteUnderHold_def
  by (intro keeps_rules; simp)+

lemma section_bodies [keeps_rules]:
  "keeps R (admitCommand E c v digest)" "keeps R (installBody E v q digest)" "keeps R (releaseBody E v rq digest)"
  "keeps R (logicalDeleteBody E v nr rh)"
  unfolding admitCommand_def installBody_def releaseBody_def logicalDeleteBody_def by (intro keeps_rules)+

lemma section_afterID [keeps_rules]: "keeps R m \<Longrightarrow> keeps R (afterID m)"
  unfolding keeps_def afterID_def using R_trans sec_ids by blast

lemma section_submitBody [keeps_rules]: "keeps R (submitBody E trust c v digest)"
  unfolding submitBody_def by (intro keeps_rules)

lemma section_engine_bodies [keeps_rules]:
  "keeps R (markUnknownBody E ref reason eff)" "keeps R (recoverStartupBody E)" "keeps R (recoverPristineBody E)"
  "keeps R (blockPolicyBody E)" "keeps R (finishApprovalBody E ref actor pl ro)" "keeps R (finishInputBody E ref msgID pl ro)"
  unfolding markUnknownBody_def recoverStartupBody_def recoverPristineBody_def blockPolicyBody_def finishApprovalBody_def
    finishInputBody_def finishResponse_def
  by (intro keeps_rules; simp add: desk_def msg_core_def)+

end

end
