(* ===== verification/Active_Attempt.thy ===== *)
theory Active_Attempt
  imports Section_Rel
begin

text \<open>
  The slot of the node. The ledger records the attempt that may be running twice: as
  \<open>active_attempt_id\<close> of the node state and by the states of the attempt rows. Nothing in the schema
  relates the two; that they agree is an invariant of the transactions, proved here statement by
  statement and section by section.
\<close>

section \<open>The agreement\<close>

text \<open>
  \<open>active_ok\<close>: every attempt belongs to the node and the attempt the state names is the one that
  holds the slot; when it names none, no attempt holds it.
\<close>

definition active_ok :: "durableState \<Rightarrow> db \<Rightarrow> bool" where
  "active_ok s d \<longleftrightarrow>
     list_all (\<lambda>a. att_node a = NodeID s \<and> (holds_slot (att_state a) \<longleftrightarrow> ActiveAttemptID s = Some (att_id a))) (attempts d) \<and>
     (case ActiveAttemptID s of None \<Rightarrow> True | Some k \<Rightarrow> has_key att_id k (attempts d))"

definition slot_view :: "attemptRow \<Rightarrow> string \<times> string \<times> bool" where
  "slot_view a = (att_id a, att_node a, holds_slot (att_state a))"

definition slot_frame :: "txn \<Rightarrow> txn \<Rightarrow> bool" where
  "slot_frame t t' \<longleftrightarrow> map slot_view (attempts (tx_db t')) = map slot_view (attempts (tx_db t)) \<and>
     NodeID (tx_state t') = NodeID (tx_state t) \<and> ActiveAttemptID (tx_state t') = ActiveAttemptID (tx_state t)"

lemma active_ok_views:
  "active_ok s d \<longleftrightarrow> list_all (\<lambda>(i, n, h). n = NodeID s \<and> (h \<longleftrightarrow> ActiveAttemptID s = Some i)) (map slot_view (attempts d)) \<and>
     (case ActiveAttemptID s of None \<Rightarrow> True | Some k \<Rightarrow> k \<in> fst ` set (map slot_view (attempts d)))"
  by (auto simp: active_ok_def slot_view_def list_all_iff has_key_def sel_None_iff image_iff split: option.splits)

lemma slot_frame_active: "slot_frame t t' \<Longrightarrow> active_ok (tx_state t') (tx_db t') = active_ok (tx_state t) (tx_db t)"
  by (simp add: slot_frame_def active_ok_views split: option.splits)

interpretation sf: preorder_rel slot_frame
  by unfold_locales (auto simp: slot_frame_def)

lemma slot_frame_updateAttempt [keeps_rules]:
  "(\<And>r. slot_view (f r) = slot_view r) \<Longrightarrow> keeps slot_frame (updateAttempt k f)"
  by (auto simp: keeps_def slot_frame_def upd_def dest!: updateAttemptD)

lemma slot_frame_writeState [keeps_rules]:
  "(\<And>s. NodeID (f s) = NodeID s) \<Longrightarrow> (\<And>s. ActiveAttemptID (f s) = ActiveAttemptID s) \<Longrightarrow> keeps slot_frame (writeState f)"
  by (auto simp: keeps_def slot_frame_def)

lemma slot_frame_stmts [keeps_rules]:
  "keeps slot_frame (readDb g1)" "keeps slot_frame (readState g2)" "keeps slot_frame (timestamp E)" "keeps slot_frame (newID E)"
  "keeps slot_frame (constraintM P0)" "keeps slot_frame (insertDialog r1)" "keeps slot_frame (updateDialog k f1)"
  "keeps slot_frame (insertMessage r2)" "keeps slot_frame (updateMessage k f2)" "keeps slot_frame (insertRequest r3)"
  "keeps slot_frame (updateRequest k f3)" "keeps slot_frame (insertAction r5)" "keeps slot_frame (updateActions P st)"
  "keeps slot_frame (updateApproval k P7 f7)" "keeps slot_frame (updateInput k P8 f8)" "keeps slot_frame (appendEvent E i v a dl pl late)"
  "keeps slot_frame (bindEvent P9 k h)" "keeps slot_frame (insertLate r10)" "keeps slot_frame (insertPolicy r11)"
  "keeps slot_frame (insertCommand c1)" "keeps slot_frame (insertRejection c2)" "keeps slot_frame (insertHold c3)"
  "keeps slot_frame (insertHoldOutcome c4)" "keeps slot_frame (insertLogicalDelete c5)" "keeps slot_frame (advanceHoldClock v)"
  "keeps slot_frame (putScopeRevision k v)"
  by (auto simp: keeps_def slot_frame_def dest!: stmtD)

lemma slot_frame_saveState [keeps_rules]: "keeps slot_frame saveState"
  by (auto simp: keeps_def slot_frame_def dest!: saveState_frame)

lemma slot_frame_events [keeps_rules]: "keeps slot_frame (appendNodeEvent E)" "keeps slot_frame (appendQueueEvent E)"
  unfolding appendNodeEvent_def appendQueueEvent_def by (intro keeps_rules)+

text \<open>Giving the slot to the attempt that the state names keeps the agreement; so does taking it away together with the name.\<close>

lemma active_ok_grant:
  assumes "active_ok s d" and "ActiveAttemptID s = Some k" and "attempts d' = upd att_id k f (attempts d)"
    and "\<And>r. att_id (f r) = att_id r" and "\<And>r. att_node (f r) = att_node r" and "\<And>r. holds_slot (att_state (f r))"
  shows "active_ok s d'"
proof -
  have "has_key att_id k (attempts d')"
    using assms(1,2,4) unfolding has_key_def assms(3) by (simp add: sel_upd active_ok_def has_key_def)
  moreover have "att_node b = NodeID s \<and> (holds_slot (att_state b) \<longleftrightarrow> Some k = Some (att_id b))" if "b \<in> set (attempts d')" for b
  proof -
    obtain a where a: "a \<in> set (attempts d)" "b = (if att_id a = k then f a else a)" using \<open>b \<in> set (attempts d')\<close> by (auto simp: assms(3) set_upd)
    then have "att_node a = NodeID s" "holds_slot (att_state a) \<longleftrightarrow> att_id a = k" using assms(1,2) by (auto simp: active_ok_def list_all_iff)
    then show ?thesis using a(2) assms(4-6) by (cases "att_id a = k") auto
  qed
  ultimately show ?thesis using assms(2) by (simp add: active_ok_def list_all_iff)
qed

lemma active_ok_release:
  assumes "active_ok s d" and "ActiveAttemptID s = Some k" and "attempts d' = upd att_id k f (attempts d)"
    and "\<And>r. att_id (f r) = att_id r" and "\<And>r. att_node (f r) = att_node r" and "\<And>r. \<not> holds_slot (att_state (f r))"
    and "NodeID s' = NodeID s" and "ActiveAttemptID s' = None"
  shows "active_ok s' d'"
  using assms by (auto simp: active_ok_def list_all_iff set_upd)

lemma slot_owner_unique:
  assumes "one_active_attempt d" and "a \<in> set (attempts d)" and "b \<in> set (attempts d)" and "holds_slot (att_state a)"
    and "holds_slot (att_state b)" and "att_node a = att_node b"
  shows "a = b"
  using assms by (auto simp: one_active_attempt_def distinct_map inj_on_def)

lemma active_ok_claim:
  assumes ok: "active_ok s d" and one: "one_active_attempt d'" and at: "attempts d' = upd att_id k f (attempts d)"
    and ex: "has_key att_id k (attempts d)"
    and f: "\<And>r. att_id (f r) = att_id r" "\<And>r. att_node (f r) = att_node r" "\<And>r. holds_slot (att_state (f r))"
    and s': "NodeID s' = NodeID s" "ActiveAttemptID s' = Some k"
  shows "active_ok s' d'"
proof -
  obtain r where r: "r \<in> set (attempts d)" "att_id r = k" using ex by (auto simp: has_key_def dest: sel_SomeD)
  have fr: "f r \<in> set (attempts d')" using r by (auto simp: at set_upd)
  have "att_id b = k" if b: "b \<in> set (attempts d')" "holds_slot (att_state b)" for b
  proof -
    have "att_node b = att_node (f r)" using ok b(1) r f by (auto simp: at set_upd active_ok_def list_all_iff)
    with slot_owner_unique [OF one b(1) fr b(2)] f r show ?thesis by auto
  qed
  moreover have "has_key att_id k (attempts d')"
    using ex f unfolding has_key_def at by (simp add: sel_upd)
  moreover have "b \<in> set (attempts d') \<Longrightarrow> att_node b = NodeID s" for b
    using ok f by (auto simp: at set_upd active_ok_def list_all_iff)
  moreover have "b \<in> set (attempts d') \<Longrightarrow> att_id b = k \<Longrightarrow> holds_slot (att_state b)" for b
    using f by (auto simp: at set_upd split: if_splits)
  ultimately show ?thesis using s' by (auto simp: active_ok_def list_all_iff)
qed

definition active_step :: "txn \<Rightarrow> txn \<Rightarrow> bool" where
  "active_step t t' \<longleftrightarrow> (active_ok (tx_state t) (tx_db t) \<longrightarrow> active_ok (tx_state t') (tx_db t'))"

interpretation act: preorder_rel active_step
  by unfold_locales (auto simp: active_step_def)

lemma slot_frame_keeps_active: "keeps slot_frame m \<Longrightarrow> keeps active_step m"
  unfolding keeps_def active_step_def using slot_frame_active by blast

lemma active_ok_same_views:
  "map slot_view (attempts d') = map slot_view (attempts d) \<Longrightarrow> NodeID s' = NodeID s \<Longrightarrow> ActiveAttemptID s' = ActiveAttemptID s \<Longrightarrow>
     active_ok s' d' = active_ok s d"
  by (simp add: active_ok_views split: option.splits)

lemmas active_stmts [keeps_rules] = slot_frame_stmts [THEN slot_frame_keeps_active] slot_frame_saveState [THEN slot_frame_keeps_active]
  slot_frame_events [THEN slot_frame_keeps_active] slot_frame_writeState [THEN slot_frame_keeps_active]
  slot_frame_updateAttempt [THEN slot_frame_keeps_active]

lemma active_step_trans: "active_step t u \<Longrightarrow> keeps slot_frame m \<Longrightarrow> m u = Inr (x, v) \<Longrightarrow> active_step t v"
  using slot_frame_keeps_active act.R_trans keepsD by metis

lemma active_setAttemptUnknown [keeps_rules]: "keeps active_step (setAttemptUnknown E ref reason eff)"
proof (rule keepsI)
  fix t u t'
  assume *: "setAttemptUnknown E ref reason eff t = Inr (u, t')"
  let ?k = "ref_attemptID ref"
  obtain a where a: "List.find (\<lambda>a. att_id a = ?k \<and> att_generation a = ref_generation ref) (attempts (tx_db t)) = Some a"
    using * by (auto simp: setAttemptUnknown_def)
  then have ex: "has_key att_id ?k (attempts (tx_db t))"
    by (auto simp: has_key_def sel_None_iff find_Some_iff image_iff) (metis nth_mem)
  show "active_step t t'"
  proof (cases "att_state a = AUnknown")
    case True
    with * a show ?thesis by (simp add: setAttemptUnknown_def active_step_def)
  next
    case False
    define e where "e = (if eff = [] then ''unknown'' else eff)"
    obtain t1 t2 where up: "updateAttempt ?k (\<lambda>a. a\<lparr>att_version := att_version a + 1, att_state := AUnknown, att_effect := e\<rparr>) t = Inr ((), t1)"
      and rq: "bindM (timestamp E) (\<lambda>now. updateRequest (ref_requestID ref) (\<lambda>r. r\<lparr>req_version := req_version r + 1, req_status := RUnknown, req_updated := now\<rparr>)) t1 = Inr ((), t2)"
      and rest: "seqM [appendEvent E ?k (att_version a + 1) ?k (ref_dialogID ref) (PAttemptUnknown (ref_generation ref) reason e) False,
          appendNodeEvent E] (t2\<lparr>tx_state := (tx_state t2)\<lparr>StateVersion := StateVersion (tx_state t2) + 1, EngineReadiness := ''unknown'',
            Occupancy := ''unknown'', ActiveAttemptID := Some ?k,
            BlockedReasons := addReason (BlockedReasons (tx_state t2)) ''execution_unknown''\<rparr>\<rparr>) = Inr ((), t')"
      using * a False by (auto simp: setAttemptUnknown_def Let_def e_def)
    have f1: "slot_frame t1 t2" using rq by (rule keepsD [rotated]) (intro keeps_rules)
    have f2: "slot_frame (t2\<lparr>tx_state := (tx_state t2)\<lparr>StateVersion := StateVersion (tx_state t2) + 1, EngineReadiness := ''unknown'',
            Occupancy := ''unknown'', ActiveAttemptID := Some ?k,
            BlockedReasons := addReason (BlockedReasons (tx_state t2)) ''execution_unknown''\<rparr>\<rparr>) t'"
      using rest by (rule keepsD [rotated]) (intro keeps_rules)
    have "active_ok (tx_state t') (tx_db t1)" if "active_ok (tx_state t) (tx_db t)"
      by (rule active_ok_claim [OF that, where k = ?k and f = "\<lambda>a. a\<lparr>att_version := att_version a + 1, att_state := AUnknown, att_effect := e\<rparr>"])
        (use updateAttemptD [OF up] ex f1 f2 in \<open>auto simp: has_key_def slot_frame_def holds_slot_def\<close>)
    moreover have "map slot_view (attempts (tx_db t')) = map slot_view (attempts (tx_db t1))" using f1 f2 by (simp add: slot_frame_def)
    ultimately show ?thesis unfolding active_step_def using active_ok_same_views [of "tx_db t'" "tx_db t1" "tx_state t'" "tx_state t'"] by blast
  qed
qed

text \<open>While the state names \<open>k\<close>: it keeps naming it, and the agreement is kept.\<close>

definition granted_step :: "string \<Rightarrow> txn \<Rightarrow> txn \<Rightarrow> bool" where
  "granted_step k t t' \<longleftrightarrow> (ActiveAttemptID (tx_state t) = Some k \<longrightarrow> ActiveAttemptID (tx_state t') = Some k \<and> active_step t t')"

interpretation grant: preorder_rel "granted_step k" for k
  by unfold_locales (auto simp: granted_step_def intro: act.R_refl act.R_trans)

lemma slot_frame_keeps_granted: "keeps slot_frame m \<Longrightarrow> keeps (granted_step k) m"
  using slot_frame_keeps_active [of m] by (auto simp: keeps_def granted_step_def slot_frame_def)

lemmas granted_stmts [keeps_rules] = slot_frame_stmts [THEN slot_frame_keeps_granted] slot_frame_saveState [THEN slot_frame_keeps_granted]
  slot_frame_events [THEN slot_frame_keeps_granted] slot_frame_writeState [THEN slot_frame_keeps_granted]

lemma granted_updateAttempt [keeps_rules]:
  assumes "\<And>r. att_id (f r) = att_id r" and "\<And>r. att_node (f r) = att_node r" and "\<And>r. holds_slot (att_state (f r))"
  shows "keeps (granted_step k) (updateAttempt k f)"
proof (rule keepsI)
  fix t x t'
  assume "updateAttempt k f t = Inr (x, t')"
  then have "tx_state t' = tx_state t" "attempts (tx_db t') = upd att_id k f (attempts (tx_db t))" by (auto dest!: updateAttemptD)
  then show "granted_step k t t'"
    unfolding granted_step_def active_step_def using active_ok_grant [OF _ _ _ assms] by simp
qed

lemma granted_active:
  assumes "keeps (granted_step k) m" and "\<And>t x t'. m t = Inr (x, t') \<Longrightarrow> ActiveAttemptID (tx_state t) = Some k"
  shows "keeps active_step m"
  using assms by (auto simp: keeps_def granted_step_def)

lemma active_applyAttemptStop [keeps_rules]: "keeps active_step (applyAttemptStop E c)"
proof (rule granted_active [where k = "jstring (ce_target c) ''attemptId''"])
  show "keeps (granted_step (jstring (ce_target c) ''attemptId'')) (applyAttemptStop E c)"
    unfolding applyAttemptStop_def Let_def by (intro keeps_rules; simp add: holds_slot_def)
qed (auto simp: applyAttemptStop_def Let_def)

lemma active_markStartedBody [keeps_rules]: "keeps active_step (markStartedBody E ref)"
proof (rule granted_active [where k = "ref_attemptID ref"])
  show "keeps (granted_step (ref_attemptID ref)) (markStartedBody E ref)"
    unfolding markStartedBody_def Let_def recordAdapterProjection_def by (intro keeps_rules; simp add: holds_slot_def)
qed (auto simp: markStartedBody_def Let_def)

lemma terminalState_releases: "terminalState x = Some (ast, rst) \<Longrightarrow> \<not> holds_slot ast"
  by (auto simp: terminalState_def holds_slot_def split: if_splits)

lemma applyTerminalD:
  assumes "applyTerminal E ref version x t = Inr (u, t')"
  obtains ast now where "\<not> holds_slot ast" and "NodeID (tx_state t') = NodeID (tx_state t)" and "ActiveAttemptID (tx_state t') = None"
    and "map slot_view (attempts (tx_db t')) = map slot_view (upd att_id (ref_attemptID ref) (\<lambda>a. a\<lparr>att_version := att_version a + 1,
          att_state := ast, att_effect := ob_effectStatus x, att_finished := Some now\<rparr>) (attempts (tx_db t)))"
proof -
  let ?k = "ref_attemptID ref" and ?now = "env_clock E (tx_ticks t)"
  obtain ast rst where st: "terminalState (ob_terminalState x) = Some (ast, rst)"
    using assms by (auto simp: applyTerminal_def split: option.splits)
  have *: "seqM [updateAttempt ?k (\<lambda>a. a\<lparr>att_version := att_version a + 1, att_state := ast,
            att_effect := ob_effectStatus x, att_finished := Some ?now\<rparr>),
          updateRequest (ref_requestID ref) (\<lambda>r. r\<lparr>req_version := req_version r + 1, req_status := rst, req_updated := ?now\<rparr>),
          writeState (\<lambda>s. s\<lparr>StateVersion := StateVersion s + 1, ActiveAttemptID := None, Occupancy := ''idle'',
            EngineReadiness := (if EngineReadiness s = ''unknown'' then ''blocked'' else EngineReadiness s)\<rparr>),
          appendEvent E ?k (version + 1) ?k (ref_dialogID ref)
            (terminalPayload ''adapter_failed'' ''attempt failed'' (ref_generation ref) ast (ob_effectStatus x)) False,
          appendNodeEvent E] (t\<lparr>tx_ticks := Suc (tx_ticks t)\<rparr>) = Inr (u, t')"
    using assms st by (simp add: applyTerminal_def bindM_def timestamp_def)
  then obtain t1 t2 t3 where
    up: "updateAttempt ?k (\<lambda>a. a\<lparr>att_version := att_version a + 1, att_state := ast,
            att_effect := ob_effectStatus x, att_finished := Some ?now\<rparr>) (t\<lparr>tx_ticks := Suc (tx_ticks t)\<rparr>) = Inr ((), t1)"
    and rq: "updateRequest (ref_requestID ref) (\<lambda>r. r\<lparr>req_version := req_version r + 1, req_status := rst, req_updated := ?now\<rparr>) t1 = Inr ((), t2)"
    and ev: "appendEvent E ?k (version + 1) ?k (ref_dialogID ref)
            (terminalPayload ''adapter_failed'' ''attempt failed'' (ref_generation ref) ast (ob_effectStatus x)) False
            (t2\<lparr>tx_state := (tx_state t2)\<lparr>StateVersion := StateVersion (tx_state t2) + 1, ActiveAttemptID := None, Occupancy := ''idle'',
            EngineReadiness := (if EngineReadiness (tx_state t2) = ''unknown'' then ''blocked'' else EngineReadiness (tx_state t2))\<rparr>\<rparr>) = Inr ((), t3)"
    and nd: "appendNodeEvent E t3 = Inr ((), t')"
    by auto
  have "slot_frame t1 t2" using rq by (rule keepsD [rotated]) (intro keeps_rules)
  moreover note keepsD [OF slot_frame_stmts(16) ev]
  moreover have "slot_frame t3 t'" using nd by (rule keepsD [rotated]) (intro keeps_rules)
  ultimately show ?thesis
    by (intro that [of ast ?now]) (use updateAttemptD [OF up] terminalState_releases [OF st] in \<open>auto simp: slot_frame_def\<close>)
qed

lemma active_applyTerminal:
  assumes "applyTerminal E ref version x t = Inr (u, t')" and "ActiveAttemptID (tx_state t) = Some (ref_attemptID ref)"
  shows "active_step t t'"
proof (rule applyTerminalD [OF assms(1)])
  fix ast now
  let ?f = "\<lambda>a. a\<lparr>att_version := att_version a + 1, att_state := ast, att_effect := ob_effectStatus x, att_finished := Some now\<rparr>"
  assume a: "\<not> holds_slot ast" "NodeID (tx_state t') = NodeID (tx_state t)" "ActiveAttemptID (tx_state t') = None"
    and v: "map slot_view (attempts (tx_db t')) = map slot_view (upd att_id (ref_attemptID ref) ?f (attempts (tx_db t)))"
  let ?d = "(tx_db t)\<lparr>attempts := upd att_id (ref_attemptID ref) ?f (attempts (tx_db t))\<rparr>"
  have "active_ok (tx_state t') ?d" if "active_ok (tx_state t) (tx_db t)"
    by (rule active_ok_release [OF that assms(2), where f = ?f]) (use a in auto)
  then show "active_step t t'"
    unfolding active_step_def using active_ok_same_views [of "tx_db t'" ?d "tx_state t'" "tx_state t'"] v by simp
qed

lemma active_observeBody [keeps_rules]: "keeps active_step (observeBody E x)"
proof (rule keepsI)
  fix t u t'
  assume *: "observeBody E x t = Inr (u, t')"
  obtain a where a: "sel att_id (ob_attemptID x) (attempts (tx_db t)) = Some a" using * by (auto simp: observeBody_def Let_def)
  let ?ref = "\<lparr>ref_nodeID = NodeID (tx_state t), ref_dialogID = att_dialog a, ref_requestID = att_request a,
     ref_attemptID = ob_attemptID x, ref_generation = att_generation a\<rparr>"
  have save: "keeps active_step saveState" by (intro keeps_rules)
  have late: "keeps active_step (archiveLateObservation E x v dlg)" for v dlg
    unfolding archiveLateObservation_def by (intro keeps_rules)
  consider (late) v dlg where "archiveLateObservation E x v dlg t = Inr (u, t')"
    | (unknown) t1 where "setAttemptUnknown E ?ref (ob_reason x) (ob_effectStatus x) t = Inr ((), t1)" "saveState t1 = Inr (u, t')"
    | (final) t1 where "applyTerminal E ?ref (att_version a) x t = Inr ((), t1)" "saveState t1 = Inr (u, t')"
        "ActiveAttemptID (tx_state t) = Some (ob_attemptID x)"
    using * a by (auto simp: observeBody_def Let_def split: if_splits)
  then show "active_step t t'"
  proof cases
    case late
    then show ?thesis using keepsD [OF \<open>keeps active_step (archiveLateObservation E x v dlg)\<close>] by blast
  next
    case unknown
    then show ?thesis using keepsD [OF active_setAttemptUnknown] keepsD [OF save] act.R_trans by blast
  next
    case final
    then show ?thesis using active_applyTerminal keepsD [OF save] act.R_trans by fastforce
  qed
qed

lemma slot_frame_dispatch [keeps_rules]:
  "keeps slot_frame (takeRequest E r m a)" "keeps slot_frame (announceDispatch E p r a g)" "keeps slot_frame (recordStart E r a g)"
proof -
  have l: "keeps slot_frame (liftM x)" for x :: "failure + tailProof option" by (auto simp: keeps_def slot_frame_def)
  show "keeps slot_frame (takeRequest E r m a)" "keeps slot_frame (announceDispatch E p r a g)" "keeps slot_frame (recordStart E r a g)"
    unfolding takeRequest_def announceDispatch_def recordStart_def by (intro keeps_rules l)+
qed

text \<open>A dispatch adds one attempt that holds the slot and names it.\<close>

lemma commitDispatch_views:
  assumes "commitDispatch E policy r m t = Inr (x, t')"
  obtains attID where "x = Dispatched attID (req_id r)" and "ActiveAttemptID (tx_state t') = Some attID"
    and "NodeID (tx_state t') = NodeID (tx_state t)" and "attID \<notin> att_id ` set (attempts (tx_db t))"
    and "map slot_view (attempts (tx_db t')) = map slot_view (attempts (tx_db t)) @ [(attID, NodeID (tx_state t), True)]"
proof -
  obtain attID g t1 t2 t3 where x: "x = Dispatched attID (req_id r)" and op: "openAttempt E policy r t = Inr ((attID, g), t1)"
    and tk: "takeRequest E r m attID t1 = Inr ((), t2)"
    and an: "announceDispatch E policy r attID g (t2\<lparr>tx_state := occupied attID (tx_state t2)\<rparr>) = Inr ((), t3)"
    and st: "recordStart E r attID g t3 = Inr ((), t')"
    by (rule commitDispatch_run [OF assms])
  note f = keepsD [OF slot_frame_dispatch(1) tk] keepsD [OF slot_frame_dispatch(2) an] keepsD [OF slot_frame_dispatch(3) st]
  from op show ?thesis
    by (rule openAttemptD) (use f x that [of attID] in \<open>simp add: slot_frame_def occupied_def slot_view_def holds_slot_def\<close>)
qed

lemma active_dispatchBody [keeps_rules]: "keeps active_step (dispatchBody E policy cand)"
proof (rule keepsI)
  fix t x t'
  assume *: "dispatchBody E policy cand t = Inr (x, t')"
  consider "t' = t" | r m where "commitDispatch E policy r m t = Inr (x, t')" and "ActiveAttemptID (tx_state t) = None"
    using * by (auto simp: dispatchBody_def split: if_splits option.splits)
  then show "active_step t t'"
  proof cases
    case 2
    from 2(1) show ?thesis
      by (rule commitDispatch_views) (use 2(2) in \<open>auto simp: active_step_def active_ok_views slot_view_def list_all_iff image_iff\<close>)
  qed (simp add: act.R_refl)
qed

section \<open>Events of the adapter\<close>

text \<open>The stop an exceeded budget asks for, whichever attempt it is asked for.\<close>

lemma granted_limitStop: "keeps (granted_step (ref_attemptID ref)) (scheduleOutputLimitStop E ref)"
  unfolding scheduleOutputLimitStop_def by (intro keeps_rules) (simp_all add: holds_slot_def)

lemma limitStop_other:
  "ActiveAttemptID (tx_state t) \<noteq> Some (ref_attemptID ref) \<Longrightarrow> scheduleOutputLimitStop E ref t = Inr ((), t)"
  by (simp add: scheduleOutputLimitStop_def)

lemma limitStop_any:
  assumes "scheduleOutputLimitStop E ref t = Inr (x, t')"
  shows "granted_step k t t' \<and> active_step t t'"
proof (cases "ActiveAttemptID (tx_state t) = Some (ref_attemptID ref)")
  case True
  then show ?thesis using keepsD [OF granted_limitStop assms] by (auto simp: granted_step_def)
next
  case False
  then show ?thesis using limitStop_other assms by (auto intro: act.R_refl grant.R_refl)
qed

lemma slot_frame_output:
  "keeps slot_frame (setOutput a n)" "keeps slot_frame (insertTool r6)" "keeps slot_frame (updateTool k f6)" "keeps slot_frame (insertArtifact r12)"
  "keeps slot_frame (updateArtifacts P12 c12 b12)" "keeps slot_frame (insertApproval r7)" "keeps slot_frame (insertInput r8)"
proof -
  show "keeps slot_frame (setOutput a n)" unfolding setOutput_def by (intro keeps_rules) (simp add: slot_view_def)
qed (auto simp: keeps_def slot_frame_def dest!: stmtD)

lemmas active_output [keeps_rules] = slot_frame_output [THEN slot_frame_keeps_active]
lemmas granted_output [keeps_rules] = slot_frame_output [THEN slot_frame_keeps_granted]

lemma limitStop_kept [keeps_rules]:
  "keeps (granted_step k) (scheduleOutputLimitStop E ref)" "keeps active_step (scheduleOutputLimitStop E ref)"
  using limitStop_any by (auto simp: keeps_def)

lemma idle_counters:
  "granted_step k t (t\<lparr>tx_ticks := n\<rparr>)" "granted_step k t (t\<lparr>tx_ids := n\<rparr>)" "granted_step k t (t\<lparr>tx_created := fs\<rparr>)"
  "active_step t (t\<lparr>tx_ticks := n\<rparr>)" "active_step t (t\<lparr>tx_ids := n\<rparr>)" "active_step t (t\<lparr>tx_created := fs\<rparr>)"
  by (simp_all add: granted_step_def active_step_def)

lemma slot_frame_desk:
  assumes "\<And>s. desk (f s) = desk s"
  shows "keeps (granted_step k) (writeState f)" "keeps active_step (writeState f)"
  using assms by (intro slot_frame_keeps_granted slot_frame_keeps_active slot_frame_writeState; simp add: desk_def)+

interpretation grantarc: archive_rel "granted_step k" for k
  by unfold_locales (rule idle_counters slot_frame_desk | assumption | intro keeps_rules)+

interpretation actarc: archive_rel active_step
  by unfold_locales (rule idle_counters slot_frame_desk | assumption | intro keeps_rules)+

text \<open>A piece of code that relies on the state naming \<open>k\<close> when it starts.\<close>

definition from_slot :: "string \<Rightarrow> 'a tx \<Rightarrow> bool" where
  "from_slot k m \<longleftrightarrow> (\<forall>t x t'. ActiveAttemptID (tx_state t) = Some k \<longrightarrow> m t = Inr (x, t') \<longrightarrow> active_step t t')"

lemma from_slotD: "from_slot k m \<Longrightarrow> m t = Inr (x, t') \<Longrightarrow> ActiveAttemptID (tx_state t) = Some k \<Longrightarrow> active_step t t'"
  by (simp add: from_slot_def)

lemma from_slot_granted: "keeps (granted_step k) m \<Longrightarrow> from_slot k m"
  by (auto simp: from_slot_def keeps_def granted_step_def)

lemma from_slot_active: "keeps active_step m \<Longrightarrow> from_slot k m"
  by (auto simp: from_slot_def keeps_def)

lemma from_slot_before: "keeps (granted_step k) m \<Longrightarrow> (\<And>x. from_slot k (f x)) \<Longrightarrow> from_slot k (bindM m f)"
  unfolding from_slot_def keeps_def granted_step_def bindM_def using act.R_trans by (fastforce split: sum.splits)

lemma from_slot_after: "from_slot k m \<Longrightarrow> (\<And>x. keeps active_step (f x)) \<Longrightarrow> from_slot k (bindM m f)"
  unfolding from_slot_def keeps_def bindM_def using act.R_trans by (fastforce split: sum.splits)

lemma from_slot_if: "from_slot k m \<Longrightarrow> from_slot k n \<Longrightarrow> from_slot k (if c then m else n)"
  by simp

text \<open>A terminal event takes the slot away together with the name.\<close>

lemma from_slot_finish:
  assumes "\<not> holds_slot (fst st)" and "\<And>s. NodeID (f s) = NodeID s" and "\<And>s. ActiveAttemptID (f s) = None"
  shows "from_slot (ref_attemptID ref) (finishAttempt E ref st eff f)"
  unfolding from_slot_def
proof (intro allI impI)
  fix t x t'
  let ?k = "ref_attemptID ref"
  assume a: "ActiveAttemptID (tx_state t) = Some ?k" and run: "finishAttempt E ref st eff f t = Inr (x, t')"
  define now where "now = env_clock E (tx_ticks t)"
  define g where "g = (\<lambda>a :: attemptRow. a\<lparr>att_version := att_version a + 1, att_state := fst st, att_effect := eff, att_finished := Some now\<rparr>)"
  obtain t1 t2 where up: "updateAttempt ?k g (t\<lparr>tx_ticks := Suc (tx_ticks t)\<rparr>) = Inr ((), t1)"
    and rq: "updateRequest (ref_requestID ref) (\<lambda>r. r\<lparr>req_version := req_version r + 1, req_status := snd st, req_updated := now\<rparr>) t1 = Inr ((), t2)"
    and t': "t' = t2\<lparr>tx_state := f (tx_state t2)\<rparr>"
    using run by (auto simp: finishAttempt_def timestamp_def now_def g_def bindM_def split: sum.splits)
  have r: "slot_frame t1 t2" using rq by (rule keepsD [rotated]) (intro keeps_rules)
  let ?d = "(tx_db t)\<lparr>attempts := upd att_id ?k g (attempts (tx_db t))\<rparr>"
  have "active_ok (f (tx_state t2)) ?d" if "active_ok (tx_state t) (tx_db t)"
    by (rule active_ok_release [OF that a, where f = g]) (use updateAttemptD [OF up] r assms in \<open>auto simp: g_def slot_frame_def\<close>)
  then show "active_step t t'"
    unfolding active_step_def using active_ok_same_views [of "tx_db t'" ?d "f (tx_state t2)" "f (tx_state t2)"] updateAttemptD [OF up] r
    by (auto simp: t' slot_frame_def)
qed

lemma terminalPlan_releases: "terminalPlan E d ref oc out us fl eff = Inr (st, pl) \<Longrightarrow> \<not> holds_slot (fst st)"
  by (auto simp: terminalPlan_def Let_def holds_slot_def split: if_splits sum.splits option.splits)

lemma from_slot_liftM: "(\<And>y. x = Inr y \<Longrightarrow> from_slot k (f y)) \<Longrightarrow> from_slot k (bindM (liftM x) f)"
  by (cases x) (simp_all add: from_slot_def bindM_def liftM_def failM_def returnM_def)

lemma from_slot_terminal: "from_slot (ref_attemptID ref) (prepareTerminalProjection E ref v ev)"
proof (cases ev)
  case (TerminalEvent oc out us fl eff)
  let ?k = "ref_attemptID ref"
  have fin: "from_slot ?k (bindM (finishAttempt E ref st eff (vacated oc fl)) (\<lambda>_. returnM y))" if "\<not> holds_slot (fst st)"
    for st and y :: "adapterProjection option \<times> bool"
    by (rule from_slot_after [OF from_slot_finish [OF that]]) (simp add: vacated_def Let_def, simp add: vacated_def Let_def, intro keeps_rules)
  have plan: "from_slot ?k (bindM (adapterProjectionExists E ?k p) (\<lambda>duplicate. if duplicate then returnM y
      else bindM (finishAttempt E ref st eff (vacated oc fl)) (\<lambda>_. returnM z)))" if "\<not> holds_slot (fst st)" for st p
      and y z :: "adapterProjection option \<times> bool"
    by (rule from_slot_before, intro keeps_rules, rule from_slot_if, intro from_slot_active keeps_rules, rule fin [OF that])
  show ?thesis
    unfolding prepareTerminalProjection_def TerminalEvent adapterEvent.case
    by (rule from_slot_before, intro keeps_rules, rule from_slot_before, intro keeps_rules, rule from_slot_if, intro from_slot_active keeps_rules,
        rule from_slot_if, intro from_slot_active keeps_rules, rule from_slot_liftM, clarsimp simp only: Let_def prod.case split_paired_all,
        rule plan, drule terminalPlan_releases, simp)
qed (simp_all add: prepareTerminalProjection_def from_slot_def failM_def)

lemma from_slot_prepare: "from_slot (ref_attemptID ref) (prepareProjection E ref v st ev)"
proof -
  have wait: "keeps (granted_step (ref_attemptID ref)) (transitionWaiting E ref n s w)" for n s w
    unfolding transitionWaiting_def by (intro keeps_rules) (simp_all add: holds_slot_def)
  have unknown: "from_slot (ref_attemptID ref) (bindM (setAttemptUnknown E ref why eff) (\<lambda>_. returnM y))" for why eff
    and y :: "adapterProjection option \<times> bool"
    by (intro from_slot_active keeps_rules)
  show ?thesis
    unfolding prepareProjection_def Let_def
    by (cases ev) (simp_all only: adapterEvent.case from_slot_terminal unknown,
        (rule from_slot_granted, (intro keeps_rules wait; simp add: holds_slot_def))+)
qed

lemma from_slot_project: "from_slot (ref_attemptID ref) (projectAdapterEvent E ref v st ev)"
proof -
  have emit: "keeps active_step (emitProjection E ref p b)" for p b
    unfolding emitProjection_def by (intro keeps_rules; simp)
  show ?thesis
    unfolding projectAdapterEvent_def
    by (rule from_slot_before, intro keeps_rules, rule from_slot_after [OF from_slot_prepare]) (intro keeps_rules emit)
qed

lemma active_adapter [keeps_rules]: "keeps active_step (observeAdapterBody E ref ev)"
proof (rule keepsI)
  fix t x t'
  assume "observeAdapterBody E ref ev t = Inr (x, t')"
  then show "active_step t t'"
  proof (cases rule: observeAdapterBody_cases)
    case (suppressed a)
    then show ?thesis using keepsD [OF actarc.keeps_archiveAdapterEvent] by blast
  next
    case (late a t1)
    then show ?thesis using keepsD [OF actarc.keeps_archiveAdapterEvent] active_step_trans [OF _ slot_frame_saveState] by blast
  next
    case (running a t1)
    then show ?thesis using from_slotD [OF from_slot_project] active_step_trans [OF _ slot_frame_saveState] by blast
  qed
qed

lemma active_artifact [keeps_rules]: "keeps active_step (storeArtifactBody E i c k)"
  unfolding storeArtifactBody_def recordArtifact_def by (intro keeps_rules)

section \<open>The sections\<close>

lemma active_handlers [keeps_rules]:
  "keeps active_step (applyMessageEnqueue E c)" "keeps active_step (applyAttemptRetry E c)" "keeps active_step (applyRequestCancel E c)"
  unfolding applyMessageEnqueue_def applyRequestCancel_def applyAttemptRetry_def by (intro keeps_rules; simp)+

lemma active_finishSteerBody [keeps_rules]: "keeps active_step (finishSteerBody E ref msgID so)"
  unfolding finishSteerBody_def by (cases so) (simp_all, (intro keeps_rules; simp)+)

interpretation actsec: section_rel active_step
proof
  show "keeps active_step (writeState f)" if "\<And>s. desk (f s) = desk s" for f
    using that by (intro keeps_rules) (auto simp: desk_def)
qed ((intro keeps_rules) | simp add: active_step_def)+

end
