(* ===== verification/Node_System.thy ===== *)
theory Node_System
  imports Active_Attempt
begin

text \<open>
  The node as a transition system: one step is one critical section under the node lock, with
  any environment that carries the node's configured identity, any request and any answer of
  the adapter. Since the sections are atomic, every interleaving of API calls, dispatcher,
  action worker and recovery is a sequence of steps. Reachable ledgers start from the one
  \<open>migrate\<close> creates.
\<close>

section \<open>Steps\<close>

inductive node_step :: "db \<Rightarrow> db \<Rightarrow> bool" where
  submit: "verifyIdentity E rv d \<Longrightarrow> node_step d (snd (SubmitCommand E trust lenient raw d))"
| install: "verifyIdentity E rv d \<Longrightarrow> node_step d (snd (InstallHold E node raw d))"
| release: "verifyIdentity E rv d \<Longrightarrow> node_step d (snd (ReleaseHold E node raw d))"
| delete: "verifyIdentity E rv d \<Longrightarrow> node_step d (snd (DeleteLogicalDialog E node raw d))"
| dispatch: "verifyIdentity E rv d \<Longrightarrow> node_step d (snd (DispatchNext E G peeked d))"
| claim: "verifyIdentity E rv d \<Longrightarrow> node_step d (snd (claimAction E l d))"
| requeue: "verifyIdentity E rv d \<Longrightarrow> node_step d (requeueAction E c d)"
| finish: "verifyIdentity E rv d \<Longrightarrow> node_step d (finishAction E c st d)"
| started: "verifyIdentity E rv d \<Longrightarrow> node_step d (snd (markStarted E ref d))"
| unknown: "verifyIdentity E rv d \<Longrightarrow> node_step d (markAttemptUnknown E ref reason eff d)"
| steer: "verifyIdentity E rv d \<Longrightarrow> node_step d (finishSteer E ref msg so d)"
| approval: "verifyIdentity E rv d \<Longrightarrow> node_step d (finishApproval E ref actor pl ro d)"
| input: "verifyIdentity E rv d \<Longrightarrow> node_step d (finishInput E ref msg pl ro d)"
| observe: "verifyIdentity E rv d \<Longrightarrow> node_step d (snd (Observe E ob d))"
| adapter: "verifyIdentity E rv d \<Longrightarrow> node_step d (fst (snd (ObserveAdapterEvent E expected reference ev d)))"
| artifact: "verifyIdentity E rv d \<Longrightarrow> node_step d (fst (snd (StoreArtifact E i content d)))"
| recover: "verifyIdentity E rv d \<Longrightarrow> node_step d (snd (recoverStartup E d))"
| pristine: "verifyIdentity E rv d \<Longrightarrow> node_step d (snd (recoverPristinePolicy E policy d))"

inductive node_steps :: "db \<Rightarrow> db \<Rightarrow> bool" where
  none: "node_steps d d"
| more: "node_steps d e \<Longrightarrow> node_step e f \<Longrightarrow> node_steps d f"

definition reachable :: "db \<Rightarrow> bool" where
  "reachable d \<longleftrightarrow> (\<exists>node owner registry. node_steps (initialLedger node owner registry) d)"

lemma node_steps_trans: "node_steps e f \<Longrightarrow> node_steps d e \<Longrightarrow> node_steps d f"
  by (induction rule: node_steps.induct) (auto intro: node_steps.intros)

lemma node_step_db_step: "node_step d d' \<Longrightarrow> db_step d d'"
  by (induction rule: node_step.induct)
    (simp_all add: SubmitCommand_step InstallHold_step ReleaseHold_step DeleteLogicalDialog_step DispatchNext_step claimAction_step
      requeueAction_step finishAction_step markStarted_step markAttemptUnknown_step finishSteer_step finishApproval_step
      finishInput_step Observe_step ObserveAdapterEvent_step StoreArtifact_step recoverStartup_step recoverPristinePolicy_step)

lemma node_steps_db_step: "node_steps d d' \<Longrightarrow> db_step d d'"
  by (induction rule: node_steps.induct) (auto intro: db_step_trans node_step_db_step)

lemma reachable_steps: "reachable d \<Longrightarrow> node_steps d d' \<Longrightarrow> reachable d'"
  by (auto simp: reachable_def intro: node_steps_trans)

section \<open>Invariants\<close>

text \<open>A property that holds initially and is kept by every step holds in every reachable ledger.\<close>

lemma reachable_induct [consumes 1, case_names init step]:
  assumes "reachable d" and "\<And>node owner registry. P (initialLedger node owner registry)"
    and "\<And>e f. reachable e \<Longrightarrow> P e \<Longrightarrow> node_step e f \<Longrightarrow> P f"
  shows "P d"
proof -
  obtain node owner registry where "node_steps (initialLedger node owner registry) d" using assms(1) by (auto simp: reachable_def)
  then have "reachable d \<and> P d"
  proof (induction "initialLedger node owner registry" d rule: node_steps.induct)
    case none
    show ?case using assms(2) by (auto simp: reachable_def intro: node_steps.none)
  next
    case (more e f)
    have "reachable e \<and> P e" using more.hyps by blast
    moreover have "reachable f" using more.hyps by (auto simp: reachable_def intro: node_steps.more)
    ultimately show ?case using assms(3) more.hyps by blast
  qed
  then show ?thesis ..
qed

lemma initial_ledger_ok: "ledger_ok (initialLedger node owner registry)"
  by (simp add: ledger_ok_def initialLedger_def initialState_def log_ok_def keys_ok_def unique_key_def one_active_attempt_def)

lemma reachable_ledger_ok: "reachable d \<Longrightarrow> ledger_ok d"
  by (induction rule: reachable_induct) (auto simp: initial_ledger_ok dest!: node_step_db_step simp: db_step_def)

text \<open>
  What a section leaves behind: the ledger as it was, or the one its body built. Every step is
  such a commit of one of seventeen bodies.
\<close>

definition commits :: "'a tx \<Rightarrow> db \<Rightarrow> db \<Rightarrow> bool" where
  "commits m d d' \<longleftrightarrow> d' = d \<or> (\<exists>x t. m (beginTx d) = Inr (x, t) \<and> d' = tx_db t)"

lemma commits_refl [simp]: "commits m d d"
  by (simp add: commits_def)

lemma commits_commitTx [simp]: "commits m d (snd (commitTx E m d))"
  by (rule commitTx_cases [of E m d]) (auto simp: commits_def)

lemma commits_runTx [simp]: "commits m d (snd (runTx E cor msg m d))"
  by (rule runTx_cases [of E cor msg m d]) (auto simp: commits_def)

lemma entry_commits:
  "\<exists>c v dg. commits (submitBody E trust c v dg) d (snd (SubmitCommand E trust lenient raw d))"
  "\<exists>v q dg. commits (installBody E v q dg) d (snd (InstallHold E node raw d))"
  "\<exists>v rq dg. commits (releaseBody E v rq dg) d (snd (ReleaseHold E node raw d))"
  "\<exists>v nr rh. commits (logicalDeleteBody E v nr rh) d (snd (DeleteLogicalDialog E node raw d))"
proof -
  show "\<exists>c v dg. commits (submitBody E trust c v dg) d (snd (SubmitCommand E trust lenient raw d))"
    unfolding SubmitCommand_def Let_def by (auto split: option.split intro: commits_runTx)
  show "\<exists>v q dg. commits (installBody E v q dg) d (snd (InstallHold E node raw d))"
    unfolding InstallHold_def Let_def by (auto split: option.split intro: commits_runTx)
  show "\<exists>v rq dg. commits (releaseBody E v rq dg) d (snd (ReleaseHold E node raw d))"
    unfolding ReleaseHold_def Let_def by (auto split: option.split intro: commits_runTx)
  show "\<exists>v nr rh. commits (logicalDeleteBody E v nr rh) d (snd (DeleteLogicalDialog E node raw d))"
    unfolding DeleteLogicalDialog_def Let_def by (auto split: option.split intro: commits_runTx)
qed

lemma engine_commits:
  "commits (blockPolicyBody E) d (blockPolicy E d)"
  "commits (blockPolicyBody E) d (snd (DispatchNext E G peeked d)) \<or>
     (\<exists>policy cand. commits (dispatchBody E policy cand) d (snd (DispatchNext E G peeked d)))"
  "\<exists>P. commits (updateActions P CInflight) d (snd (claimAction E l d))"
  "commits (recoverPristineBody E) d (snd (recoverPristinePolicy E policy d))"
proof -
  show b: "commits (blockPolicyBody E) d (blockPolicy E d)" by (simp add: blockPolicy_def)
  show "commits (blockPolicyBody E) d (snd (DispatchNext E G peeked d)) \<or>
     (\<exists>policy cand. commits (dispatchBody E policy cand) d (snd (DispatchNext E G peeked d)))"
    using DispatchNext_ledger [of E G peeked d] b by (metis commits_commitTx commits_refl)
  have "commits (updateActions P CInflight) d d'" if "commitTx E (updateActions P CInflight) d = (r, d')" for P r d'
    using commits_commitTx [of "updateActions P CInflight" d E] that by simp
  then show "\<exists>P. commits (updateActions P CInflight) d (snd (claimAction E l d))"
    by (auto simp: claimAction_def split: option.split prod.split sum.split)
  show "commits (recoverPristineBody E) d (snd (recoverPristinePolicy E policy d))"
    by (auto simp: recoverPristinePolicy_def split: option.split)
qed

lemma publish_commits: "commits m d (fst (snd (publishTx E m d)))"
  by (rule publishTx_cases [of E m d]) (auto simp: commits_def)

lemma ObserveAdapterEvent_commits: "commits (observeAdapterBody E expected ev) d (fst (snd (ObserveAdapterEvent E expected reference ev d)))"
  using publish_commits [of "observeAdapterBody E expected ev" d E] by (simp add: ObserveAdapterEvent_def)

lemma StoreArtifact_commits: "\<exists>k. commits (afterID (storeArtifactBody E i content k)) d (fst (snd (StoreArtifact E i content d)))"
  by (rule StoreArtifact_cases [of E i content d]) (auto simp: commits_def)

section \<open>Proving an invariant\<close>

text \<open>
  An invariant of the node state and the ledger together: it holds in the ledger \<open>migrate\<close> creates
  and every body keeps it, from the ledger at \<open>BEGIN\<close> to the one at \<open>COMMIT\<close>. Then it holds in every
  reachable ledger, whatever the order of the sections.
\<close>

locale node_invariant =
  fixes I :: "durableState \<Rightarrow> db \<Rightarrow> bool"
  assumes init: "I (initialState node owner registry) (initialLedger node owner registry)"
    and submit: "keeps (inv_step I) (submitBody E trust c v digest)"
    and install: "keeps (inv_step I) (installBody E v q digest)"
    and release: "keeps (inv_step I) (releaseBody E v rq digest)"
    and delete: "keeps (inv_step I) (logicalDeleteBody E v nr digest)"
    and dispatch: "keeps (inv_step I) (dispatchBody E policy cand)"
    and block: "keeps (inv_step I) (blockPolicyBody E)"
    and actions: "keeps (inv_step I) (updateActions P st)"
    and started: "keeps (inv_step I) (markStartedBody E ref)"
    and unknown: "keeps (inv_step I) (markUnknownBody E ref reason eff)"
    and steer: "keeps (inv_step I) (finishSteerBody E ref msgID so)"
    and approval: "keeps (inv_step I) (finishApprovalBody E ref actor pl ro)"
    and input: "keeps (inv_step I) (finishInputBody E ref msgID pl ro)"
    and observe: "keeps (inv_step I) (observeBody E ob)"
    and adapter: "keeps (inv_step I) (observeAdapterBody E ref ev)"
    and artifact: "keeps (inv_step I) (storeArtifactBody E input_data bytes artifactID)"
    and recover: "keeps (inv_step I) (recoverStartupBody E)"
    and pristine: "keeps (inv_step I) (recoverPristineBody E)"
begin

lemma commit_step:
  assumes "commits m d d'" and "keeps (inv_step I) m" and "sound_body m" and "I (node_state d) d"
  shows "I (node_state d') d'"
  using assms(1) unfolding commits_def
proof (elim disjE exE conjE)
  fix x t
  assume m: "m (beginTx d) = Inr (x, t)" and d': "d' = tx_db t"
  have "settled t" using assms(3) m by (auto simp: sound_body_def settled_step_def dest: keepsD)
  moreover have "I (tx_state t) (tx_db t)" using keepsD [OF assms(2) m] assms(4) by (simp add: inv_step_def)
  ultimately show ?thesis by (simp add: d' settled_def)
qed (use assms(4) in simp)

lemma keeps_afterID: "keeps (inv_step I) m \<Longrightarrow> keeps (inv_step I) (afterID m)"
  by (fastforce simp: keeps_def afterID_def inv_step_def)

lemma step:
  assumes "node_step d d'" and "I (node_state d) d"
  shows "I (node_state d') d'"
  using assms(1)
proof (cases rule: node_step.cases)
  case (submit E rv trust lenient raw)
  then show ?thesis using entry_commits(1) assms(2) commit_step node_invariant.submit [OF node_invariant_axioms] sound_submitBody by blast
next
  case (install E rv node raw)
  then show ?thesis using entry_commits(2) assms(2) commit_step node_invariant.install [OF node_invariant_axioms] sound_installBody by blast
next
  case (release E rv node raw)
  then show ?thesis using entry_commits(3) assms(2) commit_step node_invariant.release [OF node_invariant_axioms] sound_releaseBody by blast
next
  case (delete E rv node raw)
  then show ?thesis using entry_commits(4) assms(2) commit_step node_invariant.delete [OF node_invariant_axioms] sound_logicalDeleteBody by blast
next
  case (dispatch E rv G peeked)
  from engine_commits(2) [of E d G peeked] show ?thesis
  proof
    assume "commits (blockPolicyBody E) d (snd (DispatchNext E G peeked d))"
    then show ?thesis using commit_step [OF _ block sound_blockPolicyBody assms(2)] dispatch(1) by simp
  next
    assume "\<exists>policy cand. commits (dispatchBody E policy cand) d (snd (DispatchNext E G peeked d))"
    then show ?thesis
      using commit_step [OF _ node_invariant.dispatch [OF node_invariant_axioms] sound_dispatchBody assms(2)] dispatch(1) by auto
  qed
next
  case (claim E rv l)
  then show ?thesis using engine_commits(3) assms(2) commit_step actions sound_updateActions by blast
next
  case (pristine E rv policy)
  then show ?thesis
    using engine_commits(4) assms(2) commit_step node_invariant.pristine [OF node_invariant_axioms] sound_recoverPristineBody by blast
next
  case (requeue E rv c)
  then show ?thesis
    by (auto simp: requeueAction_def intro: commit_step [OF commits_commitTx actions sound_updateActions assms(2)])
next
  case (finish E rv c st)
  then show ?thesis
    by (auto simp: finishAction_def intro: commit_step [OF commits_commitTx actions sound_updateActions assms(2)])
next
  case (started E rv ref)
  then show ?thesis
    by (auto simp: markStarted_def intro: commit_step [OF commits_commitTx node_invariant.started sound_markStartedBody assms(2)] node_invariant_axioms)
next
  case (unknown E rv ref reason eff)
  then show ?thesis
    by (auto simp: markAttemptUnknown_def intro: commit_step [OF commits_commitTx node_invariant.unknown sound_markUnknownBody assms(2)] node_invariant_axioms)
next
  case (steer E rv ref msg so)
  then show ?thesis
    by (auto simp: finishSteer_def intro: commit_step [OF commits_commitTx node_invariant.steer sound_finishSteerBody assms(2)] node_invariant_axioms)
next
  case (approval E rv ref actor pl ro)
  then show ?thesis
    by (auto simp: finishApproval_def intro: commit_step [OF commits_commitTx node_invariant.approval sound_finishApprovalBody assms(2)] node_invariant_axioms)
next
  case (input E rv ref msg pl ro)
  then show ?thesis
    by (auto simp: finishInput_def intro: commit_step [OF commits_commitTx node_invariant.input sound_finishInputBody assms(2)] node_invariant_axioms)
next
  case (observe E rv ob)
  then show ?thesis
    by (auto simp: Observe_def intro: commit_step [OF commits_commitTx node_invariant.observe sound_observeBody assms(2)] node_invariant_axioms)
next
  case (adapter E rv expected reference ev)
  then show ?thesis
    using commit_step [OF ObserveAdapterEvent_commits node_invariant.adapter [OF node_invariant_axioms] sound_observeAdapterBody assms(2)] by simp
next
  case (artifact E rv i content)
  then show ?thesis
    using StoreArtifact_commits [of E i content d] assms(2)
      commit_step [OF _ keeps_afterID [OF node_invariant.artifact [OF node_invariant_axioms]] sound_afterID [OF sound_storeArtifactBody]] by blast
next
  case (recover E rv)
  then show ?thesis
    by (auto simp: recoverStartup_def intro: commit_step [OF commits_commitTx node_invariant.recover sound_recoverStartupBody assms(2)] node_invariant_axioms)
qed

lemma reachable_inv: "reachable d \<Longrightarrow> I (node_state d) d"
  by (induction rule: reachable_induct) (use init in \<open>auto simp: initialLedger_def intro: step\<close>)

end

text \<open>A relation of the contract \<open>section_rel\<close> that carries an invariant gives the invariant.\<close>

locale section_invariant = section_rel "inv_step J" for J :: "durableState \<Rightarrow> db \<Rightarrow> bool" +
  assumes section_init: "J (initialState node owner registry) (initialLedger node owner registry)"

sublocale section_invariant \<subseteq> node_invariant J
  by unfold_locales (rule section_init | intro keeps_rules)+

text \<open>The agreement on the active attempt is such an invariant.\<close>

lemma active_step_inv: "active_step = inv_step active_ok"
  by (auto simp: inv_step_def active_step_def fun_eq_iff)

interpretation active: section_invariant active_ok
  by (intro section_invariant.intro section_invariant_axioms.intro)
    (simp_all add: actsec.section_rel_axioms [unfolded active_step_inv] active_ok_def initialState_def initialLedger_def)

section \<open>Engine sections touch no outcome\<close>

definition db_engine_step :: "db \<Rightarrow> db \<Rightarrow> bool" where
  "db_engine_step d d' \<longleftrightarrow> commands d' = commands d \<and> command_rejections d' = command_rejections d \<and>
     administrative_holds d' = administrative_holds d \<and> hold_outcomes d' = hold_outcomes d \<and> hold_clock d' = hold_clock d \<and>
     logical_deletes d' = logical_deletes d"

lemma commitTx_engine: "keeps engine_step body \<Longrightarrow> db_engine_step d (snd (commitTx E body d))"
  by (rule commitTx_cases [of E body d]) (auto simp: db_engine_step_def engine_step_def Let_def dest!: keepsD)

lemma engine_sections:
  "db_engine_step d (snd (Observe E ob d))" "db_engine_step d (markAttemptUnknown E ref reason eff d)"
  "db_engine_step d (snd (markStarted E ref d))" "db_engine_step d (finishSteer E ref msg so d)"
  "db_engine_step d (finishApproval E ref actor pl ro d)" "db_engine_step d (finishInput E ref msg pl ro d)"
  "db_engine_step d (requeueAction E c d)" "db_engine_step d (finishAction E c st d)" "db_engine_step d (snd (recoverStartup E d))"
  unfolding Observe_def markAttemptUnknown_def markStarted_def finishSteer_def finishApproval_def finishInput_def requeueAction_def
    finishAction_def recoverStartup_def
  by (rule commitTx_engine, intro keeps_rules)+

lemma engine_sections2:
  "db_engine_step d (snd (claimAction E l d))" "db_engine_step d (snd (recoverPristinePolicy E policy d))"
  "db_engine_step d (blockPolicy E d)" "db_engine_step d (snd (DispatchNext E G peeked d))"
proof -
  have refl: "db_engine_step d d" by (simp add: db_engine_step_def)
  have up: "db_engine_step d (snd (commitTx E (updateActions P st) d))" for P st by (intro commitTx_engine keeps_rules)
  show "db_engine_step d (snd (claimAction E l d))"
    using up refl by (auto simp: claimAction_def split: option.splits prod.splits sum.splits) (metis snd_conv)
  show "db_engine_step d (snd (recoverPristinePolicy E policy d))"
    using refl by (auto simp: recoverPristinePolicy_def split: option.splits intro!: commitTx_engine keeps_rules)
  show b: "db_engine_step d (blockPolicy E d)" using refl by (auto simp: blockPolicy_def intro!: commitTx_engine keeps_rules)
  show "db_engine_step d (snd (DispatchNext E G peeked d))"
    using DispatchNext_ledger [of E G peeked d] refl b by (auto intro!: commitTx_engine keeps_rules)
qed

lemma engine_commits_step:
  assumes "commits m d d'" and "keeps engine_step m"
  shows "db_engine_step d d'"
  using assms(1) unfolding commits_def
proof (elim disjE exE conjE)
  fix x t
  assume m: "m (beginTx d) = Inr (x, t)" and "d' = tx_db t"
  then show ?thesis using keepsD [OF assms(2) m] by (simp add: db_engine_step_def engine_step_def Let_def)
qed (simp add: db_engine_step_def)

lemma engine_sections3:
  "db_engine_step d (fst (snd (ObserveAdapterEvent E expected reference ev d)))" "db_engine_step d (fst (snd (StoreArtifact E i content d)))"
proof -
  show "db_engine_step d (fst (snd (ObserveAdapterEvent E expected reference ev d)))"
    by (rule engine_commits_step [OF ObserveAdapterEvent_commits]) (intro keeps_rules)
  have "keeps engine_step (afterID m)" if "keeps engine_step m" for m :: "storeOutcome tx"
    using that by (fastforce simp: keeps_def afterID_def engine_step_def)
  then show "db_engine_step d (fst (snd (StoreArtifact E i content d)))"
    using StoreArtifact_commits [of E i content d] by (auto elim!: engine_commits_step intro: keeps_rules)
qed

lemma barrier_commands:
  "commands (snd (InstallHold E node raw d)) = commands d" "command_rejections (snd (InstallHold E node raw d)) = command_rejections d"
  "commands (snd (ReleaseHold E node raw d)) = commands d" "command_rejections (snd (ReleaseHold E node raw d)) = command_rejections d"
proof -
  have i: "commands (tx_db t') = commands d \<and> command_rejections (tx_db t') = command_rejections d"
    if "installBody E v r dg (beginTx d) = Inr (oc, t')" for v r dg oc t'
    using that by (cases rule: installBody_cases) (auto dest!: placeHoldD)
  have r: "commands (tx_db t') = commands d \<and> command_rejections (tx_db t') = command_rejections d"
    if "releaseBody E v r dg (beginTx d) = Inr (oc, t')" for v r dg oc t'
    using that by (cases rule: releaseBody_cases) (auto dest!: liftHoldD)
  have "commands (snd (runTx E c m (installBody E v r dg) d)) = commands d \<and>
      command_rejections (snd (runTx E c m (installBody E v r dg) d)) = command_rejections d" for c m v r dg
    by (rule runTx_cases [of E c m "installBody E v r dg" d]) (auto dest!: i)
  moreover have "commands (snd (runTx E c m (releaseBody E v r dg) d)) = commands d \<and>
      command_rejections (snd (runTx E c m (releaseBody E v r dg) d)) = command_rejections d" for c m v r dg
    by (rule runTx_cases [of E c m "releaseBody E v r dg" d]) (auto dest!: r)
  ultimately show "commands (snd (InstallHold E node raw d)) = commands d" "command_rejections (snd (InstallHold E node raw d)) = command_rejections d"
    "commands (snd (ReleaseHold E node raw d)) = commands d" "command_rejections (snd (ReleaseHold E node raw d)) = command_rejections d"
    by (auto simp: InstallHold_def ReleaseHold_def split: option.splits)
qed

lemma node_step_one_outcome:
  assumes "node_step d d'" and "one_outcome d"
  shows "one_outcome d'"
proof -
  have eng: "db_engine_step d e \<Longrightarrow> one_outcome e" for e
    using assms(2) one_outcome_cong [of e d] by (simp add: db_engine_step_def)
  show ?thesis
    using assms by (cases rule: node_step.cases)
      (auto intro: SubmitCommand_one_outcome deleteLogical_one_outcome eng engine_sections engine_sections2 engine_sections3
        simp: one_outcome_cong [OF barrier_commands(1,2)] one_outcome_cong [OF barrier_commands(3,4)])
qed

lemma initial_one_outcome: "one_outcome (initialLedger node owner registry)"
  by (simp add: one_outcome_def outcome_ids_def initialLedger_def)

lemma reachable_one_outcome: "reachable d \<Longrightarrow> one_outcome d"
  by (induction rule: reachable_induct) (auto intro: initial_one_outcome node_step_one_outcome)

section \<open>Submitting again\<close>

text \<open>The configuration two environments of the same node share.\<close>

definition same_config :: "env \<Rightarrow> env \<Rightarrow> bool" where
  "same_config E E' \<longleftrightarrow> env_nodeID E' = env_nodeID E \<and> env_ownerID E' = env_ownerID E \<and> env_adapterKind E' = env_adapterKind E \<and>
     env_adapterVersion E' = env_adapterVersion E \<and> env_sha E' = env_sha E"

lemma parsedCommand_config: "same_config E E' \<Longrightarrow> parsedCommand E' trust raw = parsedCommand E trust raw"
  by (simp add: same_config_def parsedCommand_def)

lemma submitBody_identity: "submitBody E trust c v digest t = Inr (x, t') \<Longrightarrow> identityExpected E trust (tx_state t)"
  by (simp add: submitBody_def)

lemma identityExpected_stable:
  assumes "identityExpected E trust s" and "same_config E E'" and "ahead s s'"
  shows "identityExpected E' trust s'"
  using assms by (auto simp: identityExpected_def same_config_def ahead_def identity_def split: option.splits)

text \<open>A committed submission leaves exactly one outcome, and its body is the answer.\<close>

lemma submitBody_outcome:
  assumes "submitBody E trust c v digest t = Inr (Commit r a b f, t')"
  obtains so where "so \<in> set (outcomeRows (tx_db t') (ce_commandId c))" and "so_hash so = digest" and "so_body so = res_body r"
    and "outcomeRows (tx_db t) (ce_commandId c) = []"
  using assms
proof (cases rule: submitBody_cases)
  case (replay so)
  then show ?thesis by simp
next
  case (held h)
  obtain row where "tx_db t' = (tx_db t)\<lparr>command_rejections := command_rejections (tx_db t) @ [row]\<rparr>" and "rej_id row = ce_commandId c"
    and "rej_hash row = digest" and "r = okResult 409 (rejectionReceipt_json (rej_receipt row))"
    using commitCommandRejectionD [OF held(4)] by auto
  then show ?thesis using held(1) by (intro that) (auto simp: outcomeRows_def okResult_def)
next
  case admitted
  obtain x t1 t2 where rc: "recordCommand E c v digest x t2 = Inr (Commit r a b f, t')"
    by (rule admitCommandD [OF admitted(4)])
  obtain row where "commands (tx_db t') = commands (tx_db t2) @ [row]" and "cmd_id row = ce_commandId c" and "cmd_hash row = digest"
    and "r = okResult 202 (receipt_json (cmd_receipt row))"
    using recordCommandD [OF rc] by auto
  then show ?thesis using admitted(1) by (intro that) (auto simp: outcomeRows_def okResult_def)
qed

lemma runTx_committed:
  assumes "runTx E cor m body d = (r, d')" and "res_committed r" and "\<And>x t. body (beginTx d) = Inr (Answer x, t) \<Longrightarrow> \<not> res_committed x"
  obtains x a b f t where "body (beginTx d) = Inr (Commit x a b f, t)" and "d' = tx_db t"
    and "\<not> env_faultAfter E \<longrightarrow> r = x\<lparr>res_committed := True\<rparr>"
proof -
  have err: "\<not> res_committed (commandError E cor e)" for e by (cases e) (simp_all add: errorResult_def)
  show ?thesis
  proof (cases "body (beginTx d)")
    case (Inl e)
    then show ?thesis using assms(1,2) err by (auto simp: runTx_def split: if_splits)
  next
    case (Inr p)
    obtain oc t where p: "p = (oc, t)" by (cases p)
    show ?thesis
    proof (cases oc)
      case (Answer x)
      then show ?thesis using assms err Inr p by (auto simp: runTx_def split: if_splits)
    next
      case (Commit x a b f)
      then show ?thesis using assms(1,2) err Inr p that [of x a b f t] by (auto simp: runTx_def split: if_splits)
    qed
  qed
qed

lemma submit_committed:
  assumes p: "parsedCommand E trust raw = Some (c, v, digest)" and s: "SubmitCommand E trust lenient raw d = (r, d')"
    and ok: "res_committed r"
  obtains so where "so \<in> set (outcomeRows d' (ce_commandId c))" and "so_hash so = digest"
    and "\<not> env_faultAfter E \<longrightarrow> so_body so = res_body r" and "outcomeRows d (ce_commandId c) = []" and "identityExpected E trust (node_state d)"
proof -
  have run: "runTx E (ce_commandId c) ''durable store is unavailable'' (submitBody E trust c v digest) d = (r, d')"
    using s SubmitCommand_parsed [OF p] by simp
  have ans: "\<not> res_committed x" if "submitBody E trust c v digest (beginTx d) = Inr (Answer x, t)" for x t
    using that by (cases rule: submitBody_cases) (auto simp: okResult_def dest!: commitCommandRejectionD elim!: admitCommandD dest!: recordCommandD)
  obtain x a b f t where b: "submitBody E trust c v digest (beginTx d) = Inr (Commit x a b f, t)" and d': "d' = tx_db t"
    and r: "\<not> env_faultAfter E \<longrightarrow> r = x\<lparr>res_committed := True\<rparr>"
    by (rule runTx_committed [OF run ok ans]) blast+
  obtain so where "so \<in> set (outcomeRows d' (ce_commandId c))" "so_hash so = digest" "so_body so = res_body x"
      "outcomeRows d (ce_commandId c) = []"
    using submitBody_outcome [OF b] unfolding d' by auto
  moreover have "identityExpected E trust (node_state d)" using submitBody_identity [OF b] by simp
  ultimately show ?thesis using r that by auto
qed

lemma submit_again:
  assumes p: "parsedCommand E trust raw = Some (c, v, digest)"
    and s: "SubmitCommand E trust lenient raw d = (r, d1)" and ok: "res_committed r" and later: "node_steps d1 d2" and "reachable d1"
    and E': "same_config E E'" "env_beginOk E'"
  shows "\<exists>so. outcomeRows d2 (ce_commandId c) = [so] \<and> (\<not> env_faultAfter E \<longrightarrow> so_body so = res_body r) \<and>
    SubmitCommand E' trust lenient' raw d2 =
      (if commandOutcomeTargetsDeletedDialog d2 so
       then errorResult E' 404 ''not_found'' ''command was not found'' (ce_commandId c) None ''''
       else okResult (so_status so) (so_body so), d2)"
proof -
  obtain so where so: "so \<in> set (outcomeRows d1 (ce_commandId c))" "so_hash so = digest"
      "\<not> env_faultAfter E \<longrightarrow> so_body so = res_body r" "identityExpected E trust (node_state d)"
    by (rule submit_committed [OF p s ok]) blast
  have step: "db_step d1 d2" using later by (rule node_steps_db_step)
  have "one_outcome d2" using reachable_steps [OF \<open>reachable d1\<close> later] by (rule reachable_one_outcome)
  then have rows: "outcomeRows d2 (ce_commandId c) = [so]"
    using outcomeRows_stable [OF _ _ so(1)] step by (simp add: db_step_def)
  have "db_step d d2" using SubmitCommand_step [of d E trust lenient raw] step s by (auto intro: db_step_trans)
  then have "identityExpected E' trust (node_state d2)"
    using identityExpected_stable [OF so(4) E'(1)] by (simp add: db_step_def)
  from submit_replay [OF _ E'(2) this rows] parsedCommand_config [OF E'(1)] p so(2,3) rows show ?thesis
    by simp
qed

end
