(* ===== verification/Barrier_Laws.thy ===== *)
theory Barrier_Laws
  imports Node_System
begin

text \<open>
  What the administrative barrier promises: active holds never overlap and are numbered in the order
  of installation, installing and releasing touch only the barrier's own tables, a stored hold is
  found again, and no covered work is admitted or started.
\<close>

section \<open>Active holds are disjoint\<close>

definition holds_ok :: "durableState \<Rightarrow> db \<Rightarrow> bool" where
  "holds_ok s d \<longleftrightarrow> (\<forall>h\<in>set (administrative_holds d). hold_node h = NodeID s \<and> hold_version h < hold_clock d) \<and>
     sorted_wrt (\<lambda>h h'. hold_version h < hold_version h' \<and>
       (activeHold d h \<longrightarrow> activeHold d h' \<longrightarrow> \<not> overlaps (hold_scope h) (hold_scope h'))) (administrative_holds d)"

lemma holds_ok_cong:
  "administrative_holds d' = administrative_holds d \<Longrightarrow> hold_outcomes d' = hold_outcomes d \<Longrightarrow> hold_clock d' = hold_clock d \<Longrightarrow>
     NodeID s' = NodeID s \<Longrightarrow> holds_ok s' d' = holds_ok s d"
  by (simp add: holds_ok_def activeHold_def)

lemma holds_ok_engine: "keeps engine_step m \<Longrightarrow> keeps ledger_step m \<Longrightarrow> keeps (inv_step holds_ok) m"
proof (rule keepsI)
  fix t x t'
  assume "keeps engine_step m" "keeps ledger_step m" "m t = Inr (x, t')"
  then have "engine_step t t'" "ledger_step t t'" by (auto dest: keepsD)
  then show "inv_step holds_ok t t'"
    using holds_ok_cong [of "tx_db t'" "tx_db t" "tx_state t'" "tx_state t"]
    by (auto simp: inv_step_def engine_step_def Let_def ledger_step_def ahead_def identity_def)
qed

text \<open>Releasing only makes fewer holds active.\<close>

lemma holds_ok_outcome:
  assumes "holds_ok s d" and "administrative_holds d' = administrative_holds d" and "hold_outcomes d' = hold_outcomes d @ ho"
    and "hold_clock d \<le> hold_clock d'" and "NodeID s' = NodeID s"
  shows "holds_ok s' d'"
proof -
  have "activeHold d' h \<Longrightarrow> activeHold d h" for h
    using assms(3) by (auto simp: activeHold_def has_key_def sel_append split: option.splits)
  then show ?thesis using assms by (fastforce simp: holds_ok_def elim!: sorted_wrt_mono_rel [rotated])
qed

lemma holds_ok_installBody: "keeps (inv_step holds_ok) (installBody E v q digest)"
proof (rule keepsI)
  fix t x t'
  assume b: "installBody E v q digest t = Inr (x, t')"
  then show "inv_step holds_ok t t'"
  proof (cases rule: installBody_cases)
    case (replay h)
    then show ?thesis by (simp add: inv_step_def)
  next
    case installed
    obtain h R S where p: "tx_db t' = (tx_db t)\<lparr>hold_clock := hold_clock (tx_db t) + 1, hold_scope_revisions := R,
        administrative_holds := administrative_holds (tx_db t) @ [h], scope_revisions := S\<rparr>" "tx_state t' = tx_state t"
        "hold_node h = NodeID (tx_state t)" "hold_scope h = scope_of (ir_scope q)" "hold_version h = hold_clock (tx_db t)"
      using placeHoldD [OF installed(3)] by auto
    have g: "\<not> (activeHold (tx_db t) k \<and> overlaps (hold_scope k) (hold_scope h))"
      if "holds_ok (tx_state t) (tx_db t)" "k \<in> set (administrative_holds (tx_db t))" for k
      using installed(2) that by (auto simp: installGuards_def Let_def p(4) list_ex_iff holds_ok_def)
    have "activeHold (tx_db t') k = activeHold (tx_db t) k" for k by (simp add: p(1) activeHold_def)
    then show ?thesis
      using g by (auto simp: inv_step_def p holds_ok_def sorted_wrt_append)
  qed
qed

lemma holds_ok_releaseBody: "keeps (inv_step holds_ok) (releaseBody E v rq digest)"
proof (rule keepsI)
  fix t x t'
  assume b: "releaseBody E v rq digest t = Inr (x, t')"
  then show "inv_step holds_ok t t'"
  proof (cases rule: releaseBody_cases)
    case (replay h)
    then show ?thesis by (simp add: inv_step_def)
  next
    case (released h)
    then show ?thesis using liftHoldD [OF released(7)] by (auto simp: inv_step_def intro: holds_ok_outcome)
  qed
qed

lemma holds_ok_logicalDeleteBody: "keeps (inv_step holds_ok) (logicalDeleteBody E v nr rh)"
proof (rule keepsI)
  fix t x t'
  assume b: "logicalDeleteBody E v nr rh t = Inr (x, t')"
  have "administrative_holds (tx_db t') = administrative_holds (tx_db t) \<and> (\<exists>ho. hold_outcomes (tx_db t') = hold_outcomes (tx_db t) @ ho)"
    using b by (cases rule: logicalDeleteBody_cases) (auto dest!: deleteUnderHoldD)
  moreover have "ledger_step t t'" using b by (rule keepsD [rotated]) (intro keeps_rules)
  ultimately show "inv_step holds_ok t t'"
    by (auto simp: inv_step_def ledger_step_def outcomes_grow_def ahead_def identity_def intro: holds_ok_outcome)
qed

lemma recordCommand_holds:
  assumes "recordCommand E c v digest a t = Inr (oc, t')"
  shows "administrative_holds (tx_db t') = administrative_holds (tx_db t)" and "hold_outcomes (tx_db t') = hold_outcomes (tx_db t)"
    and "hold_clock (tx_db t') = hold_clock (tx_db t)"
  using assms unfolding recordCommand_def
  by (auto simp: Let_def recordIntent_def split: prod.splits option.splits dest!: insertActionD insertCommandD saveState_frame)

lemma holds_ok_submitBody: "keeps (inv_step holds_ok) (submitBody E trust c v digest)"
proof (rule keepsI)
  fix t x t'
  assume b: "submitBody E trust c v digest t = Inr (x, t')"
  have l: "ledger_step t t'" using b by (rule keepsD [rotated]) (intro keeps_rules)
  have "administrative_holds (tx_db t') = administrative_holds (tx_db t) \<and> hold_outcomes (tx_db t') = hold_outcomes (tx_db t) \<and>
      hold_clock (tx_db t') = hold_clock (tx_db t)"
    using b
  proof (cases rule: submitBody_cases)
    case (held h)
    then show ?thesis by (auto dest!: commitCommandRejectionD)
  next
    case admitted
    obtain a t1 t2 where "recordCommand E c v digest a t2 = Inr (x, t')" and "handler_step t t2"
      by (rule admitCommandD [OF admitted(4)])
    then show ?thesis using recordCommand_holds by (auto simp: handler_step_def outcomes_same_def)
  qed simp
  with l show "inv_step holds_ok t t'"
    using holds_ok_cong [of "tx_db t'" "tx_db t" "tx_state t'" "tx_state t"]
    by (auto simp: inv_step_def ledger_step_def ahead_def identity_def)
qed

interpretation holds: node_invariant holds_ok
proof
  show "holds_ok (initialState node owner registry) (initialLedger node owner registry)" for node owner registry
    by (simp add: holds_ok_def initialLedger_def)
qed (rule holds_ok_submitBody holds_ok_installBody holds_ok_releaseBody holds_ok_logicalDeleteBody | (rule holds_ok_engine; intro keeps_rules))+

section \<open>What the barrier changes\<close>

lemma runTx_uncommitted: "\<not> res_committed (fst (runTx E cor m body d)) \<Longrightarrow> snd (runTx E cor m body d) = d"
  by (auto simp: runTx_def split: sum.splits prod.splits txOutcome.splits if_splits)

lemma InstallHold_cases:
  obtains (same) "snd (InstallHold E node raw d) = d" and "\<not> res_committed (fst (InstallHold E node raw d))"
  | (placed) v q digest h R S where "raw = Some v" and "CanonicalInstallRequest (env_sha E) v = Some (q, digest)"
      and "node = env_nodeID E" and "ir_nodeId q = env_nodeID E" and "res_committed (fst (InstallHold E node raw d))"
      and "\<not> env_faultAfter E \<longrightarrow> fst (InstallHold E node raw d) = \<lparr>res_status = 201, res_body = holdReceipt_json (hold_receipt h), res_committed = True\<rparr>"
      and "installGuards (node_state d) d q (beginTx d) = Inr ((), beginTx d)"
      and "snd (InstallHold E node raw d) = d\<lparr>hold_clock := hold_clock d + 1, hold_scope_revisions := R,
        administrative_holds := administrative_holds d @ [h], scope_revisions := S\<rparr>"
      and "map_of R (scopeKey (hold_scope h)) = Some (hold_revision h)" and "hold_operation h = ir_operationId q" and "hold_hash h = digest"
      and "hold_node h = NodeID (node_state d)" and "hold_scope h = scope_of (ir_scope q)" and "hold_version h = hold_clock d"
      and "hold_revision h = currentRevision d (scopeKey (hold_scope h)) + 1" and "validHoldReceipt (hold_receipt h)"
proof (cases "res_committed (fst (InstallHold E node raw d))")
  case False
  then have "snd (InstallHold E node raw d) = d" using runTx_uncommitted by (auto simp: InstallHold_def split: option.splits if_splits)
  with False show ?thesis by (rule same [rotated])
next
  case True
  then obtain v q digest where raw: "raw = Some v" and can: "CanonicalInstallRequest (env_sha E) v = Some (q, digest)"
    and n: "node = env_nodeID E" "ir_nodeId q = env_nodeID E"
    and run: "InstallHold E node raw d = runTx E '''' ''durable store is unavailable'' (installBody E v q digest) d"
    by (auto simp: InstallHold_def errorResult_def split: option.splits if_splits bind_splits)
  have ans: "\<not> res_committed x" if "installBody E v q digest (beginTx d) = Inr (Answer x, t)" for x t
    using that by (cases rule: installBody_cases) (auto simp: okResult_def dest!: placeHoldD)
  have run': "runTx E '''' ''durable store is unavailable'' (installBody E v q digest) d =
      (fst (InstallHold E node raw d), snd (InstallHold E node raw d))" by (simp add: run)
  obtain x a b f t where b: "installBody E v q digest (beginTx d) = Inr (Commit x a b f, t)" and d': "snd (InstallHold E node raw d) = tx_db t"
    and r: "\<not> env_faultAfter E \<longrightarrow> fst (InstallHold E node raw d) = x\<lparr>res_committed := True\<rparr>"
    by (rule runTx_committed [OF run' True ans]) blast+
  from b show ?thesis
  proof (cases rule: installBody_cases)
    case installed
    from placeHoldD [OF installed(3)] show ?thesis
      using raw can n True r d' installed(2) by (elim exE conjE) (rule placed, (simp_all add: okResult_def))
  qed simp
qed

text \<open>A stored hold is found under its operation id and its bytes, whatever happened since.\<close>

lemma install_stored:
  assumes r: "CanonicalInstallRequest (env_sha E) v = Some (q, digest)" "ir_nodeId q = env_nodeID E"
    and s: "sel hold_operation (ir_operationId q) (administrative_holds d) = Some h" "hold_hash h = digest" and b: "env_beginOk E"
  shows "InstallHold E (env_nodeID E) (Some v) d = (okResult 200 (holdReceipt_json (hold_receipt h)), d)"
proof -
  have "installBody E v q digest (beginTx d) = Inr (Answer (okResult 200 (holdReceipt_json (hold_receipt h))), beginTx d)"
    using s by (simp add: installBody_def bindM_def readState_def readDb_def returnM_def)
  then show ?thesis using r b by (simp add: InstallHold_def runTx_def)
qed

lemma install_operation: "CanonicalInstallRequest sha v = Some (q, digest) \<Longrightarrow> operationPattern (ir_operationId q)"
  by (auto simp: CanonicalInstallRequest_def validateInstallRequest_def split: option.splits if_splits prod.splits)

lemma operationPattern_bounds: "operationPattern x \<Longrightarrow> x \<noteq> [] \<and> int (length x) \<le> 128"
  by (cases x) (auto simp: operationPattern_def actorPattern_def)

lemma hold_status_stored:
  assumes "operationPattern i" and "sel hold_operation i (administrative_holds d) = Some h" and "validHoldReceipt (hold_receipt h)"
  shows "HoldStatus E (env_nodeID E) i d = okResult 200 (holdReceipt_json (hold_receipt h))"
  using assms operationPattern_bounds [OF assms(1)] by (simp add: HoldStatus_def)

lemma hold_found_later:
  assumes "InstallHold E node raw d = (r, d1)" and "res_committed r" and "node_steps d1 d2" and "reachable d2"
    and "same_config E E'" and "env_beginOk E'"
  obtains h :: holdRow and q where "InstallHold E' node raw d2 = (okResult 200 (holdReceipt_json (hold_receipt h)), d2)"
    and "Option.bind raw (CanonicalInstallRequest (env_sha E)) = Some (q, hold_hash h)"
    and "HoldStatus E' node (ir_operationId q) d2 = okResult 200 (holdReceipt_json (hold_receipt h))"
    and "\<not> env_faultAfter E \<longrightarrow> res_body r = holdReceipt_json (hold_receipt h)"
proof (rule InstallHold_cases [of E node raw d])
  fix v q digest h R S
  assume p: "raw = Some v" "CanonicalInstallRequest (env_sha E) v = Some (q, digest)" "node = env_nodeID E" "ir_nodeId q = env_nodeID E"
    "\<not> env_faultAfter E \<longrightarrow> fst (InstallHold E node raw d) = \<lparr>res_status = 201, res_body = holdReceipt_json (hold_receipt h), res_committed = True\<rparr>"
    and d1: "snd (InstallHold E node raw d) = d\<lparr>hold_clock := hold_clock d + 1, hold_scope_revisions := R,
        administrative_holds := administrative_holds d @ [h], scope_revisions := S\<rparr>"
    and h: "hold_operation h = ir_operationId q" "hold_hash h = digest" "validHoldReceipt (hold_receipt h)"
  have "h \<in> set (administrative_holds d1)" using d1 assms(1) by simp
  moreover have "prefix (administrative_holds d1) (administrative_holds d2)"
    using node_steps_db_step [OF assms(3)] by (simp add: db_step_def outcomes_grow_def)
  ultimately have "h \<in> set (administrative_holds d2)" using set_mono_prefix by blast
  moreover have "unique_key hold_operation (administrative_holds d2)"
    using reachable_ledger_ok [OF assms(4)] by (simp add: ledger_ok_def keys_ok_def)
  ultimately have "sel hold_operation (ir_operationId q) (administrative_holds d2) = Some h" using h(1) by (simp add: sel_Some_iff)
  moreover have cfg: "env_sha E' = env_sha E" "env_nodeID E' = env_nodeID E" using assms(5) by (simp_all add: same_config_def)
  ultimately show ?thesis
    using install_stored [of E' v q digest d2 h] hold_status_stored [OF install_operation [OF p(2)], of d2 h E'] p h assms(1,6)
    by (intro that [of h q]) auto
qed (use assms(1,2) in simp)

lemma ReleaseHold_frame:
  "snd (ReleaseHold E node raw d) = d \<or> (\<exists>R ho S. snd (ReleaseHold E node raw d) =
       d\<lparr>hold_scope_revisions := R, hold_outcomes := hold_outcomes d @ [ho], scope_revisions := S\<rparr> \<and>
     lr_manualPause (hout_receipt ho) = QueuePaused (node_state d) \<and> validReleaseReceipt (hout_receipt ho))"
proof -
  have "\<exists>v rq dg. commits (releaseBody E v rq dg) d (snd (ReleaseHold E node raw d))" by (rule entry_commits)
  then show ?thesis unfolding commits_def
  proof (elim exE disjE conjE)
    fix v rq dg x t
    assume b: "releaseBody E v rq dg (beginTx d) = Inr (x, t)" and d': "snd (ReleaseHold E node raw d) = tx_db t"
    from b show ?thesis
    proof (cases rule: releaseBody_cases)
      case (released h)
      then show ?thesis using liftHoldD [OF released(7)] unfolding d' tx_db_beginTx tx_state_beginTx by blast
    qed (simp add: d')
  qed simp
qed

section \<open>Quiescence\<close>

lemma count_rows_zero: "count_rows P rows = 0 \<longleftrightarrow> (\<forall>r\<in>set rows. \<not> P r)"
  by (auto simp: count_rows_def filter_empty_conv)

lemma unsettledCount_zero:
  assumes "unsettledCount d node sc = 0"
  shows "r \<in> set (requests d) \<Longrightarrow> in_scope sc (req_dialog r) \<Longrightarrow>
      \<not> (req_status r = RDispatching \<or> req_status r = RActive \<or> req_status r = RUnknown)"
    and "a \<in> set (attempts d) \<Longrightarrow> att_node a = node \<Longrightarrow> in_scope sc (att_dialog a) \<Longrightarrow> settledEffect (att_effect a)"
    and "c \<in> set (control_actions d) \<Longrightarrow> attemptInScope d node sc (act_attempt c) \<Longrightarrow>
      act_status c = CAcknowledged \<or> act_status c = CRejected"
    and "p \<in> set (approvals d) \<Longrightarrow> attemptInScope d node sc (app_attempt p) \<Longrightarrow> app_status p = SResolved"
    and "i \<in> set (input_requests d) \<Longrightarrow> attemptInScope d node sc (inp_attempt i) \<Longrightarrow> inp_status i = SResolved"
proof -
  have z: "a + b + c + d + e + f + g = 0 \<Longrightarrow> 0 \<le> a \<Longrightarrow> 0 \<le> b \<Longrightarrow> 0 \<le> c \<Longrightarrow> 0 \<le> d \<Longrightarrow> 0 \<le> e \<Longrightarrow> 0 \<le> f \<Longrightarrow> 0 \<le> g \<Longrightarrow>
    a = 0 \<and> b = 0 \<and> c = 0 \<and> d = 0 \<and> e = 0 \<and> f = 0 \<and> g = 0" for a b c d e f g :: int by linarith
  note * = z [OF assms [unfolded unsettledCount_def] count_rows_nonneg count_rows_nonneg count_rows_nonneg count_rows_nonneg
    count_rows_nonneg count_rows_nonneg count_rows_nonneg, unfolded count_rows_zero]
  show "r \<in> set (requests d) \<Longrightarrow> in_scope sc (req_dialog r) \<Longrightarrow>
      \<not> (req_status r = RDispatching \<or> req_status r = RActive \<or> req_status r = RUnknown)"
    and "a \<in> set (attempts d) \<Longrightarrow> att_node a = node \<Longrightarrow> in_scope sc (att_dialog a) \<Longrightarrow> settledEffect (att_effect a)"
    and "p \<in> set (approvals d) \<Longrightarrow> attemptInScope d node sc (app_attempt p) \<Longrightarrow> app_status p = SResolved"
    and "i \<in> set (input_requests d) \<Longrightarrow> attemptInScope d node sc (inp_attempt i) \<Longrightarrow> inp_status i = SResolved"
    using * by blast+
  show "c \<in> set (control_actions d) \<Longrightarrow> attemptInScope d node sc (act_attempt c) \<Longrightarrow>
      act_status c = CAcknowledged \<or> act_status c = CRejected"
    using * by (cases "act_status c") auto
qed

lemma errorResult_status [simp]: "res_status (errorResult E status code msg correlation version st) = status"
  by (simp add: errorResult_def)

lemma quiescenceBody_error: "quiescenceBody E i t = Inl e \<Longrightarrow> res_status (commandError E '''' e) \<noteq> 200"
  by (auto simp: quiescenceBody_def bindM_def readState_def readDb_def guardM_def returnM_def failM_def Let_def reject_def
      conflict_def notDurable_def errorResult_def split: option.splits if_splits)

lemma quiescenceBodyD:
  assumes "quiescenceBody E i t = Inr (r, t')"
  obtains h p where "r = okResult 200 (quiescenceProof_json (env_sha E) p)"
      and "sel hold_operation i (administrative_holds (tx_db t)) = Some h" and "hold_node h = NodeID (tx_state t)" and "activeHold (tx_db t) h"
      and "hold_epoch h = Epoch (tx_state t)" and "hold_binding h = RegistryVersion (tx_state t)"
      and "scopeRevision (tx_db t) (scopeKey (hold_scope h)) = Some (hold_revision h)"
      and "\<not> activeInScope (tx_db t) (NodeID (tx_state t)) (hold_scope h)"
      and "unsettledCount (tx_db t) (NodeID (tx_state t)) (hold_scope h) = 0"
      and "validQuiescenceProof (env_sha E) p" and "qp_operationId p = i" and "qp_scope p = hold_scope h"
      and "qp_parkedRequestIdsDigest p = parkedDigest (env_sha E) (parkedRequests (tx_db t) (hold_scope h))"
  using assms by (auto simp: quiescenceBody_def Let_def split: option.splits)

section \<open>Covered work\<close>

text \<open>The command is one that an active hold covers.\<close>

definition covered :: "env \<Rightarrow> db \<Rightarrow> commandEnvelope \<Rightarrow> bool" where
  "covered E d c \<longleftrightarrow> (case ce_kind c of
     DialogCreate \<Rightarrow> nodeHold E d \<noteq> None
   | QueueResume \<Rightarrow> nodeHold E d \<noteq> None
   | MessageEnqueue \<Rightarrow> jstring (ce_target c) ''dialogId'' \<noteq> '''' \<and> dialogHeld d (env_nodeID E) (jstring (ce_target c) ''dialogId'')
   | AttemptRetry \<Rightarrow> (case attemptDialog d (jstring (ce_target c) ''attemptId'') of
       None \<Rightarrow> False | Some dlg \<Rightarrow> dlg \<noteq> '''' \<and> dialogHeld d (env_nodeID E) dlg)
   | _ \<Rightarrow> False)"

lemma coveringHold_held: "dialogHeld d (env_nodeID E) dlg \<Longrightarrow> dlg \<noteq> '''' \<Longrightarrow> coveringHold E d dlg \<noteq> None"
proof -
  assume "dialogHeld d (env_nodeID E) dlg" and "dlg \<noteq> ''''"
  then obtain h where h: "h \<in> set (administrative_holds d)" "hold_node h = env_nodeID E" "activeHold d h" "in_scope (hold_scope h) dlg"
    by (auto simp: dialogHeld_def list_ex_iff)
  then show ?thesis
    using \<open>dlg \<noteq> ''''\<close>
    by (cases "hold_scope h") (auto simp: coveringHold_def nodeHold_def filter_empty_conv simp del: not_None_eq split: option.splits)
qed

lemma covered_hold:
  assumes "covered E d c"
  obtains h where "coveringHoldForCommand E c (beginTx d) = Inr (Some h, beginTx d)"
proof -
  have "coveringHold E d '''' = nodeHold E d" by (auto simp: coveringHold_def split: option.splits)
  then show ?thesis
    using assms that coveringHold_held
    by (cases "ce_kind c")
      (fastforce simp: covered_def coveringHoldForCommand_def bindM_def readDb_def returnM_def needM_def split: option.splits)+
qed

lemma covered_submit:
  assumes p: "parsedCommand E trust raw = Some (c, v, digest)" and cov: "covered E d c" and fresh: "outcomeRows d (ce_commandId c) = []"
  shows "snd (SubmitCommand E trust lenient raw d) = d \<or> (\<exists>row. snd (SubmitCommand E trust lenient raw d) =
       d\<lparr>command_rejections := command_rejections d @ [row]\<rparr> \<and> rej_id row = ce_commandId c \<and> rej_hash row = digest \<and> rej_status row = 409 \<and>
     validRejectionReceipt (rej_receipt row) \<and> (\<not> env_faultAfter E \<longrightarrow> fst (SubmitCommand E trust lenient raw d) =
       \<lparr>res_status = 409, res_body = rejectionReceipt_json (rej_receipt row), res_committed = True\<rparr>))"
proof -
  obtain h where h: "coveringHoldForCommand E c (beginTx d) = Inr (Some h, beginTx d)" using cov by (rule covered_hold)
  consider (fail) e where "submitBody E trust c v digest (beginTx d) = Inl e"
    | (body) oc t where "submitBody E trust c v digest (beginTx d) = Inr (oc, t)"
    by (cases "submitBody E trust c v digest (beginTx d)") auto
  then show ?thesis
  proof cases
    case fail
    then show ?thesis unfolding SubmitCommand_parsed [OF p] by (simp add: runTx_def)
  next
    case body
    then show ?thesis
    proof (cases rule: submitBody_cases)
      case (held h')
      from commitCommandRejectionD [OF held(4)] show ?thesis
        unfolding SubmitCommand_parsed [OF p] by (elim exE conjE) (simp add: runTx_def body okResult_def, blast)
    qed (use fresh h in auto)
  qed
qed

end
