(* ===== verification/Queue_Laws.thy ===== *)
theory Queue_Laws
  imports Barrier_Laws
begin

text \<open>
  The queue: which request a dispatch takes and what it writes, that a held dialog is neither
  dispatched nor started, and that \<open>PendingCount\<close> is the number of queued requests through
  admission and dispatch.
\<close>

section \<open>Statements that only report\<close>

text \<open>\<open>quiet\<close>: the work tables stay, and of the state only the event counter moves.\<close>

definition calm :: "durableState \<Rightarrow> durableState" where
  "calm s = s\<lparr>LastEventSeq := 0\<rparr>"

definition quiet :: "txn \<Rightarrow> txn \<Rightarrow> bool" where
  "quiet t t' \<longleftrightarrow> dialogs (tx_db t') = dialogs (tx_db t) \<and> messages (tx_db t') = messages (tx_db t) \<and>
     requests (tx_db t') = requests (tx_db t) \<and> attempts (tx_db t') = attempts (tx_db t) \<and>
     control_actions (tx_db t') = control_actions (tx_db t) \<and>
     calm (tx_state t') = calm (tx_state t)"

interpretation quiet: preorder_rel quiet
  by unfold_locales (simp_all add: quiet_def)

lemma calmD:
  assumes "calm s' = calm s"
  shows "PendingCount s' = PendingCount s" "QueuePaused s' = QueuePaused s" "ActiveAttemptID s' = ActiveAttemptID s"
    "NodeID s' = NodeID s" "NextQueueSequence s' = NextQueueSequence s" "NextMessageSequence s' = NextMessageSequence s"
    "QueueVersion s' = QueueVersion s" "StateVersion s' = StateVersion s" "BlockedReasons s' = BlockedReasons s"
  using assms [THEN arg_cong [where f = PendingCount]] assms [THEN arg_cong [where f = QueuePaused]]
    assms [THEN arg_cong [where f = ActiveAttemptID]] assms [THEN arg_cong [where f = NodeID]]
    assms [THEN arg_cong [where f = NextQueueSequence]] assms [THEN arg_cong [where f = NextMessageSequence]]
    assms [THEN arg_cong [where f = QueueVersion]] assms [THEN arg_cong [where f = StateVersion]]
    assms [THEN arg_cong [where f = BlockedReasons]]
  by (simp_all add: calm_def)

lemma quiet_stmts [keeps_rules]:
  "keeps quiet (readDb g1)" "keeps quiet (readState g2)" "keeps quiet (timestamp E)" "keeps quiet (newID E)"
  "keeps quiet (appendEvent E i v a dl pl late)" "keeps quiet (bindEvent P9 k h)" "keeps quiet (insertLate r10)" "keeps quiet (insertPolicy r11)"
  "keeps quiet (insertCommand c1)" "keeps quiet saveState"
  by (auto simp: keeps_def quiet_def calm_def dest!: stmtD saveState_frame)

lemma quiet_events [keeps_rules]: "keeps quiet (appendNodeEvent E)" "keeps quiet (appendQueueEvent E)" "keeps quiet (announceDispatch E p r a g)"
  unfolding appendNodeEvent_def appendQueueEvent_def announceDispatch_def by (intro keeps_rules)+

section \<open>The effect of a dispatch\<close>

lemma takeRequestD:
  assumes "takeRequest E r m attID t = Inr (u, t')"
  obtains now where "requests (tx_db t') = upd req_id (req_id r)
      (\<lambda>r. r\<lparr>req_version := req_version r + 1, req_status := RDispatching, req_updated := now\<rparr>) (requests (tx_db t))"
    and "attempts (tx_db t') = attempts (tx_db t)" and "control_actions (tx_db t') = control_actions (tx_db t)"
    and "dialogs (tx_db t') = dialogs (tx_db t)" and "calm (tx_state t') = calm (tx_state t)"
    and "messages (tx_db t') = (if msg_disposition m = Some DQueued
      then upd msg_id (req_message r) (\<lambda>m. m\<lparr>msg_version := msg_version m + 1, msg_disposition := Some DApplied, msg_attempt := Some attID\<rparr>)
        (messages (tx_db t)) else messages (tx_db t))"
  using assms by (auto simp: takeRequest_def calm_def split: if_splits dest!: updateRequestD updateMessageD appendEventD)

lemma recordStartD:
  assumes "recordStart E r attID g t = Inr (u, t')"
  obtains tail where "failedTailProof E (tx_db t) (req_dialog r) (req_message r) = Inr tail"
    and "control_actions (tx_db t') = control_actions (tx_db t) @ [startIntent r attID g tail]"
    and "requests (tx_db t') = requests (tx_db t)" and "attempts (tx_db t') = attempts (tx_db t)" and "messages (tx_db t') = messages (tx_db t)"
    and "dialogs (tx_db t') = dialogs (tx_db t)" and "tx_state t' = tx_state t"
  using assms by (auto simp: recordStart_def dest!: insertActionD saveState_frame)

definition newAttempt :: "string \<Rightarrow> string \<Rightarrow> requestRow \<Rightarrow> int \<Rightarrow> string \<Rightarrow> attemptRow" where
  "newAttempt attID node r g hash = \<lparr>att_id = attID, att_node = node, att_dialog = req_dialog r, att_request = req_id r,
     att_generation = g, att_version = 1, att_state = ADispatching, att_effect = ''none'', att_boundary = req_message r,
     att_policy = hash, att_started = None, att_finished = None, att_output = 0\<rparr>"

lemma commitDispatchD:
  assumes "commitDispatch E policy r m t = Inr (x, t')"
  obtains attID g tail now where "x = Dispatched attID (req_id r)" and "g = nextGeneration (tx_db t) (req_message r)"
    and "attempts (tx_db t') = attempts (tx_db t) @ [newAttempt attID (NodeID (tx_state t)) r g (pol_effectiveHash policy)]"
    and "requests (tx_db t') = upd req_id (req_id r)
      (\<lambda>r. r\<lparr>req_version := req_version r + 1, req_status := RDispatching, req_updated := now\<rparr>) (requests (tx_db t))"
    and "control_actions (tx_db t') = control_actions (tx_db t) @ [startIntent r attID g tail]"
    and "calm (tx_state t') = calm (occupied attID (tx_state t))"
proof -
  obtain attID g t1 t2 t3 where x: "x = Dispatched attID (req_id r)" and op: "openAttempt E policy r t = Inr ((attID, g), t1)"
    and tk: "takeRequest E r m attID t1 = Inr ((), t2)"
    and an: "announceDispatch E policy r attID g (t2\<lparr>tx_state := occupied attID (tx_state t2)\<rparr>) = Inr ((), t3)"
    and st: "recordStart E r attID g t3 = Inr ((), t')"
    by (rule commitDispatch_run [OF assms])
  have q: "quiet (t2\<lparr>tx_state := occupied attID (tx_state t2)\<rparr>) t3" using keepsD [OF quiet_events(3) an] .
  have c: "calm (occupied attID s) = calm (occupied attID (calm s))" for s by (simp add: calm_def occupied_def)
  have oc: "calm s' = calm s \<Longrightarrow> calm (occupied attID s') = calm (occupied attID s)" for s s' by (metis c)
  show ?thesis
    using op
  proof (rule openAttemptD)
    fix P S
    assume o: "g = nextGeneration (tx_db t) (req_message r)" "tx_state t1 = tx_state t"
      "tx_db t1 = (tx_db t)\<lparr>policy_snapshots := P, attempts := attempts (tx_db t) @ [\<lparr>att_id = attID, att_node = NodeID (tx_state t),
      att_dialog = req_dialog r, att_request = req_id r, att_generation = g, att_version = 1, att_state = ADispatching,
      att_effect = ''none'', att_boundary = req_message r, att_policy = pol_effectiveHash policy, att_started = None,
      att_finished = None, att_output = 0\<rparr>], scope_revisions := S\<rparr>"
    from tk show ?thesis
    proof (rule takeRequestD)
      fix now
      assume k: "requests (tx_db t2) = upd req_id (req_id r)
        (\<lambda>r. r\<lparr>req_version := req_version r + 1, req_status := RDispatching, req_updated := now\<rparr>) (requests (tx_db t1))"
        "attempts (tx_db t2) = attempts (tx_db t1)" "control_actions (tx_db t2) = control_actions (tx_db t1)"
        "calm (tx_state t2) = calm (tx_state t1)"
      have "calm (tx_state t3) = calm (occupied attID (tx_state t))" using q oc [OF k(4)] o(2) by (simp add: quiet_def)
      with st show ?thesis
        by (elim recordStartD) (use x o k q in \<open>intro that [of attID g now], simp_all add: newAttempt_def quiet_def\<close>)
    qed
  qed
qed

lemma dispatchBody_cases:
  assumes "dispatchBody E policy cand t = Inr (x, t')"
  obtains (none) why where "x = NoDispatch why" and "t' = t"
  | (head) r m where "queueHead (tx_db t) (NodeID (tx_state t)) = Some r" and "sel msg_id (req_message r) (messages (tx_db t)) = Some m"
      and "\<not> QueuePaused (tx_state t)" and "ActiveAttemptID (tx_state t) = None" and "PendingCount (tx_state t) \<noteq> 0"
      and "StateVersion (tx_state t) = dc_stateVersion cand" and "commitDispatch E policy r m t = Inr (x, t')"
  using assms none head by (auto simp: dispatchBody_def split: if_splits option.splits)

lemma commitDispatch_settled: "commitDispatch E policy r m (beginTx d) = Inr (x, t) \<Longrightarrow> settled t"
  using settles_commitDispatch [of E policy r m] settled_in_front [OF settled_beginTx [of d]] by (auto simp: settles_def)

text \<open>When \<open>DispatchNext\<close> reports a dispatch, the decision was right in the ledger it committed to.\<close>

lemma DispatchNext_body:
  assumes "DispatchNext E G peeked d = (Inr x, d')" and "x = Dispatched attID reqID \<or> x = DispatchUnknown attID reqID"
  obtains policy cand y t where "dispatchBody E policy cand (beginTx d) = Inr (y, t)" and "d' = tx_db t"
    and "y = Dispatched attID reqID \<or> y = DispatchUnknown attID reqID"
    and "ValidatePolicySnapshot (env_sha E) policy" and "dg_authFirst G" and "dg_authSecond G" and "\<not> dg_settingsBlocked G"
proof -
  obtain policy cand res where g: "dg_authFirst G" "ValidatePolicySnapshot (env_sha E) policy" "dg_authSecond G" "\<not> dg_settingsBlocked G"
    and res: "commitTx E (dispatchBody E policy cand) d = (res, d')" "dispatchReply E res = Inr x"
    using assms by (auto simp: DispatchNext_def split: if_splits option.splits sum.splits prod.splits dispatchResult.splits)
  from res(2) obtain y where y: "res = Inr y" "y = Dispatched attID reqID \<or> y = DispatchUnknown attID reqID"
    using assms(2) by (auto simp: dispatchReply_def split: sum.splits dispatchResult.splits if_splits)
  show ?thesis
    by (rule commitTx_cases [of E "dispatchBody E policy cand" d]) (use res y g that in auto)
qed

lemma DispatchNext_dispatched:
  assumes "DispatchNext E G peeked d = (Inr x, d')" and "x = Dispatched attID reqID \<or> x = DispatchUnknown attID reqID"
  obtains r m policy t where "queueHead d (NodeID (node_state d)) = Some r" and "sel msg_id (req_message r) (messages d) = Some m"
    and "req_id r = reqID" and "\<not> QueuePaused (node_state d)" and "ActiveAttemptID (node_state d) = None" and "PendingCount (node_state d) \<noteq> 0"
    and "commitDispatch E policy r m (beginTx d) = Inr (Dispatched attID reqID, t)" and "d' = tx_db t"
    and "ValidatePolicySnapshot (env_sha E) policy" and "dg_authFirst G" and "dg_authSecond G" and "\<not> dg_settingsBlocked G"
proof (rule DispatchNext_body [OF assms])
  fix policy cand y t
  assume b: "dispatchBody E policy cand (beginTx d) = Inr (y, t)" and d': "d' = tx_db t"
    and y: "y = Dispatched attID reqID \<or> y = DispatchUnknown attID reqID"
    and g: "ValidatePolicySnapshot (env_sha E) policy" "dg_authFirst G" "dg_authSecond G" "\<not> dg_settingsBlocked G"
  from b show ?thesis
  proof (cases rule: dispatchBody_cases)
    case (head r m)
    then have "y = Dispatched attID reqID \<and> req_id r = reqID" using y by (auto elim!: commitDispatch_run)
    then show ?thesis using that [of r m policy t] head d' g by simp
  qed (use y in auto)
qed

lemma queueHead_Some:
  assumes "queueHead d node = Some r"
  shows "r \<in> set (requests d)" and "req_status r = RQueued" and "\<not> dialogHeld d node (req_dialog r)"
    and "q \<in> set (requests d) \<Longrightarrow> req_status q = RQueued \<Longrightarrow> has_key msg_id (req_message q) (messages d) \<Longrightarrow>
      \<not> dialogHeld d node (req_dialog q) \<Longrightarrow> req_sequence r \<le> req_sequence q"
  using first_by_Some [OF assms [unfolded queueHead_def]] by (auto simp: dispatchable_def)

section \<open>Claiming\<close>

lemma claimAction_Some:
  assumes "claimAction E l d = (Some c, d')"
  obtains S where "c \<in> set (control_actions d)" and "act_status c = CPending" and "laneAccepts d l c"
    and "d' = d\<lparr>control_actions := map (\<lambda>a. if act_command a = act_command c \<and> act_status a = CPending then a\<lparr>act_status := CInflight\<rparr> else a)
      (control_actions d), scope_revisions := S\<rparr>"
proof -
  obtain y where f: "List.find (\<lambda>c. act_status c = CPending \<and> laneAccepts d l c) (control_actions d) = Some c"
    and ct: "commitTx E (updateActions (\<lambda>x. act_command x = act_command c \<and> act_status x = CPending) CInflight) d = (Inr y, d')"
    using assms by (auto simp: claimAction_def split: option.splits prod.splits sum.splits)
  have c: "c \<in> set (control_actions d)" "act_status c = CPending" "laneAccepts d l c" using f by (auto simp: find_Some_iff)
  show ?thesis
    by (rule commitTx_cases [of E "updateActions (\<lambda>x. act_command x = act_command c \<and> act_status x = CPending) CInflight" d])
      (use ct c that in \<open>auto dest!: updateActionsD\<close>)
qed

section \<open>The pending count\<close>

text \<open>\<open>PendingCount\<close> against the number of queued requests.\<close>

definition queued :: "db \<Rightarrow> int" where
  "queued d = count_rows (\<lambda>r. req_status r = RQueued) (requests d)"

definition pending_ok :: "durableState \<Rightarrow> db \<Rightarrow> bool" where
  "pending_ok s d \<longleftrightarrow> PendingCount s = queued d"

definition msg_ids :: "db \<Rightarrow> string set" where
  "msg_ids d = set (map msg_id (messages d))"

definition queue_frame :: "txn \<Rightarrow> txn \<Rightarrow> bool" where
  "queue_frame t t' \<longleftrightarrow> requests (tx_db t') = requests (tx_db t) \<and> PendingCount (tx_state t') = PendingCount (tx_state t) \<and>
     NextQueueSequence (tx_state t') = NextQueueSequence (tx_state t) \<and> msg_ids (tx_db t) \<subseteq> msg_ids (tx_db t')"

interpretation qf: preorder_rel queue_frame
  by unfold_locales (auto simp: queue_frame_def)

lemma queue_frame_writeState [keeps_rules]:
  "(\<And>s. PendingCount (f s) = PendingCount s) \<Longrightarrow> (\<And>s. NextQueueSequence (f s) = NextQueueSequence s) \<Longrightarrow> keeps queue_frame (writeState f)"
  by (auto simp: keeps_def queue_frame_def)

lemma queue_frame_stmts [keeps_rules]:
  "keeps queue_frame (readDb g1)" "keeps queue_frame (readState g2)" "keeps queue_frame (timestamp E)" "keeps queue_frame (newID E)"
  "keeps queue_frame (insertDialog r1)" "keeps queue_frame (updateDialog k f1)"
  "keeps queue_frame (insertMessage r2)" "keeps queue_frame (updateAttempt k f4)"
  "keeps queue_frame (insertAttempt r4)" "keeps queue_frame (insertAction r5)" "keeps queue_frame (updateActions P st)"
  "keeps queue_frame (updateApproval k P7 f7)" "keeps queue_frame (updateInput k P8 f8)" "keeps queue_frame (appendEvent E i v a dl pl late)"
  "keeps queue_frame (bindEvent P9 k h)" "keeps queue_frame (insertCommand c1)" "keeps queue_frame (insertRejection c2)"
  "keeps queue_frame saveState"
  by (auto simp: keeps_def queue_frame_def msg_ids_def dest!: stmtD saveState_frame)

lemma queue_frame_updateMessage [keeps_rules]: "(\<And>r. msg_core (f r) = msg_core r) \<Longrightarrow> keeps queue_frame (updateMessage k f)"
  by (auto simp: keeps_def queue_frame_def msg_ids_def map_upd_core msg_core_def simp del: set_map dest!: updateMessageD)

lemma queue_frame_events [keeps_rules]: "keeps queue_frame (appendNodeEvent E)" "keeps queue_frame (appendQueueEvent E)"
  unfolding appendNodeEvent_def appendQueueEvent_def by (intro keeps_rules)+

lemma queue_frame_handlers [keeps_rules]:
  "keeps queue_frame (applyDialogCreate E c)" "keeps queue_frame (applyDialogDelete E c)" "keeps queue_frame (applyQueueResume E c)"
  "keeps queue_frame (applyAttemptStop E c)" "keeps queue_frame (applyMessageSteer E c)" "keeps queue_frame (applyApproval E c)"
  "keeps queue_frame (applyInput E c)"
  unfolding applyDialogCreate_def applyDialogDelete_def applyQueueResume_def applyAttemptStop_def applyMessageSteer_def applyApproval_def
    applyInput_def
  by (intro keeps_rules; simp add: msg_core_def)+

lemma pending_frame: "queue_frame t t' \<Longrightarrow> pending_ok (tx_state t') (tx_db t') = pending_ok (tx_state t) (tx_db t)"
  by (simp add: queue_frame_def pending_ok_def queued_def)

lemmas frameD = queue_frame_stmts(6,14) [THEN keepsD] queue_frame_events [THEN keepsD]

lemma cancelMessage_frame:
  "updateMessage k (\<lambda>m. m\<lparr>msg_version := msg_version m + 1, msg_disposition := x\<rparr>) t = Inr (u, t') \<Longrightarrow> queue_frame t t'"
  by (rule keepsD [rotated], assumption) (intro keeps_rules; simp add: msg_core_def)

lemma insertMessage_queue: "insertMessage m t = Inr (u, t') \<Longrightarrow> queue_frame t t' \<and> msg_id m \<in> msg_ids (tx_db t')"
  by (auto simp: queue_frame_def msg_ids_def dest!: insertMessageD)

lemma insertRequest_queue:
  "insertRequest r t = Inr (u, t') \<Longrightarrow> requests (tx_db t') = requests (tx_db t) @ [r] \<and> tx_state t' = tx_state t \<and>
     msg_ids (tx_db t') = msg_ids (tx_db t)"
  by (auto simp: msg_ids_def dest!: insertRequestD)

lemma updateRequest_queue:
  "updateRequest k f t = Inr (u, t') \<Longrightarrow> requests (tx_db t') = upd req_id k f (requests (tx_db t)) \<and> tx_state t' = tx_state t"
  by (auto dest!: updateRequestD)

lemma applyMessageEnqueue_queue:
  assumes "applyMessageEnqueue E c t = Inr (a, t')"
  obtains r where "requests (tx_db t') = requests (tx_db t) @ [r]" and "req_status r = RQueued" and "req_sequence r = NextQueueSequence (tx_state t)"
    and "req_dialog r = jstring (ce_target c) ''dialogId''" and "req_message r \<in> msg_ids (tx_db t')"
    and "fst a = refs [(''dialogId'', req_dialog r), (''messageId'', req_message r), (''requestId'', req_id r)]"
    and "msg_ids (tx_db t) \<subseteq> msg_ids (tx_db t')" and "PendingCount (tx_state t) < QueueCapacity"
    and "PendingCount (tx_state t') = PendingCount (tx_state t) + 1"
    and "NextQueueSequence (tx_state t') = NextQueueSequence (tx_state t) + 1"
  using assms unfolding applyMessageEnqueue_def Let_def
  by (clarsimp dest!: frameD insertMessage_queue insertRequest_queue) (simp add: queue_frame_def, meson subset_eq)

lemma applyAttemptRetry_queue:
  assumes "applyAttemptRetry E c t = Inr (a, t')"
  obtains r where "requests (tx_db t') = requests (tx_db t) @ [r]" and "req_status r = RQueued" and "req_sequence r = NextQueueSequence (tx_state t)"
    and "req_message r \<in> set (map req_message (requests (tx_db t)))" and "msg_ids (tx_db t) \<subseteq> msg_ids (tx_db t')"
    and "PendingCount (tx_state t) < QueueCapacity" and "PendingCount (tx_state t') = PendingCount (tx_state t) + 1"
    and "NextQueueSequence (tx_state t') = NextQueueSequence (tx_state t) + 1"
  using assms unfolding applyAttemptRetry_def Let_def
  by (clarsimp dest!: frameD insertRequest_queue) (auto simp: queue_frame_def attemptMessage_def dest!: sel_SomeD)

lemma applyRequestCancel_queue:
  assumes "applyRequestCancel E c t = Inr (a, t')"
  obtains r now where "sel req_id (jstring (ce_target c) ''requestId'') (requests (tx_db t)) = Some r" and "req_status r = RQueued"
    and "requests (tx_db t') = upd req_id (jstring (ce_target c) ''requestId'')
      (\<lambda>r. r\<lparr>req_version := req_version r + 1, req_status := RCancelled, req_updated := now\<rparr>) (requests (tx_db t))"
    and "PendingCount (tx_state t') = PendingCount (tx_state t) - 1" and "NextQueueSequence (tx_state t') = NextQueueSequence (tx_state t)"
  using assms unfolding applyRequestCancel_def Let_def
  by (clarsimp dest!: frameD cancelMessage_frame updateRequest_queue) (simp add: queue_frame_def)

lemma applyCommand_pending:
  assumes "applyCommand E c t = Inr (a, t')" and "pending_ok (tx_state t) (tx_db t)" and "unique_key req_id (requests (tx_db t))"
  shows "pending_ok (tx_state t') (tx_db t')"
proof -
  have frame: ?thesis if "queue_frame t t'" using pending_frame [OF that] assms(2) by simp
  show ?thesis
  proof (cases "ce_kind c")
    case MessageEnqueue
    with assms(1) have "applyMessageEnqueue E c t = Inr (a, t')" by (simp add: applyCommand_def)
    then show ?thesis
      by (rule applyMessageEnqueue_queue) (use assms(2) in \<open>simp add: pending_ok_def queued_def count_rows_snoc\<close>)
  next
    case AttemptRetry
    with assms(1) have "applyAttemptRetry E c t = Inr (a, t')" by (simp add: applyCommand_def)
    then show ?thesis
      by (rule applyAttemptRetry_queue) (use assms(2) in \<open>simp add: pending_ok_def queued_def count_rows_snoc\<close>)
  next
    case RequestCancel
    with assms(1) have "applyRequestCancel E c t = Inr (a, t')" by (simp add: applyCommand_def)
    then show ?thesis
      by (rule applyRequestCancel_queue) (use assms(2,3) in \<open>simp add: pending_ok_def queued_def count_rows_upd\<close>)
  qed (use assms(1) in \<open>auto simp: applyCommand_def intro!: frame dest: keepsD [OF queue_frame_handlers(1)]
    keepsD [OF queue_frame_handlers(3)] keepsD [OF queue_frame_handlers(4)] keepsD [OF queue_frame_handlers(5)]
    keepsD [OF queue_frame_handlers(6)] keepsD [OF queue_frame_handlers(7)]\<close>)
qed

lemma submitBody_pending:
  assumes b: "submitBody E trust c v digest t = Inr (x, t')" and ok: "pending_ok (tx_state t) (tx_db t)" "unique_key req_id (requests (tx_db t))"
  shows "pending_ok (tx_state t') (tx_db t')"
  using b
proof (cases rule: submitBody_cases)
  case (held h)
  then show ?thesis using ok by (auto simp: pending_ok_def queued_def dest!: commitCommandRejectionD)
next
  case admitted
  obtain a t1 t2 where ad: "admitStorage E (ce_kind c) t = Inr ((), t1)" "applyCommand E c t1 = Inr (a, t2)"
    "recordCommand E c v digest a t2 = Inr (x, t')"
    by (rule admitCommandD [OF admitted(4)])
  have s: "keeps queue_frame (admitStorage E k)" "keeps queue_frame (recordCommand E c v digest a)" for k
    unfolding admitStorage_def recordCommand_def releaseReserve_def recordIntent_def by (intro keeps_rules; simp)+
  from pending_frame [OF keepsD [OF s(1) ad(1)]] keepsD [OF s(1) ad(1)] applyCommand_pending [OF ad(2)] pending_frame [OF keepsD [OF s(2) ad(3)]] ok
  show ?thesis by (simp add: queue_frame_def)
qed (use ok in simp)

lemma dispatchBody_pending:
  assumes b: "dispatchBody E policy cand t = Inr (x, t')" and ok: "pending_ok (tx_state t) (tx_db t)" "unique_key req_id (requests (tx_db t))"
  shows "pending_ok (tx_state t') (tx_db t')"
  using b
proof (cases rule: dispatchBody_cases)
  case (head r m)
  have r: "sel req_id (req_id r) (requests (tx_db t)) = Some r" "req_status r = RQueued"
    using queueHead_Some [OF head(1)] ok(2) by (auto simp: sel_Some_iff)
  from head(7) show ?thesis
  proof (rule commitDispatchD)
    fix attID now
    assume q: "requests (tx_db t') = upd req_id (req_id r) (\<lambda>r. r\<lparr>req_version := req_version r + 1, req_status := RDispatching, req_updated := now\<rparr>)
        (requests (tx_db t))" and s: "calm (tx_state t') = calm (occupied attID (tx_state t))"
    have "PendingCount (tx_state t') = PendingCount (tx_state t) - 1" using calmD(1) [OF s] by (simp add: occupied_def)
    then show ?thesis using ok r q by (simp add: pending_ok_def queued_def count_rows_upd)
  qed
qed (use ok in simp)

end
