(* ===== verification/Queue_Refinement.thy ===== *)
theory Queue_Refinement
  imports Queue_Laws
begin

text \<open>
  The queue as its users see it: a list of waiting requests in arrival order, one slot, and a pause
  switch. The ledger implements it: the waiting list is the queued requests by queue sequence, and
  admission, cancellation and dispatch on the ledger are append, remove and take on the list.
\<close>

section \<open>Well-formed queues\<close>

text \<open>
  Requests are stored in the order of their queue sequences, all below the next one to be handed
  out, and the input message of every request exists.
\<close>

definition queue_ok :: "durableState \<Rightarrow> db \<Rightarrow> bool" where
  "queue_ok s d \<longleftrightarrow> sorted_wrt (<) (map req_sequence (requests d) @ [NextQueueSequence s]) \<and>
     set (map req_message (requests d)) \<subseteq> msg_ids d"

definition queue_ok_frame :: "txn \<Rightarrow> txn \<Rightarrow> bool" where
  "queue_ok_frame t t' \<longleftrightarrow> map req_sequence (requests (tx_db t')) = map req_sequence (requests (tx_db t)) \<and>
     map req_message (requests (tx_db t')) = map req_message (requests (tx_db t)) \<and>
     msg_ids (tx_db t) \<subseteq> msg_ids (tx_db t') \<and>
     NextQueueSequence (tx_state t) \<le> NextQueueSequence (tx_state t')"

definition queue_ok_step :: "txn \<Rightarrow> txn \<Rightarrow> bool" where
  "queue_ok_step = inv_step queue_ok"

interpretation qo: preorder_rel queue_ok_step
  by unfold_locales (auto simp: queue_ok_step_def inv_step_def)

lemma queue_ok_frame_step: "queue_ok_frame t t' \<Longrightarrow> queue_ok_step t t'"
  unfolding queue_ok_frame_def queue_ok_step_def inv_step_def queue_ok_def
  by (elim conjE) (simp only: sorted_wrt_append, fastforce)

lemma queue_ok_stmts [keeps_rules]:
  "keeps queue_ok_step (readDb g1)" "keeps queue_ok_step (readState g2)" "keeps queue_ok_step (timestamp E)" "keeps queue_ok_step (newID E)"
  "keeps queue_ok_step (insertDialog r1)" "keeps queue_ok_step (updateDialog k f1)" "keeps queue_ok_step (insertMessage r2)"
  "keeps queue_ok_step (insertAttempt r4)" "keeps queue_ok_step (updateAttempt k f4)" "keeps queue_ok_step (insertAction r5)"
  "keeps queue_ok_step (updateActions P st)" "keeps queue_ok_step (updateApproval k P7 f7)" "keeps queue_ok_step (updateInput k P8 f8)"
  "keeps queue_ok_step (appendEvent E i v a dl pl late)" "keeps queue_ok_step (bindEvent P9 k h)" "keeps queue_ok_step (insertLate r10)"
  "keeps queue_ok_step (insertPolicy r11)" "keeps queue_ok_step (insertCommand c1)" "keeps queue_ok_step (insertRejection c2)"
  "keeps queue_ok_step (insertHold c3)" "keeps queue_ok_step (insertHoldOutcome c4)" "keeps queue_ok_step (insertLogicalDelete c5)"
  "keeps queue_ok_step (advanceHoldClock v)" "keeps queue_ok_step (putScopeRevision k v)" "keeps queue_ok_step saveState"
  by (auto simp: keeps_def queue_ok_frame_def msg_ids_def intro!: queue_ok_frame_step dest!: stmtD saveState_frame)

lemma queue_ok_updateRequest [keeps_rules]: "(\<And>r. req_core (f r) = req_core r) \<Longrightarrow> keeps queue_ok_step (updateRequest k f)"
  by (auto simp: keeps_def queue_ok_frame_def map_upd_core req_core_def msg_ids_def intro!: queue_ok_frame_step dest!: updateRequestD)

lemma queue_ok_updateMessage [keeps_rules]: "(\<And>r. msg_core (f r) = msg_core r) \<Longrightarrow> keeps queue_ok_step (updateMessage k f)"
  by (auto simp: keeps_def queue_ok_frame_def msg_ids_def map_upd_core msg_core_def simp del: set_map intro!: queue_ok_frame_step dest!: updateMessageD)

lemma queue_ok_writeState [keeps_rules]: "(\<And>s. NextQueueSequence s \<le> NextQueueSequence (f s)) \<Longrightarrow> keeps queue_ok_step (writeState f)"
  by (auto simp: keeps_def queue_ok_frame_def intro!: queue_ok_frame_step)

lemma queue_ok_events [keeps_rules]: "keeps queue_ok_step (appendNodeEvent E)" "keeps queue_ok_step (appendQueueEvent E)"
  unfolding appendNodeEvent_def appendQueueEvent_def by (intro keeps_rules)+

text \<open>A request at the end of the queue.\<close>

lemma queue_ok_snoc:
  assumes "queue_ok s d" and "requests d' = requests d @ [r]" and "req_sequence r = NextQueueSequence s" and "NextQueueSequence s' = NextQueueSequence s + 1"
    and "msg_ids d \<subseteq> msg_ids d'" and "req_message r \<in> msg_ids d'"
  shows "queue_ok s' d'"
  using assms unfolding queue_ok_def by (simp add: sorted_wrt_append) (meson less_imp_le subset_trans zle_add1_eq_le)

lemma queue_ok_handlers [keeps_rules]:
  "keeps queue_ok_step (applyMessageEnqueue E c)" "keeps queue_ok_step (applyAttemptRetry E c)" "keeps queue_ok_step (applyRequestCancel E c)"
  "keeps queue_ok_step (applyAttemptStop E c)"
proof -
  show "keeps queue_ok_step (applyMessageEnqueue E c)"
    by (auto simp: keeps_def queue_ok_step_def inv_step_def intro: queue_ok_snoc elim!: applyMessageEnqueue_queue)
  show "keeps queue_ok_step (applyAttemptRetry E c)"
  proof (rule keepsI, rule applyAttemptRetry_queue, assumption)
    fix t :: txn and a and t' :: txn and r
    assume r: "requests (tx_db t') = requests (tx_db t) @ [r]" "req_sequence r = NextQueueSequence (tx_state t)"
      "req_message r \<in> set (map req_message (requests (tx_db t)))" "msg_ids (tx_db t) \<subseteq> msg_ids (tx_db t')"
      "NextQueueSequence (tx_state t') = NextQueueSequence (tx_state t) + 1"
    have "req_message r \<in> msg_ids (tx_db t')" if "queue_ok (tx_state t) (tx_db t)" using that r(3,4) by (auto simp: queue_ok_def)
    then show "queue_ok_step t t'" using queue_ok_snoc [OF _ r(1,2,5,4)] by (simp add: queue_ok_step_def inv_step_def)
  qed
  show "keeps queue_ok_step (applyRequestCancel E c)" "keeps queue_ok_step (applyAttemptStop E c)"
    unfolding applyRequestCancel_def applyAttemptStop_def by (intro keeps_rules; simp add: core_defs)+
qed

lemma queue_ok_unknown [keeps_rules]: "keeps queue_ok_step (setAttemptUnknown E ref reason eff)"
  unfolding setAttemptUnknown_def by (intro keeps_rules; simp add: core_defs)

lemma queue_ok_commitDispatch [keeps_rules]: "keeps queue_ok_step (commitDispatch E policy r m)"
proof -
  have l: "keeps queue_ok_step (liftM x)" for x :: "failure + tailProof option" by (auto simp: keeps_def qo.R_refl)
  show ?thesis
    unfolding commitDispatch_def openAttempt_def takeRequest_def announceDispatch_def recordStart_def
    by (intro keeps_rules l; simp add: occupied_def core_defs)
qed

lemma queue_ok_attempts [keeps_rules]:
  "keeps queue_ok_step (markStartedBody E ref)" "keeps queue_ok_step (observeBody E ob)" "keeps queue_ok_step (dispatchBody E policy cand)"
  "keeps queue_ok_step (finishSteerBody E ref msgID so)"
proof -
  show "keeps queue_ok_step (dispatchBody E policy cand)" unfolding dispatchBody_def by (intro keeps_rules)
  show "keeps queue_ok_step (markStartedBody E ref)"
    unfolding markStartedBody_def recordAdapterProjection_def by (intro keeps_rules; simp add: core_defs)
  show "keeps queue_ok_step (observeBody E ob)"
    unfolding observeBody_def archiveLateObservation_def applyTerminal_def by (intro keeps_rules; simp add: core_defs)
  show "keeps queue_ok_step (finishSteerBody E ref msgID so)"
    unfolding finishSteerBody_def by (cases so) (simp_all, (intro keeps_rules; simp add: core_defs)+)
qed

text \<open>Outputs and events of the adapter: a request only changes its status.\<close>

lemma queue_ok_output [keeps_rules]:
  "keeps queue_ok_step (insertTool r6)" "keeps queue_ok_step (updateTool k6 f6)" "keeps queue_ok_step (insertArtifact r12)"
  "keeps queue_ok_step (updateArtifacts P12 c12 b12)" "keeps queue_ok_step (insertApproval r7)" "keeps queue_ok_step (insertInput r8)"
  "keeps queue_ok_step (setOutput a1 n1)"
  by (auto simp: keeps_def queue_ok_frame_def msg_ids_def setOutput_def intro!: queue_ok_frame_step dest!: stmtD)

lemma queue_ok_limitStop [keeps_rules]: "keeps queue_ok_step (scheduleOutputLimitStop E ref)"
  unfolding scheduleOutputLimitStop_def by (intro keeps_rules) simp_all

interpretation qoarc: archive_rel queue_ok_step
proof
  show "keeps queue_ok_step (writeState f)" if "\<And>s. desk (f s) = desk s" for f
    using that by (intro keeps_rules) (simp add: desk_def)
qed ((intro keeps_rules) | simp add: queue_ok_step_def inv_step_def)+

lemma queue_ok_adapter [keeps_rules]: "keeps queue_ok_step (observeAdapterBody E ref ev)"
proof -
  have terminal: "keeps queue_ok_step (prepareTerminalProjection E ref v ev)" for v ev
    unfolding prepareTerminalProjection_def finishAttempt_def vacated_def Let_def
    by (cases ev) (simp_all only: adapterEvent.case, (intro keeps_rules; simp add: core_defs)+)
  have prepare: "keeps queue_ok_step (prepareProjection E ref v st ev)" for v st
    unfolding prepareProjection_def Let_def transitionWaiting_def
    by (cases ev) (simp_all only: adapterEvent.case terminal, (intro keeps_rules; simp)+)
  show ?thesis
    unfolding observeAdapterBody_def projectAdapterEvent_def emitProjection_def by (intro keeps_rules prepare; simp)
qed

lemma queue_ok_artifact [keeps_rules]: "keeps queue_ok_step (storeArtifactBody E i c k)"
  unfolding storeArtifactBody_def recordArtifact_def by (intro keeps_rules)

interpretation qosec: section_rel queue_ok_step
proof
  show "keeps queue_ok_step (writeState f)" if "\<And>s. desk (f s) = desk s" for f
    using that by (intro keeps_rules) (simp add: desk_def)
qed ((intro keeps_rules; assumption?) | simp add: queue_ok_step_def inv_step_def)+

interpretation queues: section_invariant queue_ok
  by (intro section_invariant.intro section_invariant_axioms.intro)
    (simp_all add: qosec.section_rel_axioms [unfolded queue_ok_step_def] queue_ok_def initialLedger_def)

section \<open>The abstract queue\<close>

text \<open>Waiting requests with their dialogs, in order; the attempt in the slot; the pause switch.\<close>

record queue =
  waiting :: "(string \<times> string) list"
  slot :: "string option"
  paused :: bool

definition waiter :: "requestRow \<Rightarrow> string \<times> string" where
  "waiter r = (req_id r, req_dialog r)"

definition queue_of :: "durableState \<Rightarrow> db \<Rightarrow> queue" where
  "queue_of s d = \<lparr>waiting = map waiter (sort_key req_sequence (filter (\<lambda>r. req_status r = RQueued) (requests d))),
     slot = ActiveAttemptID s, paused = QueuePaused s\<rparr>"

definition enqueue_spec :: "string \<Rightarrow> string \<Rightarrow> queue \<Rightarrow> queue" where
  "enqueue_spec req dlg q = q\<lparr>waiting := waiting q @ [(req, dlg)]\<rparr>"

definition remove_spec :: "string \<Rightarrow> queue \<Rightarrow> queue" where
  "remove_spec req q = q\<lparr>waiting := filter (\<lambda>w. fst w \<noteq> req) (waiting q)\<rparr>"

text \<open>Take the first waiting request whose dialog is not held.\<close>

definition take_spec :: "(string \<Rightarrow> bool) \<Rightarrow> string \<Rightarrow> queue \<Rightarrow> (string \<times> queue) option" where
  "take_spec held attempt q =
     (if paused q \<or> slot q \<noteq> None then None
      else map_option (\<lambda>w. (fst w, (remove_spec (fst w) q)\<lparr>slot := Some attempt\<rparr>)) (List.find (\<lambda>w. \<not> held (snd w)) (waiting q)))"

lemma queue_ok_sorted:
  assumes "queue_ok s d"
  shows "sorted (map req_sequence (filter P (requests d)))"
proof -
  have "sorted_wrt (\<lambda>x y. req_sequence x < req_sequence y) (filter P (requests d))"
    using assms by (intro sorted_wrt_filter) (simp add: queue_ok_def sorted_wrt_append sorted_wrt_map)
  then show ?thesis by (simp add: sorted_wrt_map) (rule sorted_wrt_mono_rel [rotated], assumption, simp)
qed

lemma queue_of_eq: "queue_ok s d \<Longrightarrow> queue_of s d =
    \<lparr>waiting = map waiter (filter (\<lambda>r. req_status r = RQueued) (requests d)), slot = ActiveAttemptID s, paused = QueuePaused s\<rparr>"
  using queue_ok_sorted [THEN sort_key_id_if_sorted] by (simp add: queue_of_def)

text \<open>The slot and the switch in statements that move neither.\<close>

definition switch_frame :: "txn \<Rightarrow> txn \<Rightarrow> bool" where
  "switch_frame t t' \<longleftrightarrow> ActiveAttemptID (tx_state t') = ActiveAttemptID (tx_state t) \<and> QueuePaused (tx_state t') = QueuePaused (tx_state t)"

interpretation sw: preorder_rel switch_frame
  by unfold_locales (auto simp: switch_frame_def)

lemma switch_stmts [keeps_rules]:
  "keeps switch_frame (readDb g1)" "keeps switch_frame (readState g2)" "keeps switch_frame (timestamp E)" "keeps switch_frame (newID E)"
  "keeps switch_frame (insertMessage r2)" "keeps switch_frame (updateMessage k f2)" "keeps switch_frame (insertRequest r3)"
  "keeps switch_frame (updateRequest k f3)" "keeps switch_frame (updateDialog k f1)" "keeps switch_frame (appendEvent E i v a dl pl late)"
  "keeps switch_frame (insertAction r5)" "keeps switch_frame (insertCommand c1)" "keeps switch_frame saveState"
  by (auto simp: keeps_def switch_frame_def dest!: stmtD saveState_frame)

lemma switch_writeState [keeps_rules]:
  "(\<And>s. ActiveAttemptID (f s) = ActiveAttemptID s) \<Longrightarrow> (\<And>s. QueuePaused (f s) = QueuePaused s) \<Longrightarrow> keeps switch_frame (writeState f)"
  by (auto simp: keeps_def switch_frame_def)

lemma switch_handlers [keeps_rules]:
  "keeps switch_frame (appendNodeEvent E)" "keeps switch_frame (appendQueueEvent E)" "keeps switch_frame (applyMessageEnqueue E c)"
  "keeps switch_frame (applyRequestCancel E c)" "keeps switch_frame (admitStorage E k)" "keeps switch_frame (recordCommand E c v digest a)"
  unfolding appendNodeEvent_def appendQueueEvent_def applyMessageEnqueue_def applyRequestCancel_def admitStorage_def releaseReserve_def
    recordCommand_def recordIntent_def
  by (intro keeps_rules; simp)+

section \<open>Simulation\<close>

lemma enqueue_refines:
  assumes "applyMessageEnqueue E c t = Inr (a, t')" and ok: "queue_ok (tx_state t) (tx_db t)"
  shows "\<exists>req. jstring (fst a) ''requestId'' = req \<and>
    queue_of (tx_state t') (tx_db t') = enqueue_spec req (jstring (ce_target c) ''dialogId'') (queue_of (tx_state t) (tx_db t))"
  using assms(1)
proof (rule applyMessageEnqueue_queue)
  fix r
  assume r: "requests (tx_db t') = requests (tx_db t) @ [r]" "req_status r = RQueued" "req_dialog r = jstring (ce_target c) ''dialogId''"
    "fst a = refs [(''dialogId'', req_dialog r), (''messageId'', req_message r), (''requestId'', req_id r)]"
  have ok': "queue_ok (tx_state t') (tx_db t')"
    using keepsD [OF queue_ok_handlers(1) assms(1)] ok by (simp add: queue_ok_step_def inv_step_def)
  have "switch_frame t t'" using assms(1) by (rule keepsD [rotated]) (intro keeps_rules)
  then show ?thesis
    unfolding queue_of_eq [OF ok] queue_of_eq [OF ok'] using r
    by (simp add: enqueue_spec_def waiter_def switch_frame_def refs_def jstring_def jfield_def)
qed

lemma waiting_upd:
  assumes "unique_key req_id rows" and "\<And>r. req_id (f r) = req_id r" and "\<And>r. req_status (f r) \<noteq> RQueued"
  shows "map waiter (filter (\<lambda>r. req_status r = RQueued) (upd req_id k f rows)) =
    filter (\<lambda>w. fst w \<noteq> k) (map waiter (filter (\<lambda>r. req_status r = RQueued) rows))"
  using assms by (induction rows) (auto simp: upd_def waiter_def unique_key_def)

lemma cancel_refines:
  assumes "applyRequestCancel E c t = Inr (a, t')" and ok: "queue_ok (tx_state t) (tx_db t)" and u: "unique_key req_id (requests (tx_db t))"
  shows "queue_of (tx_state t') (tx_db t') = remove_spec (jstring (ce_target c) ''requestId'') (queue_of (tx_state t) (tx_db t))"
  using assms(1)
proof (rule applyRequestCancel_queue)
  fix now
  assume r: "requests (tx_db t') = upd req_id (jstring (ce_target c) ''requestId'')
      (\<lambda>r. r\<lparr>req_version := req_version r + 1, req_status := RCancelled, req_updated := now\<rparr>) (requests (tx_db t))"
  have ok': "queue_ok (tx_state t') (tx_db t')"
    using keepsD [OF queue_ok_handlers(3) assms(1)] ok by (simp add: queue_ok_step_def inv_step_def)
  have "switch_frame t t'" using assms(1) by (rule keepsD [rotated]) (intro keeps_rules)
  then show ?thesis
    unfolding queue_of_eq [OF ok] queue_of_eq [OF ok'] r using waiting_upd [OF u]
    by (simp add: remove_spec_def switch_frame_def)
qed

lemma first_by_sorted: "sorted (map key rows) \<Longrightarrow> first_by key rows = (case rows of [] \<Rightarrow> None | r # _ \<Rightarrow> Some r)"
  by (simp add: first_by_def sort_key_id_if_sorted)

lemma find_filter: "(case filter P xs of [] \<Rightarrow> None | x # _ \<Rightarrow> Some x) = List.find P xs"
  by (induction xs) auto

lemma queueHead_find:
  assumes "queue_ok s d"
  shows "queueHead d node = List.find (\<lambda>r. req_status r = RQueued \<and> \<not> dialogHeld d node (req_dialog r)) (requests d)"
proof -
  have "has_key msg_id (req_message r) (messages d)" if "r \<in> set (requests d)" for r
    using assms that by (auto simp: queue_ok_def msg_ids_def has_key_def sel_None_iff)
  then have *: "dispatchable d node = filter (\<lambda>r. req_status r = RQueued \<and> \<not> dialogHeld d node (req_dialog r)) (requests d)"
    unfolding dispatchable_def by (intro filter_cong) auto
  show ?thesis
    unfolding queueHead_def * first_by_sorted [OF queue_ok_sorted [OF assms]]
    by (rule find_filter)
qed

lemma take_refines:
  assumes "commitDispatch E policy r m t = Inr (x, t')" and "queueHead (tx_db t) (NodeID (tx_state t)) = Some r"
    and ok: "queue_ok (tx_state t) (tx_db t)" "queue_ok (tx_state t') (tx_db t')" and u: "unique_key req_id (requests (tx_db t))"
    and "\<not> QueuePaused (tx_state t)" and "ActiveAttemptID (tx_state t) = None"
  shows "\<exists>attID. x = Dispatched attID (req_id r) \<and>
    take_spec (dialogHeld (tx_db t) (NodeID (tx_state t))) attID (queue_of (tx_state t) (tx_db t)) =
      Some (req_id r, queue_of (tx_state t') (tx_db t'))"
  using assms(1)
proof (rule commitDispatchD)
  fix attID g tail now
  assume x: "x = Dispatched attID (req_id r)"
    and q: "requests (tx_db t') = upd req_id (req_id r) (\<lambda>r. r\<lparr>req_version := req_version r + 1, req_status := RDispatching, req_updated := now\<rparr>)
        (requests (tx_db t))" and s: "calm (tx_state t') = calm (occupied attID (tx_state t))"
  let ?P = "\<lambda>r. req_status r = RQueued" and ?held = "dialogHeld (tx_db t) (NodeID (tx_state t))"
  have "List.find (\<lambda>w. \<not> ?held (snd w)) (map waiter (filter ?P rows)) =
      map_option waiter (List.find (\<lambda>r. ?P r \<and> \<not> ?held (req_dialog r)) rows)" for rows
    by (induction rows) (auto simp: waiter_def)
  then have f: "List.find (\<lambda>w. \<not> ?held (snd w)) (map waiter (filter ?P (requests (tx_db t)))) = Some (waiter r)"
    using assms(2) queueHead_find [OF ok(1)] by simp
  have "waiting (queue_of (tx_state t') (tx_db t')) = filter (\<lambda>w. fst w \<noteq> req_id r) (map waiter (filter ?P (requests (tx_db t))))"
    unfolding queue_of_eq [OF ok(2)] q using waiting_upd [OF u] by simp
  then show ?thesis
    using x f assms(6,7) calmD(2,3) [OF s] unfolding queue_of_eq [OF ok(1)]
    by (simp add: take_spec_def remove_spec_def queue_of_eq [OF ok(2)] waiter_def occupied_def)
qed

text \<open>The same for whole sections.\<close>

lemma submitBody_enqueue:
  assumes b: "submitBody E trust c v digest t = Inr (oc, t')" and k: "ce_kind c = MessageEnqueue" and ok: "queue_ok (tx_state t) (tx_db t)"
  obtains (same) "queue_of (tx_state t') (tx_db t') = queue_of (tx_state t) (tx_db t)" and "\<And>r a b f. oc = Commit r a b f \<Longrightarrow> res_status r = 409"
  | (queued) req r a b f where "oc = Commit r a b f" and "res_status r = 202" and "jstring (the (jfield (res_body r) ''references'')) ''requestId'' = req"
      and "queue_of (tx_state t') (tx_db t') = enqueue_spec req (jstring (ce_target c) ''dialogId'') (queue_of (tx_state t) (tx_db t))"
  using b
proof (cases rule: submitBody_cases)
  case (held h)
  from commitCommandRejectionD [OF held(4)] show ?thesis
    by (elim exE conjE) (rule same, auto simp: queue_of_def okResult_def)
next
  case admitted
  obtain a t1 t2 where ad: "admitStorage E (ce_kind c) t = Inr ((), t1)" "applyCommand E c t1 = Inr (a, t2)"
    "recordCommand E c v digest a t2 = Inr (oc, t')"
    by (rule admitCommandD [OF admitted(4)])
  have f: "keeps queue_frame (admitStorage E k)" "keeps queue_frame (recordCommand E c v digest a)" for k
    unfolding admitStorage_def recordCommand_def releaseReserve_def recordIntent_def by (intro keeps_rules; simp)+
  have q1: "queue_of (tx_state t1) (tx_db t1) = queue_of (tx_state t) (tx_db t)"
    using keepsD [OF f(1) ad(1)] keepsD [OF switch_handlers(5) ad(1)] by (simp add: queue_frame_def switch_frame_def queue_of_def)
  have q2: "queue_of (tx_state t') (tx_db t') = queue_of (tx_state t2) (tx_db t2)"
    using keepsD [OF f(2) ad(3)] keepsD [OF switch_handlers(6) ad(3)] by (simp add: queue_frame_def switch_frame_def queue_of_def)
  have "queue_ok (tx_state t1) (tx_db t1)"
    using keepsD [OF qosec.section_lookups(8) ad(1)] ok by (simp add: queue_ok_step_def inv_step_def)
  then have e: "queue_of (tx_state t2) (tx_db t2) =
      enqueue_spec (jstring (fst a) ''requestId'') (jstring (ce_target c) ''dialogId'') (queue_of (tx_state t1) (tx_db t1))"
    using enqueue_refines [of E c t1 a t2] ad(2) k by (simp add: applyCommand_def)
  from recordCommandD [OF ad(3)] show ?thesis
  proof (elim exE conjE)
    fix row m1 m2 m3
    assume "rc_references (cmd_receipt row) = fst a" and "oc = Commit (okResult 202 (receipt_json (cmd_receipt row))) m1 m2 m3"
    then show ?thesis using e q1 q2 by (intro queued) (auto simp: okResult_def receipt_json_def jfield_def omitEmpty_def)
  qed
qed (use same in auto)

lemma submit_enqueue:
  assumes ok: "queue_ok (node_state d) d" and p: "parsedCommand E trust raw = Some (c, v, digest)" and k: "ce_kind c = MessageEnqueue"
    and s: "SubmitCommand E trust lenient raw d = (r, d')" and f: "\<not> env_faultAfter E"
  shows "if res_committed r \<and> res_status r = 202
    then queue_of (node_state d') d' = enqueue_spec (jstring (the (jfield (res_body r) ''references'')) ''requestId'')
      (jstring (ce_target c) ''dialogId'') (queue_of (node_state d) d)
    else queue_of (node_state d') d' = queue_of (node_state d) d"
proof (cases "res_committed r")
  case False
  then have "d' = d" using s runTx_uncommitted [of E "ce_commandId c" _ _ d] unfolding SubmitCommand_parsed [OF p] by (metis fst_conv snd_conv)
  with False show ?thesis by simp
next
  case True
  have ans: "\<not> res_committed x" if "submitBody E trust c v digest (beginTx d) = Inr (Answer x, t)" for x t
    using that by (cases rule: submitBody_cases) (auto simp: okResult_def dest!: commitCommandRejectionD elim!: admitCommandD dest!: recordCommandD)
  obtain x a b g t where b: "submitBody E trust c v digest (beginTx d) = Inr (Commit x a b g, t)" and d': "d' = tx_db t"
    and r': "\<not> env_faultAfter E \<longrightarrow> r = x\<lparr>res_committed := True\<rparr>"
    by (rule runTx_committed [OF s [unfolded SubmitCommand_parsed [OF p]] True ans]) blast+
  have r: "r = x\<lparr>res_committed := True\<rparr>" using r' f by simp
  have "settled t" using keepsD [OF settled_submitBody b] by (simp add: settled_step_def)
  then have st: "node_state d' = tx_state t" by (simp add: settled_def d')
  show ?thesis
    by (rule submitBody_enqueue [OF b k]) (use ok st d' r in auto)
qed

lemma DispatchNext_take:
  assumes ok: "queue_ok (node_state d) d" and u: "unique_key req_id (requests d)" and "DispatchNext E G peeked d = (Inr x, d')"
    and "x = Dispatched attID reqID \<or> x = DispatchUnknown attID reqID"
  shows "take_spec (dialogHeld d (NodeID (node_state d))) attID (queue_of (node_state d) d) = Some (reqID, queue_of (node_state d') d')"
  using assms(3,4)
proof (rule DispatchNext_dispatched)
  fix r m policy t
  assume h: "queueHead d (NodeID (node_state d)) = Some r" "req_id r = reqID" "\<not> QueuePaused (node_state d)" "ActiveAttemptID (node_state d) = None"
    and c: "commitDispatch E policy r m (beginTx d) = Inr (Dispatched attID reqID, t)" and d': "d' = tx_db t"
  have st: "node_state d' = tx_state t" using commitDispatch_settled [OF c] by (simp add: settled_def d')
  have "queue_ok (tx_state t) (tx_db t)"
    using keepsD [OF queue_ok_commitDispatch c] ok by (simp add: queue_ok_step_def inv_step_def)
  with take_refines [OF c, unfolded tx_db_beginTx tx_state_beginTx, OF h(1) ok _ u h(3,4)] st h(2) d' show ?thesis by auto
qed

end
