(* ===== verification/Node_Examples.thy ===== *)
theory Node_Examples
  imports Queue_Refinement Json_Laws
begin

text \<open>
  Concrete data for the witnesses: four ids, an environment in which every probe and commit
  succeeds, a fresh ledger and a few requests on it. Documents are validated by rewriting with
  the ids kept abstract; a section is then a rewriting of records.
\<close>

section \<open>Values\<close>

definition u1 :: string where "u1 = ''11111111-1111-4111-8111-111111111111''"
definition u2 :: string where "u2 = ''22222222-2222-4222-8222-222222222222''"
definition u3 :: string where "u3 = ''33333333-3333-4333-8333-333333333333''"
definition u4 :: string where "u4 = ''44444444-4444-4444-8444-444444444444''"

definition exTime :: string where "exTime = ''2026-01-01T00:00:00Z''"

text \<open>A hash.\<close>

definition hexA :: string where "hexA = replicate 64 CHR ''a''"

definition exEnv :: env where
  "exEnv = \<lparr>env_nodeID = u1, env_ownerID = ''owner'', env_adapterKind = ''codex'', env_adapterVersion = ''1'',
    env_sha = (\<lambda>_. hexA), env_clock = (\<lambda>_. exTime),
    env_ids = (\<lambda>n. Some (if n = 0 then u2 else u3)), env_correlation = u4, env_space = Some (4000000000, 8000000000),
    env_physical = Some (4000000000, 8000000000), env_files = (\<lambda>_. None), env_publish = (\<lambda>_. True), env_reserve = True, env_beginOk = True, env_faultBefore = False,
    env_commitOk = True, env_faultAfter = False\<rparr>"

definition exTrust :: trustContext where
  "exTrust = \<lparr>tc_transportNodeID = u1, tc_expectedIdentity = None\<rparr>"

definition exLedger :: db where
  "exLedger = initialLedger u1 ''owner'' 1"

definition exCreate :: json where
  "exCreate = JObj [(''protocolVersion'', JInt 1), (''schemaId'', JStr SchemaID), (''commandId'', JStr u4), (''kind'', JStr ''dialog.create''),
     (''target'', JObj [(''nodeId'', JStr u1)]), (''expected'', JObj [(''registryVersion'', JInt 1)]), (''payload'', JObj [])]"

lemma u_neq: "u1 \<noteq> u2" "u1 \<noteq> u3" "u1 \<noteq> u4" "u2 \<noteq> u3" "u2 \<noteq> u4" "u3 \<noteq> u4" "u1 \<noteq> []" "u2 \<noteq> []" "u3 \<noteq> []" "u4 \<noteq> []"
  by (simp_all add: u1_def u2_def u3_def u4_def)

lemmas u_simps = u_neq u_neq [symmetric]

lemma ex_patterns [simp]: "uuidPattern u1" "uuidPattern u2" "uuidPattern u3" "uuidPattern u4" "timestamp_ok exTime"
  by code_simp+

lemma hexA_pattern [simp]: "sha256Pattern hexA"
  unfolding hexA_def by code_simp

lemma hexA_nonempty [simp]: "hexA \<noteq> []"
  by (simp add: hexA_def)

text \<open>The definitions that turn the validation of a document into rewriting.\<close>

lemmas validate_defs = Validate_def validateEvent_def event_json_def validatePins_def jfield_def eventPayloadChecks_def object_def
  eventFields_def pinFields_def required_def optional_def uuidCheck_def positiveInteger_def integerCheck_def omitEmpty_def enumCheck_def
  safeInteger_def timestampCheck_def stringCheck_def sha256Check_def isAttemptScoped_def hasPrefix_def booleanCheck_def nullable_def
  union_def nullCheck_def nullableStr_def listCheck_def MaximumSafeInteger_def ProtocolVersion_def SchemaID_def u_simps nodeStateCheck_def
  nodeState_json_def dispositionCheck_def receipt_json_def validateReceipt_def kind_of_def all_kinds_def refs_def validateCommand_def
  MaximumMessageBytes_def targetNode_def targetDialog_def emptyObject_def unicodeStringCheck_def blockedReasonNames_def

text \<open>Computations are rewritten only where they are applied, so a continuation is looked at once.\<close>

lemmas run_rules =
  bindM_def [THEN fun_cong] returnM_def [THEN fun_cong] failM_def [THEN fun_cong] readDb_def [THEN fun_cong]
  writeDb_def [THEN fun_cong] readState_def [THEN fun_cong] writeState_def [THEN fun_cong] timestamp_def [THEN fun_cong]
  newID_def [THEN fun_cong] guardM_def [THEN fun_cong] needM_def [THEN fun_cong] constraintM_def [THEN fun_cong]
  orElseM_def [THEN fun_cong] bumpScopes_def [THEN fun_cong] liftM_def [THEN fun_cong] insertDialog_def [THEN fun_cong]
  updateDialog_def [THEN fun_cong] insertMessage_def [THEN fun_cong] updateMessage_def [THEN fun_cong]
  insertRequest_def [THEN fun_cong] updateRequest_def [THEN fun_cong] insertAttempt_def [THEN fun_cong]
  updateAttempt_def [THEN fun_cong] insertAction_def [THEN fun_cong] updateActions_def [THEN fun_cong]
  insertPolicy_def [THEN fun_cong] insertEvent_def [THEN fun_cong] insertCommand_def [THEN fun_cong]
  appendEvent_def [THEN fun_cong] appendNodeEvent_def [THEN fun_cong] appendQueueEvent_def [THEN fun_cong]
  saveState_def [THEN fun_cong]

lemmas value_defs = bumpRow_def scopes_in_range_def node_or_dialog_def node_or_attempt_def attemptDialog_def has_key_def sel_def upd_def
  beginTx_def nodePayload_def nullText_def one_active_attempt_def holds_slot_def request_changed_def

definition exEvent :: "int \<Rightarrow> string \<Rightarrow> int \<Rightarrow> string \<Rightarrow> string \<Rightarrow> payload \<Rightarrow> eventEnvelope" where
  "exEvent q ent v att dlg pl = \<lparr>ev_nodeId = u1, ev_seq = q, ev_epoch = 1, ev_entityId = ent, ev_entityVersion = v, ev_attemptId = att,
     ev_dialogId = dlg, ev_observedAt = exTime, ev_payload = pl\<rparr>"

lemmas base_defs = exEnv_def exLedger_def initialLedger_def initialState_def

section \<open>A dialog is created\<close>

text \<open>The ledger after one \<open>dialog.create\<close>.\<close>

definition exCreated :: "result \<times> db" where
  "exCreated = SubmitCommand exEnv exTrust (Some exCreate) (Some exCreate) exLedger"

lemma exEnv_identity: "verifyIdentity exEnv 1 exLedger"
  by (simp add: verifyIdentity_def exEnv_def exLedger_def initialLedger_def initialState_def)

lemma exLedger_reachable: "reachable exLedger"
  by (auto simp: reachable_def exLedger_def intro: node_steps.none)

lemma exCreated_steps: "node_steps exLedger (snd exCreated)"
  unfolding exCreated_def
  by (rule node_steps.more [OF node_steps.none], rule node_step.submit, rule exEnv_identity)

lemma exCreated_reachable: "reachable (snd exCreated)"
  by (rule reachable_steps [OF exLedger_reachable exCreated_steps])

lemma exCreate_valid: "Validate ''command'' exCreate"
  by (simp add: validate_defs exCreate_def)

definition exEnvelope :: commandEnvelope where
  "exEnvelope = \<lparr>ce_commandId = u4, ce_kind = DialogCreate, ce_target = JObj [(''nodeId'', JStr u1)],
     ce_expected = JObj [(''registryVersion'', JInt 1)], ce_payload = JObj []\<rparr>"

lemma exEnvelope_simps [simp]: "ce_commandId exEnvelope = u4" "ce_kind exEnvelope = DialogCreate"
  by (simp_all add: exEnvelope_def)

lemma exCreate_parsed: "parsedCommand exEnv exTrust (Some exCreate) = Some (exEnvelope, exCreate, hexA)"
proof -
  have "appendCanonical exCreate \<noteq> None" by (simp add: exCreate_def MaximumSafeInteger_def)
  then obtain c where c: "appendCanonical exCreate = Some c" by auto
  have d: "decodeEnvelope exCreate = Some exEnvelope"
    by (simp add: decodeEnvelope_def exCreate_def exEnvelope_def jstring_def jfield_def kind_of_def all_kinds_def)
  show ?thesis
    by (simp add: parsedCommand_def CanonicalCommand_def c d exCreate_valid exTrust_def exEnv_def)
qed

text \<open>The run of the admission on these values: first its event and its receipt, then its writes.\<close>

definition exCreateReceipt :: receipt where
  "exCreateReceipt = \<lparr>rc_commandId = u4, rc_commandKind = DialogCreate, rc_receiptId = u3, rc_acceptedAt = exTime, rc_nodeId = u1, rc_eventSeq = 1,
     rc_result = ''admitted'', rc_blockingReason = blockingReason (node_state exLedger), rc_references = refs [(''dialogId'', u2)]\<rparr>"

lemma exCreate_documents:
  "Validate ''event'' (event_json (exEvent 1 u1 1 '''' '''' (PNodeState (nodePayload ((node_state exLedger)\<lparr>StateVersion := 1\<rparr>)))))"
  "Validate ''receipt'' (receipt_json exCreateReceipt)"
  by (simp_all add: validate_defs nodePayload_def exEvent_def base_defs exCreateReceipt_def blockingReason_def)

lemma exCreate_storage: "IsAdmissionCommand k \<Longrightarrow> admitStorage exEnv k t = Inr ((), t)"
  by (simp add: admitStorage_def run_rules value_defs exEnv_def belowFloor_def admissionFloor_def Let_def MinimumFreeBytes_def)

lemma exCreate_applied:
  "\<exists>t. applyDialogCreate exEnv exEnvelope (beginTx exLedger) =
      Inr ((refs [(''dialogId'', u2)], ''admitted'', blockingReason (node_state exLedger), None), t) \<and>
    tx_ids t = 1 \<and> LastEventSeq (tx_state t) = 1 \<and> commands (tx_db t) = [] \<and> map dlg_id (dialogs (tx_db t)) = [u2] \<and>
    Epoch (tx_state t) = Epoch (node_state (tx_db t)) \<and> QueuePaused (tx_state t) = QueuePaused (node_state (tx_db t))"
  using exCreate_documents(1)
  by (simp add: applyDialogCreate_def exEnvelope_def jstring_def jfield_def jint_def run_rules value_defs base_defs u_simps
   insertDialog_def blockingReason_def exEvent_def MaximumSafeInteger_def dialogKey_def)

text \<open>Recording a command whose receipt is a valid document, and the submission around it.\<close>

lemma ex_recorded:
  assumes "Validate ''receipt'' (receipt_json R)"
    and "R = \<lparr>rc_commandId = ce_commandId c, rc_commandKind = ce_kind c, rc_receiptId = u3, rc_acceptedAt = exTime, rc_nodeId = u1,
      rc_eventSeq = LastEventSeq (tx_state t), rc_result = res, rc_blockingReason = blk, rc_references = rf\<rparr>"
    and "tx_ids t \<noteq> 0" "commands (tx_db t) = []"
    and "Epoch (tx_state t) = Epoch (node_state (tx_db t))" "QueuePaused (tx_state t) = QueuePaused (node_state (tx_db t))"
  shows "\<exists>t' a b f. recordCommand exEnv c v dg (rf, res, blk, None) t = Inr (Commit (okResult 202 (receipt_json R)) a b f, t') \<and>
    LastEventSeq (node_state (tx_db t')) = LastEventSeq (tx_state t) \<and> dialogs (tx_db t') = dialogs (tx_db t) \<and>
    map cmd_id (commands (tx_db t')) = [ce_commandId c]"
  using assms
  by (simp add: recordCommand_def run_rules value_defs exEnv_def recordIntent_def insertCommand_def saveState_def Let_def)

lemma ex_submitted:
  assumes "parsedCommand exEnv exTrust (Some v) = Some (c, v, dg)" and "outcomeRows d (ce_commandId c) = []"
    and "authorizeObject exEnv c (beginTx d) = Inr ((), beginTx d)" and "coveringHoldForCommand exEnv c (beginTx d) = Inr (None, beginTx d)"
    and "admitStorage exEnv (ce_kind c) (beginTx d) = Inr ((), beginTx d)" and "applyCommand exEnv c (beginTx d) = Inr (x, t)"
    and "recordCommand exEnv c v dg x t = Inr (Commit (okResult 202 body) a b f, t')"
  shows "SubmitCommand exEnv exTrust lenient (Some v) d = (\<lparr>res_status = 202, res_body = body, res_committed = True\<rparr>, tx_db t')"
proof -
  have "loadCommandOutcome (ce_commandId c) (beginTx d) = Inr (None, beginTx d)" using assms(2) by (simp add: loadCommandOutcome_Inr)
  then have "submitBody exEnv exTrust c v dg (beginTx d) = Inr (Commit (okResult 202 body) a b f, t')"
    using assms(3-7)
    by (simp add: submitBody_def bindM_def readState_def guardM_def identityExpected_def exTrust_def orElseM_def returnM_def admitCommand_def)
  then show ?thesis
    by (simp add: SubmitCommand_parsed [OF assms(1)] runTx_def okResult_def) (simp add: exEnv_def)
qed

lemma exCreated_facts:
  "case exCreated of (r, d) \<Rightarrow> res_committed r \<and> res_status r = 202 \<and> LastEventSeq (node_state d) = 1 \<and>
     map dlg_id (dialogs d) = [u2] \<and> map cmd_id (commands d) = [u4]"
proof -
  obtain t where ap: "applyDialogCreate exEnv exEnvelope (beginTx exLedger) =
      Inr ((refs [(''dialogId'', u2)], ''admitted'', blockingReason (node_state exLedger), None), t)"
    and t: "tx_ids t = 1" "LastEventSeq (tx_state t) = 1" "commands (tx_db t) = []" "map dlg_id (dialogs (tx_db t)) = [u2]"
      "Epoch (tx_state t) = Epoch (node_state (tx_db t))" "QueuePaused (tx_state t) = QueuePaused (node_state (tx_db t))"
    using exCreate_applied by (elim exE conjE) (rule that; assumption)
  have "exCreateReceipt = \<lparr>rc_commandId = ce_commandId exEnvelope, rc_commandKind = ce_kind exEnvelope, rc_receiptId = u3, rc_acceptedAt = exTime,
      rc_nodeId = u1, rc_eventSeq = LastEventSeq (tx_state t), rc_result = ''admitted'', rc_blockingReason = blockingReason (node_state exLedger),
      rc_references = refs [(''dialogId'', u2)]\<rparr>" by (simp add: exCreateReceipt_def t)
  from ex_recorded [OF exCreate_documents(2) this, of exCreate hexA] t obtain t' a b f
    where rc: "recordCommand exEnv exEnvelope exCreate hexA (refs [(''dialogId'', u2)], ''admitted'', blockingReason (node_state exLedger), None) t =
        Inr (Commit (okResult 202 (receipt_json exCreateReceipt)) a b f, t')"
      and t': "LastEventSeq (node_state (tx_db t')) = 1" "map dlg_id (dialogs (tx_db t')) = [u2]" "map cmd_id (commands (tx_db t')) = [u4]"
    by auto
  have "outcomeRows exLedger u4 = []" by (simp add: outcomeRows_def base_defs)
  moreover have "authorizeObject exEnv exEnvelope (beginTx exLedger) = Inr ((), beginTx exLedger)"
    by (simp add: authorizeObject_def exEnvelope_def exEnv_def run_rules value_defs jstring_def jfield_def)
  moreover have "coveringHoldForCommand exEnv exEnvelope (beginTx exLedger) = Inr (None, beginTx exLedger)"
    by (simp add: coveringHoldForCommand_def exEnvelope_def run_rules value_defs base_defs nodeHold_def coveringHold_def first_by_def)
  ultimately show ?thesis
    using ex_submitted [OF exCreate_parsed _ _ _ _ _ rc, of exLedger] ap t'
    by (simp add: exCreated_def exCreate_storage IsAdmissionCommand_def applyCommand_def)
qed

lemma exCreated_committed: "res_committed (fst exCreated)"
  using exCreated_facts by (simp add: case_prod_beta)

lemma exEnv_simps [simp]: "env_beginOk exEnv" "\<not> env_faultAfter exEnv" "same_config exEnv exEnv"
  by (simp_all add: exEnv_def same_config_def)

lemma exCreated_run: "SubmitCommand exEnv exTrust (Some exCreate) (Some exCreate) exLedger = (fst exCreated, snd exCreated)"
  by (simp add: exCreated_def)

section \<open>A ledger with one queued message\<close>

definition exRequest :: requestRow where
  "exRequest = \<lparr>req_id = u4, req_dialog = u2, req_message = u3, req_sequence = 1, req_version = 1, req_status = RQueued,
     req_created = exTime, req_updated = exTime\<rparr>"

definition exQueued :: db where
  "exQueued = exLedger\<lparr>
     dialogs := [\<lparr>dlg_id = u2, dlg_node = u1, dlg_owner = ''owner'', dlg_version = 1, dlg_title = None, dlg_created = exTime\<rparr>],
     messages := [\<lparr>msg_id = u3, msg_dialog = u2, msg_sequence = 1, msg_version = 1, msg_role = ''user'', msg_text = Some ''hi'',
       msg_content = None, msg_disposition = Some DQueued, msg_command = Some u4, msg_request = Some u4, msg_attempt = None,
       msg_finish = None, msg_created = exTime\<rparr>],
     requests := [exRequest],
     node_state := (node_state exLedger)\<lparr>PendingCount := 1, NextQueueSequence := 2, NextMessageSequence := 2, EngineReadiness := ''ready'',
       BlockedReasons := []\<rparr>,
     scope_revisions := []\<rparr>"

definition exPolicy :: policyRow where
  "exPolicy = \<lparr>pol_effectiveHash = hexA, pol_revision = ''r1'', pol_content = ''{}'', pol_contentHash = hexA,
     pol_tools = ''[]'', pol_toolsHash = hexA, pol_approvalMode = ''deny''\<rparr>"

definition exGate :: dispatchGate where
  "exGate = \<lparr>dg_authFirst = True, dg_policy = Some exPolicy, dg_authSecond = True, dg_settingsBlocked = False\<rparr>"

lemmas ex_defs = base_defs exQueued_def exRequest_def

text \<open>The same ledger with its dialog under a hold.\<close>

definition exHold :: holdRow where
  "exHold = \<lparr>hold_operation = ''op-1'', hold_node = u1, hold_epoch = 1, hold_binding = 1, hold_scope = DialogScope u2, hold_version = 1,
     hold_revision = 1, hold_canonical = JNull, hold_hash = replicate 64 CHR ''b'',
     hold_receipt = \<lparr>hr_operationId = ''op-1'', hr_receiptId = u3, hr_nodeId = u1, hr_epoch = 1, hr_bindingGeneration = 1,
       hr_scope = DialogScope u2, hr_holdVersion = 1, hr_scopeRevision = 1, hr_installedAt = exTime\<rparr>, hold_installed = exTime\<rparr>"

definition exHeld :: db where
  "exHeld = exQueued\<lparr>administrative_holds := [exHold], hold_clock := 2, hold_scope_revisions := [(dialogKey u2, 1)],
     scope_revisions := [\<lparr>qs_key = ''node'', qs_state = 1, qs_queue = 1\<rparr>, \<lparr>qs_key = dialogKey u2, qs_state = 1, qs_queue = 1\<rparr>]\<rparr>"

definition exEnqueue :: json where
  "exEnqueue = JObj [(''protocolVersion'', JInt 1), (''schemaId'', JStr SchemaID), (''commandId'', JStr u1), (''kind'', JStr ''message.enqueue''),
     (''target'', JObj [(''nodeId'', JStr u1), (''dialogId'', JStr u2)]), (''expected'', JObj [(''dialogVersion'', JInt 1)]),
     (''payload'', JObj [(''text'', JStr ''hello'')])]"

section \<open>An enqueue command\<close>

definition exEnqueueEnvelope :: commandEnvelope where
  "exEnqueueEnvelope = \<lparr>ce_commandId = u1, ce_kind = MessageEnqueue, ce_target = JObj [(''nodeId'', JStr u1), (''dialogId'', JStr u2)],
     ce_expected = JObj [(''dialogVersion'', JInt 1)], ce_payload = JObj [(''text'', JStr ''hello'')]\<rparr>"

lemma exEnqueueEnvelope_simps [simp]: "ce_kind exEnqueueEnvelope = MessageEnqueue" "ce_commandId exEnqueueEnvelope = u1"
  by (simp_all add: exEnqueueEnvelope_def)

lemma exEnqueue_parsed:
  "parsedCommand exEnv exTrust (Some exEnqueue) = Some (exEnqueueEnvelope, exEnqueue, hexA)"
proof -
  have "appendCanonical exEnqueue \<noteq> None" by (simp add: exEnqueue_def MaximumSafeInteger_def)
  then obtain c where c: "appendCanonical exEnqueue = Some c" by auto
  have v: "Validate ''command'' exEnqueue" by (simp add: validate_defs exEnqueue_def)
  have d: "decodeEnvelope exEnqueue = Some exEnqueueEnvelope"
    by (simp add: decodeEnvelope_def exEnqueue_def exEnqueueEnvelope_def jstring_def jfield_def kind_of_def all_kinds_def)
  show ?thesis
    by (simp add: parsedCommand_def CanonicalCommand_def c d v exTrust_def exEnv_def)
qed

section \<open>A dispatch\<close>

lemma exDispatch_events:
  "Validate ''event'' (event_json (exEvent 1 u3 2 '''' '''' (PMessageDisposition u3 ''queued'' ''applied'' ''request_dispatched'')))"
  "Validate ''event'' (event_json (exEvent 2 u2 1 u2 u2 (PAttemptDispatching u4 1 u3 ''r1'' hexA)))"
  "Validate ''event'' (event_json (exEvent 3 u1 1 '''' '''' (PQueueChanged 1 0 (Some u2) False)))"
  "Validate ''event'' (event_json (exEvent 4 u1 1 '''' '''' (PNodeState \<lparr>ns_transportAvailability = ''online'', ns_engineReadiness = ''ready'',
     ns_occupancy = ''active'', ns_queuePaused = False, ns_queueVersion = 1, ns_pendingCount = 0, ns_blockedReasons = [],
     ns_activeAttemptId = Some u2\<rparr>)))"
  by (simp_all add: validate_defs exEvent_def)

definition exMessage :: messageRow where
  "exMessage = hd (messages exQueued)"

lemma exCommitDispatch: "\<exists>t. commitDispatch exEnv exPolicy exRequest exMessage (beginTx exQueued) = Inr (Dispatched u2 u4, t)"
  by (simp add: commitDispatch_def openAttempt_def [THEN fun_cong] takeRequest_def [THEN fun_cong] announceDispatch_def [THEN fun_cong]
      recordStart_def [THEN fun_cong] occupied_def run_rules value_defs ex_defs exMessage_def exPolicy_def u_simps nextGeneration_def
      latestGeneration_def maxOf_def removeReason_def failedTailProof_def tailRows_def attemptMessage_def List.map_filter_def startIntent_def
      exDispatch_events [unfolded exEvent_def])

lemma exQueueHead: "queueHead exQueued u1 = Some exRequest" "sel msg_id u3 (messages exQueued) = Some exMessage"
  by (simp_all add: queueHead_def dispatchable_def first_by_def exQueued_def exRequest_def exMessage_def has_key_def sel_def dialogHeld_def
      exLedger_def initialLedger_def)

lemma exPeek: "peekDispatch exQueued = Inr (Some \<lparr>dc_requestID = u4, dc_dialogID = u2, dc_messageID = u3, dc_queueSequence = 1, dc_stateVersion = 0\<rparr>)"
  using exQueueHead by (simp add: peekDispatch_def exQueued_def exRequest_def exLedger_def initialLedger_def initialState_def exMessage_def)

lemma exQueued_ok: "queue_ok (node_state exQueued) exQueued" "unique_key req_id (requests exQueued)"
  by (simp_all add: queue_ok_def msg_ids_def unique_key_def ex_defs)

lemma exPolicy_valid: "ValidatePolicySnapshot (env_sha exEnv) exPolicy"
  by (simp add: ValidatePolicySnapshot_def exPolicy_def exEnv_def EffectivePolicyHash_def)

lemma exDispatched: "\<exists>d'. DispatchNext exEnv exGate exQueued exQueued = (Inr (Dispatched u2 u4), d')"
proof -
  obtain t where t: "commitDispatch exEnv exPolicy exRequest exMessage (beginTx exQueued) = Inr (Dispatched u2 u4, t)"
    using exCommitDispatch by blast
  have n: "NodeID (node_state exQueued) = u1" by (simp add: exQueued_def exLedger_def initialLedger_def initialState_def)
  have "dispatchBody exEnv exPolicy \<lparr>dc_requestID = u4, dc_dialogID = u2, dc_messageID = u3, dc_queueSequence = 1, dc_stateVersion = 0\<rparr>
      (beginTx exQueued) = Inr (Dispatched u2 u4, t)"
    using t exQueueHead n
    by (simp add: dispatchBody_def bindM_def readState_def readDb_def exRequest_def)
      (simp add: exMessage_def exQueued_def exLedger_def initialLedger_def initialState_def)
  then show ?thesis
    by (simp add: DispatchNext_def exGate_def exPeek exPolicy_valid commitTx_def dispatchReply_def) (simp add: exEnv_def)
qed

end
