(* ===== verification/Queue_Examples.thy ===== *)
theory Queue_Examples
  imports Node_Examples
begin

text \<open>
  An accepted \<open>message.enqueue\<close> on the ledger with one queued message.
\<close>

definition exEnqueueReceipt :: receipt where
  "exEnqueueReceipt = \<lparr>rc_commandId = u1, rc_commandKind = MessageEnqueue, rc_receiptId = u3, rc_acceptedAt = exTime, rc_nodeId = u1, rc_eventSeq = 3,
     rc_result = ''admitted'', rc_blockingReason = '''', rc_references = refs [(''dialogId'', u2), (''messageId'', u2), (''requestId'', u3)]\<rparr>"

lemma exEnqueue_documents:
  "Validate ''event'' (event_json (exEvent 1 u2 1 '''' '''' (PMessageAccepted u2 u2 u3 2 ''queued'')))"
  "Validate ''event'' (event_json (exEvent 2 u1 1 '''' '''' (PQueueChanged 1 2 None False)))"
  "Validate ''event'' (event_json (exEvent 3 u1 1 '''' '''' (PNodeState \<lparr>ns_transportAvailability = ''online'', ns_engineReadiness = ''ready'',
     ns_occupancy = ''idle'', ns_queuePaused = False, ns_queueVersion = 1, ns_pendingCount = 2, ns_blockedReasons = [],
     ns_activeAttemptId = None\<rparr>)))"
  "Validate ''receipt'' (receipt_json exEnqueueReceipt)"
  by (simp_all add: validate_defs exEvent_def exEnqueueReceipt_def)

lemma exEnqueue_authorized: "authorizeObject exEnv exEnqueueEnvelope (beginTx exQueued) = Inr ((), beginTx exQueued)"
  by (simp add: authorizeObject_def exEnqueueEnvelope_def run_rules value_defs dialogOwner_def ex_defs jstring_def jfield_def dialogDeleted_def)

lemma exEnqueue_not_held: "coveringHoldForCommand exEnv exEnqueueEnvelope (beginTx exQueued) = Inr (None, beginTx exQueued)"
  by (simp add: coveringHoldForCommand_def exEnqueueEnvelope_def run_rules value_defs ex_defs jstring_def jfield_def coveringHold_def nodeHold_def first_by_def)

lemma exEnqueue_applied:
  "\<exists>t. applyMessageEnqueue exEnv exEnqueueEnvelope (beginTx exQueued) =
      Inr ((refs [(''dialogId'', u2), (''messageId'', u2), (''requestId'', u3)], ''admitted'', '''', None), t) \<and>
    tx_ids t = 2 \<and> LastEventSeq (tx_state t) = 3 \<and> commands (tx_db t) = [] \<and>
    Epoch (tx_state t) = Epoch (node_state (tx_db t)) \<and> QueuePaused (tx_state t) = QueuePaused (node_state (tx_db t))"
  using exEnqueue_documents(1-3) [unfolded exEvent_def]
  by (simp add: applyMessageEnqueue_def exEnqueueEnvelope_def jstring_def jfield_def jint_def run_rules value_defs ex_defs u_simps QueueCapacity_def
      insertMessage_def insertRequest_def updateDialog_def blockingReason_def)

lemma exEnqueue_accepted:
  "\<exists>d'. SubmitCommand exEnv exTrust (Some exEnqueue) (Some exEnqueue) exQueued =
     (\<lparr>res_status = 202, res_body = receipt_json exEnqueueReceipt, res_committed = True\<rparr>, d')"
proof -
  obtain t where ap: "applyMessageEnqueue exEnv exEnqueueEnvelope (beginTx exQueued) =
      Inr ((refs [(''dialogId'', u2), (''messageId'', u2), (''requestId'', u3)], ''admitted'', '''', None), t)"
    and t: "tx_ids t = 2" "LastEventSeq (tx_state t) = 3" "commands (tx_db t) = []"
      "Epoch (tx_state t) = Epoch (node_state (tx_db t))" "QueuePaused (tx_state t) = QueuePaused (node_state (tx_db t))"
    using exEnqueue_applied by (elim exE conjE) (rule that; assumption)
  have R: "exEnqueueReceipt = \<lparr>rc_commandId = ce_commandId exEnqueueEnvelope, rc_commandKind = ce_kind exEnqueueEnvelope, rc_receiptId = u3,
      rc_acceptedAt = exTime, rc_nodeId = u1, rc_eventSeq = LastEventSeq (tx_state t), rc_result = ''admitted'', rc_blockingReason = '''',
      rc_references = refs [(''dialogId'', u2), (''messageId'', u2), (''requestId'', u3)]\<rparr>"
    by (simp add: exEnqueueReceipt_def t)
  from ex_recorded [OF exEnqueue_documents(4) R, of exEnqueue hexA] t obtain t' a b f
    where rc: "recordCommand exEnv exEnqueueEnvelope exEnqueue hexA
        (refs [(''dialogId'', u2), (''messageId'', u2), (''requestId'', u3)], ''admitted'', '''', None) t =
      Inr (Commit (okResult 202 (receipt_json exEnqueueReceipt)) a b f, t')"
    by auto
  have "outcomeRows exQueued u1 = []" by (simp add: outcomeRows_def ex_defs)
  then show ?thesis
    using ex_submitted [OF exEnqueue_parsed _ exEnqueue_authorized exEnqueue_not_held _ _ rc, of "Some exEnqueue"] ap
    by (simp add: exCreate_storage IsAdmissionCommand_def applyCommand_def)
qed

end
