(* ===== verification/Barrier_Examples.thy ===== *)
theory Barrier_Examples
  imports Node_Examples
begin

text \<open>
  Runs of the administrative barrier on concrete ledgers: a hold on the whole node, its proof
  of quiescence and its release.
\<close>

definition exInstall :: json where
  "exInstall = JObj [(''protocolVersion'', JInt 1), (''schemaId'', JStr BarrierSchemaID), (''operationId'', JStr ''op-1''),
     (''nodeId'', JStr u1), (''expectedEpoch'', JInt 1), (''bindingGeneration'', JInt 1), (''scope'', JObj [(''kind'', JStr ''node'')]),
     (''expectedScopeRevision'', JInt 0)]"

definition exInstalled :: "result \<times> db" where
  "exInstalled = InstallHold exEnv u1 (Some exInstall) exLedger"

lemma exInstalled_facts:
  "case exInstalled of (r, d) \<Rightarrow> res_committed r \<and> res_status r = 201 \<and> map hold_operation (administrative_holds d) = [''op-1''] \<and>
     res_status (QuiescenceProof exEnv u1 ''op-1'' d) = 200"
  by code_simp

lemma exInstalled_committed: "res_committed (fst exInstalled)"
  using exInstalled_facts by (simp add: case_prod_beta)

lemma exInstalled_run: "InstallHold exEnv u1 (Some exInstall) exLedger = (fst exInstalled, snd exInstalled)"
  by (simp add: exInstalled_def)

lemma exInstalled_steps: "node_steps exLedger (snd exInstalled)"
  unfolding exInstalled_def by (rule node_steps.more [OF node_steps.none], rule node_step.install, rule exEnv_identity)

lemma exInstalled_reachable: "reachable (snd exInstalled)"
  by (rule reachable_steps [OF exLedger_reachable exInstalled_steps])

end
