(* ===== verification/Attempt_Laws.thy ===== *)
theory Attempt_Laws
  imports Queue_Refinement
begin

text \<open>
  The end of an attempt: late observations are only archived, a confirmed terminal observation
  frees the slot, a restart leaves no control intent that could run again, and a logically
  deleted dialog stays closed.
\<close>

section \<open>Late observations\<close>

text \<open>An observation is late when its attempt does not hold the slot in that generation.\<close>

definition late :: "db \<Rightarrow> observation \<Rightarrow> bool" where
  "late d x \<longleftrightarrow> ActiveAttemptID (node_state d) \<noteq> Some (ob_attemptID x) \<or>
     (\<forall>a. sel att_id (ob_attemptID x) (attempts d) = Some a \<longrightarrow> att_generation a \<noteq> ob_generation x)"

lemma archiveLateD:
  assumes "archiveLateObservation E x v dlg t = Inr (u, t')"
  shows "quiet t t' \<and> (\<exists>l. late_observations (tx_db t') = late_observations (tx_db t) @ [l] \<and> late_attempt l = ob_attemptID x \<and>
    late_kind l = ob_kind x \<and> late_json l = observation_json x)"
proof -
  have "quiet t t'"
    using assms by (rule keepsD [rotated]) (simp add: archiveLateObservation_def, intro keeps_rules)
  moreover have "\<exists>l. late_observations (tx_db t') = late_observations (tx_db t) @ [l] \<and> late_attempt l = ob_attemptID x \<and>
    late_kind l = ob_kind x \<and> late_json l = observation_json x"
    using assms by (auto simp: archiveLateObservation_def split: option.splits dest!: appendEventD insertLateD saveState_frame)
  ultimately show ?thesis ..
qed

lemma Observe_late:
  assumes "Observe E x d = (Inr u, d')" and "late d x"
  shows "quiet (beginTx d) (beginTx d') \<and> (\<exists>l. late_observations d' = late_observations d @ [l] \<and> late_attempt l = ob_attemptID x \<and>
    late_kind l = ob_kind x \<and> late_json l = observation_json x)"
proof (rule commitTx_cases [of E "observeBody E x" d])
  fix y t
  assume b: "observeBody E x (beginTx d) = Inr (y, t)" and c: "commitTx E (observeBody E x) d = (Inr y, tx_db t)"
  have d': "d' = tx_db t" using c assms(1) by (simp add: Observe_def)
  obtain v dlg where "archiveLateObservation E x v dlg (beginTx d) = Inr (y, t)"
    using b assms(2) by (auto simp: observeBody_def late_def split: if_splits)
  from archiveLateD [OF this] have q: "quiet (beginTx d) t"
    and l: "\<exists>l. late_observations (tx_db t) = late_observations d @ [l] \<and> late_attempt l = ob_attemptID x \<and>
      late_kind l = ob_kind x \<and> late_json l = observation_json x" by simp_all
  have "settled_step (beginTx d) t" using keepsD [OF settles_keeps [OF settles_observeBody] b] .
  then have "node_state d' = tx_state t" by (simp add: settled_step_def settled_def d')
  with q l d' show ?thesis by (simp add: quiet_def)
qed (use assms in \<open>simp_all add: Observe_def\<close>)

section \<open>Terminal observations\<close>

lemma applyTerminal_effect:
  assumes "applyTerminal E ref version x t = Inr (u, t')"
  obtains ast rst now where "terminalState (ob_terminalState x) = Some (ast, rst)"
    and "attempts (tx_db t') = upd att_id (ref_attemptID ref) (\<lambda>a. a\<lparr>att_version := att_version a + 1, att_state := ast,
        att_effect := ob_effectStatus x, att_finished := Some now\<rparr>) (attempts (tx_db t))"
    and "requests (tx_db t') = upd req_id (ref_requestID ref) (\<lambda>r. r\<lparr>req_version := req_version r + 1, req_status := rst, req_updated := now\<rparr>)
        (requests (tx_db t))"
    and "ActiveAttemptID (tx_state t') = None" and "PendingCount (tx_state t') = PendingCount (tx_state t)"
    and "QueuePaused (tx_state t') = QueuePaused (tx_state t)"
proof -
  have ev: "appendNodeEvent E s = Inr (w, s') \<Longrightarrow> quiet s s'" for s w s' by (rule keepsD [OF quiet_events(1)])
  from assms obtain ast rst where st: "terminalState (ob_terminalState x) = Some (ast, rst)"
    by (auto simp: applyTerminal_def split: option.splits)
  with assms obtain now s1 s2 s3 s4 where
    s: "updateAttempt (ref_attemptID ref) (\<lambda>a. a\<lparr>att_version := att_version a + 1, att_state := ast,
        att_effect := ob_effectStatus x, att_finished := Some now\<rparr>) s1 = Inr ((), s2)"
      "updateRequest (ref_requestID ref) (\<lambda>r. r\<lparr>req_version := req_version r + 1, req_status := rst, req_updated := now\<rparr>) s2 = Inr ((), s3)"
      "quiet (s3\<lparr>tx_state := (tx_state s3)\<lparr>StateVersion := StateVersion (tx_state s3) + 1, ActiveAttemptID := None, Occupancy := ''idle'',
            EngineReadiness := (if EngineReadiness (tx_state s3) = ''unknown'' then ''blocked'' else EngineReadiness (tx_state s3))\<rparr>\<rparr>) s4"
      "quiet s4 t'" "tx_db s1 = tx_db t" "tx_state s1 = tx_state t"
    by (auto simp: applyTerminal_def simp del: appendEvent_def dest!: ev keepsD [OF quiet_stmts(5)])
  show ?thesis
    by (rule that [OF st, of now])
      (use s in \<open>auto simp: quiet_def dest!: updateAttemptD updateRequestD dest: calmD(1-3)\<close>)
qed

lemma Observe_terminal:
  assumes "Observe E x d = (Inr u, d')" and "\<not> late d x" and "ob_kind x = ''terminal''"
  obtains a ast rst now where "sel att_id (ob_attemptID x) (attempts d) = Some a" and "ob_confirmed x"
    and "terminalState (ob_terminalState x) = Some (ast, rst)"
    and "attempts d' = upd att_id (ob_attemptID x) (\<lambda>a. a\<lparr>att_version := att_version a + 1, att_state := ast,
        att_effect := ob_effectStatus x, att_finished := Some now\<rparr>) (attempts d)"
    and "requests d' = upd req_id (att_request a) (\<lambda>r. r\<lparr>req_version := req_version r + 1, req_status := rst, req_updated := now\<rparr>) (requests d)"
    and "ActiveAttemptID (node_state d') = None" and "PendingCount (node_state d') = PendingCount (node_state d)"
    and "QueuePaused (node_state d') = QueuePaused (node_state d)"
proof (rule commitTx_cases [of E "observeBody E x" d])
  fix y t
  assume b: "observeBody E x (beginTx d) = Inr (y, t)" and c: "commitTx E (observeBody E x) d = (Inr y, tx_db t)"
  have d': "d' = tx_db t" using c assms(1) by (simp add: Observe_def)
  have st: "node_state d' = tx_state t"
    using keepsD [OF settles_keeps [OF settles_observeBody] b] by (simp add: settled_step_def settled_def d')
  obtain a where a: "sel att_id (ob_attemptID x) (attempts d) = Some a" "att_generation a = ob_generation x"
    "ActiveAttemptID (node_state d) = Some (ob_attemptID x)" using assms(2) by (auto simp: late_def)
  obtain t1 where ap: "applyTerminal E \<lparr>ref_nodeID = NodeID (node_state d), ref_dialogID = att_dialog a, ref_requestID = att_request a,
      ref_attemptID = ob_attemptID x, ref_generation = att_generation a\<rparr> (att_version a) x (beginTx d) = Inr ((), t1)"
    and sv: "saveState t1 = Inr ((), t)" and conf: "ob_confirmed x"
    using b a assms(3) by (auto simp: observeBody_def Let_def)
  have fr: "attempts (tx_db t) = attempts (tx_db t1) \<and> requests (tx_db t) = requests (tx_db t1) \<and> tx_state t = tx_state t1"
    using sv by (auto dest!: saveState_frame)
  show ?thesis
    by (rule applyTerminal_effect [OF ap]) (rule that [OF a(1) conf], use fr d' st in simp_all)
qed (use assms in \<open>simp_all add: Observe_def\<close>)

section \<open>A restart\<close>

lemma recoverStartup_committed:
  assumes "recoverStartup E d = (Inr u, d')"
  obtains t where "recoverStartupBody E (beginTx d) = Inr ((), t)" and "d' = tx_db t" and "node_state d' = tx_state t"
proof (rule commitTx_cases [of E "recoverStartupBody E" d])
  fix y t
  assume b: "recoverStartupBody E (beginTx d) = Inr (y, t)" and c: "commitTx E (recoverStartupBody E) d = (Inr y, tx_db t)"
  have d': "d' = tx_db t" using c assms by (simp add: recoverStartup_def)
  have "settled t" using keepsD [OF settled_recoverStartupBody b] by (simp add: settled_step_def)
  with b d' that show ?thesis by (simp add: settled_def)
qed (use assms in \<open>simp_all add: recoverStartup_def\<close>)

lemma setAttemptUnknown_actions: "setAttemptUnknown E ref reason eff t = Inr (u, t') \<Longrightarrow> control_actions (tx_db t') = control_actions (tx_db t)"
  by (auto simp: setAttemptUnknown_def Let_def quiet_def split: if_splits
      dest!: updateAttemptD updateRequestD keepsD [OF quiet_events(1)] keepsD [OF quiet_stmts(5)])

lemma recoverStartupBody_actions:
  assumes "recoverStartupBody E t = Inr (u, t')"
  shows "control_actions (tx_db t') =
    map (\<lambda>c. if act_status c = CPending \<or> act_status c = CInflight then c\<lparr>act_status := CUnknown\<rparr> else c) (control_actions (tx_db t))"
proof -
  obtain t1 where u: "updateActions (\<lambda>c. act_status c = CPending \<or> act_status c = CInflight) CUnknown t = Inr ((), t1)"
    and rest: "control_actions (tx_db t') = control_actions (tx_db t1)"
    using assms unfolding recoverStartupBody_def
    by (clarsimp split: option.splits if_splits) (auto dest!: setAttemptUnknown_actions saveState_frame)
  from updateActionsD [OF u] rest show ?thesis by auto
qed

lemma recoverStartup_actions:
  assumes "recoverStartup E d = (Inr u, d')"
  shows "control_actions d' = map (\<lambda>c. if act_status c = CPending \<or> act_status c = CInflight then c\<lparr>act_status := CUnknown\<rparr> else c) (control_actions d)"
  by (rule recoverStartup_committed [OF assms]) (simp add: recoverStartupBody_actions)

lemma no_pending_no_claim: "list_all (\<lambda>c. act_status c \<noteq> CPending) (control_actions d) \<Longrightarrow> claimAction E l d = (None, d)"
  by (auto simp: claimAction_def list_all_iff find_Some_iff split: option.splits)

lemma find_sel: "sel att_id k rows = Some a \<Longrightarrow> att_generation a = g \<Longrightarrow> List.find (\<lambda>a. att_id a = k \<and> att_generation a = g) rows = Some a"
  by (induction rows) (auto simp: sel_def split: if_splits)

lemma setAttemptUnknownD:
  assumes "setAttemptUnknown E ref reason eff t = Inr (u, t')" and "sel att_id (ref_attemptID ref) (attempts (tx_db t)) = Some a"
    and "att_generation a = ref_generation ref" and "att_state a \<noteq> AUnknown"
  obtains now where "attempts (tx_db t') = upd att_id (ref_attemptID ref) (\<lambda>a. a\<lparr>att_version := att_version a + 1, att_state := AUnknown,
      att_effect := (if eff = '''' then ''unknown'' else eff)\<rparr>) (attempts (tx_db t))"
    and "requests (tx_db t') = upd req_id (ref_requestID ref) (\<lambda>r. r\<lparr>req_version := req_version r + 1, req_status := RUnknown, req_updated := now\<rparr>)
      (requests (tx_db t))"
    and "ActiveAttemptID (tx_state t') = Some (ref_attemptID ref)"
proof -
  have ev: "appendNodeEvent E s = Inr (w, s') \<Longrightarrow> quiet s s'" for s w s' by (rule keepsD [OF quiet_events(1)])
  obtain now s1 s2 s3 s4 where
    s: "updateAttempt (ref_attemptID ref) (\<lambda>a. a\<lparr>att_version := att_version a + 1, att_state := AUnknown,
        att_effect := (if eff = '''' then ''unknown'' else eff)\<rparr>) t = Inr ((), s1)"
      "updateRequest (ref_requestID ref) (\<lambda>r. r\<lparr>req_version := req_version r + 1, req_status := RUnknown, req_updated := now\<rparr>) s2 = Inr ((), s3)"
      "quiet (s3\<lparr>tx_state := (tx_state s3)\<lparr>StateVersion := StateVersion (tx_state s3) + 1, EngineReadiness := ''unknown'', Occupancy := ''unknown'',
            ActiveAttemptID := Some (ref_attemptID ref), BlockedReasons := addReason (BlockedReasons (tx_state s3)) ''execution_unknown''\<rparr>\<rparr>) s4"
      "quiet s4 t'" "tx_db s2 = tx_db s1"
    using assms(1,4) find_sel [OF assms(2,3)]
    by (clarsimp simp: setAttemptUnknown_def Let_def dest!: ev keepsD [OF quiet_stmts(5)])
  show ?thesis
    by (rule that [of now]) (use s in \<open>auto simp: quiet_def dest!: updateAttemptD updateRequestD dest: calmD(3)\<close>)
qed

lemma recoverStartup_active:
  assumes "recoverStartup E d = (Inr u, d')" and "ActiveAttemptID (node_state d) = Some k"
  shows "ActiveAttemptID (node_state d') = Some k \<and> (\<exists>a. sel att_id k (attempts d') = Some a \<and> att_state a = AUnknown)"
proof (rule recoverStartup_committed [OF assms(1)])
  fix t
  assume b: "recoverStartupBody E (beginTx d) = Inr ((), t)" and d': "d' = tx_db t" "node_state d' = tx_state t"
  have fr: "saveState s = Inr (w, s') \<Longrightarrow> attempts (tx_db s') = attempts (tx_db s) \<and> tx_state s' = tx_state s" for s w s'
    by (auto dest!: saveState_frame)
  let ?ref = "\<lambda>a. \<lparr>ref_nodeID = NodeID (node_state d), ref_dialogID = att_dialog a, ref_requestID = att_request a, ref_attemptID = att_id a,
      ref_generation = att_generation a\<rparr>"
  obtain t1 where u: "updateActions (\<lambda>c. act_status c = CPending \<or> act_status c = CInflight) CUnknown (beginTx d) = Inr ((), t1)"
    and r: "(case sel att_id k (attempts (tx_db t1)) of
        None \<Rightarrow> failM (RawError ''node active attempt reference is missing'')
      | Some a \<Rightarrow> if att_state a = AUnknown then returnM ()
          else if \<not> slotActive (att_state a) then failM (RawError ''node active attempt is not active'')
          else seqM [setAttemptUnknown E (?ref a) ''dispatch_uncertain'' ''unknown'', saveState]) t1 = Inr ((), t)"
    using b assms(2) by (auto simp: recoverStartupBody_def)
  have t1: "attempts (tx_db t1) = attempts d" "tx_state t1 = node_state d" using updateActionsD [OF u] by auto
  obtain a where a: "sel att_id k (attempts d) = Some a" and c: "att_state a = AUnknown \<and> t = t1 \<or> att_state a \<noteq> AUnknown \<and>
      (\<exists>t2. setAttemptUnknown E (?ref a) ''dispatch_uncertain'' ''unknown'' t1 = Inr ((), t2) \<and> saveState t2 = Inr ((), t))"
    using r t1(1) by (auto split: option.splits if_splits)
  have k: "att_id a = k" using a by (auto dest: sel_SomeD)
  from c show ?thesis
  proof (elim disjE exE conjE)
    fix t2
    assume n: "att_state a \<noteq> AUnknown" and sv: "saveState t2 = Inr ((), t)" and un: "setAttemptUnknown E \<lparr>ref_nodeID = NodeID (node_state d),
      ref_dialogID = att_dialog a, ref_requestID = att_request a, ref_attemptID = att_id a, ref_generation = att_generation a\<rparr>
      ''dispatch_uncertain'' ''unknown'' t1 = Inr ((), t2)"
    show ?thesis
      by (rule setAttemptUnknownD [OF un, of a]) (use a n k t1 fr [OF sv] d' in \<open>simp_all add: sel_upd\<close>)
  qed (use a t1 d' assms(2) in simp)
qed

lemma updateActions_none:
  assumes "list_all (\<lambda>c. \<not> P c) (control_actions (tx_db t))"
  shows "updateActions P st t = Inr ((), t)"
proof -
  have "map (\<lambda>a. if P a then a\<lparr>act_status := st\<rparr> else a) (control_actions (tx_db t)) = control_actions (tx_db t)"
    using assms by (induction "control_actions (tx_db t)") (auto simp: list_all_iff intro!: map_idI)
  moreover have "filter P (control_actions (tx_db t)) = []" using assms by (simp add: list_all_iff filter_empty_conv)
  ultimately show ?thesis by (simp add: updateActions_def bindM_def readDb_def writeDb_def returnM_def)
qed

lemma recoverStartup_again:
  assumes "recoverStartup E d = (Inr u, d')" and "env_beginOk E'" and "env_commitOk E'"
  shows "recoverStartup E' d' = (Inr (), d')"
proof -
  have "list_all (\<lambda>c. \<not> (act_status c = CPending \<or> act_status c = CInflight)) (control_actions d')"
    using recoverStartup_actions [OF assms(1)] by (auto simp: list_all_iff)
  then have "updateActions (\<lambda>c. act_status c = CPending \<or> act_status c = CInflight) CUnknown (beginTx d') = Inr ((), beginTx d')"
    by (intro updateActions_none) simp
  moreover have "ActiveAttemptID (node_state d') = None \<or>
      (\<exists>k a. ActiveAttemptID (node_state d') = Some k \<and> sel att_id k (attempts d') = Some a \<and> att_state a = AUnknown)"
  proof (cases "ActiveAttemptID (node_state d)")
    case (Some k)
    then show ?thesis using recoverStartup_active [OF assms(1)] by blast
  next
    case None
    have "ActiveAttemptID (tx_state t) = None" if "recoverStartupBody E (beginTx d) = Inr ((), t)" for t
    proof -
      have "updateActions (\<lambda>c. act_status c = CPending \<or> act_status c = CInflight) CUnknown (beginTx d) = Inr ((), t)"
        using that None by (simp add: recoverStartupBody_def)
      from updateActionsD [OF this] None show ?thesis by auto
    qed
    then show ?thesis by (metis recoverStartup_committed [OF assms(1)])
  qed
  ultimately have "recoverStartupBody E' (beginTx d') = Inr ((), beginTx d')"
    by (auto simp: recoverStartupBody_def bindM_def readState_def readDb_def returnM_def)
  then show ?thesis using assms(2,3) by (simp add: recoverStartup_def commitTx_def)
qed

section \<open>Deleted dialogs\<close>

lemma deleted_stays: "node_steps d d' \<Longrightarrow> dialogDeleted d dlg \<Longrightarrow> dialogDeleted d' dlg"
  using node_steps_db_step by (auto simp: db_step_def history_grows_def)

lemma submit_deleted:
  assumes p: "parsedCommand E trust raw = Some (c, v, digest)" and del: "dialogDeleted d dlg"
    and target: "targetDialogOf d (ce_kind c) (ce_target c) = Some dlg" and fresh: "outcomeRows d (ce_commandId c) = []"
  shows "snd (SubmitCommand E trust lenient raw d) = d \<and> \<not> res_committed (fst (SubmitCommand E trust lenient raw d)) \<and>
    (env_beginOk E \<and> identityExpected E trust (node_state d) \<longrightarrow> res_status (fst (SubmitCommand E trust lenient raw d)) \<in> {400, 404})"
proof -
  have "dialogOwner d (env_nodeID E) dlg = None" using del by (simp add: dialogOwner_def split: option.splits)
  moreover have "ce_kind c \<noteq> DialogCreate" "ce_kind c \<noteq> QueueResume" using target by auto
  ultimately have au: "\<exists>e. authorizeObject E c (beginTx d) = Inl (reject e ''not_found'' ''target was not found'') \<and> e = 404 \<or>
      authorizeObject E c (beginTx d) = Inl (reject 400 ''invalid'' ''unsupported command kind'')"
    using target by (auto simp: authorizeObject_def bindM_def guardM_def failM_def readDb_def returnM_def)
  have lo: "loadCommandOutcome (ce_commandId c) (beginTx d) = Inr (None, beginTx d)" using fresh by (simp add: loadCommandOutcome_Inr)
  show ?thesis
    unfolding SubmitCommand_parsed [OF p] using au
    by (auto simp: runTx_def submitBody_def bindM_def readState_def guardM_def returnM_def failM_def orElseM_def lo reject_def
        errorResult_def notDurable_def)
qed

lemma applyDialogDelete_tombstone:
  assumes "applyDialogDelete E c t = Inr (a, t')" and "jstring (ce_target c) ''dialogId'' \<noteq> []"
  shows "dialogDeleted (tx_db t') (jstring (ce_target c) ''dialogId'') \<and> \<not> dialogUnresolved (tx_db t) (jstring (ce_target c) ''dialogId'') \<and>
    \<not> dialogDeleted (tx_db t) (jstring (ce_target c) ''dialogId'')"
  using assms
  by (clarsimp simp: applyDialogDelete_def Let_def dialogDeleted_def nullText_def eventRowOf_def split: option.splits dest!: appendEventD updateDialogD bindEventD)

lemma deleteUnderHold_events: "deleteUnderHold E raw r rh h canonical ch c t = Inr (oc, t') \<Longrightarrow>
    \<exists>a t1. applyDialogDelete E c t = Inr (a, t1) \<and> events (tx_db t') = events (tx_db t1)"
  by (drule deleteUnderHoldD) blast

lemma delete_committed:
  assumes "DeleteLogicalDialog E node raw d = (r, d')" and "res_committed r"
  obtains v q l ho where "raw = Some v" and "decodeNodeRequest v = Some q" and "dialogDeleted d' (nr_nodeDialogId q)"
    and "\<not> dialogDeleted d (nr_nodeDialogId q)" and "\<not> dialogUnresolved d (nr_nodeDialogId q)"
    and "logical_deletes d' = logical_deletes d @ [l]" and "ldr_operation l = nr_operationId q" and "ValidateNodeReceipt (ldr_receipt l)"
    and "hold_outcomes d' = hold_outcomes d @ [ho]" and "hout_operation ho = nr_operationId q"
    and "\<exists>h. sel hold_operation (nr_operationId q) (administrative_holds d) = Some h \<and> activeHold d h \<and> holdMatches q h"
    and "uuidPattern (nr_operationId q)" and "sel ldr_operation (nr_operationId q) (logical_deletes d) = None" and "node = env_nodeID E"
    and "\<not> env_faultAfter E \<longrightarrow> r = \<lparr>res_status = 201, res_body = nodeReceipt_json (ldr_receipt l), res_committed = True\<rparr>"
proof -
  obtain v q where q: "raw = Some v" "decodeNodeRequest v = Some q" "ValidateNodeRequest q" "node = env_nodeID E"
    and run: "runTx E (nr_operationId q) ''durable store is unavailable'' (logicalDeleteBody E v q (NodeRequestHash (env_sha E) q)) d = (r, d')"
    using assms by (auto simp: DeleteLogicalDialog_def errorResult_def split: if_splits option.splits bind_splits)
  have ans: "\<not> res_committed x" if "logicalDeleteBody E v q (NodeRequestHash (env_sha E) q) (beginTx d) = Inr (Answer x, t)" for x t
    using that by (cases rule: logicalDeleteBody_cases) (auto simp: okResult_def dest!: deleteUnderHoldD)
  obtain x a b f t where b: "logicalDeleteBody E v q (NodeRequestHash (env_sha E) q) (beginTx d) = Inr (Commit x a b f, t)"
    and d': "d' = tx_db t" and r: "\<not> env_faultAfter E \<longrightarrow> r = x\<lparr>res_committed := True\<rparr>"
    by (rule runTx_committed [OF run assms(2) ans]) blast+
  from b show ?thesis
  proof (cases rule: logicalDeleteBody_cases)
    case (deleted h canonical commandHash c)
    have dlg: "jstring (ce_target c) ''dialogId'' = nr_nodeDialogId q" using deleteCommand_decoded(1) [OF deleted(7)] .
    have ne: "nr_nodeDialogId q \<noteq> []" using q(3) uuidPattern_nonempty by (auto simp: ValidateNodeRequest_def)
    obtain ap t1 where ap: "applyDialogDelete E c (beginTx d) = Inr (ap, t1)" and ev: "events (tx_db t) = events (tx_db t1)"
      using deleteUnderHold_events [OF deleted(8)] by blast
    have tomb: "dialogDeleted d' (nr_nodeDialogId q)" "\<not> dialogDeleted d (nr_nodeDialogId q)" "\<not> dialogUnresolved d (nr_nodeDialogId q)"
      using applyDialogDelete_tombstone [OF ap] ev ne by (simp_all add: dlg d' dialogDeleted_def)
    obtain ho l m1 m2 m3 where w: "hold_outcomes (tx_db t) = hold_outcomes d @ [ho]" "hout_operation ho = nr_operationId q"
        "logical_deletes (tx_db t) = logical_deletes d @ [l]" "ldr_operation l = nr_operationId q" "ValidateNodeReceipt (ldr_receipt l)"
        "Commit x a b f = Commit (okResult 201 (nodeReceipt_json (ldr_receipt l))) m1 m2 m3"
      using deleteUnderHoldD [OF deleted(8)] by (elim exE conjE) (rule that; simp)
    show ?thesis
      by (rule that [of v q l ho]) (use q tomb w d' r deleted(1,2,3,5) in \<open>simp_all add: ValidateNodeRequest_def okResult_def\<close>)
  qed simp
qed

end
