(* ===== verification/Budget_Laws.thy ===== *)
theory Budget_Laws
  imports Output_Budget Commands
begin

text \<open>
  Bounds: the output budget of an attempt over any sequence of charges, and the admission floor
  of the store over 64-bit byte counts.
\<close>

section \<open>The output budget\<close>

lemma overBudget_sum: "0 \<le> active \<Longrightarrow> 0 \<le> archived \<Longrightarrow> overBudget active archived \<longleftrightarrow> MaximumAttemptOutputBytes < active + archived"
  by (auto simp: overBudget_def)

definition metered :: "db \<Rightarrow> string \<Rightarrow> bool" where
  "metered d k \<longleftrightarrow> (\<exists>a. sel att_id k (attempts d) = Some a \<and> 0 \<le> att_output a) \<and> 0 \<le> archivedBytes d k"

lemma exceeded_used: "metered d k \<Longrightarrow> attemptOutputExceeded d k = Some (MaximumAttemptOutputBytes < usedBytes d k)"
  by (auto simp: metered_def attemptOutputExceeded_def usedBytes_def overBudget_sum)

lemma setOutput_metered:
  assumes "setOutput k v t = Inr (u, t')" and "metered (tx_db t) k" and "0 \<le> v"
  shows "metered (tx_db t') k \<and> usedBytes (tx_db t') k = v + archivedBytes (tx_db t) k"
  using assms by (auto simp: setOutput_def metered_def usedBytes_def archivedBytes_def sel_upd dest!: updateAttemptD)

lemma chargeAttemptOutput_result:
  assumes c: "chargeAttemptOutput k n t = Inr (c, t')" and m: "metered (tx_db t) k"
  shows "metered (tx_db t') k \<and> 0 \<le> n \<and> (case c of
      Charged \<Rightarrow> usedBytes (tx_db t') k = usedBytes (tx_db t) k + n \<and> usedBytes (tx_db t') k \<le> MaximumAttemptOutputBytes
    | NewlyExceeded \<Rightarrow> usedBytes (tx_db t) k \<le> MaximumAttemptOutputBytes \<and> MaximumAttemptOutputBytes < usedBytes (tx_db t) k + n \<and>
        MaximumAttemptOutputBytes < usedBytes (tx_db t') k
    | Exceeded \<Rightarrow> t' = t \<and> MaximumAttemptOutputBytes < usedBytes (tx_db t) k)"
proof -
  obtain a where a: "sel att_id k (attempts (tx_db t)) = Some a" "0 \<le> att_output a" "0 \<le> archivedBytes (tx_db t) k"
    using m by (auto simp: metered_def)
  have u: "usedBytes (tx_db t) k = att_output a + archivedBytes (tx_db t) k" using a by (simp add: usedBytes_def)
  have M: "0 \<le> MaximumAttemptOutputBytes" by (simp add: MaximumAttemptOutputBytes_def)
  show ?thesis
    using c a m u M
    by (auto simp: chargeAttemptOutput_def Let_def overBudget_sum split: if_splits dest!: setOutput_metered)
qed

text \<open>Charging one amount after the other.\<close>

primrec chargeAll :: "string \<Rightarrow> int list \<Rightarrow> outputCharge list tx" where
  "chargeAll k [] = returnM []"
| "chargeAll k (n # ns) = bindM (chargeAttemptOutput k n) (\<lambda>c. bindM (chargeAll k ns) (\<lambda>cs. returnM (c # cs)))"

definition charged :: "int list \<Rightarrow> outputCharge list \<Rightarrow> int" where
  "charged ns cs = sum_list (map fst (filter (\<lambda>p. snd p = Charged) (zip ns cs)))"

lemma charged_Cons [simp]: "charged (n # ns) (c # cs) = (if c = Charged then n else 0) + charged ns cs"
  by (simp add: charged_def)

lemma chargeAll_exceeded:
  assumes "chargeAll k ns t = Inr (cs, t')" and "metered (tx_db t) k" and "MaximumAttemptOutputBytes < usedBytes (tx_db t) k"
  shows "t' = t \<and> list_all (\<lambda>c. c = Exceeded) cs \<and> charged ns cs = 0"
  using assms
proof (induction ns arbitrary: t cs)
  case Nil
  then show ?case by (simp add: charged_def)
next
  case (Cons n ns)
  then obtain c t1 cs1 where c: "chargeAttemptOutput k n t = Inr (c, t1)" and r: "chargeAll k ns t1 = Inr (cs1, t')" and cs: "cs = c # cs1"
    by auto
  have "c = Exceeded \<and> t1 = t" using chargeAttemptOutput_result [OF c Cons.prems(2)] Cons.prems(3) by (auto split: outputCharge.splits)
  with Cons.IH [of t cs1] r cs Cons.prems show ?case by simp
qed

lemma chargeAll_bounded:
  assumes "chargeAll k ns t = Inr (cs, t')" and "metered (tx_db t) k" and "usedBytes (tx_db t) k \<le> MaximumAttemptOutputBytes"
  shows "usedBytes (tx_db t) k + charged ns cs \<le> MaximumAttemptOutputBytes \<and> length (filter (\<lambda>c. c = NewlyExceeded) cs) \<le> 1 \<and>
    (list_all (\<lambda>c. c = Charged) cs \<longrightarrow> usedBytes (tx_db t') k = usedBytes (tx_db t) k + sum_list ns)"
  using assms
proof (induction ns arbitrary: t cs)
  case Nil
  then show ?case by (simp add: charged_def)
next
  case (Cons n ns)
  then obtain c t1 cs1 where c: "chargeAttemptOutput k n t = Inr (c, t1)" and r: "chargeAll k ns t1 = Inr (cs1, t')" and cs: "cs = c # cs1"
    by auto
  have res: "metered (tx_db t1) k \<and> 0 \<le> n \<and> (case c of
      Charged \<Rightarrow> usedBytes (tx_db t1) k = usedBytes (tx_db t) k + n \<and> usedBytes (tx_db t1) k \<le> MaximumAttemptOutputBytes
    | NewlyExceeded \<Rightarrow> usedBytes (tx_db t) k \<le> MaximumAttemptOutputBytes \<and> MaximumAttemptOutputBytes < usedBytes (tx_db t) k + n \<and>
        MaximumAttemptOutputBytes < usedBytes (tx_db t1) k
    | Exceeded \<Rightarrow> t1 = t \<and> MaximumAttemptOutputBytes < usedBytes (tx_db t) k)"
    by (rule chargeAttemptOutput_result [OF c Cons.prems(2)])
  show ?case
  proof (cases c)
    case Charged
    with res Cons.IH [OF r] cs show ?thesis by simp
  next
    case NewlyExceeded
    with res have ex: "metered (tx_db t1) k" "MaximumAttemptOutputBytes < usedBytes (tx_db t1) k" by simp_all
    from chargeAll_exceeded [OF r this] have "filter (\<lambda>c. c = NewlyExceeded) cs1 = []"
      by (auto simp: list_all_iff filter_empty_conv)
    with chargeAll_exceeded [OF r ex] NewlyExceeded cs Cons.prems(3) show ?thesis by simp
  next
    case Exceeded
    with res Cons.prems(3) show ?thesis by simp
  qed
qed

section \<open>The admission floor\<close>

text \<open>The floor over 64-bit counts, read as a natural number.\<close>

lemma admissionFloor_value: "unat (admissionFloor bytes) = max 1073741824 (unat bytes div 10)"
  by (simp add: admissionFloor_def Let_def MinimumFreeBytes_def word_less_nat_alt unat_div max_def)

lemma belowFloor_iff: "\<not> belowFloor (Some (free, bytes)) \<longleftrightarrow> 1073741824 \<le> unat free \<and> unat bytes div 10 \<le> unat free"
  by (auto simp: belowFloor_def word_less_nat_alt admissionFloor_value)

end
