(* ===== verification/Admission_Laws.thy ===== *)
theory Admission_Laws
  imports Attempt_Laws Budget_Laws Json_Laws
begin

text \<open>
  Admission and dispatch as seen from the entry points: the pending count over whole calls, the
  full queue, the receipts that are answered, command digests, and the error documents.
\<close>

section \<open>The pending count over a call\<close>

text \<open>A section whose body keeps an invariant of state and ledger keeps it in the ledger it leaves.\<close>

lemma commits_inv:
  assumes "commits m d d'" and "\<And>x t. m (beginTx d) = Inr (x, t) \<Longrightarrow> I (tx_state t) (tx_db t)" and "keeps settled_step m" and "I (node_state d) d"
  shows "I (node_state d') d'"
proof -
  consider "d' = d" | x t where "m (beginTx d) = Inr (x, t)" and "d' = tx_db t" using assms(1) by (auto simp: commits_def)
  then show ?thesis
  proof cases
    case 2
    have "node_state d' = tx_state t" using keepsD [OF assms(3) 2(1)] 2(2) by (simp add: settled_step_def settled_def)
    with assms(2) [OF 2(1)] 2(2) show ?thesis by simp
  qed (use assms(4) in simp)
qed

lemma submit_pending:
  assumes ok: "pending_ok (node_state d) d" "unique_key req_id (requests d)"
  shows "pending_ok (node_state (snd (SubmitCommand E trust lenient raw d))) (snd (SubmitCommand E trust lenient raw d))"
proof -
  obtain c v dg where "commits (submitBody E trust c v dg) d (snd (SubmitCommand E trust lenient raw d))" using entry_commits(1) by blast
  then show ?thesis
    by (rule commits_inv) (use ok submitBody_pending [of E trust c v dg "beginTx d"] settled_submitBody in auto)
qed

lemma queue_frame_block: "keeps queue_frame (blockPolicyBody E)"
  unfolding blockPolicyBody_def by (intro keeps_rules) simp_all

lemma dispatch_pending:
  assumes ok: "pending_ok (node_state d) d" "unique_key req_id (requests d)"
  shows "pending_ok (node_state (snd (DispatchNext E G peeked d))) (snd (DispatchNext E G peeked d))"
proof -
  consider "commits (blockPolicyBody E) d (snd (DispatchNext E G peeked d))"
    | policy cand where "commits (dispatchBody E policy cand) d (snd (DispatchNext E G peeked d))"
    using engine_commits(2) by blast
  then show ?thesis
  proof cases
    case 1
    then show ?thesis
    proof (rule commits_inv)
      fix x t
      assume "blockPolicyBody E (beginTx d) = Inr (x, t)"
      from pending_frame [OF keepsD [OF queue_frame_block this]] ok show "pending_ok (tx_state t) (tx_db t)" by simp
    qed (use ok settles_keeps [OF settles_blockPolicyBody] in auto)
  next
    case 2
    then show ?thesis
      by (rule commits_inv) (use ok dispatchBody_pending [of E policy cand "beginTx d"] settled_dispatchBody in auto)
  qed
qed

section \<open>Uncommitted answers\<close>

definition traceless :: "db \<Rightarrow> result \<times> db \<Rightarrow> bool" where
  "traceless d p \<longleftrightarrow> res_committed (fst p) \<or> snd p = d"

lemma traceless_runTx: "traceless d (runTx E cor m body d)"
  unfolding traceless_def using runTx_uncommitted by blast

lemma traceless_same: "traceless d (r, d)"
  by (simp add: traceless_def)

lemma traceless_entries:
  "traceless d (SubmitCommand E trust lenient raw d)" "traceless d (InstallHold E node raw d)"
  "traceless d (ReleaseHold E node raw d)" "traceless d (DeleteLogicalDialog E node raw d)"
  unfolding SubmitCommand_def InstallHold_def ReleaseHold_def DeleteLogicalDialog_def Let_def
  by (auto split: option.split intro: traceless_runTx traceless_same)

section \<open>A full queue\<close>

lemma enqueue_full:
  assumes "sel dlg_id (jstring (ce_target c) ''dialogId'') (dialogs (tx_db t)) = Some r"
    and "jint (ce_expected c) ''dialogVersion'' = dlg_version r" and "QueueCapacity \<le> PendingCount (tx_state t)"
  shows "applyMessageEnqueue E c t = Inl (reject 429 ''queue_full'' ''pending queue is full'')"
  using assms by (simp add: applyMessageEnqueue_def Let_def bindM_def readDb_def readState_def needM_def guardM_def returnM_def failM_def)

lemma submit_full:
  assumes p: "parsedCommand E trust raw = Some (c, v, digest)" and k: "ce_kind c = MessageEnqueue"
    and id: "identityExpected E trust (node_state d)" and fresh: "outcomeRows d (ce_commandId c) = []"
    and au: "authorizeObject E c (beginTx d) = Inr ((), beginTx d)" and hold: "coveringHoldForCommand E c (beginTx d) = Inr (None, beginTx d)"
    and space: "\<not> belowFloor (env_space E)" and r: "sel dlg_id (jstring (ce_target c) ''dialogId'') (dialogs d) = Some r"
    and ver: "jint (ce_expected c) ''dialogVersion'' = dlg_version r" and full: "QueueCapacity \<le> PendingCount (node_state d)"
    and bg: "env_beginOk E"
  shows "SubmitCommand E trust lenient raw d = (errorResult E 429 ''queue_full'' ''pending queue is full'' (ce_commandId c) None '''', d)"
proof -
  have lo: "loadCommandOutcome (ce_commandId c) (beginTx d) = Inr (None, beginTx d)" using fresh by (simp add: loadCommandOutcome_Inr)
  have "applyMessageEnqueue E c (beginTx d) = Inl (reject 429 ''queue_full'' ''pending queue is full'')"
    by (rule enqueue_full [of c "beginTx d" r]) (use r ver full in simp_all)
  then have "submitBody E trust c v digest (beginTx d) = Inl (reject 429 ''queue_full'' ''pending queue is full'')"
    using lo id au hold space k
    by (simp add: submitBody_def bindM_def readState_def guardM_def orElseM_def returnM_def admitCommand_def applyCommand_def admitStorage_def
        IsAdmissionCommand_def)
  then show ?thesis using bg by (simp add: SubmitCommand_parsed [OF p] runTx_def reject_def)
qed

section \<open>Answers\<close>

lemma submit_receipt:
  assumes p: "parsedCommand E trust raw = Some (c, v, digest)" and s: "SubmitCommand E trust lenient raw d = (r, d')"
    and ok: "res_committed r" and f: "\<not> env_faultAfter E"
  shows "(res_status r = 202 \<and> Validate ''receipt'' (res_body r) \<and> (\<exists>row. commands d' = commands d @ [row] \<and> cmd_id row = ce_commandId c \<and>
      cmd_hash row = digest \<and> res_body r = receipt_json (cmd_receipt row))) \<or>
    (res_status r = 409 \<and> (\<exists>row. d' = d\<lparr>command_rejections := command_rejections d @ [row]\<rparr> \<and> rej_id row = ce_commandId c \<and>
      rej_hash row = digest \<and> validRejectionReceipt (rej_receipt row) \<and> res_body r = rejectionReceipt_json (rej_receipt row)))"
proof -
  have ans: "\<not> res_committed x" if "submitBody E trust c v digest (beginTx d) = Inr (Answer x, t)" for x t
    using that by (cases rule: submitBody_cases) (auto simp: okResult_def dest!: commitCommandRejectionD elim!: admitCommandD dest!: recordCommandD)
  obtain x a b g t where b: "submitBody E trust c v digest (beginTx d) = Inr (Commit x a b g, t)" and d': "d' = tx_db t"
    and r': "\<not> env_faultAfter E \<longrightarrow> r = x\<lparr>res_committed := True\<rparr>"
    by (rule runTx_committed [OF s [unfolded SubmitCommand_parsed [OF p]] ok ans]) blast+
  have r: "r = x\<lparr>res_committed := True\<rparr>" using r' f by simp
  from b show ?thesis
  proof (cases rule: submitBody_cases)
    case (held h)
    from commitCommandRejectionD [OF held(4)] show ?thesis by (auto simp: r d' okResult_def)
  next
    case admitted
    obtain t1 t2 ap where ad: "recordCommand E c v digest ap t2 = Inr (Commit x a b g, t)" "handler_step (beginTx d) t2"
      by (rule admitCommandD [OF admitted(4)])
    have "commands (tx_db t2) = commands d" using ad(2) by (simp add: handler_outcomes_same)
    with recordCommandD [OF ad(1)] show ?thesis by (auto simp: r d' okResult_def)
  qed simp
qed

section \<open>Digests\<close>

lemma same_json_digest:
  assumes "same_json v w" and "CanonicalCommand sha v = Some x" and "CanonicalCommand sha w = Some y"
  shows "x = y"
  using assms same_json_canonical [OF assms(1)] by (auto simp: CanonicalCommand_def split: if_splits)

section \<open>Error documents\<close>

text \<open>A state word that the schema does not list makes the error document invalid.\<close>

lemma error_json_state:
  assumes "we_currentState w \<noteq> []" and "we_currentState w \<notin> set currentStates"
  shows "\<not> Validate ''error'' (error_json w)"
  using assms
  by (auto simp: Validate_def validateError_def error_json_def object_def enumCheck_def optional_def required_def pinFields_def omitEmpty_def
      split: option.splits)

section \<open>Progress of the dispatcher\<close>

lemma peek_head:
  assumes "\<not> QueuePaused (node_state d)" and "ActiveAttemptID (node_state d) = None" and "PendingCount (node_state d) \<noteq> 0"
    and "\<not> List.member (BlockedReasons (node_state d)) ''execution_unknown''" and "queueHead d (NodeID (node_state d)) = Some r"
    and "sel msg_id (req_message r) (messages d) = Some m" and "msg_text m \<noteq> None"
  shows "peekDispatch d = Inr (Some \<lparr>dc_requestID = req_id r, dc_dialogID = req_dialog r, dc_messageID = req_message r,
    dc_queueSequence = req_sequence r, dc_stateVersion = StateVersion (node_state d)\<rparr>)"
  using assms by (auto simp: peekDispatch_def Let_def)

lemma dispatch_progress:
  assumes g: "dg_authFirst G" "dg_policy G = Some policy" "ValidatePolicySnapshot (env_sha E) policy" "dg_authSecond G" "\<not> dg_settingsBlocked G"
    and s: "\<not> QueuePaused (node_state d)" "ActiveAttemptID (node_state d) = None" "PendingCount (node_state d) \<noteq> 0"
      "\<not> List.member (BlockedReasons (node_state d)) ''execution_unknown''"
    and h: "queueHead d (NodeID (node_state d)) = Some r" "sel msg_id (req_message r) (messages d) = Some m" "msg_text m \<noteq> None"
      "msg_disposition m \<noteq> None"
  shows "(\<exists>e. DispatchNext E G d d = (Inl e, d)) \<or>
    (\<exists>attID. fst (DispatchNext E G d d) = Inr (Dispatched attID (req_id r)) \<or> fst (DispatchNext E G d d) = Inr (DispatchUnknown attID (req_id r)))"
proof -
  let ?c = "\<lparr>dc_requestID = req_id r, dc_dialogID = req_dialog r, dc_messageID = req_message r,
    dc_queueSequence = req_sequence r, dc_stateVersion = StateVersion (node_state d)\<rparr>"
  have peek: "peekDispatch d = Inr (Some ?c)" by (rule peek_head [OF s h(1-3)])
  have body: "dispatchBody E policy ?c (beginTx d) = commitDispatch E policy r m (beginTx d)"
    using s h by (auto simp: dispatchBody_def bindM_def readState_def readDb_def)
  consider e where "commitDispatch E policy r m (beginTx d) = Inl e"
    | attID t where "commitDispatch E policy r m (beginTx d) = Inr (Dispatched attID (req_id r), t)"
    by (cases "commitDispatch E policy r m (beginTx d)") (auto elim!: commitDispatch_run)
  then show ?thesis
  proof cases
    case 1
    then show ?thesis using g by (auto simp: DispatchNext_def peek body commitTx_def dispatchReply_def)
  next
    case 2
    then show ?thesis using g by (auto simp: DispatchNext_def peek body commitTx_def dispatchReply_def)
  qed
qed

section \<open>Scopes\<close>

lemma scopeKey_inject: "scopeKey a = scopeKey b \<longleftrightarrow> a = b"
  by (cases a; cases b) (auto simp: dialogKey_def)

lemma scope_roundtrip: "scope_of (wire_of_scope sc) = sc"
  by (cases sc) (simp_all add: scope_of_def)

lemma foldName_kind: "foldName ''kind'' = ''kind''" "foldName ''dialogId'' = ''dialogid''"
  by code_simp+

lemma scope_json_decoded: "decodeScope (scope_json sc) = Some (wire_of_scope sc)"
  by (cases sc) (auto simp: decodeScope_def scope_json_def omitEmpty_def onlyFields_def decodeField_def goValues_def foldName_kind goString_def
      lastOr_def Let_def simp del: foldName.simps)

end
