(* ===== verification/Attempt_Examples.thy ===== *)
theory Attempt_Examples
  imports Queue_Examples Barrier_Examples Admission_Laws
begin

text \<open>
  A ledger whose only request has been dispatched and whose start intent is still pending, and
  the calls of the attempt's life on it.
\<close>

definition exAttempt :: attemptRow where
  "exAttempt = newAttempt u2 u1 exRequest 1 (hexA)"

definition exStart :: actionRow where
  "exStart = startIntent exRequest u2 1 None"

definition exStarting :: db where
  "exStarting = exQueued\<lparr>
     requests := [exRequest\<lparr>req_status := RDispatching, req_version := 2\<rparr>],
     attempts := [exAttempt],
     control_actions := [exStart],
     node_state := (node_state exQueued)\<lparr>PendingCount := 0, ActiveAttemptID := Some u2, Occupancy := ''active''\<rparr>\<rparr>"

definition exRef :: attemptRef where
  "exRef = \<lparr>ref_nodeID = u1, ref_dialogID = u2, ref_requestID = u4, ref_attemptID = u2, ref_generation = 1\<rparr>"

lemmas attempt_defs = exAttempt_def newAttempt_def exStart_def startIntent_def exStarting_def exRef_def

lemma exClaimed: "\<exists>d'. claimAction exEnv DispatchLane exStarting = (Some exStart, d')"
  by (simp add: claimAction_def laneAccepts_def attempt_defs ex_defs dialogHeld_def sel_def commitTx_def updateActions_def run_rules value_defs
      actionDispatchStart_def u_simps)

section \<open>A full queue, a deleted dialog, a restart\<close>

definition exFull :: db where
  "exFull = exQueued\<lparr>node_state := (node_state exQueued)\<lparr>PendingCount := QueueCapacity\<rparr>\<rparr>"

lemma exFull_facts:
  "identityExpected exEnv exTrust (node_state exFull)" "outcomeRows exFull (ce_commandId exEnqueueEnvelope) = []"
  "authorizeObject exEnv exEnqueueEnvelope (beginTx exFull) = Inr ((), beginTx exFull)"
  "coveringHoldForCommand exEnv exEnqueueEnvelope (beginTx exFull) = Inr (None, beginTx exFull)"
  "\<not> belowFloor (env_space exEnv)"
  "\<exists>r. sel dlg_id (jstring (ce_target exEnqueueEnvelope) ''dialogId'') (dialogs exFull) = Some r \<and>
     jint (ce_expected exEnqueueEnvelope) ''dialogVersion'' = dlg_version r"
  "QueueCapacity \<le> PendingCount (node_state exFull)"
  by (simp_all add: exFull_def identityExpected_def exTrust_def outcomeRows_def authorizeObject_def exEnqueueEnvelope_def run_rules value_defs
      dialogOwner_def ex_defs jstring_def jfield_def jint_def dialogDeleted_def coveringHoldForCommand_def coveringHold_def nodeHold_def
      first_by_def belowFloor_def admissionFloor_def MinimumFreeBytes_def)

definition exTombstone :: eventRow where
  "exTombstone = \<lparr>evt_node = u1, evt_seq = 1, evt_epoch = 1, evt_event = exEvent 1 u2 2 '''' u2 (PDialogDeleted u2), evt_attempt = None,
     evt_dialog = Some u2, evt_key = Some ''dialog.deleted'', evt_hash = None, evt_late = False, evt_created = exTime\<rparr>"

definition exDeleted :: db where
  "exDeleted = exQueued\<lparr>events := [exTombstone]\<rparr>"

lemma exDeleted_facts: "dialogDeleted exDeleted u2" "outcomeRows exDeleted (ce_commandId exEnqueueEnvelope) = []"
  "targetDialogOf exDeleted (ce_kind exEnqueueEnvelope) (ce_target exEnqueueEnvelope) = Some u2"
  by (simp_all add: exDeleted_def dialogDeleted_def exTombstone_def outcomeRows_def ex_defs exEnqueueEnvelope_def jstring_def jfield_def)

section \<open>Observations, a restart and charges on the running ledger\<close>

definition exFailed :: observation where
  "exFailed = \<lparr>ob_attemptID = u2, ob_generation = 1, ob_kind = ''terminal'', ob_terminalState = ''failed'', ob_reason = '''',
     ob_effectStatus = ''none'', ob_confirmed = True\<rparr>"

lemma exObserved: "\<exists>d'. Observe exEnv exFailed exStarting = (Inr (), d')"
  by (simp add: Observe_def commitTx_def observeBody_def [THEN fun_cong] applyTerminal_def exFailed_def terminalState_def terminalPayload_def
      attempt_defs ex_defs run_rules value_defs dialogDeleted_def u_simps validate_defs effectStatusCheck_def)

lemma exArchived: "\<exists>d'. Observe exEnv (exFailed\<lparr>ob_generation := 9\<rparr>) exStarting = (Inr (), d')"
  by (simp add: Observe_def commitTx_def observeBody_def [THEN fun_cong] archiveLateObservation_def latePayload_def insertLate_def [THEN fun_cong] exFailed_def terminalState_def terminalPayload_def
      attempt_defs ex_defs run_rules value_defs dialogDeleted_def u_simps validate_defs effectStatusCheck_def)

lemma exRecovered: "\<exists>d'. recoverStartup exEnv exStarting = (Inr (), d')"
  by (simp add: recoverStartup_def commitTx_def recoverStartupBody_def [THEN fun_cong] setAttemptUnknown_def [THEN fun_cong] slotActive_def
      attempt_defs ex_defs run_rules value_defs dialogDeleted_def u_simps validate_defs effectStatusCheck_def addReason_def Let_def)

lemma exCharged: "\<exists>t'. chargeAll u2 [10, 67108860, 5] (beginTx exStarting) = Inr ([Charged, NewlyExceeded, Exceeded], t')"
  by (simp add: chargeAttemptOutput_def [THEN fun_cong] setOutput_def [THEN fun_cong] MaximumAttemptOutputBytes_def overBudget_def archivedBytes_def
     attempt_defs ex_defs run_rules value_defs u_simps Let_def)

section \<open>A reordered command\<close>

definition exShuffled :: json where
  "exShuffled = (case exCreate of JObj kvs \<Rightarrow> JObj (rev kvs) | v \<Rightarrow> v)"

lemma exShuffled_same: "same_json exCreate exShuffled"
  unfolding exShuffled_def exCreate_def json.case
  by (rule same_json_perm) simp_all

lemma exShuffled_canonical: "\<exists>x. CanonicalCommand sha exCreate = Some x" "\<exists>x. CanonicalCommand sha exShuffled = Some x"
proof -
  have c: "appendCanonical exCreate \<noteq> None" by (simp add: exCreate_def MaximumSafeInteger_def)
  have v: "Validate ''command'' exShuffled" by (simp add: exShuffled_def exCreate_def validate_defs)
  show "\<exists>x. CanonicalCommand sha exCreate = Some x" "\<exists>x. CanonicalCommand sha exShuffled = Some x"
    using c v by (simp_all add: CanonicalCommand_def exCreate_valid same_json_canonical [OF exShuffled_same, symmetric])
qed

end
