(* ===== verification/Delete_Examples.thy ===== *)
theory Delete_Examples
  imports Attempt_Examples
begin

text \<open>
  A committed \<open>DeleteLogicalDialog\<close> on a ledger whose only dialog is under the hold of the operation.
\<close>

definition exDeletion :: nodeRequest where
  "exDeletion = \<lparr>nr_schemaId = NodeSchemaID, nr_operationId = u4, nr_coordinatorRequestHash = hexA, nr_commandId = u3, nr_logicalDialogId = u3,
     nr_nodeId = u1, nr_nodeDialogId = u2, nr_expectedEpoch = 1, nr_registryVersion = 1, nr_bindingVersion = 1,
     nr_expectedDialogVersion = 1, nr_holdVersion = 1, nr_holdScopeRevision = 1\<rparr>"

definition exDoomed :: db where
  "exDoomed = exHeld\<lparr>messages := [], requests := [], administrative_holds := [exHold\<lparr>hold_operation := u4\<rparr>],
     node_state := (node_state exHeld)\<lparr>PendingCount := 0\<rparr>\<rparr>"

definition exDeleteEnvelope :: commandEnvelope where
  "exDeleteEnvelope = \<lparr>ce_commandId = u3, ce_kind = DialogDelete, ce_target = JObj [(''nodeId'', JStr u1), (''dialogId'', JStr u2)],
     ce_expected = JObj [(''dialogVersion'', JInt 1)], ce_payload = JObj []\<rparr>"

lemma fold_names:
  "foldName ''schemaId'' = ''schemaid''" "foldName ''operationId'' = ''operationid''"
  "foldName ''coordinatorRequestHash'' = ''coordinatorrequesthash''" "foldName ''commandId'' = ''commandid''"
  "foldName ''logicalDialogId'' = ''logicaldialogid''" "foldName ''nodeId'' = ''nodeid''"
  "foldName ''nodeDialogId'' = ''nodedialogid''" "foldName ''expectedEpoch'' = ''expectedepoch''"
  "foldName ''registryVersion'' = ''registryversion''" "foldName ''bindingVersion'' = ''bindingversion''"
  "foldName ''expectedDialogVersion'' = ''expecteddialogversion''" "foldName ''holdVersion'' = ''holdversion''"
  "foldName ''holdScopeRevision'' = ''holdscoperevision''"
  by code_simp+

lemma goInt64_one: "goInt64 (JInt 1) = Some 1"
  by code_simp

lemma JInt_neq: "JInt n \<noteq> JNull"
  by (simp add: JInt_def)

lemma u4_patterns: "operationPattern u4" "validTimestamp exTime"
  by code_simp+

lemma exDeletion_decoded: "decodeNodeRequest (nodeRequest_json exDeletion) = Some exDeletion"
  by (simp add: fold_names decodeNodeRequest_def nodeRequest_json_def exDeletion_def onlyFields_def decodeField_def goValues_def goString_def goInt64_one
    lastOr_def JInt_neq del: foldName.simps)

lemma exDeletion_valid: "ValidateNodeRequest exDeletion"
  by (simp add: ValidateNodeRequest_def exDeletion_def validPositiveInteger_def MaximumSafeInteger_def)

lemma exDeleteCommand: 
  "decodeEnvelope (deleteCommand (node_state exDoomed) exDeletion) = Some exDeleteEnvelope"
  "\<exists>c. CanonicalCommand (env_sha exEnv) (deleteCommand (node_state exDoomed) exDeletion) = Some (c, hexA)"
proof -
  show "decodeEnvelope (deleteCommand (node_state exDoomed) exDeletion) = Some exDeleteEnvelope"
    by (simp add: decodeEnvelope_def deleteCommand_def exDeleteEnvelope_def exDeletion_def jstring_def jfield_def kind_of_def all_kinds_def exDoomed_def exHeld_def ex_defs)
  have "appendCanonical (deleteCommand (node_state exDoomed) exDeletion) \<noteq> None"
    by (simp add: deleteCommand_def exDeletion_def ProtocolVersion_def MaximumSafeInteger_def exDoomed_def exHeld_def ex_defs)
  moreover have "Validate ''command'' (deleteCommand (node_state exDoomed) exDeletion)"
    by (simp add: validate_defs deleteCommand_def exDeletion_def exDoomed_def exHeld_def ex_defs)
  ultimately show "\<exists>c. CanonicalCommand (env_sha exEnv) (deleteCommand (node_state exDoomed) exDeletion) = Some (c, hexA)"
    by (auto simp: CanonicalCommand_def) (simp add: exEnv_def)
qed

lemmas delete_defs = exDoomed_def exHeld_def exHold_def exDeletion_def exDeleteEnvelope_def

lemma exDelete_written: "\<exists>R a b f t. deleteUnderHold exEnv raw exDeletion hexA (exHold\<lparr>hold_operation := u4\<rparr>) v hexA exDeleteEnvelope (beginTx exDoomed) =
    Inr (Commit (okResult 201 R) a b f, t)"
  by (simp add: deleteUnderHold_def [THEN fun_cong] applyDialogDelete_def bindEvent_def [THEN fun_cong] delete_defs ex_defs run_rules
      value_defs u_simps jstring_def jint_def jfield_def validate_defs dialogDeleted_def dialogUnresolved_def one_event_projection_def
      insertHoldOutcome_def [THEN fun_cong] insertLogicalDelete_def [THEN fun_cong] casScopeRevision_def [THEN fun_cong]
      putScopeRevision_def [THEN fun_cong] releaseReserve_def [THEN fun_cong] scopeRevision_def holdDialog_def
      ValidateNodeReceipt_def validCommandReceipt_def validReleaseReceipt_def validPositiveInteger_def validScope_def Let_def
      dialogKey_def u4_patterns okResult_def)

lemma exDeleted_run:
  "\<exists>r d'. DeleteLogicalDialog exEnv u1 (Some (nodeRequest_json exDeletion)) exDoomed = (r, d') \<and> res_committed r"
proof -
  let ?raw = "nodeRequest_json exDeletion"
  obtain c where c: "CanonicalCommand (env_sha exEnv) (deleteCommand (node_state exDoomed) exDeletion) = Some (c, hexA)"
    using exDeleteCommand(2) by blast
  have o: "loadCommandOutcome u3 (beginTx exDoomed) = Inr (None, beginTx exDoomed)"
    by (simp add: loadCommandOutcome_Inr outcomeRows_def delete_defs ex_defs)
  obtain R a b f t where w: "deleteUnderHold exEnv ?raw exDeletion hexA (exHold\<lparr>hold_operation := u4\<rparr>)
      (deleteCommand (node_state exDoomed) exDeletion) hexA exDeleteEnvelope (beginTx exDoomed) = Inr (Commit (okResult 201 R) a b f, t)"
    using exDelete_written by blast
  have h: "NodeRequestHash (env_sha exEnv) exDeletion = hexA" by (simp add: NodeRequestHash_def exEnv_def)
  have g: "logical_deletes exDoomed = []" "administrative_holds exDoomed = [exHold\<lparr>hold_operation := u4\<rparr>]"
    "nr_expectedEpoch exDeletion = Epoch (node_state exDoomed)" "nr_registryVersion exDeletion = RegistryVersion (node_state exDoomed)"
    "nr_operationId exDeletion = u4" "hold_node exHold = NodeID (node_state exDoomed)" "hold_outcomes exDoomed = []"
    "holdMatches exDeletion (exHold\<lparr>hold_operation := u4\<rparr>)" "nr_commandId exDeletion = u3"
    "scopeRevision exDoomed (dialogKey (nr_nodeDialogId exDeletion)) = Some (hold_revision exHold)" 
    by (simp_all add: delete_defs ex_defs holdMatches_def scopeRevision_def dialogKey_def)
  have "logicalDeleteBody exEnv ?raw exDeletion hexA (beginTx exDoomed) = Inr (Commit (okResult 201 R) a b f, t)"
    using g o w c exDeleteCommand(1)
    by (simp add: logicalDeleteBody_def bindM_def readState_def readDb_def guardM_def returnM_def orElseM_def sel_def activeHold_def
        has_key_def Let_def split: option.split)
  then have "runTx exEnv (nr_operationId exDeletion) ''durable store is unavailable'' (logicalDeleteBody exEnv ?raw exDeletion hexA) exDoomed =
      (\<lparr>res_status = 201, res_body = R, res_committed = True\<rparr>, tx_db t)"
    by (simp add: runTx_def okResult_def) (simp add: exEnv_def)
  moreover have "nr_nodeId exDeletion = u1" "env_nodeID exEnv = u1" by (simp_all add: exDeletion_def exEnv_def)
  ultimately show ?thesis by (simp add: DeleteLogicalDialog_def exDeletion_decoded exDeletion_valid h)
qed

end
