(* ===== verification/Safe_Text_Laws.thy ===== *)
theory Safe_Text_Laws
  imports Safe_Text
begin

text \<open>
  Laws of the safe texts: a preview is the longest valid prefix that fits, a valid text is always cut into
  few valid pieces that give it back, the usage record is read back exactly, and a prepared manifest
  decodes to itself and stays within the bounds of the attempt.
\<close>

section \<open>Valid prefixes\<close>

lemma rune_width: "validStart s \<Longrightarrow> decodeRune s = (r, n) \<Longrightarrow> n \<le> 4"
  by (cases rule: validStart_cases) auto

lemma validUtf8_append: "validUtf8 a \<Longrightarrow> validUtf8 (a @ b) = validUtf8 b"
proof (induction rule: validUtf8_induct)
  case (step s r n)
  have "validUtf8 (take n s @ (drop n s @ b)) = validUtf8 (drop n s @ b)" using step(1,2) by (rule validStart_take)
  then show ?case using step.IH by (simp add: append_assoc [symmetric] del: append_assoc)
qed simp

lemma valid_boundary_near:
  assumes "validUtf8 s" and "n \<le> length s"
  shows "\<exists>k \<le> n. n \<le> k + 3 \<and> validUtf8 (take k s)"
  using assms
proof (induction arbitrary: n rule: validUtf8_induct)
  case Nil
  then show ?case by simp
next
  case (step s r m)
  show ?case
  proof (cases "m \<le> n")
    case True
    have "n - m \<le> length (drop m s)" using step.prems by simp
    then obtain k where k: "k \<le> n - m" "n - m \<le> k + 3" "validUtf8 (take k (drop m s))"
      using step.IH by blast
    have "take (m + k) s = take m s @ take k (drop m s)" by (simp add: take_add)
    then have "validUtf8 (take (m + k) s)" using validStart_take [OF step.hyps(1,2)] k(3) by simp
    then show ?thesis using k True by (intro exI [of _ "m + k"]) auto
  next
    case False
    then show ?thesis using rune_width [OF step.hyps(1,2)] by (intro exI [of _ 0]) auto
  qed
qed

lemma validPrefix_valid: "validUtf8 (validPrefix n s)"
  by (induction n) auto

lemma validPrefix_longest: "k \<le> n \<Longrightarrow> validUtf8 (take k s) \<Longrightarrow> length (take k s) \<le> length (validPrefix n s)"
  by (induction n) (auto simp: le_Suc_eq)

lemma validPrefix_le: "length (validPrefix n s) \<le> n"
  using validPrefix_take [of n s] by auto

lemma validPrefix_is_take: "take (length (validPrefix n s)) s = validPrefix n s"
  using validPrefix_take [of n s] by (auto simp: min_def)

lemma validPrefix_near: "validUtf8 s \<Longrightarrow> n \<le> length s \<Longrightarrow> n \<le> length (validPrefix n s) + 3"
  using valid_boundary_near [of s n] validPrefix_longest [of _ n s] by force

lemma validPrefix_whole: "validUtf8 s \<Longrightarrow> validPrefix (length s) s = s"
  using validPrefix_longest [of "length s" "length s" s] validPrefix_le [of "length s" s] validPrefix_is_take [of "length s" s] by simp

lemma validUtf8_drop: "validUtf8 s \<Longrightarrow> validUtf8 (take k s) \<Longrightarrow> validUtf8 (drop k s)"
  using validUtf8_append [of "take k s" "drop k s"] by simp

section \<open>Pieces\<close>

lemma textPieces_cover:
  assumes "4 \<le> limit" and "validUtf8 body"
  shows "\<exists>ps. textPieces limit body = Some ps \<and> concat ps = body \<and>
    list_all (\<lambda>p. p \<noteq> [] \<and> length p \<le> limit \<and> validUtf8 p) ps \<and> (limit - 3) * length ps \<le> length body + (limit - 3)"
  using assms
proof (induction limit body rule: textPieces.induct)
  case (1 limit body)
  show ?case
  proof (cases "body = []")
    case True
    then show ?thesis by (simp add: textPieces.simps)
  next
    case False
    let ?n = "min limit (length body)"
    let ?p = "validPrefix ?n body"
    have len: "length ?p \<le> ?n" by (rule validPrefix_le)
    have tk: "body = ?p @ drop (length ?p) body" using validPrefix_is_take [of ?n body] append_take_drop_id [of "length ?p" body] by simp
    have near: "?n \<le> length ?p + 3" using 1(3) by (intro validPrefix_near) auto
    have whole: "?p = body" if "length body \<le> limit" using that validPrefix_whole [OF 1(3)] by (simp add: min_absorb2)
    have ne: "?p \<noteq> []" using near whole False 1(2) by (cases "length body \<le> limit") auto
    have "validUtf8 (drop (length ?p) body)"
      using validUtf8_drop [OF 1(3)] validPrefix_valid [of ?n body] validPrefix_is_take [of ?n body] by simp
    then obtain ps where ps: "textPieces limit (drop (length ?p) body) = Some ps" "concat ps = drop (length ?p) body"
        "list_all (\<lambda>p. p \<noteq> [] \<and> length p \<le> limit \<and> validUtf8 p) ps"
        "(limit - 3) * length ps \<le> length (drop (length ?p) body) + (limit - 3)"
      using 1(1) [OF False refl ne 1(2)] by blast
    have eq: "textPieces limit body = Some (?p # ps)"
      using False ne ps(1) by (subst textPieces.simps) (simp add: Let_def)
    have "(limit - 3) * length (?p # ps) \<le> length body + (limit - 3)"
    proof (cases "length body \<le> limit")
      case True
      have "ps = []" using ps(1) whole [OF True] by (simp add: textPieces.simps)
      then show ?thesis by simp
    next
      case False
      then show ?thesis using ps(4) near tk by (simp add: min_def)
    qed
    then show ?thesis using eq ps(2,3) tk ne len validPrefix_valid [of ?n body] by (intro exI [of _ "?p # ps"]) auto
  qed
qed

section \<open>The usage record\<close>

lemma splitOn_last: "c \<notin> set p \<Longrightarrow> splitOn c p = [p]"
  by (induction p) auto

lemma splitOn_join: "c \<notin> set p \<Longrightarrow> splitOn c (p @ c # q) = p # splitOn c q"
  by (induction p) auto

lemma splitOn_nonempty: "splitOn c s \<noteq> []"
  by (induction s) (auto split: list.splits)

lemma splitOn_text: "splitOn c s = p # ps \<Longrightarrow> (if ps = [] then s = p else \<exists>q. s = p @ c # q \<and> splitOn c q = ps)"
proof (induction s arbitrary: p ps)
  case (Cons x s)
  obtain a as where a: "splitOn c s = a # as" using splitOn_nonempty by (metis neq_Nil_conv)
  show ?case
  proof (cases "x = c")
    case True
    then show ?thesis using Cons.prems a by auto
  next
    case False
    then have "p = x # a" "ps = as" using Cons.prems a by auto
    then show ?thesis using Cons.IH [OF a] by (auto split: if_splits)
  qed
qed auto

lemma decimal_no_colon: "0 \<le> n \<Longrightarrow> CHR '':'' \<notin> set (decimal n)"
proof -
  have "\<not> is_digit (CHR '':'')" by code_simp
  then show "0 \<le> n \<Longrightarrow> ?thesis" using decimal_digits [of n] by (auto simp: list_all_iff)
qed

lemma usageValue_formatInt: "0 \<le> n \<Longrightarrow> n \<le> 9223372036854775807 \<Longrightarrow> usageValue (formatInt n) = Some n"
  using decimal_digits [of n] digits_value_decimal [of n] is_digit_not_sign
  by (cases "decimal n") (auto simp: usageValue_def parseInt64_def formatInt_def Let_def)

lemma usageValue_text: "usageValue s = Some v \<Longrightarrow> s = formatInt v"
  by (auto simp: usageValue_def split: option.splits if_splits)

lemma usage_split:
  assumes "0 \<le> stu_text u" "0 \<le> stu_storage u" "0 \<le> stu_sources u" "0 \<le> stu_chunks u"
  shows "splitOn (CHR '':'') (encodeSafeTextUsage u) =
    [''v1'', formatInt (stu_text u), formatInt (stu_storage u), formatInt (stu_sources u), formatInt (stu_chunks u)]"
proof -
  have "splitOn (CHR '':'') (''v1'' @ CHR '':'' # x) = ''v1'' # splitOn (CHR '':'') x" for x by (rule splitOn_join) simp
  then show ?thesis
    using assms by (simp add: encodeSafeTextUsage_def formatInt_def splitOn_join splitOn_last decimal_no_colon)
qed

lemma decode_encode_usage: "validSafeTextUsage u \<Longrightarrow> decodeSafeTextUsage (encodeSafeTextUsage u) (stu_sealed u) = Some u"
  by (simp add: decodeSafeTextUsage_def usage_split usageValue_formatInt validSafeTextUsage_def MaximumTextBytes_def
      safeTextMaximumStorage_def safeTextMaximumSources_def safeTextMaximumChunks_def)

lemma decode_usage:
  assumes "decodeSafeTextUsage s sealed = Some u"
  shows "s = encodeSafeTextUsage u \<and> stu_sealed u = sealed \<and> validSafeTextUsage u"
proof -
  obtain a b c d where sp: "splitOn (CHR '':'') s = [''v1'', a, b, c, d]"
      and v: "usageValue a = Some (stu_text u)" "usageValue b = Some (stu_storage u)" "usageValue c = Some (stu_sources u)"
        "usageValue d = Some (stu_chunks u)" and u: "stu_sealed u = sealed" "validSafeTextUsage u"
    using assms by (auto simp: decodeSafeTextUsage_def Let_def split: list.splits option.splits if_splits)
  have "s = ''v1'' @ CHR '':'' # a @ CHR '':'' # b @ CHR '':'' # c @ CHR '':'' # d"
    using splitOn_text [OF sp] by (auto dest!: splitOn_text)
  then show ?thesis using v u by (auto simp: encodeSafeTextUsage_def dest!: usageValue_text)
qed

section \<open>Prepared manifests\<close>

lemma textPieces_concat: "textPieces limit x = Some ps \<Longrightarrow> concat ps = x"
proof (induction limit x arbitrary: ps rule: textPieces.induct)
  case (1 limit x)
  show ?case
  proof (cases "x = []")
    case True
    then show ?thesis using 1(2) by (simp add: textPieces.simps)
  next
    case False
    let ?p = "validPrefix (min limit (length x)) x"
    obtain qs where qs: "?p \<noteq> []" "textPieces limit (drop (length ?p) x) = Some qs" "ps = ?p # qs"
      using 1(2) False by (subst (asm) textPieces.simps) (auto simp: Let_def split: if_splits)
    have "concat qs = drop (length ?p) x" using 1(1) [OF False refl qs(1,2)] .
    then show ?thesis using qs(3) validPrefix_is_take [of "min limit (length x)" x] append_take_drop_id [of "length ?p" x] by simp
  qed
qed

lemma pieceChunks_maps:
  "map chk_size (pieceChunks sha t i n ps) = map (\<lambda>p. int (length p)) ps" "map chk_sha256 (pieceChunks sha t i n ps) = map sha ps"
  "length (pieceChunks sha t i n ps) = length ps"
  by (induction ps arbitrary: i n) auto

lemma sealManifest_result:
  assumes "sealManifest base usage = Inr (m, pieces, text)" and "validSafeTextUsage usage"
  shows "EncodeManifest m = Some text \<and> m = incompleteManifest base \<and> pieces = [] \<and> validSafeTextUsage (nextUsage usage m (int (length text)))"
  using assms
  by (auto simp: sealManifest_def nextUsage_def incompleteManifest_def validSafeTextUsage_def Let_def split: option.splits if_splits)

lemma prepared_cases:
  assumes p: "prepareSafeTextManifest sha base body usage inc = Inr (m, pieces, text)" and u: "validSafeTextUsage usage"
    and sz: "mf_size base = int (length body)"
  shows "EncodeManifest m = Some text \<and> validSafeTextUsage (nextUsage usage m (int (length text))) \<and>
    (m = completeManifest sha base pieces \<and> textPieces MaximumChunkBytes body = Some pieces \<and> \<not> inc \<or> m = incompleteManifest base \<and> pieces = [])"
proof (cases "sealManifest base usage = Inr (m, pieces, text)")
  case True
  from sealManifest_result [OF this u] show ?thesis by blast
next
  case False
  then have c: "m = completeManifest sha base pieces" "textPieces MaximumChunkBytes body = Some pieces" "\<not> inc" "EncodeManifest m = Some text"
      "safeTextCanStoreComplete usage (int (length body)) (int (length body) + int (length text)) (int (length pieces))"
    using p by (auto simp: prepareSafeTextManifest_def split: if_splits option.splits)
  have "validSafeTextUsage (nextUsage usage m (int (length text)))"
    using c(1,5) sz by (auto simp: nextUsage_def completeManifest_def safeTextCanStoreComplete_def validSafeTextUsage_def pieceChunks_maps
      safeTextLimitMarkerReserve_def Let_def)
  then show ?thesis using c by simp
qed

text \<open>A preview of a long text loses at most three bytes to the cut.\<close>

lemma preview_laws:
  assumes "validUtf8 body"
  shows "validUtf8 (safeTextPreview body)" and "take (length (safeTextPreview body)) body = safeTextPreview body"
    and "length (safeTextPreview body) \<le> MaximumPreview" and "MaximumPreview < length body \<Longrightarrow> MaximumPreview \<le> length (safeTextPreview body) + 3"
  using assms validPrefix_valid validPrefix_is_take validPrefix_le validPrefix_near [OF assms, of MaximumPreview]
  by (auto simp: safeTextPreview_def)

end
