(* ===== verification/Adapter_Laws.thy ===== *)
theory Adapter_Laws
  imports Node_System Safe_Text_Laws
begin

text \<open>
  Laws of the adapter's side: an event that was projected is recognised by its key and projected no second
  time, an event of an attempt without the slot is archived beside the work, and an artifact that was stored
  is read back.
\<close>

section \<open>Delivered again\<close>

text \<open>Nothing but the counters of the clock and of the ids moves.\<close>

definition still :: "txn \<Rightarrow> txn \<Rightarrow> bool" where
  "still t t' \<longleftrightarrow> tx_db t' = tx_db t \<and> tx_state t' = tx_state t"

interpretation still: read_rel still
  by unfold_locales (auto simp: still_def)

text \<open>The projection keys of the events that leave one row in the log; the others have no key of their own.\<close>

definition eventKey :: "adapterEvent \<Rightarrow> string option" where
  "eventKey ev = (case ev of
     StartedEvent \<Rightarrow> Some ''started''
   | AssistantDeltaEvent m i _ \<Rightarrow> Some (tagged ''assistant.delta'' [m, formatInt i])
   | AssistantMessageEvent m _ _ _ \<Rightarrow> Some (tagged ''assistant.message'' [m])
   | ToolStartedEvent c _ _ _ _ \<Rightarrow> Some (tagged ''tool.started'' [c])
   | ToolOutputEvent c i _ _ _ \<Rightarrow> Some (tagged ''tool.output'' [c, formatInt i])
   | ToolCompletedEvent c _ _ _ _ _ \<Rightarrow> Some (tagged ''tool.completed'' [c])
   | ApprovalRequestedEvent i _ _ _ \<Rightarrow> Some (tagged ''approval.requested'' [i])
   | InputRequestedEvent i _ \<Rightarrow> Some (tagged ''input.requested'' [i])
   | _ \<Rightarrow> None)"

definition projected :: "db \<Rightarrow> string \<Rightarrow> string \<Rightarrow> bool" where
  "projected d attID key \<longleftrightarrow> list_ex (\<lambda>e. evt_attempt e = Some attID \<and> evt_key e = Some key) (events d)"

lemma storedDigest_None: "storedDigest rows a k = Inr None \<longleftrightarrow> \<not> list_ex (\<lambda>(x, y, _). x = Some a \<and> y = Some k) rows"
proof -
  have "storedDigest rows a k = Inr None \<longleftrightarrow> List.find (\<lambda>(x, y, _). x = Some a \<and> y = Some k) rows = None"
    by (auto simp: storedDigest_def split: option.splits)
  then show ?thesis by (auto simp: find_None_iff list_ex_iff)
qed

lemma exists_projected:
  assumes "adapterProjectionExists E a p t = Inr (b, t')" and "projected (tx_db t) a (pj_key p)"
  shows "b"
proof -
  have "storedDigest (eventDigests (tx_db t)) a (pj_key p) \<noteq> Inr None"
    using assms(2) by (auto simp: storedDigest_None eventDigests_def projected_def list_ex_iff)
  then show ?thesis using assms(1) by (auto simp: adapterProjectionExists_def split: option.splits)
qed

lemma charged_projected:
  assumes "chargedProjection E ref p c f t = Inr (x, t')" and "projected (tx_db t) (ref_attemptID ref) (pj_key p)"
  shows "x = None \<and> still t t'"
proof -
  obtain t1 b t2 where v: "validateAdapterProjectionEnvelope E ref p t = Inr ((), t1)"
      and e: "adapterProjectionExists E (ref_attemptID ref) p t1 = Inr (b, t2)"
      and r: "(if b then returnM None else bindM c (\<lambda>c. returnM
       (case c of Exceeded \<Rightarrow> None | NewlyExceeded \<Rightarrow> Some (f p, True) | Charged \<Rightarrow> Some (p, False)))) t2 = Inr (x, t')"
    using assms(1) by (auto simp: chargedProjection_def)
  have s: "still t t1" "still t1 t2"
    using keepsD [OF still.keeps_validateAdapterProjectionEnvelope v] keepsD [OF still.keeps_adapterProjectionExists e] by simp_all
  have b using exists_projected [OF e] assms(2) s(1) by (simp add: still_def)
  then show ?thesis using r still.R_trans [OF s] by simp
qed

lemma whenCharged_projected:
  assumes "whenCharged (chargedProjection E ref p c f) g t = Inr (x, t')" and "projected (tx_db t) (ref_attemptID ref) (pj_key p)"
  shows "x = (None, False) \<and> still t t'"
proof -
  obtain y t1 where "chargedProjection E ref p c f t = Inr (y, t1)"
      and "(case y of None \<Rightarrow> returnM (None, False) | Some (p, b) \<Rightarrow> bindM (g p b) (\<lambda>_. returnM (Some p, False))) t1 = Inr (x, t')"
    using assms(1) unfolding whenCharged_def by auto
  with charged_projected [OF this(1) assms(2)] show ?thesis by simp
qed

text \<open>A piece of code that answers \<open>y\<close> at once when the ledger has the row.\<close>

definition recognised :: "string \<Rightarrow> string \<Rightarrow> 'a \<Rightarrow> 'a tx \<Rightarrow> bool" where
  "recognised a key y m \<longleftrightarrow> (\<forall>t x t'. projected (tx_db t) a key \<longrightarrow> m t = Inr (x, t') \<longrightarrow> x = y \<and> still t t')"

lemma recognised_charged: "pj_key p = key \<Longrightarrow> recognised (ref_attemptID ref) key (None, False) (whenCharged (chargedProjection E ref p c f) g)"
  unfolding recognised_def using whenCharged_projected by blast

lemma recognised_safe: "recognised (ref_attemptID ref) key (None, False) (whenCharged (safeProjection E ref i v pl key c) g)"
  unfolding safeProjection_def by (rule recognised_charged) (simp add: projection_def)

lemma recognised_read:
  assumes "keeps still m" and "\<And>x. recognised a key y (f x)"
  shows "recognised a key y (bindM m f)"
  unfolding recognised_def
proof (intro allI impI)
  fix t x t'
  assume p: "projected (tx_db t) a key" and "bindM m f t = Inr (x, t')"
  then obtain z t1 where z: "m t = Inr (z, t1)" "f z t1 = Inr (x, t')" by auto
  have s: "still t t1" using keepsD [OF assms(1) z(1)] .
  then have "projected (tx_db t1) a key" using p by (simp add: still_def)
  then have "x = y \<and> still t1 t'" using assms(2) [of z] z(2) unfolding recognised_def by blast
  then show "x = y \<and> still t t'" using still.R_trans [OF s] by blast
qed

lemma prepare_recognised:
  assumes "eventKey ev = Some key" and "ev \<noteq> StartedEvent"
  shows "recognised (ref_attemptID ref) key (None, False) (prepareProjection E ref v st ev)"
  using assms unfolding prepareProjection_def Let_def
  by (cases ev) (simp_all only: adapterEvent.case eventKey_def option.inject option.distinct,
      (hypsubst | intro recognised_read recognised_safe recognised_charged keeps_rules | simp add: projection_def)+)

lemma project_projected:
  assumes "projectAdapterEvent E ref v st ev t = Inr (x, t')" and "eventKey ev = Some key" and "projected (tx_db t) (ref_attemptID ref) key"
  shows "still t t'"
proof -
  obtain t1 pr b t2 where v: "validateAdapterEventSafeTextReplay E ref ev t = Inr ((), t1)"
      and p: "prepareProjection E ref v st ev t1 = Inr ((pr, b), t2)"
      and r: "(case pr of None \<Rightarrow> returnM (b, False) | Some p \<Rightarrow>
         bindM (adapterProjectionExists E (ref_attemptID ref) p) (\<lambda>duplicate.
         if duplicate then bindM (validateAdapterEventSafeTextReplay E ref ev) (\<lambda>_. returnM (b, False))
         else bindM (captureAdapterEventSafeText E True ref ev) (\<lambda>_. bindM (emitProjection E ref p b) (\<lambda>_.
           returnM (if pj_markerOnly p then (False, True) else (b, pj_outputLimit p)))))) t2 = Inr (x, t')"
    using assms(1) by (auto simp: projectAdapterEvent_def)
  have s1: "still t t1" using keepsD [OF still.keeps_validateAdapterEventSafeTextReplay v] .
  then have k1: "projected (tx_db t1) (ref_attemptID ref) key" using assms(3) by (simp add: still_def)
  show ?thesis
  proof (cases "ev = StartedEvent")
    case True
    define p where "p = projection (ref_attemptID ref) v (PAttemptStarted (ref_requestID ref) (ref_generation ref)) HashEvent ''started''"
    have t2: "t2 = t1" "pr = Some p" using p True by (auto simp: prepareProjection_def Let_def p_def)
    obtain d t3 where d: "adapterProjectionExists E (ref_attemptID ref) p t1 = Inr (d, t3)"
        and r3: "(if d then bindM (validateAdapterEventSafeTextReplay E ref ev) (\<lambda>_. returnM (b, False))
         else bindM (captureAdapterEventSafeText E True ref ev) (\<lambda>_. bindM (emitProjection E ref p b) (\<lambda>_.
           returnM (if pj_markerOnly p then (False, True) else (b, pj_outputLimit p))))) t3 = Inr (x, t')"
      using r t2 by (auto split del: if_split)
    have "pj_key p = key" using assms(2) True by (simp add: p_def projection_def eventKey_def)
    then have d using exists_projected [OF d] k1 by simp
    then obtain t4 where r4: "validateAdapterEventSafeTextReplay E ref ev t3 = Inr ((), t4)" "t' = t4" using r3 by auto
    have "still t1 t3" using keepsD [OF still.keeps_adapterProjectionExists d] .
    moreover have "still t3 t'" using keepsD [OF still.keeps_validateAdapterEventSafeTextReplay r4(1)] r4(2) by simp
    ultimately show ?thesis using s1 still.R_trans by blast
  next
    case False
    have "(pr, b) = (None, False) \<and> still t1 t2"
      using prepare_recognised [OF assms(2) False, of ref E v st] p k1 unfolding recognised_def by blast
    then show ?thesis using r s1 still.R_trans by auto
  qed
qed

lemma saveState_settled: "settled t \<Longrightarrow> saveState t = Inr ((), t)"
  by (simp add: settled_def saveState_def bindM_def readState_def readDb_def writeDb_def returnM_def)

lemma observe_projected:
  assumes "eventKey ev = Some key" and "projected d (ref_attemptID ref) key" and "ActiveAttemptID (node_state d) = Some (ref_attemptID ref)"
    and "sel att_id (ref_attemptID ref) (attempts d) = Some a" and "holds_slot (att_state a)"
    and "\<not> isInteractiveWaitEvent ev \<or> (att_state a \<noteq> AStopping \<and> att_state a \<noteq> AUnknown)"
  shows "fst (snd (ObserveAdapterEvent E ref r ev d)) = d"
proof -
  have "tx_db t = d" if run: "observeAdapterBody E ref ev (beginTx d) = Inr (x, t)" for x t
    using run
  proof (cases rule: observeAdapterBody_cases)
    case (running a' t1)
    have s: "still (beginTx d) t1" using project_projected [OF running(5) assms(1)] assms(2) by simp
    then have "settled t1" by (simp add: still_def settled_def)
    then show ?thesis using running(6) s by (simp add: saveState_settled still_def)
  qed (use assms in auto)
  then show ?thesis
    by (simp add: ObserveAdapterEvent_def) (rule publishTx_cases [of E "observeAdapterBody E ref ev" d], auto)
qed

section \<open>Archived beside the work\<close>

text \<open>The tables of the work itself, and an attempt that cannot be stopped for its output.\<close>

definition work :: "db \<Rightarrow> dialogRow list \<times> messageRow list \<times> requestRow list \<times> attemptRow list \<times> actionRow list \<times> toolRow list \<times>
    approvalRow list \<times> inputRow list \<times> policyRow list" where
  "work d = (dialogs d, messages d, requests d, attempts d, control_actions d, tool_calls d, approvals d, input_requests d, policy_snapshots d)"

definition parked :: "string \<Rightarrow> durableState \<Rightarrow> db \<Rightarrow> bool" where
  "parked k s d \<longleftrightarrow> ActiveAttemptID s \<noteq> Some k \<or>
     (case sel att_id k (attempts d) of None \<Rightarrow> True | Some a \<Rightarrow> att_state a \<noteq> ARunning \<and> att_state a \<noteq> AWaitingInput)"

definition aside :: "string \<Rightarrow> txn \<Rightarrow> txn \<Rightarrow> bool" where
  "aside k t t' \<longleftrightarrow> (parked k (tx_state t) (tx_db t) \<longrightarrow>
     work (tx_db t') = work (tx_db t) \<and> (tx_state t')\<lparr>LastEventSeq := 0\<rparr> = (tx_state t)\<lparr>LastEventSeq := 0\<rparr>)"

lemma parked_cong: "work d' = work d \<Longrightarrow> s'\<lparr>LastEventSeq := 0\<rparr> = s\<lparr>LastEventSeq := 0\<rparr> \<Longrightarrow> parked k s' d' = parked k s d"
  by (drule arg_cong [of "s'\<lparr>LastEventSeq := 0\<rparr>" _ ActiveAttemptID]) (simp add: parked_def work_def)

interpretation aside: read_rel "aside k" for k
proof
  show "aside k s u" if "aside k s t" "aside k t u" for s t u
    using that parked_cong [of "tx_db t" "tx_db s" "tx_state t" "tx_state s" k] by (auto simp: aside_def)
qed (auto simp: aside_def)

lemma aside_stmts [keeps_rules]:
  "keeps (aside k) (createFile n c)" "keeps (aside k) (insertArtifact r)" "keeps (aside k) (updateArtifacts P b1 b2)" "keeps (aside k) (insertLate l)"
  "keeps (aside k) (appendEvent E i v a dl pl late)" "keeps (aside k) (bindEvent P9 n1 h)"
  "keeps (aside (ref_attemptID ref)) (scheduleOutputLimitStop E ref)"
  by (auto simp: keeps_def aside_def work_def parked_def scheduleOutputLimitStop_def split: if_splits dest!: stmtD)

lemma aside_publish [keeps_rules]: "keeps (aside k) (publish E n c)"
  unfolding publish_def by (intro keeps_rules)

lemma aside_publishChunks [keeps_rules]: "keeps (aside k) (publishChunks E cs ps)"
  by (induction E cs ps rule: publishChunks.induct) (simp_all, (intro keeps_rules | assumption)+)

lemma aside_capture [keeps_rules]: "keeps (aside k) (captureAdapterEventSafeText E b ref ev)"
  unfolding captureAdapterEventSafeText_def captureSafeText_def loadSafeTextUsage_def storeSafeText_def insertSafeTextArtifact_def
    updateSafeTextUsage_def
  by (intro keeps_rules)

lemma aside_archive: "keeps (aside (ref_attemptID ref)) (archiveAdapterEvent E b ref ev v s k)"
  unfolding archiveAdapterEvent_def storeArchived_def archivedOutputLimitProjection_def recordProjection_def recordAdapterProjection_def
    chargeArchivedAttemptOutput_def
  by (intro keeps_rules)

lemma observe_parked:
  assumes a: "sel att_id (ref_attemptID ref) (attempts d) = Some a"
    and late: "ActiveAttemptID (node_state d) \<noteq> Some (ref_attemptID ref) \<or> \<not> holds_slot (att_state a) \<or>
      isInteractiveWaitEvent ev \<and> (att_state a = AStopping \<or> att_state a = AUnknown)"
  shows "work (fst (snd (ObserveAdapterEvent E ref r ev d))) = work d \<and>
    (node_state (fst (snd (ObserveAdapterEvent E ref r ev d))))\<lparr>LastEventSeq := 0\<rparr> = (node_state d)\<lparr>LastEventSeq := 0\<rparr>"
proof -
  have parked: "parked (ref_attemptID ref) (node_state d) d" using late a by (auto simp: parked_def holds_slot_def)
  have "work (tx_db t) = work d \<and> (node_state (tx_db t))\<lparr>LastEventSeq := 0\<rparr> = (node_state d)\<lparr>LastEventSeq := 0\<rparr>"
    if run: "observeAdapterBody E ref ev (beginTx d) = Inr (x, t)" for x t
  proof -
    have st: "node_state (tx_db t) = tx_state t"
      using keepsD [OF settled_observeAdapterBody run] settled_beginTx [of d] by (simp add: settled_step_def settled_def)
    from run have "work (tx_db t) = work d \<and> (tx_state t)\<lparr>LastEventSeq := 0\<rparr> = (node_state d)\<lparr>LastEventSeq := 0\<rparr>"
    proof (cases rule: observeAdapterBody_cases)
      case (suppressed a')
      from keepsD [OF aside_archive suppressed(5)] show ?thesis using parked by (simp add: aside_def)
    next
      case (late a' t1)
      from keepsD [OF aside_archive late(4)] show ?thesis using parked saveState_frame [OF late(5)] by (auto simp: aside_def work_def)
    next
      case (running a' t1)
      then show ?thesis using late a by auto
    qed
    then show ?thesis using st by simp
  qed
  then show ?thesis
    by (simp add: ObserveAdapterEvent_def) (rule publishTx_cases [of E "observeAdapterBody E ref ev" d], auto)
qed

section \<open>An artifact is read back\<close>

text \<open>What the read path looks at, in the steps before the artifact is recorded.\<close>

definition shelf :: "txn \<Rightarrow> txn \<Rightarrow> bool" where
  "shelf t t' \<longleftrightarrow> artifacts (tx_db t') = artifacts (tx_db t) \<and> dialogs (tx_db t') = dialogs (tx_db t) \<and> events (tx_db t') = events (tx_db t) \<and>
     node_state (tx_db t') = node_state (tx_db t) \<and> tx_state t' = tx_state t"

interpretation shelf: read_rel shelf
  by unfold_locales (auto simp: shelf_def)

lemma shelf_charge [keeps_rules]: "keeps shelf (chargeAttemptOutput a n)"
proof -
  have "keeps shelf (setOutput a v)" for v
    unfolding setOutput_def by (auto simp: keeps_def shelf_def dest!: stmtD)
  then show ?thesis unfolding chargeAttemptOutput_def by (intro keeps_rules)
qed

definition rowOf :: "artifactMetadata \<Rightarrow> artifactRow" where
  "rowOf m = \<lparr>art_id = am_artifactId m, art_dialog = am_dialogId m, art_attempt = am_attemptId m, art_call = nullText (am_callId m),
     art_name = am_name m, art_media = am_media m, art_size = am_size m, art_sha256 = am_sha256 m, art_redaction = am_redaction m,
     art_truncated = am_truncated m, art_disposition = am_disposition m, art_relative = relativePath (am_artifactId m)\<rparr>"

lemma recordArtifactD:
  assumes "recordArtifact E m t = Inr (u, t')" and "node_state (tx_db t) = tx_state t"
  shows "Validate ''artifactMetadata'' (artifactMetadata_json m) \<and> sel art_id (am_artifactId m) (artifacts (tx_db t)) = None \<and>
    artifacts (tx_db t') = artifacts (tx_db t) @ [rowOf m] \<and> dialogs (tx_db t') = dialogs (tx_db t) \<and>
    (\<forall>x. dialogDeleted (tx_db t') x \<longleftrightarrow> dialogDeleted (tx_db t) x) \<and>
    identity (node_state (tx_db t')) = identity (tx_state t)"
proof -
  obtain t1 t2 where g: "Validate ''artifactMetadata'' (artifactMetadata_json m)" and i: "insertArtifact (rowOf m) t = Inr ((), t1)"
      and e: "appendEvent E (am_artifactId m) 1 (am_attemptId m) (am_dialogId m)
        (PArtifactAvailable (am_artifactId m) (am_callId m) (am_name m) (am_media m) (am_size m) (am_sha256 m) (am_redaction m) (am_truncated m)) False t1 = Inr ((), t2)"
      and s: "saveState t2 = Inr (u, t')"
    using assms(1) by (auto simp: recordArtifact_def rowOf_def)
  have t1: "t1 = t\<lparr>tx_db := (tx_db t)\<lparr>artifacts := artifacts (tx_db t) @ [rowOf m]\<rparr>\<rparr>" "sel art_id (am_artifactId m) (artifacts (tx_db t)) = None"
    using insertArtifactD [OF i] by (auto simp: rowOf_def)
  obtain S where t2: "t2 = t1\<lparr>tx_state := (tx_state t1)\<lparr>LastEventSeq := LastEventSeq (tx_state t1) + 1\<rparr>, tx_ticks := Suc (tx_ticks t1),
      tx_db := (tx_db t1)\<lparr>events := events (tx_db t1) @ [eventRowOf E t1 (am_artifactId m) 1 (am_attemptId m) (am_dialogId m)
        (PArtifactAvailable (am_artifactId m) (am_callId m) (am_name m) (am_media m) (am_size m) (am_sha256 m) (am_redaction m) (am_truncated m)) False],
        scope_revisions := S\<rparr>\<rparr>"
    using appendEventD [OF e] by auto
  have "identity (node_state (tx_db t2)) = identity (tx_state t2)" using assms(2) by (simp add: t2 t1 identity_def)
  then obtain S' where t': "t' = t2\<lparr>tx_db := (tx_db t2)\<lparr>node_state := tx_state t2, scope_revisions := S'\<rparr>\<rparr>" using saveStateD [OF s] by blast
  show ?thesis using g t1(2) by (auto simp: t' t2 t1(1) dialogDeleted_def eventRowOf_def identity_def)
qed

lemma storeArtifactD:
  assumes "storeArtifactBody E i c k t = Inr (Stored m, t')" and st: "node_state (tx_db t) = tx_state t"
  shows "m = storedMetadata E (tx_state t) i k c \<and> Validate ''artifactMetadata'' (artifactMetadata_json m) \<and>
    sel art_id k (artifacts (tx_db t)) = None \<and> artifacts (tx_db t') = artifacts (tx_db t) @ [rowOf m] \<and>
    identity (node_state (tx_db t')) = identity (tx_state t) \<and>
    list_ex (\<lambda>dl. dlg_id dl = am_dialogId m \<and> dlg_node dl = NodeID (tx_state t) \<and> dlg_owner dl = OwnerID (tx_state t)) (dialogs (tx_db t')) \<and>
    \<not> dialogDeleted (tx_db t') (am_dialogId m)"
proof -
  let ?att = "ref_attemptID (ai_attempt i)" and ?m = "storedMetadata E (tx_state t) i k c"
  obtain a x t1 t2 where a: "ownedAttempt (tx_db t) (tx_state t) ?att = Some a" "att_dialog a = ref_dialogID (ai_attempt i)"
      and cl: "(if ai_callID i = '''' then returnM () else bindM (selectTool (ai_callID i) ?att) (\<lambda>_. returnM ())) t = Inr ((), t1)"
      and ch: "chargeAttemptOutput ?att (int (length c)) t1 = Inr (x, t2)"
      and rec: "recordArtifact E ?m t2 = Inr ((), t')" and m: "m = ?m"
    using assms(1) unfolding storeArtifactBody_def Let_def by (auto split: if_splits)
  have "keeps shelf (if ai_callID i = '''' then returnM () else bindM (selectTool (ai_callID i) ?att) (\<lambda>_. returnM ()))" by (intro keeps_rules)
  from keepsD [OF this cl] keepsD [OF shelf_charge ch] have sh: "shelf t t2" using shelf.R_trans by blast
  then have st2: "node_state (tx_db t2) = tx_state t2" using st by (simp add: shelf_def)
  have own: "list_ex (\<lambda>dl. dlg_id dl = att_dialog a \<and> dlg_node dl = NodeID (tx_state t) \<and> dlg_owner dl = OwnerID (tx_state t)) (dialogs (tx_db t))"
      "\<not> dialogDeleted (tx_db t) (att_dialog a)"
    using a(1) by (auto simp: ownedAttempt_def find_Some_iff)
  have dm: "am_dialogId ?m = att_dialog a" "am_artifactId ?m = k" using a(2) by (simp_all add: storedMetadata_def)
  show ?thesis using recordArtifactD [OF rec st2] sh own unfolding m by (simp add: dm shelf_def dialogDeleted_def)
qed

lemma find_snoc: "(\<And>r. r \<in> set rows \<Longrightarrow> \<not> P r) \<Longrightarrow> P y \<Longrightarrow> List.find P (rows @ [y]) = Some y"
  by (induction rows) auto

lemma artifact_read_back:
  assumes store: "StoreArtifact E i c d = (Inr m, d', fs)" and read: "authorizeRead E' trust = None" and sha: "env_sha E' = env_sha E"
    and bytes: "env_files E' (am_artifactId m) = Some (FileBytes c)"
  shows "Artifact E' trust (am_artifactId m) d' = ReadOk (m, c) \<and> fs = [(am_artifactId m, c)]"
proof -
  obtain k t where valid: "validArtifactInput E i c"
      and body: "storeArtifactBody E i c k ((beginTx d)\<lparr>tx_ids := 1\<rparr>) = Inr (Stored m, t)" and d': "d' = tx_db t" and fs: "fs = [(k, c)]"
    using store by (auto simp: StoreArtifact_def split: if_splits option.splits sum.splits storeOutcome.splits)
  note D = storeArtifactD [OF body, simplified]
  have k: "am_artifactId m = k" "am_size m = int (length c)" "am_sha256 m = env_sha E c" "am_disposition m = ai_disposition i"
      "am_nodeId m = NodeID (node_state d)" using D by (simp_all add: storedMetadata_def)
  have ids: "NodeID (node_state d') = NodeID (node_state d)" "OwnerID (node_state d') = OwnerID (node_state d)" using D by (simp_all add: d' identity_def)
  have own: "list_ex (\<lambda>dl. dlg_id dl = am_dialogId m \<and> dlg_node dl = NodeID (node_state d) \<and> dlg_owner dl = OwnerID (node_state d)) (dialogs d')"
      "\<not> dialogDeleted d' (am_dialogId m)" "Validate ''artifactMetadata'' (artifactMetadata_json m)" using D unfolding d' by blast+
  have disp: "ai_disposition i \<noteq> safeTextDisposition" using valid by (auto simp: validArtifactInput_def safeTextDisposition_def)
  have len: "int (length c) \<le> MaximumArtifactBytes" using valid by (simp add: validArtifactInput_def)
  have old: "art_id r \<noteq> k" if "r \<in> set (artifacts d)" for r using D that by (auto simp: sel_None_iff)
  have arts: "artifacts d' = artifacts d @ [rowOf m]" using D by (simp add: d')
  have pub: "publicArtifact d' k = Some (rowOf m)"
    unfolding publicArtifact_def arts by (rule find_snoc) (use own old disp ids in \<open>auto simp: rowOf_def k\<close>)
  have meta: "metadataOf (node_state d') (rowOf m) = m"
    using k ids by (cases m) (auto simp: metadataOf_def rowOf_def callText_def nullText_def)
  have stored: "lookup d' (readArtifactFile E' (relativePath k) k (am_size m) (am_sha256 m)) = Inr c"
    using bytes k sha len by (simp add: lookup_def readArtifactFile_def bindM_def guardM_def fileAt_def beginTx_def returnM_def)
  have "ArtifactMetadata E' trust k d' = ReadOk m"
    using read pub stored own(3) meta by (simp add: ArtifactMetadata_def readSafeTextArtifact_def rowOf_def k)
  moreover have "sel art_id k (artifacts d') = Some (rowOf m)"
    unfolding sel_def arts by (rule find_snoc) (use old k in \<open>auto simp: rowOf_def\<close>)
  ultimately show ?thesis using stored fs by (simp add: Artifact_def k rowOf_def)
qed

end
