(* ===== verification/Text_Examples.thy ===== *)
theory Text_Examples
  imports Delete_Examples Adapter_Laws
begin

text \<open>
  A short text with its manifest, and adapter calls on the running ledger: an event that is delivered again,
  one that comes too late, and a stored artifact.
\<close>

definition exText :: manifest where
  "exText = \<lparr>mf_schemaId = TranscriptSchemaID, mf_nodeId = u1, mf_dialogId = u2, mf_attemptId = u3, mf_generation = 1, mf_textId = u4,
     mf_source = \<lparr>src_kind = ''assistant_message'', src_id = u4, src_index = 0, src_stream = ''none''\<rparr>, mf_preview = ''hi'',
     mf_previewTruncated = False, mf_redaction = ''none'', mf_complete = False, mf_reason = '''', mf_size = 2, mf_sha256 = hexA, mf_chunks = []\<rparr>"

definition exWhole :: manifest where
  "exWhole = completeManifest (\<lambda>_. hexA) exText [''hi'']"

lemma exWhole_pieces: "textPieces MaximumChunkBytes ''hi'' = Some [''hi'']"
proof -
  have p: "validPrefix (length ''hi'') ''hi'' = ''hi''" by (rule validPrefix_whole) code_simp
  have m: "min MaximumChunkBytes (length ''hi'') = length ''hi''" by (simp add: MaximumChunkBytes_def)
  show ?thesis
    by (subst textPieces.simps) (simp only: m p Let_def, simp add: textPieces.simps)
qed

lemma exChunk_id: "uuidPattern (safeTextChunkID (\<lambda>_. hexA) t i)"
  unfolding safeTextChunkID_def stableSafeTextUUID_def Let_def hexA_def by code_simp

lemma exText_utf8: "validUtf8 ''hi''"
  by code_simp

lemma exWhole_valid: "ValidateManifest exWhole"
  using exChunk_id exText_utf8
  by (simp del: validUtf8.simps(2) add: exWhole_def exText_def completeManifest_def ValidateManifest_def validSource_def MaximumSafeInteger_def MaximumPreview_def
    MaximumTextBytes_def MaximumChunks_def MaximumChunkBytes_def)

lemma exWhole_short: "length (marshal (manifest_json exWhole)) < 2000"
  by code_simp

lemma exWhole_encoded: "EncodeManifest exWhole = Some (marshal (manifest_json exWhole))"
  by (simp add: EncodeManifest_def exWhole_valid)

lemma exWhole_prepared:
  "prepareSafeTextManifest (\<lambda>_. hexA) exText ''hi'' initialUsage False = Inr (exWhole, [''hi''], marshal (manifest_json exWhole))"
proof -
  have "safeTextCanStoreComplete initialUsage (int (length ''hi'')) (int (length ''hi'') + int (length (marshal (manifest_json exWhole))))
      (int (length [''hi'']))"
    using exWhole_short
    by (simp add: safeTextCanStoreComplete_def validSafeTextUsage_def initialUsage_def MaximumTextBytes_def safeTextMaximumStorage_def
        safeTextLimitMarkerReserve_def safeTextMaximumSources_def safeTextMaximumChunks_def)
  moreover have "int (length ''hi'') \<le> MaximumTextBytes" by (simp add: MaximumTextBytes_def)
  ultimately show ?thesis
    using exWhole_encoded
    by (simp only: prepareSafeTextManifest_def exWhole_pieces exWhole_def [symmetric] option.case simp_thms if_True)
qed

section \<open>Adapter calls\<close>

definition exRunning :: db where
  "exRunning = exStarting\<lparr>attempts := [exAttempt\<lparr>att_state := ARunning\<rparr>],
     events := [\<lparr>evt_node = u1, evt_seq = 1, evt_epoch = 1, evt_event = exEvent 1 u2 1 u2 u2 (PAttemptStarted u4 1), evt_attempt = Some u2,
       evt_dialog = Some u2, evt_key = Some ''started'', evt_hash = Some hexA, evt_late = False, evt_created = exTime\<rparr>]\<rparr>"

definition exInput :: artifactInput where
  "exInput = \<lparr>ai_attempt = exRef, ai_callID = '''', ai_name = ''notes'', ai_media = ''text/plain'', ai_redaction = ''none'', ai_truncated = False,
     ai_disposition = ''inline''\<rparr>"

lemma exInput_valid: "validArtifactInput exEnv exInput ''hi''"
proof -
  have "boundedArtifactText ''notes''" "boundedArtifactText ''text/plain''" "\<not> reservedSafeTextArtifact ''notes'' ''text/plain''" by code_simp+
  then show ?thesis
    by (simp add: validArtifactInput_def exInput_def exRef_def exEnv_def MaximumArtifactBytes_def)
qed

lemma exStored: "\<exists>m d'. StoreArtifact exEnv exInput ''hi'' exStarting = (Inr m, d', [(am_artifactId m, ''hi'')]) \<and> am_artifactId m = u2"
proof -
  have b: "\<exists>t. storeArtifactBody exEnv exInput ''hi'' u2 ((beginTx exStarting)\<lparr>tx_ids := 1\<rparr>) =
      Inr (Stored (storedMetadata exEnv (node_state exStarting) exInput u2 ''hi''), t)"
    by (simp add: storeArtifactBody_def [THEN fun_cong] ownedAttempt_def recordArtifact_def [THEN fun_cong] insertArtifact_def [THEN fun_cong] storedMetadata_def artifactMetadata_json_def chargeAttemptOutput_def [THEN fun_cong]
      setOutput_def [THEN fun_cong] MaximumAttemptOutputBytes_def overBudget_def archivedBytes_def exInput_def dialogDeleted_def
      attempt_defs ex_defs run_rules value_defs u_simps validate_defs MaximumArtifactBytes_def validateArtifactMetadata_def Let_def)
  then show ?thesis
    using exInput_valid by (auto simp: StoreArtifact_def) (simp_all add: exEnv_def storedMetadata_def)
qed

end
