(* ===== verification/Spec2Isabelle.thy ===== *)
theory Spec2Isabelle
  imports Text_Examples
begin

text \<open>
  The node of harness-codex, as a verification development over its Go sources.

  THE PROGRAM. A node runs one attempt at a time of an external engine on behalf of the dialogs of one owner.
  All it knows is one SQLite ledger, and every entry point is one critical section: take the node lock, begin,
  load the state row, check, write, save the state row, commit. Clients submit commands, administrators place
  and lift holds and delete dialogs, the dispatcher opens attempts for queued requests, the lanes of the
  executor carry control intents to the adapter, the adapter reports observations, events and artifacts, and a
  restart turns whatever was in flight into an unknown outcome.

  HOW IT IS MODELLED. A ledger is a record \<open>db\<close> with one list of rows per table, in insertion order; the state
  row is \<open>durableState\<close>. A transaction is a function on \<open>txn\<close> (ledger, loaded state, clock and id counters, files
  created) that fails with a \<open>failure\<close> or answers (\<open>Harness_Prelude\<close>: \<open>returnM\<close>, \<open>bindM\<close>, \<open>guardM\<close>, \<open>seqM\<close>), so every
  error return of the code is a branch and a failed transaction leaves no ledger behind. What a call meets
  outside the ledger is its argument \<open>env\<close>: configuration, SHA-256, clock, ids, free space, files, and whether
  begin, the fault points and commit succeed. Go integers that only count are \<open>int\<close>; byte counts of the file
  system are 64 bit words with their wrap-around (\<open>admissionFloor\<close>).

  THE THEORIES, and the files under src/ they translate:
  \<^item> \<open>Harness_Prelude\<close>: computations, tables, the locale \<open>preorder_rel\<close> and the rules \<open>keeps_rules\<close> by which a relation
    between transaction states is followed through a body.
  \<^item> \<open>Wire_Json\<close>, \<open>Wire_Types\<close>, \<open>Wire_Validate\<close>: internal/harnessprotocol, canonical.go, types.go, validate.go.
  \<^item> \<open>Barrier\<close>: internal/harnessbarrier and internal/logicaldelete, their documents and hashes.
  \<^item> \<open>Strict_Json\<close>, \<open>Transcript\<close>: internal/strictjson and internal/transcriptview.
  \<^item> \<open>Ledger\<close>, \<open>Statements\<close>: runtime/schema.go, sql.go, events.go: rows, constraints, triggers, events, results.
  \<^item> \<open>Holds\<close>, \<open>Handlers\<close>, \<open>Commands\<close>, \<open>Logical_Delete\<close>: runtime/hold.go, command_handlers.go, control_handlers.go,
    command.go, reserve.go, logical_delete.go.
  \<^item> \<open>Attempts\<close>, \<open>Output_Budget\<close>, \<open>Safe_Text\<close>, \<open>Adapter_Events\<close>, \<open>Artifacts\<close>: runtime/observe.go, output_budget.go,
    safe_text.go, artifact.go and the events of internal/harnessadapter.
  \<^item> \<open>Dispatch\<close>, \<open>Actions\<close>, \<open>Recovery\<close>: runtime/dispatch.go, failed_tail_retry.go, actions.go, recovery.go.
  \<^item> \<open>Node_System\<close>: the whole node as a transition system; one step is one critical section with any environment
    of this node, any request and any answer of the adapter, so runs are all interleavings.

  THE CONTRACTS. A law of all code is proved once against a locale and reaches the sections by interpretation:
  \<open>tx_rel\<close>, \<open>save_rel\<close>, \<open>commit_rel\<close> (relations every statement keeps: gapless log, unique keys, one slot, history only
  grows), \<open>read_rel\<close> and \<open>archive_rel\<close> (what reading and what recording outputs keeps), \<open>section_rel\<close> and
  \<open>section_invariant\<close> (relations that look at queue or slot), \<open>node_invariant\<close> (an invariant of every reachable
  ledger). They are interpreted on the model in \<open>Statement_Laws\<close>, \<open>Commit_Laws\<close>, \<open>Active_Attempt\<close>, \<open>Queue_Laws\<close>,
  \<open>Queue_Refinement\<close>, \<open>Barrier_Laws\<close>, \<open>Adapter_Events\<close> and \<open>Adapter_Laws\<close>.

  THE LAWS. \<open>Commit_Laws\<close>: what every commit keeps. \<open>Active_Attempt\<close>: the state names the attempt that holds the
  slot. \<open>Queue_Refinement\<close>: the ledger's queue refines an abstract list with a slot and a pause switch.
  \<open>Queue_Laws\<close>, \<open>Admission_Laws\<close>, \<open>Attempt_Laws\<close>, \<open>Barrier_Laws\<close>, \<open>Budget_Laws\<close>, \<open>Safe_Text_Laws\<close>, \<open>Adapter_Laws\<close>,
  \<open>Json_Laws\<close>, \<open>Strict_Json_Laws\<close>: the behaviour of single components. The theories named Examples hold the
  concrete ledgers on which the properties below are applied.

  BOUNDS. No definition carries fuel: loops over rows are recursions on lists, the scanner of strict JSON and
  the cutting of a text are total by the length of what is left. The constants of the code are kept: 100 queued
  requests, 64 MiB of output per attempt, 64 KiB previews, 16 MiB chunks, 512 MiB texts, nesting of 32.

  NOT MODELLED. The adapters (adapters/codex) and the tool runner drive external processes; the model takes
  their answers as arguments. The HTTP server, the settings service, the diagnostic log and the opening of the
  store are transport, files and system calls. The pages, views, timeline, replica and export read the ledger
  and change nothing. The offline recoveries and provider authentication are operator procedures beside the
  sections above. Goroutines appear only as the order of steps: wake-ups, stream loops and log lines are left
  out. Files are a parameter: what a read finds, whether a directory or file is safe, whether a write lasts; the
  rename and sync steps below that are not followed. The tokenizer of encoding/json is modelled for the strict
  decoder; the other documents start from the value it gives.
\<close>

section \<open>The ledger of a reachable node\<close>

text \<open>
  C1: in every reachable ledger the event log has no gap and no duplicate, ends at
  \<open>LastEventSeq\<close>, and every stored event carries its own sequence number and the node id and is a
  valid wire document.
\<close>

theorem event_log_gapless:
  assumes "reachable d"
  shows "map evt_seq (events d) = [1..LastEventSeq (node_state d)] \<and>
    list_all (\<lambda>e. evt_node e = NodeID (node_state d) \<and> ev_seq (evt_event e) = evt_seq e \<and>
      Validate ''event'' (event_json (evt_event e))) (events d)"
  using reachable_ledger_ok [OF assms] by (auto simp: ledger_ok_def log_ok_def event_ok_def list_all_iff)

theorem event_log_gapless_witness:
  "map evt_seq (events (snd exCreated)) = [1..LastEventSeq (node_state (snd exCreated))]"
  using event_log_gapless [OF exCreated_reachable] by simp

text \<open>
  C2: a command id never has two durable outcomes: in every reachable ledger it names at most
  one row of the accepted commands and the rejections together, so the outcome lookup never
  fails with a duplicate.
\<close>

theorem command_outcome_unique:
  assumes "reachable d"
  shows "length (outcomeRows d c) \<le> 1 \<and> (\<exists>x. loadCommandOutcome c (beginTx d) = Inr (x, beginTx d))"
proof -
  have "length (outcomeRows d c) \<le> 1" using outcomeRows_one [OF reachable_one_outcome [OF assms]] .
  then show ?thesis by (cases "outcomeRows d c") (auto simp: loadCommandOutcome_Inr)
qed

theorem command_outcome_unique_witness: "length (outcomeRows (snd exCreated) u4) \<le> 1"
  using command_outcome_unique [OF exCreated_reachable] by simp

text \<open>
  C3: whatever the node remembers stays: along any run, events, dialogs, messages, requests and
  attempts keep their identifying columns and their order, tombstones stay, receipts,
  rejections, holds, releases and deletion receipts are only appended, and the identity, the
  versions and the sequence counters never step back.
\<close>

theorem history_is_append_only:
  assumes "node_steps d d'"
  shows "history_grows d d' \<and> outcomes_grow d d' \<and> ahead (node_state d) (node_state d')"
  using node_steps_db_step [OF assms] by (simp add: db_step_def)

theorem history_is_append_only_witness: "outcomes_grow exLedger (snd exCreated)"
  using history_is_append_only [OF exCreated_steps] by simp

text \<open>
  C4: submitting the same bytes again is safe. After a committed submission, whatever the node
  did since, a second submission changes nothing and answers with the stored receipt (or 404 once
  the dialog is deleted).
\<close>

theorem resubmission_is_replay:
  assumes "reachable d" and "verifyIdentity E rv d" and "parsedCommand E trust raw = Some (c, v, digest)"
    and "SubmitCommand E trust lenient raw d = (r, d1)" and "res_committed r" and "node_steps d1 d2"
    and "same_config E E'" and "env_beginOk E'"
  shows "\<exists>so. outcomeRows d2 (ce_commandId c) = [so] \<and> (\<not> env_faultAfter E \<longrightarrow> so_body so = res_body r) \<and>
    SubmitCommand E' trust lenient' raw d2 =
      (if commandOutcomeTargetsDeletedDialog d2 so
       then errorResult E' 404 ''not_found'' ''command was not found'' (ce_commandId c) None ''''
       else okResult (so_status so) (so_body so), d2)"
proof -
  have "reachable d1"
    using reachable_steps [OF assms(1) node_steps.more [OF node_steps.none node_step.submit [OF assms(2)]], of trust lenient raw] assms(4)
    by simp
  then show ?thesis using submit_again [OF assms(3-6) _ assms(7,8)] by blast
qed

theorem resubmission_is_replay_witness:
  "\<exists>so. outcomeRows (snd exCreated) u4 = [so] \<and> so_body so = res_body (fst exCreated)"
  using resubmission_is_replay [OF exLedger_reachable exEnv_identity exCreate_parsed exCreated_run exCreated_committed
      node_steps.none exEnv_simps(3,1)] exEnv_simps(2)
  unfolding exEnvelope_simps by blast

section \<open>The active attempt and the queue\<close>

text \<open>
  C5: the slot agrees with the attempts. In every reachable ledger all attempts belong to this
  node, an attempt that is dispatching, running, stopping or terminating is exactly the one
  \<open>ActiveAttemptID\<close> names, and a named attempt exists; so at most one attempt is active.
\<close>

theorem active_attempt_agrees:
  assumes "reachable d"
  shows "list_all (\<lambda>a. att_node a = NodeID (node_state d) \<and>
      (holds_slot (att_state a) \<longleftrightarrow> ActiveAttemptID (node_state d) = Some (att_id a))) (attempts d) \<and>
    pred_option (\<lambda>k. has_key att_id k (attempts d)) (ActiveAttemptID (node_state d))"
  using active.reachable_inv [OF assms] by (simp add: active_ok_def split: option.splits)

theorem active_attempt_agrees_witness:
  "pred_option (\<lambda>k. has_key att_id k (attempts (snd exCreated))) (ActiveAttemptID (node_state (snd exCreated)))"
  using active_attempt_agrees [OF exCreated_reachable] by blast

text \<open>
  C6: a dispatch takes what an abstract first-come queue takes. When \<open>DispatchNext\<close> reports a
  dispatch, the queue that the ledger stands for (waiting requests in order, slot, pause) gave up
  its first request whose dialog is not held, and the slot went to the new attempt.
\<close>

theorem dispatch_refines_queue:
  assumes "queue_ok (node_state d) d" and "unique_key req_id (requests d)" and "DispatchNext E G peeked d = (Inr x, d')"
    and "x = Dispatched attID reqID \<or> x = DispatchUnknown attID reqID"
  shows "take_spec (dialogHeld d (NodeID (node_state d))) attID (queue_of (node_state d) d) = Some (reqID, queue_of (node_state d') d')"
  using assms by (rule DispatchNext_take)

theorem dispatch_refines_queue_witness:
  "\<exists>d'. take_spec (dialogHeld exQueued u1) u2 (queue_of (node_state exQueued) exQueued) = Some (u4, queue_of (node_state d') d')"
proof -
  obtain d' where d': "DispatchNext exEnv exGate exQueued exQueued = (Inr (Dispatched u2 u4), d')" using exDispatched by blast
  have "NodeID (node_state exQueued) = u1" by (simp add: ex_defs)
  then show ?thesis using dispatch_refines_queue [OF exQueued_ok(1,2) d', of u2 u4] by auto
qed

text \<open>
  C7: an accepted \<open>message.enqueue\<close> appends to that queue: behind every waiting request comes the
  new one of the target dialog, under the id the receipt names; any other answer leaves the
  queue as it was.
\<close>

theorem enqueue_refines_queue:
  assumes "queue_ok (node_state d) d" and "parsedCommand E trust raw = Some (c, v, digest)" and "ce_kind c = MessageEnqueue"
    and "SubmitCommand E trust lenient raw d = (r, d')" and "\<not> env_faultAfter E"
  shows "if res_committed r \<and> res_status r = 202
    then queue_of (node_state d') d' = enqueue_spec (jstring (the (jfield (res_body r) ''references'')) ''requestId'')
      (jstring (ce_target c) ''dialogId'') (queue_of (node_state d) d)
    else queue_of (node_state d') d' = queue_of (node_state d) d"
  using assms by (rule submit_enqueue)

theorem enqueue_refines_queue_witness:
  "\<exists>d'. SubmitCommand exEnv exTrust (Some exEnqueue) (Some exEnqueue) exQueued =
      (\<lparr>res_status = 202, res_body = receipt_json exEnqueueReceipt, res_committed = True\<rparr>, d') \<and>
    waiting (queue_of (node_state d') d') = [(u4, u2), (u3, u2)]"
proof -
  obtain d' where d': "SubmitCommand exEnv exTrust (Some exEnqueue) (Some exEnqueue) exQueued =
      (\<lparr>res_status = 202, res_body = receipt_json exEnqueueReceipt, res_committed = True\<rparr>, d')" using exEnqueue_accepted by blast
  have w: "waiting (queue_of (node_state exQueued) exQueued) = [(u4, u2)]" by (simp add: queue_of_def waiter_def ex_defs)
  have t: "jstring (ce_target exEnqueueEnvelope) ''dialogId'' = u2" by (simp add: exEnqueueEnvelope_def jstring_def jfield_def)
  have q: "jstring (the (jfield (receipt_json exEnqueueReceipt) ''references'')) ''requestId'' = u3"
    by (simp add: receipt_json_def exEnqueueReceipt_def jfield_def jstring_def refs_def omitEmpty_def)
  show ?thesis
    using d' enqueue_refines_queue [OF exQueued_ok(1) exEnqueue_parsed exEnqueueEnvelope_simps(1) d' exEnv_simps(2)] w t q
    by (simp add: enqueue_spec_def)
qed

text \<open>
  C8: the queue is well formed in every reachable ledger: queue sequences are strictly
  increasing in insertion order, the next one is above them all, and every request has its
  input message.
\<close>

theorem queue_well_formed:
  assumes "reachable d"
  shows "sorted_wrt (<) (map req_sequence (requests d) @ [NextQueueSequence (node_state d)]) \<and>
    set (map req_message (requests d)) \<subseteq> msg_ids d"
  using queues.reachable_inv [OF assms] by (simp add: queue_ok_def)

theorem queue_well_formed_witness: "set (map req_message (requests (snd exCreated))) \<subseteq> msg_ids (snd exCreated)"
  using queue_well_formed [OF exCreated_reachable] by blast

text \<open>
  C9: what a dispatch writes. A reported dispatch took the head of the queue under a validated
  policy snapshot; it added one attempt in the next generation of that input, moved the request
  to dispatching, appended the start intent and put the attempt in the slot.
\<close>

theorem dispatch_writes:
  assumes "DispatchNext E G peeked d = (Inr (Dispatched attID reqID), d')"
  shows "\<exists>r policy g tail now. queueHead d (NodeID (node_state d)) = Some r \<and> req_id r = reqID \<and>
    ValidatePolicySnapshot (env_sha E) policy \<and> g = nextGeneration d (req_message r) \<and>
    attempts d' = attempts d @ [newAttempt attID (NodeID (node_state d)) r g (pol_effectiveHash policy)] \<and>
    requests d' = upd req_id reqID (\<lambda>r. r\<lparr>req_version := req_version r + 1, req_status := RDispatching, req_updated := now\<rparr>) (requests d) \<and>
    control_actions d' = control_actions d @ [startIntent r attID g tail] \<and>
    PendingCount (node_state d') = PendingCount (node_state d) - 1 \<and> ActiveAttemptID (node_state d') = Some attID"
  using assms disjI1 [OF HOL.refl]
proof (rule DispatchNext_dispatched)
  fix r m policy t
  assume h: "queueHead d (NodeID (node_state d)) = Some r" "req_id r = reqID" "ValidatePolicySnapshot (env_sha E) policy"
    and c: "commitDispatch E policy r m (beginTx d) = Inr (Dispatched attID reqID, t)" and d': "d' = tx_db t"
  have st: "node_state d' = tx_state t" using commitDispatch_settled [OF c] by (simp add: settled_def d')
  show ?thesis
  proof (rule commitDispatchD [OF c])
    fix a g tail now
    assume w: "Dispatched attID reqID = Dispatched a (req_id r)" "g = nextGeneration (tx_db (beginTx d)) (req_message r)"
      "attempts (tx_db t) = attempts (tx_db (beginTx d)) @ [newAttempt a (NodeID (tx_state (beginTx d))) r g (pol_effectiveHash policy)]"
      "requests (tx_db t) = upd req_id (req_id r)
        (\<lambda>r. r\<lparr>req_version := req_version r + 1, req_status := RDispatching, req_updated := now\<rparr>) (requests (tx_db (beginTx d)))"
      "control_actions (tx_db t) = control_actions (tx_db (beginTx d)) @ [startIntent r a g tail]"
      "calm (tx_state t) = calm (occupied a (tx_state (beginTx d)))"
    show ?thesis
      using h d' st w calmD(1,3) [OF w(6)]
      by (intro exI [of _ r] exI [of _ policy] exI [of _ g] exI [of _ tail] exI [of _ now]) (simp add: occupied_def)
  qed
qed

theorem dispatch_writes_witness:
  "\<exists>(d'::db) r g h. attempts d' = attempts exQueued @ [newAttempt u2 (NodeID (node_state exQueued)) r g h] \<and> ActiveAttemptID (node_state d') = Some u2"
proof -
  obtain d' where d': "DispatchNext exEnv exGate exQueued exQueued = (Inr (Dispatched u2 u4), d')" using exDispatched by blast
  show ?thesis using dispatch_writes [OF d'] by blast
qed

section \<open>The administrative barrier\<close>



text \<open>
  C11: the active holds of a reachable node never overlap, holds are stored in the order of
  their versions, and the hold clock is ahead of them all.
\<close>

theorem active_holds_disjoint:
  assumes "reachable d"
  shows "sorted_wrt (\<lambda>h h'. hold_version h < hold_version h' \<and>
      (activeHold d h \<longrightarrow> activeHold d h' \<longrightarrow> \<not> overlaps (hold_scope h) (hold_scope h'))) (administrative_holds d) \<and>
    (\<forall>h\<in>set (administrative_holds d). hold_node h = NodeID (node_state d) \<and> hold_version h < hold_clock d)"
  using holds.reachable_inv [OF assms] by (simp add: holds_ok_def)

theorem active_holds_disjoint_witness: "list_all (\<lambda>h. hold_version h < hold_clock (snd exInstalled)) (administrative_holds (snd exInstalled))"
  unfolding list_all_iff using active_holds_disjoint [OF exInstalled_reachable] by blast



text \<open>
  C13: an installed hold can always be found again: at any later time the same request is
  answered from the stored receipt, and so is the status lookup by its operation id; neither
  changes the ledger.
\<close>

theorem hold_found_again:
  assumes "InstallHold E node raw d = (r, d1)" and "res_committed r" and "node_steps d1 d2" and "reachable d2"
    and "same_config E E'" and "env_beginOk E'"
  shows "\<exists>(h::holdRow) q. InstallHold E' node raw d2 = (okResult 200 (holdReceipt_json (hold_receipt h)), d2) \<and>
    Option.bind raw (CanonicalInstallRequest (env_sha E)) = Some (q, hold_hash h) \<and>
    HoldStatus E' node (ir_operationId q) d2 = okResult 200 (holdReceipt_json (hold_receipt h)) \<and>
    (\<not> env_faultAfter E \<longrightarrow> res_body r = holdReceipt_json (hold_receipt h))"
  using assms by (rule hold_found_later) blast

theorem hold_found_again_witness: "snd (InstallHold exEnv u1 (Some exInstall) (snd exInstalled)) = snd exInstalled"
  using hold_found_again [OF exInstalled_run exInstalled_committed node_steps.none exInstalled_reachable exEnv_simps(3,1)] by (metis snd_conv)

text \<open>
  C14: releasing a hold touches nothing but the barrier's own tables: the release answer carries
  the manual pause as it is, and no request, attempt, event or node state changes.
\<close>

theorem release_changes_only_barrier:
  "snd (ReleaseHold E node raw d) = d \<or> (\<exists>R ho S. snd (ReleaseHold E node raw d) =
       d\<lparr>hold_scope_revisions := R, hold_outcomes := hold_outcomes d @ [ho], scope_revisions := S\<rparr> \<and>
     lr_manualPause (hout_receipt ho) = QueuePaused (node_state d) \<and> validReleaseReceipt (hout_receipt ho))"
  by (rule ReleaseHold_frame)

text \<open>
  C15: the dispatch lane never starts a held attempt: what it claims is a pending start whose
  attempt exists in a dialog that no active hold covers, and the claim only marks that action
  inflight.
\<close>

theorem held_start_not_claimed:
  assumes "claimAction E DispatchLane d = (Some c, d')"
  shows "c \<in> set (control_actions d) \<and> act_status c = CPending \<and> act_kind c = actionDispatchStart \<and>
    (\<exists>a. sel att_id (act_attempt c) (attempts d) = Some a \<and> \<not> dialogHeld d (att_node a) (att_dialog a)) \<and>
    (\<exists>S. d' = d\<lparr>control_actions := map (\<lambda>a. if act_command a = act_command c \<and> act_status a = CPending then a\<lparr>act_status := CInflight\<rparr> else a)
      (control_actions d), scope_revisions := S\<rparr>)"
  using assms by (rule claimAction_Some) (auto simp: laneAccepts_def split: option.splits)

theorem held_start_not_claimed_witness: "\<exists>d'. claimAction exEnv DispatchLane exStarting = (Some exStart, d') \<and> act_status exStart = CPending"
  using exClaimed held_start_not_claimed by blast

section \<open>Admission\<close>




text \<open>
  C18: the queue has a hard bound. An enqueue that would otherwise be admitted is answered with
  429 \<open>queue_full\<close> once 100 requests are pending, and nothing is written.
\<close>

theorem full_queue_rejected:
  assumes "parsedCommand E trust raw = Some (c, v, digest)" and "ce_kind c = MessageEnqueue"
    and "identityExpected E trust (node_state d)" and "outcomeRows d (ce_commandId c) = []"
    and "authorizeObject E c (beginTx d) = Inr ((), beginTx d)" and "coveringHoldForCommand E c (beginTx d) = Inr (None, beginTx d)"
    and "\<not> belowFloor (env_space E)" and "sel dlg_id (jstring (ce_target c) ''dialogId'') (dialogs d) = Some r"
    and "jint (ce_expected c) ''dialogVersion'' = dlg_version r" and "100 \<le> PendingCount (node_state d)" and "env_beginOk E"
  shows "SubmitCommand E trust lenient raw d = (errorResult E 429 ''queue_full'' ''pending queue is full'' (ce_commandId c) None '''', d)"
  using assms by (intro submit_full) (simp_all add: QueueCapacity_def)

theorem full_queue_rejected_witness:
  "SubmitCommand exEnv exTrust None (Some exEnqueue) exFull = (errorResult exEnv 429 ''queue_full'' ''pending queue is full'' u1 None '''', exFull)"
  using exFull_facts(6) full_queue_rejected [OF exEnqueue_parsed exEnqueueEnvelope_simps(1) exFull_facts(1-5) _ _ _ exEnv_simps(1)] exFull_facts(7)
  by (auto simp: QueueCapacity_def)

text \<open>
  C19: what a committed submission answers is what it stored: either 202 with a valid wire
  receipt, identical to the receipt of the one command row added, or 409 with the receipt of the
  one rejection added.
\<close>

theorem committed_answer_stored:
  assumes "parsedCommand E trust raw = Some (c, v, digest)" and "SubmitCommand E trust lenient raw d = (r, d')"
    and "res_committed r" and "\<not> env_faultAfter E"
  shows "(res_status r = 202 \<and> Validate ''receipt'' (res_body r) \<and> (\<exists>row. commands d' = commands d @ [row] \<and> cmd_id row = ce_commandId c \<and>
      cmd_hash row = digest \<and> res_body r = receipt_json (cmd_receipt row))) \<or>
    (res_status r = 409 \<and> (\<exists>row. d' = d\<lparr>command_rejections := command_rejections d @ [row]\<rparr> \<and> rej_id row = ce_commandId c \<and>
      rej_hash row = digest \<and> validRejectionReceipt (rej_receipt row) \<and> res_body r = rejectionReceipt_json (rej_receipt row)))"
  using assms by (rule submit_receipt)

theorem committed_answer_stored_witness: "res_status (fst exCreated) = 202 \<and> Validate ''receipt'' (res_body (fst exCreated))"
  using committed_answer_stored [OF exCreate_parsed exCreated_run exCreated_committed exEnv_simps(2)] exCreated_facts
  by (auto simp: case_prod_beta)

section \<open>Documents and bounds\<close>

text \<open>
  C20: the digest of a command does not depend on the order in which the members of its objects
  are written, at any depth; so a client that reorders them still names the same command.
\<close>

theorem digest_order_independent:
  assumes "same_json v w" and "CanonicalCommand sha v = Some x" and "CanonicalCommand sha w = Some y"
  shows "x = y"
  using assms by (rule same_json_digest)

theorem digest_order_independent_witness:
  "exShuffled \<noteq> exCreate \<and> (\<exists>x. CanonicalCommand (env_sha exEnv) exCreate = Some x \<and> CanonicalCommand (env_sha exEnv) exShuffled = Some x)"
proof -
  obtain x y where xy: "CanonicalCommand (env_sha exEnv) exCreate = Some x" "CanonicalCommand (env_sha exEnv) exShuffled = Some y"
    using exShuffled_canonical by blast
  have "x = y" by (rule digest_order_independent [OF exShuffled_same xy])
  then show ?thesis using xy by (simp add: exShuffled_def exCreate_def)
qed

text \<open>
  C21: a decimal integer up to the largest \<open>int64\<close> is read back as the number that was written,
  and its canonical text is the token itself when it is a safe integer.
\<close>

theorem integer_roundtrip:
  assumes "0 \<le> n" and "n \<le> 9223372036854775807"
  shows "jsonInteger (JInt n) = Some n \<and> (n \<le> MaximumSafeInteger \<longrightarrow> appendCanonical (JInt n) = Some (decimal n)) \<and> digits_value (decimal n) = n"
  using assms by (simp add: digits_value_decimal)

theorem integer_roundtrip_witness: "jsonInteger (JInt 9007199254740991) = Some 9007199254740991"
  using integer_roundtrip [of 9007199254740991] by simp

text \<open>
  C22: the output budget holds over any sequence of charges to an attempt within its budget: the
  amounts accepted never exceed 64 MiB together with what was used before, the overflow is
  reported as new at most once, and when every charge is accepted the account is exact.
\<close>

theorem output_budget_bounded:
  assumes "chargeAll k ns t = Inr (cs, t')" and "metered (tx_db t) k" and "usedBytes (tx_db t) k \<le> MaximumAttemptOutputBytes"
  shows "usedBytes (tx_db t) k + charged ns cs \<le> MaximumAttemptOutputBytes \<and> length (filter (\<lambda>c. c = NewlyExceeded) cs) \<le> 1 \<and>
    (list_all (\<lambda>c. c = Charged) cs \<longrightarrow> usedBytes (tx_db t') k = usedBytes (tx_db t) k + sum_list ns)"
  using assms by (rule chargeAll_bounded)

theorem output_budget_bounded_witness: "usedBytes exStarting u2 + charged [10, 67108860, 5] [Charged, NewlyExceeded, Exceeded] \<le> 67108864"
proof -
  obtain t' where c: "chargeAll u2 [10, 67108860, 5] (beginTx exStarting) = Inr ([Charged, NewlyExceeded, Exceeded], t')" using exCharged by blast
  have m: "metered (tx_db (beginTx exStarting)) u2" "usedBytes (tx_db (beginTx exStarting)) u2 \<le> MaximumAttemptOutputBytes"
    by (simp_all add: metered_def usedBytes_def archivedBytes_def attempt_defs ex_defs sel_def MaximumAttemptOutputBytes_def)
  show ?thesis using output_budget_bounded [OF c m] by (simp add: MaximumAttemptOutputBytes_def)
qed

text \<open>
  C23: the admission floor, computed on 64-bit unsigned byte counts, is the larger of one GiB and
  a tenth of the volume for every input, and storage admits work exactly when the free bytes
  reach both; no count wraps.
\<close>

theorem admission_floor_exact:
  "unat (admissionFloor bytes) = max 1073741824 (unat bytes div 10) \<and>
   (\<not> belowFloor (Some (free, bytes)) \<longleftrightarrow> 1073741824 \<le> unat free \<and> unat bytes div 10 \<le> unat free) \<and> belowFloor None"
  by (simp add: admissionFloor_value belowFloor_iff) (simp add: belowFloor_def)

section \<open>The life of an attempt\<close>

text \<open>
  C24: a late observation (of an attempt that does not hold the slot, or in another generation)
  changes no message, request, attempt, action or counter of the state: it is archived with its
  content and reported as a late event.
\<close>

theorem late_observation_only_archived:
  assumes "Observe E x d = (Inr u, d')" and "late d x"
  shows "messages d' = messages d \<and> requests d' = requests d \<and> attempts d' = attempts d \<and> control_actions d' = control_actions d \<and>
    (node_state d')\<lparr>LastEventSeq := 0\<rparr> = (node_state d)\<lparr>LastEventSeq := 0\<rparr> \<and>
    (\<exists>l. late_observations d' = late_observations d @ [l] \<and> late_attempt l = ob_attemptID x \<and> late_kind l = ob_kind x \<and>
      late_json l = observation_json x)"
  using Observe_late [OF assms] by (simp add: quiet_def calm_def)

theorem late_observation_only_archived_witness: "\<exists>d'. Observe exEnv (exFailed\<lparr>ob_generation := 9\<rparr>) exStarting = (Inr (), d') \<and>
    attempts d' = attempts exStarting"
proof -
  obtain d' where d': "Observe exEnv (exFailed\<lparr>ob_generation := 9\<rparr>) exStarting = (Inr (), d')" using exArchived by blast
  have "late exStarting (exFailed\<lparr>ob_generation := 9\<rparr>)" by (simp add: late_def exFailed_def attempt_defs ex_defs sel_def)
  from late_observation_only_archived [OF d' this] d' show ?thesis by blast
qed

text \<open>
  C25: a confirmed terminal observation of the active attempt ends it: attempt and request take
  the observed final state, the slot is free again, and neither the pending count nor the pause
  changes.
\<close>

theorem terminal_frees_slot:
  assumes "Observe E x d = (Inr u, d')" and "\<not> late d x" and "ob_kind x = ''terminal''"
  shows "\<exists>a ast rst now. sel att_id (ob_attemptID x) (attempts d) = Some a \<and> ob_confirmed x \<and>
    terminalState (ob_terminalState x) = Some (ast, rst) \<and>
    attempts d' = upd att_id (ob_attemptID x) (\<lambda>a. a\<lparr>att_version := att_version a + 1, att_state := ast,
        att_effect := ob_effectStatus x, att_finished := Some now\<rparr>) (attempts d) \<and>
    requests d' = upd req_id (att_request a) (\<lambda>r. r\<lparr>req_version := req_version r + 1, req_status := rst, req_updated := now\<rparr>) (requests d) \<and>
    ActiveAttemptID (node_state d') = None \<and> PendingCount (node_state d') = PendingCount (node_state d) \<and>
    QueuePaused (node_state d') = QueuePaused (node_state d)"
  using assms by (rule Observe_terminal) blast

theorem terminal_frees_slot_witness: "\<exists>d'. Observe exEnv exFailed exStarting = (Inr (), d') \<and> ActiveAttemptID (node_state d') = None"
proof -
  obtain d' where d': "Observe exEnv exFailed exStarting = (Inr (), d')" using exObserved by blast
  have "\<not> late exStarting exFailed" "ob_kind exFailed = ''terminal''" by (simp_all add: late_def exFailed_def attempt_defs ex_defs sel_def)
  from terminal_frees_slot [OF d' this] d' show ?thesis by blast
qed

text \<open>
  C26: nothing that was decided before a crash runs again by itself. After a restart no control
  intent is pending or in flight, the ones that were are unknown, no lane of the executor can
  claim anything, and an attempt that held the slot still holds it in the unknown state.
\<close>

theorem restart_replays_nothing:
  assumes "recoverStartup E d = (Inr u, d')"
  shows "control_actions d' = map (\<lambda>c. if act_status c = CPending \<or> act_status c = CInflight then c\<lparr>act_status := CUnknown\<rparr> else c)
      (control_actions d) \<and>
    claimAction E' l d' = (None, d') \<and>
    (case ActiveAttemptID (node_state d) of None \<Rightarrow> True | Some k \<Rightarrow> ActiveAttemptID (node_state d') = Some k \<and>
      (\<exists>a. sel att_id k (attempts d') = Some a \<and> att_state a = AUnknown))"
proof (intro conjI)
  show a: "control_actions d' = map (\<lambda>c. if act_status c = CPending \<or> act_status c = CInflight then c\<lparr>act_status := CUnknown\<rparr> else c)
      (control_actions d)" by (rule recoverStartup_actions [OF assms])
  then have "list_all (\<lambda>c. act_status c \<noteq> CPending) (control_actions d')" by (auto simp: list_all_iff)
  then show "claimAction E' l d' = (None, d')" by (rule no_pending_no_claim)
qed (use recoverStartup_active [OF assms] in \<open>simp split: option.split\<close>)

theorem restart_replays_nothing_witness:
  "\<exists>d'. recoverStartup exEnv exStarting = (Inr (), d') \<and> claimAction exEnv DispatchLane d' = (None, d') \<and> ActiveAttemptID (node_state d') = Some u2"
proof -
  obtain d' where d': "recoverStartup exEnv exStarting = (Inr (), d')" using exRecovered by blast
  have "ActiveAttemptID (node_state exStarting) = Some u2" by (simp add: attempt_defs)
  with restart_replays_nothing [OF d', of exEnv DispatchLane] d' show ?thesis by auto
qed

text \<open>
  C27: recovery is idempotent: a restart that follows a restart finds nothing to do and leaves the
  ledger untouched.
\<close>

theorem restart_idempotent:
  assumes "recoverStartup E d = (Inr u, d')" and "env_beginOk E'" and "env_commitOk E'"
  shows "recoverStartup E' d' = (Inr (), d')"
  using assms by (rule recoverStartup_again)

theorem restart_idempotent_witness: "\<exists>d'. recoverStartup exEnv exStarting = (Inr (), d') \<and> recoverStartup exEnv d' = (Inr (), d')"
proof -
  obtain d' where d': "recoverStartup exEnv exStarting = (Inr (), d')" using exRecovered by blast
  have "env_commitOk exEnv" by (simp add: exEnv_def)
  from restart_idempotent [OF d' exEnv_simps(1) this] d' show ?thesis by blast
qed

section \<open>Logical deletion\<close>



text \<open>
  C29: a committed deletion was allowed and is complete: the coordinator's hold was active and
  matched the request, nothing of the dialog was unresolved, and in one commit the dialog has its
  tombstone, the hold its release and the operation its valid receipt, which the status lookup
  returns from then on.
\<close>

theorem deletion_complete:
  assumes "DeleteLogicalDialog E node raw d = (r, d')" and "res_committed r"
  shows "\<exists>v q l ho. raw = Some v \<and> decodeNodeRequest v = Some q \<and> dialogDeleted d' (nr_nodeDialogId q) \<and>
    \<not> dialogDeleted d (nr_nodeDialogId q) \<and> \<not> dialogUnresolved d (nr_nodeDialogId q) \<and>
    (\<exists>h. sel hold_operation (nr_operationId q) (administrative_holds d) = Some h \<and> activeHold d h \<and> holdMatches q h) \<and>
    hold_outcomes d' = hold_outcomes d @ [ho] \<and> hout_operation ho = nr_operationId q \<and>
    logical_deletes d' = logical_deletes d @ [l] \<and> ValidateNodeReceipt (ldr_receipt l) \<and>
    LogicalDeleteStatus E node (nr_operationId q) d' = okResult 200 (nodeReceipt_json (ldr_receipt l))"
  using assms
proof (rule delete_committed)
  fix v q l ho
  assume a: "raw = Some v" "decodeNodeRequest v = Some q" "dialogDeleted d' (nr_nodeDialogId q)" "\<not> dialogDeleted d (nr_nodeDialogId q)"
    "\<not> dialogUnresolved d (nr_nodeDialogId q)" "logical_deletes d' = logical_deletes d @ [l]" "ldr_operation l = nr_operationId q"
    "ValidateNodeReceipt (ldr_receipt l)" "hold_outcomes d' = hold_outcomes d @ [ho]" "hout_operation ho = nr_operationId q"
    "\<exists>h. sel hold_operation (nr_operationId q) (administrative_holds d) = Some h \<and> activeHold d h \<and> holdMatches q h"
    "uuidPattern (nr_operationId q)" "sel ldr_operation (nr_operationId q) (logical_deletes d) = None" "node = env_nodeID E"
  have "sel ldr_operation (nr_operationId q) (logical_deletes d') = Some l" using a(6,7,13) by (simp add: sel_append) (simp add: sel_def)
  then have "LogicalDeleteStatus E node (nr_operationId q) d' = okResult 200 (nodeReceipt_json (ldr_receipt l))"
    using a(8,12,14) by (simp add: LogicalDeleteStatus_def)
  with a show ?thesis by blast
qed

theorem deletion_complete_witness: "\<exists>r d'. DeleteLogicalDialog exEnv u1 (Some (nodeRequest_json exDeletion)) exDoomed = (r, d') \<and>
    dialogDeleted d' u2 \<and> \<not> dialogDeleted exDoomed u2 \<and> length (logical_deletes d') = 1"
proof -
  obtain r d' where run: "DeleteLogicalDialog exEnv u1 (Some (nodeRequest_json exDeletion)) exDoomed = (r, d')" "res_committed r"
    using exDeleted_run by blast
  have "nr_nodeDialogId exDeletion = u2" "logical_deletes exDoomed = []" by (simp_all add: delete_defs ex_defs)
  with deletion_complete [OF run] run(1) show ?thesis by (auto simp: exDeletion_decoded)
qed

section \<open>Contracts of the wire\<close>





section \<open>Strict documents and safe texts\<close>

text \<open>
  C33: what the node marshals, its strict decoder accepts and reads back: for a value whose strings are
  valid UTF-8, whose numbers are tokens of the grammar, whose objects name no member twice and which is
  nested at most 32 deep, \<open>strictjson.Valid\<close> accepts the marshalled bytes and the parsed value is the
  value itself.
\<close>

theorem strict_json_roundtrip:
  assumes "strictValue 0 v"
  shows "strictValid (marshal v) \<and> strictParse (marshal v) = Some v"
  using strictParse_marshal [OF assms] by (simp add: strictValid_def)

theorem strict_json_roundtrip_witness: "strictParse (marshal (JObj [(''a'', JArr [JInt 10, JNull]), (''b'', JStr ''\"'')])) =
    Some (JObj [(''a'', JArr [JInt 10, JNull]), (''b'', JStr ''\"'')])"
proof -
  have "validUtf8 ''a''" "validUtf8 ''b''" "validUtf8 ''\"''" by code_simp+
  then have "strictValue 0 (JObj [(''a'', JArr [JInt 10, JNull]), (''b'', JStr ''\"'')])" by (simp del: validUtf8.simps(2))
  from strict_json_roundtrip [OF this] show ?thesis by simp
qed

text \<open>
  C34: a transcript manifest that is encoded decodes to itself: the encoder only writes documents its strict
  decoder accepts, and no field is lost, folded or repaired on the way.
\<close>

theorem manifest_roundtrip:
  assumes "EncodeManifest m = Some raw"
  shows "DecodeManifest raw = Some m"
  using assms by (rule manifest_decoded)

theorem manifest_roundtrip_witness: "\<exists>raw. EncodeManifest exWhole = Some raw \<and> DecodeManifest raw = Some exWhole"
  using exWhole_encoded manifest_roundtrip [OF exWhole_encoded] by blast

text \<open>
  C35: the loop that cuts a text ends with pieces: a valid UTF-8 text of at most 512 MiB is cut, never
  reaching the boundary error, into at most 33 pieces (a manifest holds 64) that are non-empty, valid, at
  most 16 MiB long, and give the text back.
\<close>

theorem text_is_cut:
  assumes "validUtf8 t" and "int (length t) \<le> MaximumTextBytes"
  shows "\<exists>ps. textPieces MaximumChunkBytes t = Some ps \<and> concat ps = t \<and>
    list_all (\<lambda>p. p \<noteq> [] \<and> length p \<le> MaximumChunkBytes \<and> validUtf8 p) ps \<and> length ps \<le> 33"
proof -
  have "4 \<le> MaximumChunkBytes" by (simp add: MaximumChunkBytes_def)
  from textPieces_cover [OF this assms(1)] obtain ps where ps: "textPieces MaximumChunkBytes t = Some ps" "concat ps = t"
      "list_all (\<lambda>p. p \<noteq> [] \<and> length p \<le> MaximumChunkBytes \<and> validUtf8 p) ps"
      "(MaximumChunkBytes - 3) * length ps \<le> length t + (MaximumChunkBytes - 3)" by blast
  have "length ps \<le> 33" using ps(4) assms(2) by (simp add: MaximumChunkBytes_def MaximumTextBytes_def)
  then show ?thesis using ps by blast
qed

theorem text_is_cut_witness: "\<exists>ps. textPieces MaximumChunkBytes ''hi'' = Some ps \<and> concat ps = ''hi''"
proof -
  have "int (length ''hi'') \<le> MaximumTextBytes" by (simp add: MaximumTextBytes_def)
  from text_is_cut [OF exText_utf8 this] show ?thesis by blast
qed

text \<open>
  C36: an event that a running attempt cannot take (the attempt does not hold the slot, or the event is a
  question of an attempt that is stopping or unknown) changes nothing of the work: no dialog, message,
  request, attempt, action, tool call, approval or input, and of the node state only the last event sequence.
\<close>

theorem late_event_beside_work:
  assumes "sel att_id (ref_attemptID ref) (attempts d) = Some a"
    and "ActiveAttemptID (node_state d) \<noteq> Some (ref_attemptID ref) \<or> \<not> holds_slot (att_state a) \<or>
      isInteractiveWaitEvent ev \<and> (att_state a = AStopping \<or> att_state a = AUnknown)"
    and "ObserveAdapterEvent E ref r ev d = (x, d', fs)"
  shows "work d' = work d \<and> (node_state d')\<lparr>LastEventSeq := 0\<rparr> = (node_state d)\<lparr>LastEventSeq := 0\<rparr>"
  using observe_parked [OF assms(1,2), of E r] assms(3) by simp

theorem late_event_beside_work_witness:
  "work (fst (snd (ObserveAdapterEvent exEnv exRef exRef (WaitingEvent ''input'') (exRunning\<lparr>attempts := [exAttempt\<lparr>att_state := AStopping\<rparr>]\<rparr>)))) =
   work (exRunning\<lparr>attempts := [exAttempt\<lparr>att_state := AStopping\<rparr>]\<rparr>)"
proof -
  let ?d = "exRunning\<lparr>attempts := [exAttempt\<lparr>att_state := AStopping\<rparr>]\<rparr>" and ?a = "exAttempt\<lparr>att_state := AStopping\<rparr>"
  obtain x d' fs where o: "ObserveAdapterEvent exEnv exRef exRef (WaitingEvent ''input'') ?d = (x, d', fs)" by (cases rule: prod_cases3)
  have "sel att_id (ref_attemptID exRef) (attempts ?d) = Some ?a" by (simp add: attempt_defs sel_def)
  from late_event_beside_work [OF this _ o] show ?thesis by (simp add: o isInteractiveWaitEvent_def)
qed

text \<open>
  C37: a prepared manifest is sound: it decodes to itself, its pieces are the whole text with their lengths
  and hashes when it is complete and none when it is not, and recording it keeps the usage of the attempt
  within its bounds.
\<close>

theorem prepared_manifest_sound:
  assumes "prepareSafeTextManifest sha base t usage inc = Inr (m, pieces, text)" and "validSafeTextUsage usage"
    and "mf_size base = int (length t)"
  shows "DecodeManifest text = Some m \<and> validSafeTextUsage (nextUsage usage m (int (length text))) \<and>
    (if mf_complete m then \<not> inc \<and> concat pieces = t \<and> map chk_size (mf_chunks m) = map (\<lambda>p. int (length p)) pieces \<and>
       map chk_sha256 (mf_chunks m) = map sha pieces
     else pieces = [] \<and> mf_chunks m = [] \<and> mf_reason m = ''output_limit_exceeded'')"
proof -
  note c = prepared_cases [OF assms]
  have "DecodeManifest text = Some m" using c manifest_decoded by blast
  then show ?thesis using c textPieces_concat
    by (auto simp: completeManifest_def incompleteManifest_def pieceChunks_maps)
qed

theorem prepared_manifest_sound_witness:
  "DecodeManifest (marshal (manifest_json exWhole)) = Some exWhole \<and> mf_complete exWhole"
proof -
  have "validSafeTextUsage initialUsage"
    by (simp add: validSafeTextUsage_def initialUsage_def MaximumTextBytes_def safeTextMaximumStorage_def safeTextMaximumSources_def
        safeTextMaximumChunks_def)
  moreover have "mf_size exText = int (length ''hi'')" by (simp add: exText_def)
  ultimately show ?thesis using prepared_manifest_sound [OF exWhole_prepared] by (simp add: exWhole_def completeManifest_def)
qed

text \<open>
  C38: the usage record has exactly one encoding: a stored text decodes to a usage if and only if it is the
  encoding of that usage and the usage is within its bounds.
\<close>

theorem usage_codec_exact:
  "decodeSafeTextUsage s sealed = Some u \<longleftrightarrow> s = encodeSafeTextUsage u \<and> stu_sealed u = sealed \<and> validSafeTextUsage u"
  using decode_usage [of s sealed u] decode_encode_usage [of u] by blast

text \<open>
  C39: an event that is delivered again is projected once: when the log has a row of the running attempt
  under the key of the event, a further delivery leaves the whole ledger as it was, whatever its content.
\<close>

theorem event_projected_once:
  assumes "eventKey ev = Some key" and "projected d (ref_attemptID ref) key" and "ActiveAttemptID (node_state d) = Some (ref_attemptID ref)"
    and "sel att_id (ref_attemptID ref) (attempts d) = Some a" and "holds_slot (att_state a)"
    and "\<not> isInteractiveWaitEvent ev \<or> (att_state a \<noteq> AStopping \<and> att_state a \<noteq> AUnknown)"
    and "ObserveAdapterEvent E ref r ev d = (x, d', fs)"
  shows "d' = d"
  using observe_projected [OF assms(1-6), of E r] assms(7) by simp

theorem event_projected_once_witness: "fst (snd (ObserveAdapterEvent exEnv exRef exRef StartedEvent exRunning)) = exRunning"
proof -
  obtain x d' fs where o: "ObserveAdapterEvent exEnv exRef exRef StartedEvent exRunning = (x, d', fs)" by (cases rule: prod_cases3)
  have "eventKey StartedEvent = Some ''started''" "projected exRunning (ref_attemptID exRef) ''started''"
    "ActiveAttemptID (node_state exRunning) = Some (ref_attemptID exRef)"
    "sel att_id (ref_attemptID exRef) (attempts exRunning) = Some (exAttempt\<lparr>att_state := ARunning\<rparr>)"
    by (simp_all add: eventKey_def projected_def exRunning_def attempt_defs sel_def)
  from event_projected_once [OF this _ _ o] show ?thesis by (simp add: o holds_slot_def isInteractiveWaitEvent_def)
qed

text \<open>
  C40: an artifact that was stored is read back: after a successful \<open>StoreArtifact\<close>, with the file it left in
  place, a permitted read answers exactly the metadata that was answered to the adapter and the bytes it sent.
\<close>

theorem stored_artifact_read_back:
  assumes "StoreArtifact E i c d = (Inr m, d', fs)" and "authorizeRead E' trust = None" and "env_sha E' = env_sha E"
    and "env_files E' (am_artifactId m) = Some (FileBytes c)"
  shows "Artifact E' trust (am_artifactId m) d' = ReadOk (m, c) \<and> fs = [(am_artifactId m, c)]"
  using assms by (rule artifact_read_back)

theorem stored_artifact_read_back_witness:
  "\<exists>m d'. StoreArtifact exEnv exInput ''hi'' exStarting = (Inr m, d', [(u2, ''hi'')]) \<and>
     Artifact (exEnv\<lparr>env_files := [u2 \<mapsto> FileBytes ''hi'']\<rparr>) exTrust u2 d' = ReadOk (m, ''hi'')"
proof -
  let ?E = "exEnv\<lparr>env_files := [u2 \<mapsto> FileBytes ''hi'']\<rparr>"
  obtain m d' where s: "StoreArtifact exEnv exInput ''hi'' exStarting = (Inr m, d', [(am_artifactId m, ''hi'')])" "am_artifactId m = u2"
    using exStored by blast
  have "authorizeRead ?E exTrust = None" by (simp add: authorizeRead_def exTrust_def exEnv_def)
  from stored_artifact_read_back [OF s(1) this] s show ?thesis by (intro exI [of _ m] exI [of _ d']) simp
qed

end
